(* ===== verification/Dfs_Prelude.thy ===== *)
theory Dfs_Prelude
  imports Main "HOL-Library.Word"
begin

text \<open>
  What every other theory of the development shares: the computations in which the C code
  is written (\<open>prog\<close>: a state transformer that may stop early), the triples and the relational
  rules that reason about them, and the theorem collections the component proofs feed.

  A C function that runs to its \<^verbatim>\<open>return\<close> is \<open>Inr (value, state)\<close>. It may instead stop: by
  \<^verbatim>\<open>exit(1)\<close> (\<open>Exited\<close>), by writing or reading outside an array (\<open>OutOfBounds\<close>, which C leaves
  undefined, so nothing is claimed after it), by a system call that never returns (\<open>Blocked\<close>),
  or, for the loops of the client, by running out of the given number of rounds (\<open>NoFuel\<close>).
\<close>

section \<open>Theorem collections\<close>

named_theorems prog_simps \<open>equations that run a computation\<close>
named_theorems keeps_intros \<open>rules that show that a computation keeps a state property\<close>
named_theorems rel_intros \<open>rules that relate two computations step by step\<close>

section \<open>Computations\<close>

type_synonym c_int = "32 word"
type_synonym c_long = "64 word"

datatype stop = Exited | OutOfBounds | Blocked | NoFuel

type_synonym ('s, 'a) prog = "'s \<Rightarrow> (stop \<times> 's) + ('a \<times> 's)"

definition ret :: "'a \<Rightarrow> ('s, 'a) prog" where
  "ret a = (\<lambda>s. Inr (a, s))"

definition halt :: "stop \<Rightarrow> ('s, 'a) prog" where
  "halt e = (\<lambda>s. Inl (e, s))"

definition bnd :: "('s, 'a) prog \<Rightarrow> ('a \<Rightarrow> ('s, 'b) prog) \<Rightarrow> ('s, 'b) prog" where
  "bnd m f = (\<lambda>s. case m s of Inl e \<Rightarrow> Inl e | Inr (a, s') \<Rightarrow> f a s')"

text \<open>An array access that is in bounds or not: \<open>None\<close> stops the computation.\<close>

definition checked :: "'a option \<Rightarrow> ('s, 'a) prog" where
  "checked x = (case x of None \<Rightarrow> halt OutOfBounds | Some a \<Rightarrow> ret a)"

lemma ret_apply [simp, prog_simps]: "ret a s = Inr (a, s)"
  by (simp add: ret_def)

lemma halt_apply [simp, prog_simps]: "halt e s = Inl (e, s)"
  by (simp add: halt_def)

lemma bnd_ret [simp, prog_simps]: "bnd (ret a) f = f a"
  by (simp add: bnd_def fun_eq_iff)

lemma bnd_halt [simp, prog_simps]: "bnd (halt e) f = halt e"
  by (simp add: bnd_def halt_def fun_eq_iff)

lemma bnd_return [simp]: "bnd m ret = m"
  by (auto simp: bnd_def ret_def fun_eq_iff split: sum.splits)

lemma bnd_assoc: "bnd (bnd m f) g = bnd m (\<lambda>a. bnd (f a) g)"
  by (auto simp: bnd_def fun_eq_iff split: sum.splits)

lemma bnd_if [prog_simps]: "bnd (if b then m else n) f = (if b then bnd m f else bnd n f)"
  by simp

lemma checked_Some [simp, prog_simps]: "checked (Some a) = ret a"
  by (simp add: checked_def)

lemma checked_None [simp, prog_simps]: "checked None = halt OutOfBounds"
  by (simp add: checked_def)

lemma bnd_apply_Inr: "m s = Inr (a, s') \<Longrightarrow> bnd m f s = f a s'"
  by (simp add: bnd_def)

lemma bnd_apply_Inl: "m s = Inl e \<Longrightarrow> bnd m f s = Inl e"
  by (simp add: bnd_def)

lemma bnd_eq_InrE:
  assumes "bnd m f s = Inr (b, t)"
  obtains a s' where "m s = Inr (a, s')" and "f a s' = Inr (b, t)"
  using assms by (auto simp: bnd_def split: sum.splits)

lemma bnd_eq_Inr_iff:
  "bnd m f s = Inr (b, t) \<longleftrightarrow> (\<exists>a s'. m s = Inr (a, s') \<and> f a s' = Inr (b, t))"
  by (auto simp: bnd_def split: sum.splits)

text \<open>Two continuations that agree on the value the first computation returns.\<close>

lemma bnd_cong_right: "(\<And>a. f a = g a) \<Longrightarrow> bnd m f = bnd m g"
  by (rule arg_cong [of f g]) (rule ext)

section \<open>Properties a computation keeps\<close>

text \<open>
  \<open>keeps I m\<close>: from a state in \<open>I\<close>, however \<open>m\<close> ends (also when it stops early), the state it
  ends in is in \<open>I\<close>. \<open>hoare P m Q S\<close>: from a state in \<open>P\<close>, if \<open>m\<close> returns, value and state are
  in \<open>Q\<close>, and if it stops, the state is in \<open>S\<close>.
\<close>

fun end_state :: "(stop \<times> 's) + ('a \<times> 's) \<Rightarrow> 's" where
  "end_state (Inl (e, s)) = s"
| "end_state (Inr (a, s)) = s"

definition keeps :: "('s \<Rightarrow> bool) \<Rightarrow> ('s, 'a) prog \<Rightarrow> bool" where
  "keeps I m \<longleftrightarrow> (\<forall>s. I s \<longrightarrow> I (end_state (m s)))"

definition hoare ::
  "('s \<Rightarrow> bool) \<Rightarrow> ('s, 'a) prog \<Rightarrow> ('a \<Rightarrow> 's \<Rightarrow> bool) \<Rightarrow> ('s \<Rightarrow> bool) \<Rightarrow> bool" where
  "hoare P m Q S \<longleftrightarrow> (\<forall>s. P s \<longrightarrow> (case m s of Inl (e, t) \<Rightarrow> S t | Inr (a, t) \<Rightarrow> Q a t))"

lemma keepsI: "(\<And>s. I s \<Longrightarrow> I (end_state (m s))) \<Longrightarrow> keeps I m"
  by (simp add: keeps_def)

lemma keepsD: "keeps I m \<Longrightarrow> I s \<Longrightarrow> I (end_state (m s))"
  by (simp add: keeps_def)

lemma keepsD_Inr: "keeps I m \<Longrightarrow> I s \<Longrightarrow> m s = Inr (a, t) \<Longrightarrow> I t"
  by (drule (1) keepsD) simp

lemma end_state_bnd:
  "end_state (bnd m f s) =
     (case m s of Inl e \<Rightarrow> end_state (m s) | Inr (a, s') \<Rightarrow> end_state (f a s'))"
  by (auto simp: bnd_def split: sum.splits)

lemma keeps_ret [keeps_intros]: "keeps I (ret a)"
  by (simp add: keeps_def)

lemma keeps_halt [keeps_intros]: "keeps I (halt e)"
  by (simp add: keeps_def)

lemma keeps_checked [keeps_intros]: "keeps I (checked x)"
  by (cases x) (simp_all add: keeps_ret keeps_halt)

lemma keeps_bnd [keeps_intros]: "keeps I m \<Longrightarrow> (\<And>a. keeps I (f a)) \<Longrightarrow> keeps I (bnd m f)"
  by (rule keepsI) (auto simp: end_state_bnd dest: keepsD keepsD_Inr split: sum.splits)

lemma keeps_if [keeps_intros]: "(b \<Longrightarrow> keeps I m) \<Longrightarrow> (\<not> b \<Longrightarrow> keeps I n) \<Longrightarrow> keeps I (if b then m else n)"
  by simp

lemma keeps_case_option [keeps_intros]:
  "keeps I m \<Longrightarrow> (\<And>a. keeps I (f a)) \<Longrightarrow> keeps I (case x of None \<Rightarrow> m | Some a \<Rightarrow> f a)"
  by (cases x) simp_all

lemma keeps_case_prod [keeps_intros]:
  "(\<And>a b. keeps I (f a b)) \<Longrightarrow> keeps I (case p of (a, b) \<Rightarrow> f a b)"
  by (cases p) simp

lemma keeps_let [keeps_intros]: "(\<And>x. keeps I (f x)) \<Longrightarrow> keeps I (let x = v in f x)"
  by simp

lemma hoareI:
  "(\<And>s a t. P s \<Longrightarrow> m s = Inr (a, t) \<Longrightarrow> Q a t) \<Longrightarrow> (\<And>s e t. P s \<Longrightarrow> m s = Inl (e, t) \<Longrightarrow> S t) \<Longrightarrow>
   hoare P m Q S"
  by (auto simp: hoare_def split: sum.split)

lemma hoareD_Inr: "hoare P m Q S \<Longrightarrow> P s \<Longrightarrow> m s = Inr (a, t) \<Longrightarrow> Q a t"
  by (auto simp: hoare_def split: sum.splits)

lemma hoareD_Inl: "hoare P m Q S \<Longrightarrow> P s \<Longrightarrow> m s = Inl (e, t) \<Longrightarrow> S t"
  by (auto simp: hoare_def split: sum.splits)

lemma hoare_ret: "(\<And>s. P s \<Longrightarrow> Q a s) \<Longrightarrow> hoare P (ret a) Q S"
  by (simp add: hoare_def)

lemma hoare_halt: "(\<And>s. P s \<Longrightarrow> S s) \<Longrightarrow> hoare P (halt e) Q S"
  by (simp add: hoare_def)

lemma hoare_bnd:
  assumes "hoare P m M S" and "\<And>a. hoare (M a) (f a) Q S"
  shows "hoare P (bnd m f) Q S"
proof (rule hoareI)
  fix s b t assume "P s" and "bnd m f s = Inr (b, t)"
  then obtain a u where "m s = Inr (a, u)" and "f a u = Inr (b, t)" by (auto elim: bnd_eq_InrE)
  then show "Q b t" using assms \<open>P s\<close> by (blast dest: hoareD_Inr)
next
  fix s e t assume "P s" and "bnd m f s = Inl (e, t)"
  then consider "m s = Inl (e, t)" | a u where "m s = Inr (a, u)" "f a u = Inl (e, t)"
    by (auto simp: bnd_def split: sum.splits)
  then show "S t" using assms \<open>P s\<close> by cases (blast dest: hoareD_Inr hoareD_Inl)+
qed

lemma hoare_if:
  "(b \<Longrightarrow> hoare P m Q S) \<Longrightarrow> (\<not> b \<Longrightarrow> hoare P n Q S) \<Longrightarrow> hoare P (if b then m else n) Q S"
  by simp

lemma hoare_checked:
  "(\<And>a. x = Some a \<Longrightarrow> hoare P (f a) Q S) \<Longrightarrow> (\<And>s. P s \<Longrightarrow> S s) \<Longrightarrow> hoare P (bnd (checked x) f) Q S"
  by (cases x) (simp_all add: hoare_halt)

lemma hoare_conseq:
  "hoare P' m Q' S \<Longrightarrow> (\<And>s. P s \<Longrightarrow> P' s) \<Longrightarrow> (\<And>a s. Q' a s \<Longrightarrow> Q a s) \<Longrightarrow> hoare P m Q S"
  by (fastforce simp: hoare_def split: sum.splits)

lemma hoare_keeps: "keeps P m \<Longrightarrow> (\<And>s. P s \<Longrightarrow> S s) \<Longrightarrow> hoare P m (\<lambda>_. P) S"
  by (rule hoareI) (auto dest: keepsD)

section \<open>Relating two computations\<close>

text \<open>
  \<open>rel_prog R m n\<close>: started in related states, \<open>m\<close> and \<open>n\<close> end the same way, with equal values
  and related states. The rules follow the syntax, so a handler is related to itself over two
  environments by applying them to its body.
\<close>

fun rel_end :: "('s \<Rightarrow> 't \<Rightarrow> bool) \<Rightarrow> (stop \<times> 's) + ('a \<times> 's) \<Rightarrow> (stop \<times> 't) + ('a \<times> 't) \<Rightarrow> bool" where
  "rel_end R (Inl (e, s)) (Inl (e', t)) = (e = e' \<and> R s t)"
| "rel_end R (Inr (a, s)) (Inr (a', t)) = (a = a' \<and> R s t)"
| "rel_end R _ _ = False"

definition rel_prog :: "('s \<Rightarrow> 't \<Rightarrow> bool) \<Rightarrow> ('s, 'a) prog \<Rightarrow> ('t, 'a) prog \<Rightarrow> bool" where
  "rel_prog R m n \<longleftrightarrow> (\<forall>s t. R s t \<longrightarrow> rel_end R (m s) (n t))"

lemma rel_progI: "(\<And>s t. R s t \<Longrightarrow> rel_end R (m s) (n t)) \<Longrightarrow> rel_prog R m n"
  by (simp add: rel_prog_def)

lemma rel_progD: "rel_prog R m n \<Longrightarrow> R s t \<Longrightarrow> rel_end R (m s) (n t)"
  by (simp add: rel_prog_def)

lemma rel_end_cases:
  assumes "rel_end R x y"
  obtains e s t where "x = Inl (e, s)" "y = Inl (e, t)" "R s t"
  | a s t where "x = Inr (a, s)" "y = Inr (a, t)" "R s t"
  using assms by (cases "(R, x, y)" rule: rel_end.cases) auto

lemma rel_progD_Inr:
  assumes "rel_prog R m n" and "R s t" and "n t = Inr (a, t')"
  obtains s' where "m s = Inr (a, s')" and "R s' t'"
  using rel_progD [OF assms(1,2)] assms(3) by (auto elim: rel_end_cases)

lemma rel_prog_ret [rel_intros]: "rel_prog R (ret a) (ret a)"
  by (simp add: rel_prog_def)

lemma rel_prog_halt [rel_intros]: "rel_prog R (halt e) (halt e)"
  by (simp add: rel_prog_def)

lemma rel_prog_checked [rel_intros]: "rel_prog R (checked x) (checked x)"
  by (cases x) (simp_all add: rel_prog_ret rel_prog_halt)

lemma rel_prog_bnd [rel_intros]:
  assumes "rel_prog R m n" and "\<And>a. rel_prog R (f a) (g a)"
  shows "rel_prog R (bnd m f) (bnd n g)"
proof (rule rel_progI)
  fix s t assume "R s t"
  with assms(1) have "rel_end R (m s) (n t)" by (rule rel_progD)
  then show "rel_end R (bnd m f s) (bnd n g t)"
    by (cases rule: rel_end_cases) (auto simp: bnd_def dest: rel_progD [OF assms(2)])
qed

lemma rel_prog_if [rel_intros]:
  "(b \<Longrightarrow> rel_prog R m n) \<Longrightarrow> (\<not> b \<Longrightarrow> rel_prog R m' n') \<Longrightarrow>
   rel_prog R (if b then m else m') (if b then n else n')"
  by simp

lemma rel_prog_case_option [rel_intros]:
  "rel_prog R m n \<Longrightarrow> (\<And>a. rel_prog R (f a) (g a)) \<Longrightarrow>
   rel_prog R (case x of None \<Rightarrow> m | Some a \<Rightarrow> f a) (case x of None \<Rightarrow> n | Some a \<Rightarrow> g a)"
  by (cases x) simp_all

lemma rel_prog_case_prod [rel_intros]:
  "(\<And>a b. rel_prog R (f a b) (g a b)) \<Longrightarrow>
   rel_prog R (case p of (a, b) \<Rightarrow> f a b) (case p of (a, b) \<Rightarrow> g a b)"
  by (cases p) simp

lemma rel_prog_let [rel_intros]:
  "(\<And>x. rel_prog R (f x) (g x)) \<Longrightarrow> rel_prog R (let x = v in f x) (let x = v in g x)"
  by simp

section \<open>Lists\<close>

lemma takeWhile_append_stop: "(\<forall>x \<in> set xs. P x) \<Longrightarrow> \<not> P y \<Longrightarrow> takeWhile P (xs @ y # ys) = xs"
  by (induction xs) auto

lemma takeWhile_all: "(\<forall>x \<in> set xs. P x) \<Longrightarrow> takeWhile P xs = xs"
  by (induction xs) auto

end
