(* ===== verification/C_Runtime.thy ===== *)
theory C_Runtime
  imports Dfs_Prelude "HOL-Library.Char_ord"
begin

text \<open>
  The C library functions the program computes with, on their documented behaviour: character
  arrays (lists of a fixed length, with the null characters they hold), the C string an array
  holds (\<open>cstr\<close>: up to the first null character), \<^verbatim>\<open>strncpy\<close>, \<^verbatim>\<open>strncat\<close>, \<^verbatim>\<open>memcpy\<close>, \<^verbatim>\<open>atoi\<close> and
  the \<^verbatim>\<open>%u\<close> conversion of \<^verbatim>\<open>sprintf\<close>. A write outside the array is \<open>None\<close>.
\<close>

abbreviation NUL :: char where
  "NUL \<equiv> CHR 0x00"

type_synonym buffer = "char list"

text \<open>Error numbers of \<^verbatim>\<open>errno.h\<close> that the code names or the kernel documents.\<close>

abbreviation (input) EPERM :: c_int where "EPERM \<equiv> 1"
abbreviation (input) ENOENT :: c_int where "ENOENT \<equiv> 2"
abbreviation (input) EBADF :: c_int where "EBADF \<equiv> 9"
abbreviation (input) ENOMEM :: c_int where "ENOMEM \<equiv> 12"
abbreviation (input) EACCES :: c_int where "EACCES \<equiv> 13"

definition cneg :: "c_int \<Rightarrow> bool" where
  \<comment> \<open>the C comparison \<^verbatim>\<open>x < 0\<close> on an \<^verbatim>\<open>int\<close>\<close>
  "cneg x \<longleftrightarrow> sint x < 0"

lemma cneg_simps [simp]: "cneg (- 1)" "\<not> cneg 0" "\<not> cneg 1"
  by (simp_all add: cneg_def)

section \<open>Strings in arrays\<close>

definition is_cstring :: "string \<Rightarrow> bool" where
  "is_cstring s \<longleftrightarrow> NUL \<notin> set s"

definition cstr :: "buffer \<Rightarrow> string" where
  "cstr b = takeWhile (\<lambda>c. c \<noteq> NUL) b"

definition zeros :: "nat \<Rightarrow> buffer" where
  \<comment> \<open>\<^verbatim>\<open>memset(buf, '\0', n)\<close> of an array of \<open>n\<close> characters\<close>
  "zeros n = replicate n NUL"

definition poke :: "buffer \<Rightarrow> nat \<Rightarrow> char list \<Rightarrow> buffer option" where
  \<comment> \<open>\<^verbatim>\<open>memcpy(buf + i, src, length)\<close>\<close>
  "poke b i src =
     (if i + length src \<le> length b then Some (take i b @ src @ drop (i + length src) b) else None)"

definition strncpy :: "buffer \<Rightarrow> string \<Rightarrow> nat \<Rightarrow> buffer option" where
  \<comment> \<open>writes exactly \<open>n\<close> characters: those of \<open>src\<close>, then null characters\<close>
  "strncpy b src n = poke b 0 (take n src @ zeros (n - length src))"

definition strncat :: "buffer \<Rightarrow> string \<Rightarrow> nat \<Rightarrow> buffer option" where
  \<comment> \<open>appends at most \<open>n\<close> characters of \<open>src\<close> and a null character\<close>
  "strncat b src n = poke b (length (cstr b)) (take n src @ [NUL])"

lemma is_cstring_simps [simp]:
  "is_cstring []" "is_cstring (c # s) \<longleftrightarrow> c \<noteq> NUL \<and> is_cstring s"
  "is_cstring (s @ t) \<longleftrightarrow> is_cstring s \<and> is_cstring t"
  by (auto simp: is_cstring_def)

lemma is_cstring_take: "is_cstring s \<Longrightarrow> is_cstring (take n s)"
  by (auto simp: is_cstring_def dest: in_set_takeD)

lemma is_cstring_cstr [simp]: "is_cstring (cstr b)"
  by (auto simp: is_cstring_def cstr_def dest: set_takeWhileD)

lemma cstr_simps [simp]: "cstr [] = []" "cstr (c # b) = (if c = NUL then [] else c # cstr b)"
  by (simp_all add: cstr_def)

lemma cstr_append_NUL [simp]: "is_cstring s \<Longrightarrow> cstr (s @ NUL # r) = s"
  unfolding cstr_def is_cstring_def by (rule takeWhile_append_stop) auto

lemma cstr_cstring [simp]: "is_cstring s \<Longrightarrow> cstr s = s"
  unfolding cstr_def is_cstring_def by (rule takeWhile_all) auto

lemma zeros_simps [simp]: "length (zeros n) = n" "zeros 0 = []" "zeros (Suc n) = NUL # zeros n"
  by (simp_all add: zeros_def)

lemma cstr_zeros [simp]: "cstr (zeros n) = []"
  by (cases n) (simp_all add: cstr_def)

lemma cstr_append_zeros [simp]: "is_cstring s \<Longrightarrow> cstr (s @ zeros n) = s"
  by (cases n) simp_all

lemma cstr_append2_zeros [simp]: "is_cstring s \<Longrightarrow> is_cstring t \<Longrightarrow> cstr (s @ t @ zeros n) = s @ t"
  using cstr_append_zeros [of "s @ t" n] by simp

lemma length_cstr_le: "length (cstr b) \<le> length b"
  by (simp add: cstr_def length_takeWhile_le)

lemma zeros_append: "m \<le> n \<Longrightarrow> zeros m @ zeros (n - m) = zeros n"
  by (simp add: zeros_def flip: replicate_add)

lemma drop_zeros [simp]: "drop m (zeros n) = zeros (n - m)"
  by (simp add: zeros_def)

lemma take_zeros [simp]: "take m (zeros n) = zeros (min m n)"
  by (simp add: zeros_def)

lemma poke_length: "poke b i src = Some b' \<Longrightarrow> length b' = length b"
  by (auto simp: poke_def split: if_splits)

text \<open>Copying a string, whole, into a cleared array.\<close>

lemma strncpy_zeros:
  "length src \<le> n \<Longrightarrow> strncpy (zeros n) src (length src) = Some (src @ zeros (n - length src))"
  by (simp add: strncpy_def poke_def)

lemma strncpy_zeros_prefix:
  "k \<le> length src \<Longrightarrow> k \<le> n \<Longrightarrow> strncpy (zeros n) src k = Some (take k src @ zeros (n - k))"
  by (simp add: strncpy_def poke_def)

lemma strncpy_overflow: "length b < n \<Longrightarrow> strncpy b src n = None"
  by (auto simp: strncpy_def poke_def)

text \<open>Appending a string to the string that a cleared array holds.\<close>

lemma strncat_zeros:
  assumes "is_cstring s" and "length s + length src < n"
  shows "strncat (s @ zeros (n - length s)) src (length src)
       = Some ((s @ src) @ zeros (n - (length s + length src)))"
proof -
  from assms(2) have "zeros (n - (length s + length src))
      = NUL # zeros (n - length s - Suc (length src))"
    by (metis Suc_diff_Suc diff_diff_eq zeros_simps(3) add_Suc_right)
  with assms show ?thesis by (simp add: strncat_def poke_def)
qed

lemma strncat_overflow:
  assumes "is_cstring s" and "length s \<le> n" and "n \<le> length s + length src"
  shows "strncat (s @ zeros (n - length s)) src (length src) = None"
  using assms by (simp add: strncat_def poke_def)

lemma zeros_pos: "0 < n \<Longrightarrow> zeros n = NUL # zeros (n - 1)"
  by (cases n) simp_all

section \<open>Numbers and their decimal text\<close>

definition digit_char :: "nat \<Rightarrow> char" where
  "digit_char d = char_of (48 + d)"

definition char_digit :: "char \<Rightarrow> int" where
  \<comment> \<open>the C expression \<^verbatim>\<open>c - '0'\<close>, with a signed \<^verbatim>\<open>char\<close>\<close>
  "char_digit c = (let n = of_char c :: nat in (if n < 128 then int n else int n - 256) - 48)"

definition is_digit :: "char \<Rightarrow> bool" where
  "is_digit c \<longleftrightarrow> 48 \<le> (of_char c :: nat) \<and> (of_char c :: nat) \<le> 57"

definition is_space :: "char \<Rightarrow> bool" where
  "is_space c \<longleftrightarrow> (of_char c :: nat) = 32 \<or> (9 \<le> (of_char c :: nat) \<and> (of_char c :: nat) \<le> 13)"

fun show_nat :: "nat \<Rightarrow> string" where
  "show_nat n = (if n < 10 then [digit_char n] else show_nat (n div 10) @ [digit_char (n mod 10)])"

declare show_nat.simps [simp del]

definition sprintf_u :: "32 word \<Rightarrow> string" where
  "sprintf_u w = show_nat (unat w)"

definition digits_value :: "int \<Rightarrow> string \<Rightarrow> int" where
  "digits_value = foldl (\<lambda>v c. v * 10 + char_digit c)"

definition clamp_long :: "int \<Rightarrow> int" where
  "clamp_long v = max (- (2 ^ 63)) (min (2 ^ 63 - 1) v)"

definition atoi :: "string \<Rightarrow> c_int" where
  \<comment> \<open>\<^verbatim>\<open>(int) strtol(s, NULL, 10)\<close>: spaces, an optional sign, then digits\<close>
  "atoi s = (let t = dropWhile is_space s in
     case t of
       [] \<Rightarrow> 0
     | c # r \<Rightarrow>
         (if c = CHR ''-'' then word_of_int (clamp_long (- digits_value 0 (takeWhile is_digit r)))
          else if c = CHR ''+'' then word_of_int (clamp_long (digits_value 0 (takeWhile is_digit r)))
          else word_of_int (clamp_long (digits_value 0 (takeWhile is_digit t)))))"

lemma of_char_digit_char: "d < 10 \<Longrightarrow> (of_char (digit_char d) :: nat) = 48 + d"
  by (simp add: digit_char_def)

lemma digit_char_facts [simp]:
  assumes "d < 10"
  shows "is_digit (digit_char d)" "char_digit (digit_char d) = int d" "\<not> is_space (digit_char d)"
    "digit_char d \<noteq> CHR ''-''" "digit_char d \<noteq> CHR ''+''" "digit_char d \<noteq> CHR ''.''"
    "digit_char d \<noteq> NUL"
proof -
  note n = of_char_digit_char [OF assms]
  show "is_digit (digit_char d)" using assms by (simp add: is_digit_def n)
  show "char_digit (digit_char d) = int d" using assms by (simp add: char_digit_def n)
  show "\<not> is_space (digit_char d)" by (simp add: is_space_def n)
  show "digit_char d \<noteq> CHR ''-''" using n by force
  show "digit_char d \<noteq> CHR ''+''" using n by force
  show "digit_char d \<noteq> CHR ''.''" using n by force
  show "digit_char d \<noteq> NUL" using n by force
qed

lemma digits_value_append: "digits_value v (xs @ ys) = digits_value (digits_value v xs) ys"
  by (simp add: digits_value_def)

lemma digits_value_simps [simp]:
  "digits_value v [] = v" "digits_value v (c # s) = digits_value (v * 10 + char_digit c) s"
  by (simp_all add: digits_value_def)

lemma show_nat_digits: "set (show_nat n) \<subseteq> digit_char ` {..<10}"
proof (induction n rule: show_nat.induct)
  case (1 n)
  show ?case
  proof (cases "n < 10")
    case True
    then show ?thesis by (simp add: show_nat.simps [of n])
  next
    case False
    with 1 have "set (show_nat (n div 10)) \<subseteq> digit_char ` {..<10}" by simp
    with False show ?thesis by (auto simp: show_nat.simps [of n])
  qed
qed

lemma show_nat_nonempty: "show_nat n \<noteq> []"
  by (subst show_nat.simps) simp

lemma show_nat_all_digits: "\<forall>c \<in> set (show_nat n). is_digit c \<and> c \<noteq> CHR ''.'' \<and> c \<noteq> NUL"
proof
  fix c assume "c \<in> set (show_nat n)"
  with show_nat_digits [of n] obtain d where "d < 10" and "c = digit_char d" by auto
  then show "is_digit c \<and> c \<noteq> CHR ''.'' \<and> c \<noteq> NUL" by simp
qed

lemma is_cstring_show_nat [simp]: "is_cstring (show_nat n)"
  using show_nat_all_digits [of n] by (auto simp: is_cstring_def)

lemma digits_value_show_nat: "digits_value 0 (show_nat n) = int n"
proof (induction n rule: show_nat.induct)
  case (1 n)
  show ?case
  proof (cases "n < 10")
    case True
    then show ?thesis by (simp add: show_nat.simps [of n])
  next
    case False
    with 1 have "digits_value 0 (show_nat (n div 10)) = int (n div 10)" by simp
    with False show ?thesis
      by (simp add: show_nat.simps [of n] digits_value_append zdiv_int zmod_int)
  qed
qed

lemma atoi_show_nat:
  assumes "n < 2 ^ 63"
  shows "atoi (show_nat n) = of_nat n"
proof -
  obtain c r where cr: "show_nat n = c # r" by (meson show_nat_nonempty neq_Nil_conv)
  from show_nat_digits [of n] obtain d where d: "d < 10" "c = digit_char d"
    using cr by auto
  have tw: "takeWhile is_digit (show_nat n) = show_nat n"
    using show_nat_all_digits by (intro takeWhile_all) blast
  have "clamp_long (digits_value 0 (show_nat n)) = int n"
    using assms by (simp add: clamp_long_def digits_value_show_nat)
  with d tw have "word_of_int (clamp_long (digits_value 0 (takeWhile is_digit (c # r)))) = (of_nat n :: c_int)"
    by (simp only: cr of_int_of_nat_eq)
  with d show ?thesis
    by (simp only: atoi_def cr Let_def dropWhile.simps digit_char_facts list.case if_False)
qed

lemma atoi_sprintf_u: "atoi (sprintf_u w) = w"
proof -
  have "unat w < 2 ^ 32" using unsigned_less [of w] by simp
  then have "unat w < 2 ^ 63" by simp
  then show ?thesis by (simp add: sprintf_u_def atoi_show_nat)
qed

end
