(* ===== verification/Rpc_Messages.thy ===== *)
theory Rpc_Messages
  imports C_Runtime
begin

text \<open>
  The messages of the protocol, as \<^verbatim>\<open>fuse_rpc.h\<close> declares them: one record per C struct, a field
  per member, in the order of the struct. A \<^verbatim>\<open>char *\<close> is the C string it points to, a
  \<^verbatim>\<open>char[MAX_SIZE]\<close> the list of its characters, an \<^verbatim>\<open>int\<close> or \<^verbatim>\<open>u_int\<close> a 32-bit word and a \<^verbatim>\<open>long\<close> or
  \<^verbatim>\<open>u_long\<close> a 64-bit word (the LP64 model of the Linux hosts the program runs on); whether a word
  is read as signed is said where it is read.
\<close>

definition MAX_SIZE :: nat where
  "MAX_SIZE = 4096"

record identity =
  is_master :: c_int
  is_degraded :: c_int

record init_arg =
  init_arg_server_info :: identity
  init_arg_ip :: string
  init_arg_rootdir :: string

record init_ret =
  init_ret_ret :: c_int

record getattr_arg =
  getattr_arg_ip :: string
  getattr_arg_path :: string

record getattr_ret =
  getattr_ret_st_dev :: c_int
  getattr_ret_st_ino :: c_int
  getattr_ret_st_mode :: c_int
  getattr_ret_st_nlink :: c_int
  getattr_ret_st_uid :: c_int
  getattr_ret_st_gid :: c_int
  getattr_ret_st_rdev :: c_int
  getattr_ret_st_size :: c_long
  getattr_ret_st_blksize :: c_long
  getattr_ret_st_blocks :: c_long
  getattr_ret_st_acc_time :: c_long
  getattr_ret_st_mod_time :: c_long
  getattr_ret_st_chg_time :: c_long
  getattr_ret_ret :: c_int

record access_arg =
  access_arg_ip :: string
  access_arg_path :: string
  access_arg_mask :: c_int

record access_ret =
  access_ret_ret :: c_int

record mkdir_arg =
  mkdir_arg_ip :: string
  mkdir_arg_server_info :: identity
  mkdir_arg_path :: string
  mkdir_arg_mode :: c_int

record mkdir_ret =
  mkdir_ret_ret :: c_int

record rmdir_arg =
  rmdir_arg_ip :: string
  rmdir_arg_server_info :: identity
  rmdir_arg_path :: string

record rmdir_ret =
  rmdir_ret_ret :: c_int

record opendir_arg =
  opendir_arg_ip :: string
  opendir_arg_path :: string

record opendir_ret =
  opendir_ret_fd :: c_int
  opendir_ret_ret :: c_int

record readdir_arg =
  readdir_arg_fd :: c_int

record readdir_ret =
  readdir_ret_count :: c_int
  readdir_ret_entries :: buffer
  readdir_ret_ret :: c_int

record releasedir_arg =
  releasedir_arg_fd :: c_int

record releasedir_ret =
  releasedir_ret_ret :: c_int

record rename_arg =
  rename_arg_ip :: string
  rename_arg_server_info :: identity
  rename_arg_path :: string
  rename_arg_newpath :: string

record rename_ret =
  rename_ret_ret :: c_int

record symlink_arg =
  symlink_arg_ip :: string
  symlink_arg_server_info :: identity
  symlink_arg_path :: string
  symlink_arg_link :: string

record symlink_ret =
  symlink_ret_ret :: c_int

record link_arg =
  link_arg_ip :: string
  link_arg_server_info :: identity
  link_arg_path :: string
  link_arg_newpath :: string

record link_ret =
  link_ret_ret :: c_int

record readlink_arg =
  readlink_arg_ip :: string
  readlink_arg_path :: string
  readlink_arg_size :: c_int

record readlink_ret =
  readlink_ret_buffer :: buffer
  readlink_ret_len :: c_int
  readlink_ret_ret :: c_int

record mknod_arg =
  mknod_arg_ip :: string
  mknod_arg_server_info :: identity
  mknod_arg_path :: string
  mknod_arg_mode :: c_int
  mknod_arg_dev :: c_int

record mknod_ret =
  mknod_ret_ret :: c_int

record utime_arg =
  utime_arg_ip :: string
  utime_arg_server_info :: identity
  utime_arg_path :: string
  utime_arg_actime :: c_long
  utime_arg_modtime :: c_long

record utime_ret =
  utime_ret_ret :: c_int

record truncate_arg =
  truncate_arg_ip :: string
  truncate_arg_server_info :: identity
  truncate_arg_path :: string
  truncate_arg_newsize :: c_int

record truncate_ret =
  truncate_ret_ret :: c_int

record chmod_arg =
  chmod_arg_ip :: string
  chmod_arg_server_info :: identity
  chmod_arg_path :: string
  chmod_arg_mode :: c_int

record chmod_ret =
  chmod_ret_ret :: c_int

record chown_arg =
  chown_arg_ip :: string
  chown_arg_server_info :: identity
  chown_arg_path :: string
  chown_arg_uid :: c_int
  chown_arg_gid :: c_int

record chown_ret =
  chown_ret_ret :: c_int

record unlink_arg =
  unlink_arg_ip :: string
  unlink_arg_server_info :: identity
  unlink_arg_path :: string

record unlink_ret =
  unlink_ret_ret :: c_int

record open_arg =
  open_arg_ip :: string
  open_arg_path :: string
  open_arg_flags :: c_int

record open_ret =
  open_ret_fd :: c_int
  open_ret_ret :: c_int

record release_arg =
  release_arg_ip :: string
  release_arg_fd :: c_int

record release_ret =
  release_ret_ret :: c_int

record read_arg =
  read_arg_ip :: string
  read_arg_fd :: c_int
  read_arg_size :: c_int
  read_arg_offset :: c_int

record read_ret =
  read_ret_buffer :: buffer
  read_ret_len :: c_int
  read_ret_ret :: c_int

record write_arg =
  write_arg_ip :: string
  write_arg_server_info :: identity
  write_arg_fd :: c_int
  write_arg_path :: string
  write_arg_size :: c_int
  write_arg_offset :: c_int
  write_arg_buffer :: buffer

record write_ret =
  write_ret_len :: c_int
  write_ret_ret :: c_int

record statfs_arg =
  statfs_arg_path :: string

record statfs_ret =
  statfs_ret_f_bsize :: c_long
  statfs_ret_f_frsize :: c_long
  statfs_ret_f_blocks :: c_long
  statfs_ret_f_bfree :: c_long
  statfs_ret_f_bavail :: c_long
  statfs_ret_f_files :: c_long
  statfs_ret_f_ffree :: c_long
  statfs_ret_f_favail :: c_long
  statfs_ret_f_fsid :: c_long
  statfs_ret_f_flag :: c_long
  statfs_ret_f_namemax :: c_long
  statfs_ret_ret :: c_int

text \<open>The procedure numbers of the program \<^verbatim>\<open>COMPUTE\<close>, version 6.\<close>

abbreviation (input) INIT_ROOTDIR :: nat where "INIT_ROOTDIR \<equiv> 0"
abbreviation (input) BB_GETATTR :: nat where "BB_GETATTR \<equiv> 1"
abbreviation (input) BB_ACCESS :: nat where "BB_ACCESS \<equiv> 2"
abbreviation (input) BB_MKDIR :: nat where "BB_MKDIR \<equiv> 3"
abbreviation (input) BB_RMDIR :: nat where "BB_RMDIR \<equiv> 4"
abbreviation (input) BB_OPENDIR :: nat where "BB_OPENDIR \<equiv> 5"
abbreviation (input) BB_READDIR :: nat where "BB_READDIR \<equiv> 6"
abbreviation (input) BB_RELEASEDIR :: nat where "BB_RELEASEDIR \<equiv> 7"
abbreviation (input) BB_RENAME :: nat where "BB_RENAME \<equiv> 8"
abbreviation (input) BB_SYMLINK :: nat where "BB_SYMLINK \<equiv> 9"
abbreviation (input) BB_LINK :: nat where "BB_LINK \<equiv> 10"
abbreviation (input) BB_READLINK :: nat where "BB_READLINK \<equiv> 11"
abbreviation (input) BB_MKNOD :: nat where "BB_MKNOD \<equiv> 12"
abbreviation (input) BB_TRUNCATE :: nat where "BB_TRUNCATE \<equiv> 13"
abbreviation (input) BB_UNLINK :: nat where "BB_UNLINK \<equiv> 14"
abbreviation (input) BB_UTIME :: nat where "BB_UTIME \<equiv> 15"
abbreviation (input) BB_CHMOD :: nat where "BB_CHMOD \<equiv> 16"
abbreviation (input) BB_CHOWN :: nat where "BB_CHOWN \<equiv> 17"
abbreviation (input) BB_OPEN :: nat where "BB_OPEN \<equiv> 18"
abbreviation (input) BB_RELEASE :: nat where "BB_RELEASE \<equiv> 19"
abbreviation (input) BB_READ :: nat where "BB_READ \<equiv> 20"
abbreviation (input) BB_WRITE :: nat where "BB_WRITE \<equiv> 21"
abbreviation (input) BB_STATFS :: nat where "BB_STATFS \<equiv> 22"

end
