(* ===== verification/Os_Interface.thy ===== *)
theory Os_Interface
  imports Rpc_Messages
begin

text \<open>
  What the program gets from the kernel and from the RPC library, as two records of functions that
  every definition using them takes as an argument: nothing is assumed of them here, and no
  behaviour of a system call is made up. \<open>'w\<close> is the world they act on (the files, the descriptor
  tables, the peers on the network).

  A system call yields an error number or a value; \<open>sys_call\<close> turns that into what a C caller
  sees, a failure indication and \<^verbatim>\<open>errno\<close>, which only a failing call changes. \<^verbatim>\<open>flock\<close> is the one
  call that may never return.
\<close>

record stat_buf =
  st_dev :: c_long
  st_ino :: c_long
  st_mode :: c_int
  st_nlink :: c_long
  st_uid :: c_int
  st_gid :: c_int
  st_rdev :: c_long
  st_size :: c_long
  st_blksize :: c_long
  st_blocks :: c_long
  st_atime :: c_long
  st_mtime :: c_long
  st_ctime :: c_long

record statvfs_buf =
  f_bsize :: c_long
  f_frsize :: c_long
  f_blocks :: c_long
  f_bfree :: c_long
  f_bavail :: c_long
  f_files :: c_long
  f_ffree :: c_long
  f_favail :: c_long
  f_fsid :: c_long
  f_flag :: c_long
  f_namemax :: c_long

datatype lock_op = LOCK_SH | LOCK_EX | LOCK_UN

type_synonym dirp = nat \<comment> \<open>a \<^verbatim>\<open>DIR *\<close>\<close>
type_synonym ('w, 'a) sysfun = "'w \<Rightarrow> (c_int + 'a) \<times> 'w"

record 'w os =
  sys_lstat :: "string \<Rightarrow> 'w \<Rightarrow> c_int + stat_buf"
  sys_access :: "string \<Rightarrow> c_int \<Rightarrow> 'w \<Rightarrow> c_int + unit"
  sys_readlink :: "string \<Rightarrow> nat \<Rightarrow> 'w \<Rightarrow> c_int + char list"
  sys_statvfs :: "string \<Rightarrow> 'w \<Rightarrow> c_int + statvfs_buf"
  sys_dirfd :: "dirp \<Rightarrow> 'w \<Rightarrow> c_int + c_int"
  sys_mkdir :: "string \<Rightarrow> c_int \<Rightarrow> ('w, unit) sysfun"
  sys_rmdir :: "string \<Rightarrow> ('w, unit) sysfun"
  sys_rename :: "string \<Rightarrow> string \<Rightarrow> ('w, unit) sysfun"
  sys_symlink :: "string \<Rightarrow> string \<Rightarrow> ('w, unit) sysfun"
  sys_link :: "string \<Rightarrow> string \<Rightarrow> ('w, unit) sysfun"
  sys_unlink :: "string \<Rightarrow> ('w, unit) sysfun"
  sys_mkfifo :: "string \<Rightarrow> c_int \<Rightarrow> ('w, unit) sysfun"
  sys_mknod :: "string \<Rightarrow> c_int \<Rightarrow> c_int \<Rightarrow> ('w, unit) sysfun"
  sys_truncate :: "string \<Rightarrow> c_int \<Rightarrow> ('w, unit) sysfun"
  sys_utime :: "string \<Rightarrow> c_long \<Rightarrow> c_long \<Rightarrow> ('w, unit) sysfun"
  sys_chmod :: "string \<Rightarrow> c_int \<Rightarrow> ('w, unit) sysfun"
  sys_chown :: "string \<Rightarrow> c_int \<Rightarrow> c_int \<Rightarrow> ('w, unit) sysfun"
  sys_lchown :: "string \<Rightarrow> c_int \<Rightarrow> c_int \<Rightarrow> ('w, unit) sysfun"
  sys_open :: "string \<Rightarrow> c_int \<Rightarrow> c_int \<Rightarrow> ('w, c_int) sysfun"
  sys_close :: "c_int \<Rightarrow> ('w, unit) sysfun"
  sys_flock :: "c_int \<Rightarrow> lock_op \<Rightarrow> 'w \<Rightarrow> ((c_int + unit) \<times> 'w) option"
  sys_pread :: "c_int \<Rightarrow> nat \<Rightarrow> nat \<Rightarrow> ('w, char list) sysfun"
  sys_pwrite :: "c_int \<Rightarrow> char list \<Rightarrow> nat \<Rightarrow> ('w, nat) sysfun"
  sys_opendir :: "string \<Rightarrow> ('w, dirp) sysfun"
  sys_fdopendir :: "c_int \<Rightarrow> ('w, dirp) sysfun"
  sys_readdir :: "dirp \<Rightarrow> 'w \<Rightarrow> string list \<times> 'w" \<comment> \<open>the names up to the \<^verbatim>\<open>NULL\<close> that ends the loop\<close>
  sys_closedir :: "dirp \<Rightarrow> ('w, unit) sysfun"

section \<open>A process\<close>

record 'w process =
  world :: 'w
  errno :: c_int

definition get_errno :: "(('w, 'z) process_scheme, c_int) prog" where
  "get_errno = (\<lambda>s. Inr (errno s, s))"

definition on_world :: "('w \<Rightarrow> 'a \<times> 'w) \<Rightarrow> (('w, 'z) process_scheme, 'a) prog" where
  "on_world f = (\<lambda>s. case f (world s) of (a, w) \<Rightarrow> Inr (a, s\<lparr>world := w\<rparr>))"

definition sys_call :: "('w, 'a) sysfun \<Rightarrow> (('w, 'z) process_scheme, 'a option) prog" where
  "sys_call f = (\<lambda>s. case f (world s) of
       (Inl e, w) \<Rightarrow> Inr (None, s\<lparr>world := w, errno := e\<rparr>)
     | (Inr v, w) \<Rightarrow> Inr (Some v, s\<lparr>world := w\<rparr>))"

definition sys_query :: "('w \<Rightarrow> c_int + 'a) \<Rightarrow> (('w, 'z) process_scheme, 'a option) prog" where
  \<comment> \<open>a call that only reads the world\<close>
  "sys_query f = sys_call (\<lambda>w. (f w, w))"

definition int_result :: "unit option \<Rightarrow> c_int" where
  "int_result r = (case r of None \<Rightarrow> - 1 | Some _ \<Rightarrow> 0)"

definition sys_int :: "('w, unit) sysfun \<Rightarrow> (('w, 'z) process_scheme, c_int) prog" where
  \<comment> \<open>a call that returns \<open>0\<close>, or \<open>-1\<close> with \<^verbatim>\<open>errno\<close> set\<close>
  "sys_int f = bnd (sys_call f) (\<lambda>r. ret (int_result r))"

definition flock :: "'w os \<Rightarrow> c_int \<Rightarrow> lock_op \<Rightarrow> (('w, 'z) process_scheme, c_int) prog" where
  "flock os fd operation = (\<lambda>s. case sys_flock os fd operation (world s) of
       None \<Rightarrow> Inl (Blocked, s)
     | Some r \<Rightarrow> sys_int (\<lambda>_. r) s)"

lemma int_result_simps [simp]: "int_result None = - 1" "int_result (Some u) = 0"
  by (simp_all add: int_result_def)

lemma int_result_eq: "int_result r \<noteq> 0 \<longleftrightarrow> r = None" "cneg (int_result r) \<longleftrightarrow> r = None"
  by (cases r; simp)+

subsection \<open>Running a call\<close>

lemma sys_call_Inl: "f (world s) = (Inl e, w) \<Longrightarrow> sys_call f s = Inr (None, s\<lparr>world := w, errno := e\<rparr>)"
  by (simp add: sys_call_def)

lemma sys_call_Inr: "f (world s) = (Inr v, w) \<Longrightarrow> sys_call f s = Inr (Some v, s\<lparr>world := w\<rparr>)"
  by (simp add: sys_call_def)

lemma sys_query_Inl: "f (world s) = Inl e \<Longrightarrow> sys_query f s = Inr (None, s\<lparr>errno := e\<rparr>)"
  by (simp add: sys_query_def sys_call_def)

lemma sys_query_Inr: "f (world s) = Inr v \<Longrightarrow> sys_query f s = Inr (Some v, s)"
  by (simp add: sys_query_def sys_call_def)

lemma sys_int_Inl: "f (world s) = (Inl e, w) \<Longrightarrow> sys_int f s = Inr (- 1, s\<lparr>world := w, errno := e\<rparr>)"
  by (simp add: sys_int_def bnd_def sys_call_Inl)

lemma sys_int_Inr: "f (world s) = (Inr v, w) \<Longrightarrow> sys_int f s = Inr (0, s\<lparr>world := w\<rparr>)"
  by (simp add: sys_int_def bnd_def sys_call_Inr)

lemma get_errno_apply: "get_errno s = Inr (errno s, s)"
  by (simp add: get_errno_def)

lemma on_world_apply: "on_world f s = (case f (world s) of (a, w) \<Rightarrow> Inr (a, s\<lparr>world := w\<rparr>))"
  by (simp add: on_world_def)

lemmas sys_run = sys_call_Inl sys_call_Inr sys_query_Inl sys_query_Inr sys_int_Inl sys_int_Inr
  get_errno_apply on_world_apply

subsection \<open>What a call keeps\<close>

text \<open>A property of the world is kept by a call whose function keeps it.\<close>

abbreviation world_inv :: "('w \<Rightarrow> bool) \<Rightarrow> ('w, 'z) process_scheme \<Rightarrow> bool" where
  "world_inv J \<equiv> \<lambda>s. J (world s)"

lemma keeps_get_errno [keeps_intros]: "keeps I get_errno"
  by (simp add: keeps_def get_errno_def)

lemma keeps_sys_query [keeps_intros]: "keeps (world_inv J) (sys_query f)"
  by (auto simp: keeps_def sys_query_def sys_call_def split: sum.splits)

lemma keeps_sys_call:
  assumes "\<And>w. J w \<Longrightarrow> J (snd (f w))"
  shows "keeps (world_inv J) (sys_call f)"
proof (rule keepsI)
  fix s assume "J (world s)"
  then have "J (snd (f (world s)))" by (rule assms)
  then show "J (world (end_state (sys_call f s)))"
    by (cases "f (world s)") (auto simp: sys_call_def split: sum.splits)
qed

lemma keeps_on_world:
  assumes "\<And>w. J w \<Longrightarrow> J (snd (f w))"
  shows "keeps (world_inv J) (on_world f)"
proof (rule keepsI)
  fix s assume "J (world s)"
  then have "J (snd (f (world s)))" by (rule assms)
  then show "J (world (end_state (on_world f s)))"
    by (cases "f (world s)") (simp add: on_world_def)
qed

lemma keeps_sys_int:
  assumes "\<And>w. J w \<Longrightarrow> J (snd (f w))"
  shows "keeps (world_inv J) (sys_int f)"
  unfolding sys_int_def by (intro keeps_bnd keeps_sys_call keeps_ret assms)

section \<open>The RPC library\<close>

type_synonym clnt = nat \<comment> \<open>a \<^verbatim>\<open>CLIENT *\<close>\<close>

datatype clnt_stat = RPC_SUCCESS | RPC_CANTENCODEARGS | RPC_CANTDECODERES | RPC_FAILED nat

text \<open>
  \<open>rpc_send\<close> is the transport: the encoded arguments of a procedure go to the peer of a handle, and
  the encoded results come back, or a failure (a timeout, an unknown procedure, a system error).
  \<open>rpc_limit\<close> is the largest message a handle sends (8800 bytes for \<^verbatim>\<open>udp\<close> in the library).
\<close>

record 'w rpc =
  rpc_clnt_create :: "string \<Rightarrow> string \<Rightarrow> 'w \<Rightarrow> clnt option \<times> 'w"
  rpc_send :: "clnt \<Rightarrow> nat \<Rightarrow> char list \<Rightarrow> 'w \<Rightarrow> (nat + char list) \<times> 'w"
  rpc_clnt_destroy :: "clnt \<Rightarrow> 'w \<Rightarrow> 'w"
  rpc_limit :: "clnt \<Rightarrow> nat"

end
