(* ===== verification/Xdr_Library.thy ===== *)
theory Xdr_Library
  imports Rpc_Messages
begin

text \<open>
  The XDR library (\<^verbatim>\<open>rpc/xdr.h\<close>) as the routines of \<^verbatim>\<open>fuse_rpc_xdr.c\<close> use it: a stream with a
  direction, and the routines for the primitive types in the external data representation of
  RFC 4506 (big-endian units of four bytes, strings and opaque data padded with null bytes). A
  routine takes the stream and the object and returns whether it succeeded, the stream and the
  object; it is the same routine in both directions, as in C.

  How the library carries a 64-bit \<^verbatim>\<open>long\<close> in a 32-bit unit, and when \<^verbatim>\<open>XDR_INLINE\<close> hands out a
  piece of its buffer, differs between its implementations: these are the record \<open>xdr_library\<close>, a
  parameter of the routines that use them, and the locale \<open>xdr_longs\<close> states what they all do
  for values below \<open>2\<^sup>3\<^sup>1\<close>.

  \<open>xdr_codec\<close> is the contract of a routine: what it writes for an object in one direction it
  reads back as that object in the other.
\<close>

section \<open>Streams and units\<close>

datatype xdr_op = XDR_ENCODE | XDR_DECODE | XDR_FREE

record xdrs =
  x_op :: xdr_op
  x_bytes :: "char list" \<comment> \<open>what was written so far, or what is left to read\<close>

type_synonym 'a xdrproc = "xdrs \<Rightarrow> 'a \<Rightarrow> bool \<times> xdrs \<times> 'a"

definition BYTES_PER_XDR_UNIT :: nat where
  "BYTES_PER_XDR_UNIT = 4"

definition unit_bytes :: "32 word \<Rightarrow> char list" where
  "unit_bytes w = (let n = unat w in
     [char_of (n div 16777216), char_of (n div 65536), char_of (n div 256), char_of n])"

fun bytes_unit :: "char list \<Rightarrow> 32 word" where
  "bytes_unit [a, b, c, d] =
     of_nat (of_char a * 16777216 + of_char b * 65536 + of_char c * 256 + of_char d)"
| "bytes_unit _ = 0"

definition put_bytes :: "xdrs \<Rightarrow> char list \<Rightarrow> xdrs" where
  "put_bytes s bs = s\<lparr>x_bytes := x_bytes s @ bs\<rparr>"

definition get_bytes :: "xdrs \<Rightarrow> nat \<Rightarrow> (char list \<times> xdrs) option" where
  "get_bytes s n = (if n \<le> length (x_bytes s)
     then Some (take n (x_bytes s), s\<lparr>x_bytes := drop n (x_bytes s)\<rparr>) else None)"

definition padding :: "nat \<Rightarrow> nat" where
  "padding n = (4 - n mod 4) mod 4"

section \<open>Routines of the primitive types\<close>

definition xdr_int :: "c_int xdrproc" where
  "xdr_int s v = (case x_op s of
       XDR_ENCODE \<Rightarrow> (True, put_bytes s (unit_bytes v), v)
     | XDR_DECODE \<Rightarrow> (case get_bytes s 4 of
           None \<Rightarrow> (False, s, v) | Some (bs, s') \<Rightarrow> (True, s', bytes_unit bs))
     | XDR_FREE \<Rightarrow> (True, s, v))"

definition xdr_u_int :: "c_int xdrproc" where
  "xdr_u_int = xdr_int"

definition xdr_opaque :: "nat \<Rightarrow> buffer xdrproc" where
  "xdr_opaque n s b = (case x_op s of
       XDR_ENCODE \<Rightarrow> (True, put_bytes s (take n b @ zeros (padding n)), b)
     | XDR_DECODE \<Rightarrow> (case get_bytes s (n + padding n) of
           None \<Rightarrow> (False, s, b) | Some (bs, s') \<Rightarrow> (True, s', take n bs))
     | XDR_FREE \<Rightarrow> (True, s, b))"

definition xdr_string :: "32 word \<Rightarrow> string xdrproc" where
  \<comment> \<open>a length, then the characters; the decoded object is a C string\<close>
  "xdr_string maxsize s str = (case x_op s of
       XDR_ENCODE \<Rightarrow>
         (if length str \<le> unat maxsize
          then (True, put_bytes s (unit_bytes (of_nat (length str)) @ str @ zeros (padding (length str))), str)
          else (False, s, str))
     | XDR_DECODE \<Rightarrow> (case get_bytes s 4 of
           None \<Rightarrow> (False, s, str)
         | Some (bs, s') \<Rightarrow> (let n = unat (bytes_unit bs) in
             (if unat maxsize < n then (False, s', str)
              else (case get_bytes s' (n + padding n) of
                  None \<Rightarrow> (False, s', str)
                | Some (cs, s'') \<Rightarrow> (True, s'', cstr (take n cs))))))
     | XDR_FREE \<Rightarrow> (True, s, str))"

text \<open>
  What depends on the implementation of the library: whether a piece of \<open>n\<close> bytes can be had with
  \<^verbatim>\<open>XDR_INLINE\<close>; the unit \<^verbatim>\<open>xdr_long\<close> and \<^verbatim>\<open>xdr_u_long\<close> write for a 64-bit value, or their refusal;
  the value the routines and the \<^verbatim>\<open>IXDR_GET\<close> macros read from a unit.
\<close>

record xdr_library =
  xl_inline :: "xdrs \<Rightarrow> nat \<Rightarrow> bool"
  xl_put_long :: "c_long \<Rightarrow> 32 word option"
  xl_get_long :: "32 word \<Rightarrow> c_long"
  xl_put_u_long :: "c_long \<Rightarrow> 32 word option"
  xl_get_u_long :: "32 word \<Rightarrow> c_long"
  ixdr_get_long :: "32 word \<Rightarrow> c_long"
  ixdr_get_u_long :: "32 word \<Rightarrow> c_long"

definition xdr_wide :: "(c_long \<Rightarrow> 32 word option) \<Rightarrow> (32 word \<Rightarrow> c_long) \<Rightarrow> c_long xdrproc" where
  "xdr_wide put get s v = (case x_op s of
       XDR_ENCODE \<Rightarrow> (case put v of
           None \<Rightarrow> (False, s, v) | Some w \<Rightarrow> (True, put_bytes s (unit_bytes w), v))
     | XDR_DECODE \<Rightarrow> (case get_bytes s 4 of
           None \<Rightarrow> (False, s, v) | Some (bs, s') \<Rightarrow> (True, s', get (bytes_unit bs)))
     | XDR_FREE \<Rightarrow> (True, s, v))"

definition xdr_long :: "xdr_library \<Rightarrow> c_long xdrproc" where
  "xdr_long L = xdr_wide (xl_put_long L) (xl_get_long L)"

definition xdr_u_long :: "xdr_library \<Rightarrow> c_long xdrproc" where
  "xdr_u_long L = xdr_wide (xl_put_u_long L) (xl_get_u_long L)"

text \<open>The macros that write to and read from an inlined piece: they keep the low 32 bits.\<close>

definition IXDR_PUT_LONG :: "'a::len word \<Rightarrow> char list" where
  "IXDR_PUT_LONG v = unit_bytes (ucast v)"

definition IXDR_PUT_U_LONG :: "'a::len word \<Rightarrow> char list" where
  "IXDR_PUT_U_LONG v = unit_bytes (ucast v)"

text \<open>A 64-bit value below \<open>2\<^sup>3\<^sup>1\<close>, which every implementation carries.\<close>

definition fits31 :: "c_long \<Rightarrow> bool" where
  "fits31 v \<longleftrightarrow> v < 2 ^ 31"

locale xdr_longs =
  fixes L :: xdr_library
  assumes put_long: "fits31 v \<Longrightarrow> xl_put_long L v = Some (ucast v)"
    and get_long: "fits31 v \<Longrightarrow> xl_get_long L (ucast v) = v"
    and put_u_long: "fits31 v \<Longrightarrow> xl_put_u_long L v = Some (ucast v)"
    and get_u_long: "fits31 v \<Longrightarrow> xl_get_u_long L (ucast v) = v"
    and iget_long: "fits31 v \<Longrightarrow> ixdr_get_long L (ucast v) = v"
    and iget_u_long: "fits31 v \<Longrightarrow> ixdr_get_u_long L (ucast v) = v"
    and iget_int: "(ucast (ixdr_get_long L w) :: 32 word) = w"

section \<open>A record's routine from those of its members\<close>

definition xdr_member :: "'f xdrproc \<Rightarrow> ('a \<Rightarrow> 'f) \<Rightarrow> (('f \<Rightarrow> 'f) \<Rightarrow> 'a \<Rightarrow> 'a) \<Rightarrow> 'a xdrproc" where
  \<comment> \<open>\<^verbatim>\<open>xdr_t (xdrs, &objp->m)\<close>\<close>
  "xdr_member p get upd s a = (case p s (get a) of (ok, s', v) \<Rightarrow> (ok, s', upd (\<lambda>_. v) a))"

fun xdr_all :: "'a xdrproc list \<Rightarrow> 'a xdrproc" where
  \<comment> \<open>\<^verbatim>\<open>if (!p (...)) return FALSE;\<close> for each of the routines, then \<^verbatim>\<open>return TRUE\<close>\<close>
  "xdr_all [] s a = (True, s, a)"
| "xdr_all (p # ps) s a =
     (case p s a of (ok, s', a') \<Rightarrow> if \<not> ok then (False, s', a') else xdr_all ps s' a')"

section \<open>The contract of a routine\<close>

definition enc_ok :: "'a xdrproc \<Rightarrow> 'a \<Rightarrow> char list \<Rightarrow> bool" where
  "enc_ok p a bs \<longleftrightarrow> (\<forall>s. x_op s = XDR_ENCODE \<longrightarrow> p s a = (True, put_bytes s bs, a))"

definition dec_ok :: "'a xdrproc \<Rightarrow> char list \<Rightarrow> ('a \<Rightarrow> 'a) \<Rightarrow> bool" where
  "dec_ok p bs f \<longleftrightarrow> (\<forall>s b r. x_op s = XDR_DECODE \<longrightarrow> x_bytes s = bs @ r \<longrightarrow>
     p s b = (True, s\<lparr>x_bytes := r\<rparr>, f b))"

definition encoding :: "'a xdrproc \<Rightarrow> 'a \<Rightarrow> char list" where
  "encoding p a = x_bytes (fst (snd (p \<lparr>x_op = XDR_ENCODE, x_bytes = []\<rparr> a)))"

locale xdr_codec =
  fixes p :: "'a xdrproc" and ok :: "'a \<Rightarrow> bool"
  assumes codec: "ok a \<Longrightarrow> enc_ok p a (encoding p a) \<and> dec_ok p (encoding p a) (\<lambda>_. a)"
begin

lemma encodes: "ok a \<Longrightarrow> x_op s = XDR_ENCODE \<Longrightarrow> p s a = (True, put_bytes s (encoding p a), a)"
  using codec by (auto simp: enc_ok_def)

lemma decodes:
  "ok a \<Longrightarrow> x_op s = XDR_DECODE \<Longrightarrow> x_bytes s = encoding p a @ r \<Longrightarrow>
   p s b = (True, s\<lparr>x_bytes := r\<rparr>, a)"
  using codec by (auto simp: dec_ok_def)

lemma roundtrip:
  assumes "ok a"
  shows "\<exists>bs. p \<lparr>x_op = XDR_ENCODE, x_bytes = []\<rparr> a = (True, \<lparr>x_op = XDR_ENCODE, x_bytes = bs\<rparr>, a) \<and>
     (\<forall>b r. p \<lparr>x_op = XDR_DECODE, x_bytes = bs @ r\<rparr> b = (True, \<lparr>x_op = XDR_DECODE, x_bytes = r\<rparr>, a))"
  using encodes [OF assms, of "\<lparr>x_op = XDR_ENCODE, x_bytes = []\<rparr>"]
  by (intro exI [of _ "encoding p a"]) (simp add: decodes [OF assms] put_bytes_def)

text \<open>No encoding is the beginning of another: a reader knows where a message ends.\<close>

lemma prefix_free:
  assumes "ok a" and "ok b" and "encoding p a @ r = encoding p b @ t"
  shows "a = b \<and> r = t"
proof -
  let ?s = "\<lparr>x_op = XDR_DECODE, x_bytes = encoding p a @ r\<rparr>"
  have "p ?s undefined = (True, ?s\<lparr>x_bytes := r\<rparr>, a)" using assms(1) by (intro decodes) simp_all
  moreover have "p ?s undefined = (True, ?s\<lparr>x_bytes := t\<rparr>, b)" using assms(2,3) by (intro decodes) simp_all
  ultimately show ?thesis by simp
qed

end

text \<open>To show the contract, give the bytes.\<close>

lemma encoding_eq: "enc_ok p a bs \<Longrightarrow> encoding p a = bs"
  by (simp add: enc_ok_def encoding_def put_bytes_def)

lemma xdr_codecI:
  assumes "\<And>a. ok a \<Longrightarrow> \<exists>bs f. enc_ok p a bs \<and> dec_ok p bs f \<and> (\<forall>b. f b = a)"
  shows "xdr_codec p ok"
proof
  fix a assume "ok a"
  then obtain bs f where e: "enc_ok p a bs" and d: "dec_ok p bs f" and f: "\<forall>b. f b = a"
    using assms by blast
  from f have "f = (\<lambda>_. a)" by auto
  with e d show "enc_ok p a (encoding p a) \<and> dec_ok p (encoding p a) (\<lambda>_. a)"
    by (simp add: encoding_eq)
qed

subsection \<open>Rules for records\<close>

lemma enc_ok_member:
  "enc_ok p (get a) bs \<Longrightarrow> upd (\<lambda>_. get a) a = a \<Longrightarrow> enc_ok (xdr_member p get upd) a bs"
  by (simp add: enc_ok_def xdr_member_def)

lemma dec_ok_member:
  "dec_ok p bs (\<lambda>_. v) \<Longrightarrow> dec_ok (xdr_member p get upd) bs (upd (\<lambda>_. v))"
  by (simp add: dec_ok_def xdr_member_def)

lemma enc_ok_Nil: "enc_ok (xdr_all []) a []"
  by (simp add: enc_ok_def put_bytes_def)

lemma enc_ok_Cons: "enc_ok p a bs \<Longrightarrow> enc_ok (xdr_all ps) a cs \<Longrightarrow> enc_ok (xdr_all (p # ps)) a (bs @ cs)"
  by (simp add: enc_ok_def put_bytes_def)

lemma dec_ok_Nil: "dec_ok (xdr_all []) [] (\<lambda>a. a)"
  by (simp add: dec_ok_def)

lemma dec_ok_Cons:
  "dec_ok p bs f \<Longrightarrow> dec_ok (xdr_all ps) cs g \<Longrightarrow> dec_ok (xdr_all (p # ps)) (bs @ cs) (\<lambda>a. g (f a))"
  by (simp add: dec_ok_def)

lemmas enc_rules = enc_ok_Cons enc_ok_Nil enc_ok_member
lemmas dec_rules = dec_ok_Cons dec_ok_Nil dec_ok_member

subsection \<open>The primitive types\<close>

lemma length_unit_bytes [simp]: "length (unit_bytes w) = 4"
  by (simp add: unit_bytes_def Let_def)

lemma div_mod_eq_bytes:
  fixes n :: nat
  assumes "n < 4294967296"
  shows "n div 16777216 mod 256 * 16777216 + n div 65536 mod 256 * 65536
      + n div 256 mod 256 * 256 + n mod 256 = n"
proof -
  define a where "a = n div 256"
  define b where "b = a div 256"
  define c where "c = b div 256"
  have "n = a * 256 + n mod 256" "a = b * 256 + a mod 256" "b = c * 256 + b mod 256"
    by (simp_all add: a_def b_def c_def)
  moreover have "n div 65536 = b" and "n div 16777216 = c"
    by (simp_all add: a_def b_def c_def div_mult2_eq [symmetric])
  moreover have "c < 256" using assms by (simp add: a_def b_def c_def div_mult2_eq [symmetric])
  ultimately show ?thesis unfolding a_def [symmetric] by simp
qed

lemma bytes_unit_bytes [simp]: "bytes_unit (unit_bytes w) = w"
proof -
  define n where "n = unat w"
  have "n < 4294967296" using unsigned_less [of w] by (simp add: n_def)
  note eq = div_mod_eq_bytes [OF this]
  have "bytes_unit (unit_bytes w) = of_nat n"
    by (simp only: unit_bytes_def Let_def bytes_unit.simps of_char_of n_def [symmetric] eq)
  then show ?thesis by (simp add: n_def)
qed

lemma enc_ok_int: "enc_ok xdr_int v (unit_bytes v)"
  by (simp add: enc_ok_def xdr_int_def)

lemma dec_ok_int: "dec_ok xdr_int (unit_bytes v) (\<lambda>_. v)"
  by (simp add: dec_ok_def xdr_int_def get_bytes_def)

lemma enc_ok_u_int: "enc_ok xdr_u_int v (unit_bytes v)"
  by (simp add: xdr_u_int_def enc_ok_int)

lemma dec_ok_u_int: "dec_ok xdr_u_int (unit_bytes v) (\<lambda>_. v)"
  by (simp add: xdr_u_int_def dec_ok_int)

lemma enc_ok_opaque: "length b = n \<Longrightarrow> enc_ok (xdr_opaque n) b (b @ zeros (padding n))"
  by (simp add: enc_ok_def xdr_opaque_def)

lemma dec_ok_opaque: "length b = n \<Longrightarrow> dec_ok (xdr_opaque n) (b @ zeros (padding n)) (\<lambda>_. b)"
  by (simp add: dec_ok_def xdr_opaque_def get_bytes_def)

text \<open>A string that can be sent: no null character, and a length that fits a unit.\<close>

definition sendable :: "string \<Rightarrow> bool" where
  "sendable s \<longleftrightarrow> is_cstring s \<and> length s < 2 ^ 32"

definition string_bytes :: "string \<Rightarrow> char list" where
  "string_bytes s = unit_bytes (of_nat (length s)) @ s @ zeros (padding (length s))"

lemma sendable_length: "sendable s \<Longrightarrow> length s \<le> unat (- 1 :: 32 word)"
  by (simp add: sendable_def unsigned_minus_1_eq_mask mask_eq_exp_minus_1)

lemma sendable_unat: "sendable s \<Longrightarrow> unat (of_nat (length s) :: 32 word) = length s"
  by (simp add: sendable_def unat_of_nat)

lemma enc_ok_string: "sendable s \<Longrightarrow> enc_ok (xdr_string (- 1)) s (string_bytes s)"
  using sendable_length [of s] by (simp add: enc_ok_def xdr_string_def string_bytes_def)

lemma dec_ok_string:
  assumes "sendable s"
  shows "dec_ok (xdr_string (- 1)) (string_bytes s) (\<lambda>_. s)"
proof -
  have cut: "cstr s = s" using assms by (simp add: sendable_def)
  show ?thesis
    using sendable_length [OF assms] sendable_unat [OF assms]
    by (simp add: dec_ok_def xdr_string_def string_bytes_def get_bytes_def Let_def cut)
qed

lemmas enc_prims = enc_ok_int enc_ok_u_int enc_ok_opaque enc_ok_string
lemmas dec_prims = dec_ok_int dec_ok_u_int dec_ok_opaque dec_ok_string

context xdr_longs
begin

lemma enc_ok_long: "fits31 v \<Longrightarrow> enc_ok (xdr_long L) v (unit_bytes (ucast v))"
  by (simp add: enc_ok_def xdr_long_def xdr_wide_def put_long)

lemma dec_ok_long: "fits31 v \<Longrightarrow> dec_ok (xdr_long L) (unit_bytes (ucast v)) (\<lambda>_. v)"
  by (simp add: dec_ok_def xdr_long_def xdr_wide_def get_bytes_def get_long)

lemma enc_ok_u_long: "fits31 v \<Longrightarrow> enc_ok (xdr_u_long L) v (unit_bytes (ucast v))"
  by (simp add: enc_ok_def xdr_u_long_def xdr_wide_def put_u_long)

lemma dec_ok_u_long: "fits31 v \<Longrightarrow> dec_ok (xdr_u_long L) (unit_bytes (ucast v)) (\<lambda>_. v)"
  by (simp add: dec_ok_def xdr_u_long_def xdr_wide_def get_bytes_def get_u_long)

lemmas enc_longs = enc_ok_long enc_ok_u_long
lemmas dec_longs = dec_ok_long dec_ok_u_long

end

section \<open>Two implementations of the library\<close>

text \<open>
  One that refuses a \<^verbatim>\<open>long\<close> that does not fit a unit and never inlines, and one that keeps the low
  32 bits and always inlines: both satisfy the laws above.
\<close>

definition strict_library :: xdr_library where
  "strict_library = \<lparr>
     xl_inline = (\<lambda>_ _. False),
     xl_put_long = (\<lambda>v. if scast (ucast v :: 32 word) = v then Some (ucast v) else None),
     xl_get_long = scast,
     xl_put_u_long = (\<lambda>v. if ucast (ucast v :: 32 word) = v then Some (ucast v) else None),
     xl_get_u_long = ucast,
     ixdr_get_long = ucast,
     ixdr_get_u_long = ucast\<rparr>"

definition truncating_library :: xdr_library where
  "truncating_library = \<lparr>
     xl_inline = (\<lambda>s n. x_op s = XDR_ENCODE \<or> n \<le> length (x_bytes s)),
     xl_put_long = (\<lambda>v. Some (ucast v)),
     xl_get_long = scast,
     xl_put_u_long = (\<lambda>v. Some (ucast v)),
     xl_get_u_long = ucast,
     ixdr_get_long = ucast,
     ixdr_get_u_long = ucast\<rparr>"

lemma fits31_bit:
  assumes "fits31 v" and "bit v n"
  shows "n < 31"
proof -
  have "uint v < 2 ^ 31" using assms(1) by (simp add: fits31_def word_less_def)
  then have "take_bit 31 (uint v) = uint v" by (simp add: take_bit_int_eq_self)
  moreover have "bit (uint v) n"
    using assms(2) bit_imp_le_length [OF assms(2)] by (simp add: bit_uint_iff)
  ultimately show ?thesis by (metis bit_take_bit_iff)
qed

lemma fits31_ucast: "fits31 v \<Longrightarrow> (ucast (ucast v :: 32 word) :: c_long) = v"
  by (intro bit_word_eqI) (auto simp: bit_simps dest: fits31_bit)

lemma fits31_scast: "fits31 v \<Longrightarrow> (scast (ucast v :: 32 word) :: c_long) = v"
  by (intro bit_word_eqI) (auto simp: bit_simps min_def dest: fits31_bit)

lemma ucast_ucast_low: "(ucast (ucast w :: c_long) :: 32 word) = w"
  by (rule bit_word_eqI) (simp add: bit_simps)

interpretation strict: xdr_longs strict_library
  by unfold_locales (simp_all add: strict_library_def fits31_ucast fits31_scast ucast_ucast_low)

interpretation truncating: xdr_longs truncating_library
  by unfold_locales (simp_all add: truncating_library_def fits31_ucast fits31_scast ucast_ucast_low)

end
