(* ===== verification/Xdr_Codec.thy ===== *)
theory Xdr_Codec
  imports Xdr_Library
begin

text \<open>
  The routines of \<^verbatim>\<open>fuse_rpc_xdr.c\<close>, one per message, and for each the proof that it satisfies
  \<open>xdr_codec\<close> on the messages that can be sent (\<open>ok_\<close> and the message's name: strings without null
  characters, character arrays of their declared length, 64-bit members that fit a unit).
  \<^verbatim>\<open>getattr_ret\<close> and \<^verbatim>\<open>statfs_ret\<close> have a second path through an inlined piece of the buffer; it is
  modelled with both.
\<close>

section \<open>The routines\<close>

definition xdr_inline :: "xdr_library \<Rightarrow> xdrs \<Rightarrow> nat \<Rightarrow> bool" where
  \<comment> \<open>\<^verbatim>\<open>XDR_INLINE (xdrs, n)\<close> is not \<^verbatim>\<open>NULL\<close>\<close>
  "xdr_inline L s n \<longleftrightarrow> xl_inline L s n \<and> (x_op s = XDR_DECODE \<longrightarrow> n \<le> length (x_bytes s))"

definition unit_at :: "char list \<Rightarrow> nat \<Rightarrow> 32 word" where
  \<comment> \<open>the unit the \<open>k\<close>-th \<^verbatim>\<open>IXDR_GET\<close> from the piece reads\<close>
  "unit_at buf k = bytes_unit (take 4 (drop (4 * k) buf))"

definition xdr_identity :: "identity xdrproc" where
  "xdr_identity = xdr_all
    [xdr_member xdr_int is_master is_master_update,
     xdr_member xdr_int is_degraded is_degraded_update]"

definition xdr_init_arg :: "init_arg xdrproc" where
  "xdr_init_arg = xdr_all
    [xdr_member xdr_identity init_arg_server_info init_arg_server_info_update,
     xdr_member (xdr_string (- 1)) init_arg_ip init_arg_ip_update,
     xdr_member (xdr_string (- 1)) init_arg_rootdir init_arg_rootdir_update]"

definition xdr_init_ret :: "init_ret xdrproc" where
  "xdr_init_ret = xdr_all
    [xdr_member xdr_int init_ret_ret init_ret_ret_update]"

definition xdr_getattr_arg :: "getattr_arg xdrproc" where
  "xdr_getattr_arg = xdr_all
    [xdr_member (xdr_string (- 1)) getattr_arg_ip getattr_arg_ip_update,
     xdr_member (xdr_string (- 1)) getattr_arg_path getattr_arg_path_update]"

definition xdr_getattr_ret_members :: "xdr_library \<Rightarrow> getattr_ret xdrproc" where
  "xdr_getattr_ret_members L = xdr_all
    [xdr_member xdr_int getattr_ret_st_dev getattr_ret_st_dev_update,
     xdr_member xdr_int getattr_ret_st_ino getattr_ret_st_ino_update,
     xdr_member xdr_int getattr_ret_st_mode getattr_ret_st_mode_update,
     xdr_member xdr_int getattr_ret_st_nlink getattr_ret_st_nlink_update,
     xdr_member xdr_int getattr_ret_st_uid getattr_ret_st_uid_update,
     xdr_member xdr_int getattr_ret_st_gid getattr_ret_st_gid_update,
     xdr_member xdr_int getattr_ret_st_rdev getattr_ret_st_rdev_update,
     xdr_member (xdr_u_long L) getattr_ret_st_size getattr_ret_st_size_update,
     xdr_member (xdr_u_long L) getattr_ret_st_blksize getattr_ret_st_blksize_update,
     xdr_member (xdr_u_long L) getattr_ret_st_blocks getattr_ret_st_blocks_update,
     xdr_member (xdr_long L) getattr_ret_st_acc_time getattr_ret_st_acc_time_update,
     xdr_member (xdr_long L) getattr_ret_st_mod_time getattr_ret_st_mod_time_update,
     xdr_member (xdr_long L) getattr_ret_st_chg_time getattr_ret_st_chg_time_update,
     xdr_member xdr_int getattr_ret_ret getattr_ret_ret_update]"

definition xdr_getattr_ret :: "xdr_library \<Rightarrow> getattr_ret xdrproc" where
  "xdr_getattr_ret L s a = (case x_op s of
       XDR_ENCODE \<Rightarrow>
         (if \<not> xdr_inline L s (14 * BYTES_PER_XDR_UNIT) then xdr_getattr_ret_members L s a
          else (True, put_bytes s (
             IXDR_PUT_LONG (getattr_ret_st_dev a) @
             IXDR_PUT_LONG (getattr_ret_st_ino a) @
             IXDR_PUT_LONG (getattr_ret_st_mode a) @
             IXDR_PUT_LONG (getattr_ret_st_nlink a) @
             IXDR_PUT_LONG (getattr_ret_st_uid a) @
             IXDR_PUT_LONG (getattr_ret_st_gid a) @
             IXDR_PUT_LONG (getattr_ret_st_rdev a) @
             IXDR_PUT_U_LONG (getattr_ret_st_size a) @
             IXDR_PUT_U_LONG (getattr_ret_st_blksize a) @
             IXDR_PUT_U_LONG (getattr_ret_st_blocks a) @
             IXDR_PUT_LONG (getattr_ret_st_acc_time a) @
             IXDR_PUT_LONG (getattr_ret_st_mod_time a) @
             IXDR_PUT_LONG (getattr_ret_st_chg_time a) @
             IXDR_PUT_LONG (getattr_ret_ret a)), a))
     | XDR_DECODE \<Rightarrow>
         (if \<not> xdr_inline L s (14 * BYTES_PER_XDR_UNIT) then xdr_getattr_ret_members L s a
          else (let buf = take (14 * BYTES_PER_XDR_UNIT) (x_bytes s) in
            (True, s\<lparr>x_bytes := drop (14 * BYTES_PER_XDR_UNIT) (x_bytes s)\<rparr>, a\<lparr>
             getattr_ret_st_dev := ucast (ixdr_get_long L (unit_at buf 0)),
             getattr_ret_st_ino := ucast (ixdr_get_long L (unit_at buf 1)),
             getattr_ret_st_mode := ucast (ixdr_get_long L (unit_at buf 2)),
             getattr_ret_st_nlink := ucast (ixdr_get_long L (unit_at buf 3)),
             getattr_ret_st_uid := ucast (ixdr_get_long L (unit_at buf 4)),
             getattr_ret_st_gid := ucast (ixdr_get_long L (unit_at buf 5)),
             getattr_ret_st_rdev := ucast (ixdr_get_long L (unit_at buf 6)),
             getattr_ret_st_size := ixdr_get_u_long L (unit_at buf 7),
             getattr_ret_st_blksize := ixdr_get_u_long L (unit_at buf 8),
             getattr_ret_st_blocks := ixdr_get_u_long L (unit_at buf 9),
             getattr_ret_st_acc_time := ixdr_get_long L (unit_at buf 10),
             getattr_ret_st_mod_time := ixdr_get_long L (unit_at buf 11),
             getattr_ret_st_chg_time := ixdr_get_long L (unit_at buf 12),
             getattr_ret_ret := ucast (ixdr_get_long L (unit_at buf 13))\<rparr>)))
     | XDR_FREE \<Rightarrow> xdr_getattr_ret_members L s a)"

definition xdr_access_arg :: "access_arg xdrproc" where
  "xdr_access_arg = xdr_all
    [xdr_member (xdr_string (- 1)) access_arg_ip access_arg_ip_update,
     xdr_member (xdr_string (- 1)) access_arg_path access_arg_path_update,
     xdr_member xdr_int access_arg_mask access_arg_mask_update]"

definition xdr_access_ret :: "access_ret xdrproc" where
  "xdr_access_ret = xdr_all
    [xdr_member xdr_int access_ret_ret access_ret_ret_update]"

definition xdr_mkdir_arg :: "mkdir_arg xdrproc" where
  "xdr_mkdir_arg = xdr_all
    [xdr_member (xdr_string (- 1)) mkdir_arg_ip mkdir_arg_ip_update,
     xdr_member xdr_identity mkdir_arg_server_info mkdir_arg_server_info_update,
     xdr_member (xdr_string (- 1)) mkdir_arg_path mkdir_arg_path_update,
     xdr_member xdr_int mkdir_arg_mode mkdir_arg_mode_update]"

definition xdr_mkdir_ret :: "mkdir_ret xdrproc" where
  "xdr_mkdir_ret = xdr_all
    [xdr_member xdr_int mkdir_ret_ret mkdir_ret_ret_update]"

definition xdr_rmdir_arg :: "rmdir_arg xdrproc" where
  "xdr_rmdir_arg = xdr_all
    [xdr_member (xdr_string (- 1)) rmdir_arg_ip rmdir_arg_ip_update,
     xdr_member xdr_identity rmdir_arg_server_info rmdir_arg_server_info_update,
     xdr_member (xdr_string (- 1)) rmdir_arg_path rmdir_arg_path_update]"

definition xdr_rmdir_ret :: "rmdir_ret xdrproc" where
  "xdr_rmdir_ret = xdr_all
    [xdr_member xdr_int rmdir_ret_ret rmdir_ret_ret_update]"

definition xdr_opendir_arg :: "opendir_arg xdrproc" where
  "xdr_opendir_arg = xdr_all
    [xdr_member (xdr_string (- 1)) opendir_arg_ip opendir_arg_ip_update,
     xdr_member (xdr_string (- 1)) opendir_arg_path opendir_arg_path_update]"

definition xdr_opendir_ret :: "opendir_ret xdrproc" where
  "xdr_opendir_ret = xdr_all
    [xdr_member xdr_int opendir_ret_fd opendir_ret_fd_update,
     xdr_member xdr_int opendir_ret_ret opendir_ret_ret_update]"

definition xdr_readdir_arg :: "readdir_arg xdrproc" where
  "xdr_readdir_arg = xdr_all
    [xdr_member xdr_int readdir_arg_fd readdir_arg_fd_update]"

definition xdr_readdir_ret :: "readdir_ret xdrproc" where
  "xdr_readdir_ret = xdr_all
    [xdr_member xdr_int readdir_ret_count readdir_ret_count_update,
     xdr_member (xdr_opaque MAX_SIZE) readdir_ret_entries readdir_ret_entries_update,
     xdr_member xdr_int readdir_ret_ret readdir_ret_ret_update]"

definition xdr_releasedir_arg :: "releasedir_arg xdrproc" where
  "xdr_releasedir_arg = xdr_all
    [xdr_member xdr_int releasedir_arg_fd releasedir_arg_fd_update]"

definition xdr_releasedir_ret :: "releasedir_ret xdrproc" where
  "xdr_releasedir_ret = xdr_all
    [xdr_member xdr_int releasedir_ret_ret releasedir_ret_ret_update]"

definition xdr_rename_arg :: "rename_arg xdrproc" where
  "xdr_rename_arg = xdr_all
    [xdr_member (xdr_string (- 1)) rename_arg_ip rename_arg_ip_update,
     xdr_member xdr_identity rename_arg_server_info rename_arg_server_info_update,
     xdr_member (xdr_string (- 1)) rename_arg_path rename_arg_path_update,
     xdr_member (xdr_string (- 1)) rename_arg_newpath rename_arg_newpath_update]"

definition xdr_rename_ret :: "rename_ret xdrproc" where
  "xdr_rename_ret = xdr_all
    [xdr_member xdr_int rename_ret_ret rename_ret_ret_update]"

definition xdr_symlink_arg :: "symlink_arg xdrproc" where
  "xdr_symlink_arg = xdr_all
    [xdr_member (xdr_string (- 1)) symlink_arg_ip symlink_arg_ip_update,
     xdr_member xdr_identity symlink_arg_server_info symlink_arg_server_info_update,
     xdr_member (xdr_string (- 1)) symlink_arg_path symlink_arg_path_update,
     xdr_member (xdr_string (- 1)) symlink_arg_link symlink_arg_link_update]"

definition xdr_symlink_ret :: "symlink_ret xdrproc" where
  "xdr_symlink_ret = xdr_all
    [xdr_member xdr_int symlink_ret_ret symlink_ret_ret_update]"

definition xdr_link_arg :: "link_arg xdrproc" where
  "xdr_link_arg = xdr_all
    [xdr_member (xdr_string (- 1)) link_arg_ip link_arg_ip_update,
     xdr_member xdr_identity link_arg_server_info link_arg_server_info_update,
     xdr_member (xdr_string (- 1)) link_arg_path link_arg_path_update,
     xdr_member (xdr_string (- 1)) link_arg_newpath link_arg_newpath_update]"

definition xdr_link_ret :: "link_ret xdrproc" where
  "xdr_link_ret = xdr_all
    [xdr_member xdr_int link_ret_ret link_ret_ret_update]"

definition xdr_readlink_arg :: "readlink_arg xdrproc" where
  "xdr_readlink_arg = xdr_all
    [xdr_member (xdr_string (- 1)) readlink_arg_ip readlink_arg_ip_update,
     xdr_member (xdr_string (- 1)) readlink_arg_path readlink_arg_path_update,
     xdr_member xdr_u_int readlink_arg_size readlink_arg_size_update]"

definition xdr_readlink_ret :: "readlink_ret xdrproc" where
  "xdr_readlink_ret = xdr_all
    [xdr_member (xdr_opaque MAX_SIZE) readlink_ret_buffer readlink_ret_buffer_update,
     xdr_member xdr_int readlink_ret_len readlink_ret_len_update,
     xdr_member xdr_int readlink_ret_ret readlink_ret_ret_update]"

definition xdr_mknod_arg :: "mknod_arg xdrproc" where
  "xdr_mknod_arg = xdr_all
    [xdr_member (xdr_string (- 1)) mknod_arg_ip mknod_arg_ip_update,
     xdr_member xdr_identity mknod_arg_server_info mknod_arg_server_info_update,
     xdr_member (xdr_string (- 1)) mknod_arg_path mknod_arg_path_update,
     xdr_member xdr_int mknod_arg_mode mknod_arg_mode_update,
     xdr_member xdr_int mknod_arg_dev mknod_arg_dev_update]"

definition xdr_mknod_ret :: "mknod_ret xdrproc" where
  "xdr_mknod_ret = xdr_all
    [xdr_member xdr_int mknod_ret_ret mknod_ret_ret_update]"

definition xdr_utime_arg :: "xdr_library \<Rightarrow> utime_arg xdrproc" where
  "xdr_utime_arg L = xdr_all
    [xdr_member (xdr_string (- 1)) utime_arg_ip utime_arg_ip_update,
     xdr_member xdr_identity utime_arg_server_info utime_arg_server_info_update,
     xdr_member (xdr_string (- 1)) utime_arg_path utime_arg_path_update,
     xdr_member (xdr_long L) utime_arg_actime utime_arg_actime_update,
     xdr_member (xdr_long L) utime_arg_modtime utime_arg_modtime_update]"

definition xdr_utime_ret :: "utime_ret xdrproc" where
  "xdr_utime_ret = xdr_all
    [xdr_member xdr_int utime_ret_ret utime_ret_ret_update]"

definition xdr_truncate_arg :: "truncate_arg xdrproc" where
  "xdr_truncate_arg = xdr_all
    [xdr_member (xdr_string (- 1)) truncate_arg_ip truncate_arg_ip_update,
     xdr_member xdr_identity truncate_arg_server_info truncate_arg_server_info_update,
     xdr_member (xdr_string (- 1)) truncate_arg_path truncate_arg_path_update,
     xdr_member xdr_int truncate_arg_newsize truncate_arg_newsize_update]"

definition xdr_truncate_ret :: "truncate_ret xdrproc" where
  "xdr_truncate_ret = xdr_all
    [xdr_member xdr_int truncate_ret_ret truncate_ret_ret_update]"

definition xdr_chmod_arg :: "chmod_arg xdrproc" where
  "xdr_chmod_arg = xdr_all
    [xdr_member (xdr_string (- 1)) chmod_arg_ip chmod_arg_ip_update,
     xdr_member xdr_identity chmod_arg_server_info chmod_arg_server_info_update,
     xdr_member (xdr_string (- 1)) chmod_arg_path chmod_arg_path_update,
     xdr_member xdr_int chmod_arg_mode chmod_arg_mode_update]"

definition xdr_chmod_ret :: "chmod_ret xdrproc" where
  "xdr_chmod_ret = xdr_all
    [xdr_member xdr_int chmod_ret_ret chmod_ret_ret_update]"

definition xdr_chown_arg :: "chown_arg xdrproc" where
  "xdr_chown_arg = xdr_all
    [xdr_member (xdr_string (- 1)) chown_arg_ip chown_arg_ip_update,
     xdr_member xdr_identity chown_arg_server_info chown_arg_server_info_update,
     xdr_member (xdr_string (- 1)) chown_arg_path chown_arg_path_update,
     xdr_member xdr_u_int chown_arg_uid chown_arg_uid_update,
     xdr_member xdr_u_int chown_arg_gid chown_arg_gid_update]"

definition xdr_chown_ret :: "chown_ret xdrproc" where
  "xdr_chown_ret = xdr_all
    [xdr_member xdr_int chown_ret_ret chown_ret_ret_update]"

definition xdr_unlink_arg :: "unlink_arg xdrproc" where
  "xdr_unlink_arg = xdr_all
    [xdr_member (xdr_string (- 1)) unlink_arg_ip unlink_arg_ip_update,
     xdr_member xdr_identity unlink_arg_server_info unlink_arg_server_info_update,
     xdr_member (xdr_string (- 1)) unlink_arg_path unlink_arg_path_update]"

definition xdr_unlink_ret :: "unlink_ret xdrproc" where
  "xdr_unlink_ret = xdr_all
    [xdr_member xdr_int unlink_ret_ret unlink_ret_ret_update]"

definition xdr_open_arg :: "open_arg xdrproc" where
  "xdr_open_arg = xdr_all
    [xdr_member (xdr_string (- 1)) open_arg_ip open_arg_ip_update,
     xdr_member (xdr_string (- 1)) open_arg_path open_arg_path_update,
     xdr_member xdr_int open_arg_flags open_arg_flags_update]"

definition xdr_open_ret :: "open_ret xdrproc" where
  "xdr_open_ret = xdr_all
    [xdr_member xdr_int open_ret_fd open_ret_fd_update,
     xdr_member xdr_int open_ret_ret open_ret_ret_update]"

definition xdr_release_arg :: "release_arg xdrproc" where
  "xdr_release_arg = xdr_all
    [xdr_member (xdr_string (- 1)) release_arg_ip release_arg_ip_update,
     xdr_member xdr_int release_arg_fd release_arg_fd_update]"

definition xdr_release_ret :: "release_ret xdrproc" where
  "xdr_release_ret = xdr_all
    [xdr_member xdr_int release_ret_ret release_ret_ret_update]"

definition xdr_read_arg :: "read_arg xdrproc" where
  "xdr_read_arg = xdr_all
    [xdr_member (xdr_string (- 1)) read_arg_ip read_arg_ip_update,
     xdr_member xdr_int read_arg_fd read_arg_fd_update,
     xdr_member xdr_u_int read_arg_size read_arg_size_update,
     xdr_member xdr_u_int read_arg_offset read_arg_offset_update]"

definition xdr_read_ret :: "read_ret xdrproc" where
  "xdr_read_ret = xdr_all
    [xdr_member (xdr_opaque MAX_SIZE) read_ret_buffer read_ret_buffer_update,
     xdr_member xdr_int read_ret_len read_ret_len_update,
     xdr_member xdr_int read_ret_ret read_ret_ret_update]"

definition xdr_write_arg :: "write_arg xdrproc" where
  "xdr_write_arg = xdr_all
    [xdr_member (xdr_string (- 1)) write_arg_ip write_arg_ip_update,
     xdr_member xdr_identity write_arg_server_info write_arg_server_info_update,
     xdr_member xdr_int write_arg_fd write_arg_fd_update,
     xdr_member (xdr_string (- 1)) write_arg_path write_arg_path_update,
     xdr_member xdr_u_int write_arg_size write_arg_size_update,
     xdr_member xdr_u_int write_arg_offset write_arg_offset_update,
     xdr_member (xdr_opaque MAX_SIZE) write_arg_buffer write_arg_buffer_update]"

definition xdr_write_ret :: "write_ret xdrproc" where
  "xdr_write_ret = xdr_all
    [xdr_member xdr_int write_ret_len write_ret_len_update,
     xdr_member xdr_int write_ret_ret write_ret_ret_update]"

definition xdr_statfs_arg :: "statfs_arg xdrproc" where
  "xdr_statfs_arg = xdr_all
    [xdr_member (xdr_string (- 1)) statfs_arg_path statfs_arg_path_update]"

definition xdr_statfs_ret_members :: "xdr_library \<Rightarrow> statfs_ret xdrproc" where
  "xdr_statfs_ret_members L = xdr_all
    [xdr_member (xdr_u_long L) statfs_ret_f_bsize statfs_ret_f_bsize_update,
     xdr_member (xdr_u_long L) statfs_ret_f_frsize statfs_ret_f_frsize_update,
     xdr_member (xdr_u_long L) statfs_ret_f_blocks statfs_ret_f_blocks_update,
     xdr_member (xdr_u_long L) statfs_ret_f_bfree statfs_ret_f_bfree_update,
     xdr_member (xdr_u_long L) statfs_ret_f_bavail statfs_ret_f_bavail_update,
     xdr_member (xdr_u_long L) statfs_ret_f_files statfs_ret_f_files_update,
     xdr_member (xdr_u_long L) statfs_ret_f_ffree statfs_ret_f_ffree_update,
     xdr_member (xdr_u_long L) statfs_ret_f_favail statfs_ret_f_favail_update,
     xdr_member (xdr_u_long L) statfs_ret_f_fsid statfs_ret_f_fsid_update,
     xdr_member (xdr_u_long L) statfs_ret_f_flag statfs_ret_f_flag_update,
     xdr_member (xdr_u_long L) statfs_ret_f_namemax statfs_ret_f_namemax_update,
     xdr_member xdr_int statfs_ret_ret statfs_ret_ret_update]"

definition xdr_statfs_ret :: "xdr_library \<Rightarrow> statfs_ret xdrproc" where
  "xdr_statfs_ret L s a = (case x_op s of
       XDR_ENCODE \<Rightarrow>
         (if \<not> xdr_inline L s (12 * BYTES_PER_XDR_UNIT) then xdr_statfs_ret_members L s a
          else (True, put_bytes s (
             IXDR_PUT_U_LONG (statfs_ret_f_bsize a) @
             IXDR_PUT_U_LONG (statfs_ret_f_frsize a) @
             IXDR_PUT_U_LONG (statfs_ret_f_blocks a) @
             IXDR_PUT_U_LONG (statfs_ret_f_bfree a) @
             IXDR_PUT_U_LONG (statfs_ret_f_bavail a) @
             IXDR_PUT_U_LONG (statfs_ret_f_files a) @
             IXDR_PUT_U_LONG (statfs_ret_f_ffree a) @
             IXDR_PUT_U_LONG (statfs_ret_f_favail a) @
             IXDR_PUT_U_LONG (statfs_ret_f_fsid a) @
             IXDR_PUT_U_LONG (statfs_ret_f_flag a) @
             IXDR_PUT_U_LONG (statfs_ret_f_namemax a) @
             IXDR_PUT_LONG (statfs_ret_ret a)), a))
     | XDR_DECODE \<Rightarrow>
         (if \<not> xdr_inline L s (12 * BYTES_PER_XDR_UNIT) then xdr_statfs_ret_members L s a
          else (let buf = take (12 * BYTES_PER_XDR_UNIT) (x_bytes s) in
            (True, s\<lparr>x_bytes := drop (12 * BYTES_PER_XDR_UNIT) (x_bytes s)\<rparr>, a\<lparr>
             statfs_ret_f_bsize := ixdr_get_u_long L (unit_at buf 0),
             statfs_ret_f_frsize := ixdr_get_u_long L (unit_at buf 1),
             statfs_ret_f_blocks := ixdr_get_u_long L (unit_at buf 2),
             statfs_ret_f_bfree := ixdr_get_u_long L (unit_at buf 3),
             statfs_ret_f_bavail := ixdr_get_u_long L (unit_at buf 4),
             statfs_ret_f_files := ixdr_get_u_long L (unit_at buf 5),
             statfs_ret_f_ffree := ixdr_get_u_long L (unit_at buf 6),
             statfs_ret_f_favail := ixdr_get_u_long L (unit_at buf 7),
             statfs_ret_f_fsid := ixdr_get_u_long L (unit_at buf 8),
             statfs_ret_f_flag := ixdr_get_u_long L (unit_at buf 9),
             statfs_ret_f_namemax := ixdr_get_u_long L (unit_at buf 10),
             statfs_ret_ret := ucast (ixdr_get_long L (unit_at buf 11))\<rparr>)))
     | XDR_FREE \<Rightarrow> xdr_statfs_ret_members L s a)"

section \<open>The messages that can be sent\<close>

definition ok_init_arg :: "init_arg \<Rightarrow> bool" where
  "ok_init_arg a \<longleftrightarrow> sendable (init_arg_ip a) \<and>
     sendable (init_arg_rootdir a)"

definition ok_getattr_arg :: "getattr_arg \<Rightarrow> bool" where
  "ok_getattr_arg a \<longleftrightarrow> sendable (getattr_arg_ip a) \<and>
     sendable (getattr_arg_path a)"

definition ok_getattr_ret :: "getattr_ret \<Rightarrow> bool" where
  "ok_getattr_ret a \<longleftrightarrow> fits31 (getattr_ret_st_size a) \<and>
     fits31 (getattr_ret_st_blksize a) \<and>
     fits31 (getattr_ret_st_blocks a) \<and>
     fits31 (getattr_ret_st_acc_time a) \<and>
     fits31 (getattr_ret_st_mod_time a) \<and>
     fits31 (getattr_ret_st_chg_time a)"

definition ok_access_arg :: "access_arg \<Rightarrow> bool" where
  "ok_access_arg a \<longleftrightarrow> sendable (access_arg_ip a) \<and>
     sendable (access_arg_path a)"

definition ok_mkdir_arg :: "mkdir_arg \<Rightarrow> bool" where
  "ok_mkdir_arg a \<longleftrightarrow> sendable (mkdir_arg_ip a) \<and>
     sendable (mkdir_arg_path a)"

definition ok_rmdir_arg :: "rmdir_arg \<Rightarrow> bool" where
  "ok_rmdir_arg a \<longleftrightarrow> sendable (rmdir_arg_ip a) \<and>
     sendable (rmdir_arg_path a)"

definition ok_opendir_arg :: "opendir_arg \<Rightarrow> bool" where
  "ok_opendir_arg a \<longleftrightarrow> sendable (opendir_arg_ip a) \<and>
     sendable (opendir_arg_path a)"

definition ok_readdir_ret :: "readdir_ret \<Rightarrow> bool" where
  "ok_readdir_ret a \<longleftrightarrow> length (readdir_ret_entries a) = MAX_SIZE"

definition ok_rename_arg :: "rename_arg \<Rightarrow> bool" where
  "ok_rename_arg a \<longleftrightarrow> sendable (rename_arg_ip a) \<and>
     sendable (rename_arg_path a) \<and>
     sendable (rename_arg_newpath a)"

definition ok_symlink_arg :: "symlink_arg \<Rightarrow> bool" where
  "ok_symlink_arg a \<longleftrightarrow> sendable (symlink_arg_ip a) \<and>
     sendable (symlink_arg_path a) \<and>
     sendable (symlink_arg_link a)"

definition ok_link_arg :: "link_arg \<Rightarrow> bool" where
  "ok_link_arg a \<longleftrightarrow> sendable (link_arg_ip a) \<and>
     sendable (link_arg_path a) \<and>
     sendable (link_arg_newpath a)"

definition ok_readlink_arg :: "readlink_arg \<Rightarrow> bool" where
  "ok_readlink_arg a \<longleftrightarrow> sendable (readlink_arg_ip a) \<and>
     sendable (readlink_arg_path a)"

definition ok_readlink_ret :: "readlink_ret \<Rightarrow> bool" where
  "ok_readlink_ret a \<longleftrightarrow> length (readlink_ret_buffer a) = MAX_SIZE"

definition ok_mknod_arg :: "mknod_arg \<Rightarrow> bool" where
  "ok_mknod_arg a \<longleftrightarrow> sendable (mknod_arg_ip a) \<and>
     sendable (mknod_arg_path a)"

definition ok_utime_arg :: "utime_arg \<Rightarrow> bool" where
  "ok_utime_arg a \<longleftrightarrow> sendable (utime_arg_ip a) \<and>
     sendable (utime_arg_path a) \<and>
     fits31 (utime_arg_actime a) \<and>
     fits31 (utime_arg_modtime a)"

definition ok_truncate_arg :: "truncate_arg \<Rightarrow> bool" where
  "ok_truncate_arg a \<longleftrightarrow> sendable (truncate_arg_ip a) \<and>
     sendable (truncate_arg_path a)"

definition ok_chmod_arg :: "chmod_arg \<Rightarrow> bool" where
  "ok_chmod_arg a \<longleftrightarrow> sendable (chmod_arg_ip a) \<and>
     sendable (chmod_arg_path a)"

definition ok_chown_arg :: "chown_arg \<Rightarrow> bool" where
  "ok_chown_arg a \<longleftrightarrow> sendable (chown_arg_ip a) \<and>
     sendable (chown_arg_path a)"

definition ok_unlink_arg :: "unlink_arg \<Rightarrow> bool" where
  "ok_unlink_arg a \<longleftrightarrow> sendable (unlink_arg_ip a) \<and>
     sendable (unlink_arg_path a)"

definition ok_open_arg :: "open_arg \<Rightarrow> bool" where
  "ok_open_arg a \<longleftrightarrow> sendable (open_arg_ip a) \<and>
     sendable (open_arg_path a)"

definition ok_release_arg :: "release_arg \<Rightarrow> bool" where
  "ok_release_arg a \<longleftrightarrow> sendable (release_arg_ip a)"

definition ok_read_arg :: "read_arg \<Rightarrow> bool" where
  "ok_read_arg a \<longleftrightarrow> sendable (read_arg_ip a)"

definition ok_read_ret :: "read_ret \<Rightarrow> bool" where
  "ok_read_ret a \<longleftrightarrow> length (read_ret_buffer a) = MAX_SIZE"

definition ok_write_arg :: "write_arg \<Rightarrow> bool" where
  "ok_write_arg a \<longleftrightarrow> sendable (write_arg_ip a) \<and>
     sendable (write_arg_path a) \<and>
     length (write_arg_buffer a) = MAX_SIZE"

definition ok_statfs_arg :: "statfs_arg \<Rightarrow> bool" where
  "ok_statfs_arg a \<longleftrightarrow> sendable (statfs_arg_path a)"

definition ok_statfs_ret :: "statfs_ret \<Rightarrow> bool" where
  "ok_statfs_ret a \<longleftrightarrow> fits31 (statfs_ret_f_bsize a) \<and>
     fits31 (statfs_ret_f_frsize a) \<and>
     fits31 (statfs_ret_f_blocks a) \<and>
     fits31 (statfs_ret_f_bfree a) \<and>
     fits31 (statfs_ret_f_bavail a) \<and>
     fits31 (statfs_ret_f_files a) \<and>
     fits31 (statfs_ret_f_ffree a) \<and>
     fits31 (statfs_ret_f_favail a) \<and>
     fits31 (statfs_ret_f_fsid a) \<and>
     fits31 (statfs_ret_f_flag a) \<and>
     fits31 (statfs_ret_f_namemax a)"

section \<open>Every routine satisfies the contract\<close>

lemma xdr_codec_identity: "xdr_codec xdr_identity (\<lambda>_. True)"
proof (rule xdr_codecI)
  fix a assume "True"
  then show "\<exists>bs f. enc_ok xdr_identity a bs \<and> dec_ok xdr_identity bs f \<and> (\<forall>b. f b = a)"
    unfolding xdr_identity_def
    by - (rule exI conjI enc_rules dec_rules enc_prims dec_prims | simp)+
qed

interpretation identity: xdr_codec xdr_identity "(\<lambda>_. True)"
  by (rule xdr_codec_identity)

lemma enc_ok_identity: "enc_ok xdr_identity i (encoding xdr_identity i)"
  using identity.codec by blast

lemma dec_ok_identity: "dec_ok xdr_identity (encoding xdr_identity i) (\<lambda>_. i)"
  using identity.codec by blast

lemma xdr_codec_init_arg: "xdr_codec xdr_init_arg ok_init_arg"
proof (rule xdr_codecI)
  fix a assume "ok_init_arg a"
  then show "\<exists>bs f. enc_ok xdr_init_arg a bs \<and> dec_ok xdr_init_arg bs f \<and> (\<forall>b. f b = a)"
    unfolding xdr_init_arg_def
    by - (rule exI conjI enc_rules dec_rules enc_prims dec_prims enc_ok_identity dec_ok_identity | simp add: ok_init_arg_def)+
qed

interpretation init_arg: xdr_codec xdr_init_arg "ok_init_arg"
  by (rule xdr_codec_init_arg)

lemma xdr_codec_init_ret: "xdr_codec xdr_init_ret (\<lambda>_. True)"
proof (rule xdr_codecI)
  fix a assume "True"
  then show "\<exists>bs f. enc_ok xdr_init_ret a bs \<and> dec_ok xdr_init_ret bs f \<and> (\<forall>b. f b = a)"
    unfolding xdr_init_ret_def
    by - (rule exI conjI enc_rules dec_rules enc_prims dec_prims | simp)+
qed

interpretation init_ret: xdr_codec xdr_init_ret "(\<lambda>_. True)"
  by (rule xdr_codec_init_ret)

lemma xdr_codec_getattr_arg: "xdr_codec xdr_getattr_arg ok_getattr_arg"
proof (rule xdr_codecI)
  fix a assume "ok_getattr_arg a"
  then show "\<exists>bs f. enc_ok xdr_getattr_arg a bs \<and> dec_ok xdr_getattr_arg bs f \<and> (\<forall>b. f b = a)"
    unfolding xdr_getattr_arg_def
    by - (rule exI conjI enc_rules dec_rules enc_prims dec_prims | simp add: ok_getattr_arg_def)+
qed

interpretation getattr_arg: xdr_codec xdr_getattr_arg "ok_getattr_arg"
  by (rule xdr_codec_getattr_arg)

lemma xdr_codec_access_arg: "xdr_codec xdr_access_arg ok_access_arg"
proof (rule xdr_codecI)
  fix a assume "ok_access_arg a"
  then show "\<exists>bs f. enc_ok xdr_access_arg a bs \<and> dec_ok xdr_access_arg bs f \<and> (\<forall>b. f b = a)"
    unfolding xdr_access_arg_def
    by - (rule exI conjI enc_rules dec_rules enc_prims dec_prims | simp add: ok_access_arg_def)+
qed

interpretation access_arg: xdr_codec xdr_access_arg "ok_access_arg"
  by (rule xdr_codec_access_arg)

lemma xdr_codec_access_ret: "xdr_codec xdr_access_ret (\<lambda>_. True)"
proof (rule xdr_codecI)
  fix a assume "True"
  then show "\<exists>bs f. enc_ok xdr_access_ret a bs \<and> dec_ok xdr_access_ret bs f \<and> (\<forall>b. f b = a)"
    unfolding xdr_access_ret_def
    by - (rule exI conjI enc_rules dec_rules enc_prims dec_prims | simp)+
qed

interpretation access_ret: xdr_codec xdr_access_ret "(\<lambda>_. True)"
  by (rule xdr_codec_access_ret)

lemma xdr_codec_mkdir_arg: "xdr_codec xdr_mkdir_arg ok_mkdir_arg"
proof (rule xdr_codecI)
  fix a assume "ok_mkdir_arg a"
  then show "\<exists>bs f. enc_ok xdr_mkdir_arg a bs \<and> dec_ok xdr_mkdir_arg bs f \<and> (\<forall>b. f b = a)"
    unfolding xdr_mkdir_arg_def
    by - (rule exI conjI enc_rules dec_rules enc_prims dec_prims enc_ok_identity dec_ok_identity | simp add: ok_mkdir_arg_def)+
qed

interpretation mkdir_arg: xdr_codec xdr_mkdir_arg "ok_mkdir_arg"
  by (rule xdr_codec_mkdir_arg)

lemma xdr_codec_mkdir_ret: "xdr_codec xdr_mkdir_ret (\<lambda>_. True)"
proof (rule xdr_codecI)
  fix a assume "True"
  then show "\<exists>bs f. enc_ok xdr_mkdir_ret a bs \<and> dec_ok xdr_mkdir_ret bs f \<and> (\<forall>b. f b = a)"
    unfolding xdr_mkdir_ret_def
    by - (rule exI conjI enc_rules dec_rules enc_prims dec_prims | simp)+
qed

interpretation mkdir_ret: xdr_codec xdr_mkdir_ret "(\<lambda>_. True)"
  by (rule xdr_codec_mkdir_ret)

lemma xdr_codec_rmdir_arg: "xdr_codec xdr_rmdir_arg ok_rmdir_arg"
proof (rule xdr_codecI)
  fix a assume "ok_rmdir_arg a"
  then show "\<exists>bs f. enc_ok xdr_rmdir_arg a bs \<and> dec_ok xdr_rmdir_arg bs f \<and> (\<forall>b. f b = a)"
    unfolding xdr_rmdir_arg_def
    by - (rule exI conjI enc_rules dec_rules enc_prims dec_prims enc_ok_identity dec_ok_identity | simp add: ok_rmdir_arg_def)+
qed

interpretation rmdir_arg: xdr_codec xdr_rmdir_arg "ok_rmdir_arg"
  by (rule xdr_codec_rmdir_arg)

lemma xdr_codec_rmdir_ret: "xdr_codec xdr_rmdir_ret (\<lambda>_. True)"
proof (rule xdr_codecI)
  fix a assume "True"
  then show "\<exists>bs f. enc_ok xdr_rmdir_ret a bs \<and> dec_ok xdr_rmdir_ret bs f \<and> (\<forall>b. f b = a)"
    unfolding xdr_rmdir_ret_def
    by - (rule exI conjI enc_rules dec_rules enc_prims dec_prims | simp)+
qed

interpretation rmdir_ret: xdr_codec xdr_rmdir_ret "(\<lambda>_. True)"
  by (rule xdr_codec_rmdir_ret)

lemma xdr_codec_opendir_arg: "xdr_codec xdr_opendir_arg ok_opendir_arg"
proof (rule xdr_codecI)
  fix a assume "ok_opendir_arg a"
  then show "\<exists>bs f. enc_ok xdr_opendir_arg a bs \<and> dec_ok xdr_opendir_arg bs f \<and> (\<forall>b. f b = a)"
    unfolding xdr_opendir_arg_def
    by - (rule exI conjI enc_rules dec_rules enc_prims dec_prims | simp add: ok_opendir_arg_def)+
qed

interpretation opendir_arg: xdr_codec xdr_opendir_arg "ok_opendir_arg"
  by (rule xdr_codec_opendir_arg)

lemma xdr_codec_opendir_ret: "xdr_codec xdr_opendir_ret (\<lambda>_. True)"
proof (rule xdr_codecI)
  fix a assume "True"
  then show "\<exists>bs f. enc_ok xdr_opendir_ret a bs \<and> dec_ok xdr_opendir_ret bs f \<and> (\<forall>b. f b = a)"
    unfolding xdr_opendir_ret_def
    by - (rule exI conjI enc_rules dec_rules enc_prims dec_prims | simp)+
qed

interpretation opendir_ret: xdr_codec xdr_opendir_ret "(\<lambda>_. True)"
  by (rule xdr_codec_opendir_ret)

lemma xdr_codec_readdir_arg: "xdr_codec xdr_readdir_arg (\<lambda>_. True)"
proof (rule xdr_codecI)
  fix a assume "True"
  then show "\<exists>bs f. enc_ok xdr_readdir_arg a bs \<and> dec_ok xdr_readdir_arg bs f \<and> (\<forall>b. f b = a)"
    unfolding xdr_readdir_arg_def
    by - (rule exI conjI enc_rules dec_rules enc_prims dec_prims | simp)+
qed

interpretation readdir_arg: xdr_codec xdr_readdir_arg "(\<lambda>_. True)"
  by (rule xdr_codec_readdir_arg)

lemma xdr_codec_readdir_ret: "xdr_codec xdr_readdir_ret ok_readdir_ret"
proof (rule xdr_codecI)
  fix a assume "ok_readdir_ret a"
  then show "\<exists>bs f. enc_ok xdr_readdir_ret a bs \<and> dec_ok xdr_readdir_ret bs f \<and> (\<forall>b. f b = a)"
    unfolding xdr_readdir_ret_def
    by - (rule exI conjI enc_rules dec_rules enc_prims dec_prims | simp add: ok_readdir_ret_def)+
qed

interpretation readdir_ret: xdr_codec xdr_readdir_ret "ok_readdir_ret"
  by (rule xdr_codec_readdir_ret)

lemma xdr_codec_releasedir_arg: "xdr_codec xdr_releasedir_arg (\<lambda>_. True)"
proof (rule xdr_codecI)
  fix a assume "True"
  then show "\<exists>bs f. enc_ok xdr_releasedir_arg a bs \<and> dec_ok xdr_releasedir_arg bs f \<and> (\<forall>b. f b = a)"
    unfolding xdr_releasedir_arg_def
    by - (rule exI conjI enc_rules dec_rules enc_prims dec_prims | simp)+
qed

interpretation releasedir_arg: xdr_codec xdr_releasedir_arg "(\<lambda>_. True)"
  by (rule xdr_codec_releasedir_arg)

lemma xdr_codec_releasedir_ret: "xdr_codec xdr_releasedir_ret (\<lambda>_. True)"
proof (rule xdr_codecI)
  fix a assume "True"
  then show "\<exists>bs f. enc_ok xdr_releasedir_ret a bs \<and> dec_ok xdr_releasedir_ret bs f \<and> (\<forall>b. f b = a)"
    unfolding xdr_releasedir_ret_def
    by - (rule exI conjI enc_rules dec_rules enc_prims dec_prims | simp)+
qed

interpretation releasedir_ret: xdr_codec xdr_releasedir_ret "(\<lambda>_. True)"
  by (rule xdr_codec_releasedir_ret)

lemma xdr_codec_rename_arg: "xdr_codec xdr_rename_arg ok_rename_arg"
proof (rule xdr_codecI)
  fix a assume "ok_rename_arg a"
  then show "\<exists>bs f. enc_ok xdr_rename_arg a bs \<and> dec_ok xdr_rename_arg bs f \<and> (\<forall>b. f b = a)"
    unfolding xdr_rename_arg_def
    by - (rule exI conjI enc_rules dec_rules enc_prims dec_prims enc_ok_identity dec_ok_identity | simp add: ok_rename_arg_def)+
qed

interpretation rename_arg: xdr_codec xdr_rename_arg "ok_rename_arg"
  by (rule xdr_codec_rename_arg)

lemma xdr_codec_rename_ret: "xdr_codec xdr_rename_ret (\<lambda>_. True)"
proof (rule xdr_codecI)
  fix a assume "True"
  then show "\<exists>bs f. enc_ok xdr_rename_ret a bs \<and> dec_ok xdr_rename_ret bs f \<and> (\<forall>b. f b = a)"
    unfolding xdr_rename_ret_def
    by - (rule exI conjI enc_rules dec_rules enc_prims dec_prims | simp)+
qed

interpretation rename_ret: xdr_codec xdr_rename_ret "(\<lambda>_. True)"
  by (rule xdr_codec_rename_ret)

lemma xdr_codec_symlink_arg: "xdr_codec xdr_symlink_arg ok_symlink_arg"
proof (rule xdr_codecI)
  fix a assume "ok_symlink_arg a"
  then show "\<exists>bs f. enc_ok xdr_symlink_arg a bs \<and> dec_ok xdr_symlink_arg bs f \<and> (\<forall>b. f b = a)"
    unfolding xdr_symlink_arg_def
    by - (rule exI conjI enc_rules dec_rules enc_prims dec_prims enc_ok_identity dec_ok_identity | simp add: ok_symlink_arg_def)+
qed

interpretation symlink_arg: xdr_codec xdr_symlink_arg "ok_symlink_arg"
  by (rule xdr_codec_symlink_arg)

lemma xdr_codec_symlink_ret: "xdr_codec xdr_symlink_ret (\<lambda>_. True)"
proof (rule xdr_codecI)
  fix a assume "True"
  then show "\<exists>bs f. enc_ok xdr_symlink_ret a bs \<and> dec_ok xdr_symlink_ret bs f \<and> (\<forall>b. f b = a)"
    unfolding xdr_symlink_ret_def
    by - (rule exI conjI enc_rules dec_rules enc_prims dec_prims | simp)+
qed

interpretation symlink_ret: xdr_codec xdr_symlink_ret "(\<lambda>_. True)"
  by (rule xdr_codec_symlink_ret)

lemma xdr_codec_link_arg: "xdr_codec xdr_link_arg ok_link_arg"
proof (rule xdr_codecI)
  fix a assume "ok_link_arg a"
  then show "\<exists>bs f. enc_ok xdr_link_arg a bs \<and> dec_ok xdr_link_arg bs f \<and> (\<forall>b. f b = a)"
    unfolding xdr_link_arg_def
    by - (rule exI conjI enc_rules dec_rules enc_prims dec_prims enc_ok_identity dec_ok_identity | simp add: ok_link_arg_def)+
qed

interpretation link_arg: xdr_codec xdr_link_arg "ok_link_arg"
  by (rule xdr_codec_link_arg)

lemma xdr_codec_link_ret: "xdr_codec xdr_link_ret (\<lambda>_. True)"
proof (rule xdr_codecI)
  fix a assume "True"
  then show "\<exists>bs f. enc_ok xdr_link_ret a bs \<and> dec_ok xdr_link_ret bs f \<and> (\<forall>b. f b = a)"
    unfolding xdr_link_ret_def
    by - (rule exI conjI enc_rules dec_rules enc_prims dec_prims | simp)+
qed

interpretation link_ret: xdr_codec xdr_link_ret "(\<lambda>_. True)"
  by (rule xdr_codec_link_ret)

lemma xdr_codec_readlink_arg: "xdr_codec xdr_readlink_arg ok_readlink_arg"
proof (rule xdr_codecI)
  fix a assume "ok_readlink_arg a"
  then show "\<exists>bs f. enc_ok xdr_readlink_arg a bs \<and> dec_ok xdr_readlink_arg bs f \<and> (\<forall>b. f b = a)"
    unfolding xdr_readlink_arg_def
    by - (rule exI conjI enc_rules dec_rules enc_prims dec_prims | simp add: ok_readlink_arg_def)+
qed

interpretation readlink_arg: xdr_codec xdr_readlink_arg "ok_readlink_arg"
  by (rule xdr_codec_readlink_arg)

lemma xdr_codec_readlink_ret: "xdr_codec xdr_readlink_ret ok_readlink_ret"
proof (rule xdr_codecI)
  fix a assume "ok_readlink_ret a"
  then show "\<exists>bs f. enc_ok xdr_readlink_ret a bs \<and> dec_ok xdr_readlink_ret bs f \<and> (\<forall>b. f b = a)"
    unfolding xdr_readlink_ret_def
    by - (rule exI conjI enc_rules dec_rules enc_prims dec_prims | simp add: ok_readlink_ret_def)+
qed

interpretation readlink_ret: xdr_codec xdr_readlink_ret "ok_readlink_ret"
  by (rule xdr_codec_readlink_ret)

lemma xdr_codec_mknod_arg: "xdr_codec xdr_mknod_arg ok_mknod_arg"
proof (rule xdr_codecI)
  fix a assume "ok_mknod_arg a"
  then show "\<exists>bs f. enc_ok xdr_mknod_arg a bs \<and> dec_ok xdr_mknod_arg bs f \<and> (\<forall>b. f b = a)"
    unfolding xdr_mknod_arg_def
    by - (rule exI conjI enc_rules dec_rules enc_prims dec_prims enc_ok_identity dec_ok_identity | simp add: ok_mknod_arg_def)+
qed

interpretation mknod_arg: xdr_codec xdr_mknod_arg "ok_mknod_arg"
  by (rule xdr_codec_mknod_arg)

lemma xdr_codec_mknod_ret: "xdr_codec xdr_mknod_ret (\<lambda>_. True)"
proof (rule xdr_codecI)
  fix a assume "True"
  then show "\<exists>bs f. enc_ok xdr_mknod_ret a bs \<and> dec_ok xdr_mknod_ret bs f \<and> (\<forall>b. f b = a)"
    unfolding xdr_mknod_ret_def
    by - (rule exI conjI enc_rules dec_rules enc_prims dec_prims | simp)+
qed

interpretation mknod_ret: xdr_codec xdr_mknod_ret "(\<lambda>_. True)"
  by (rule xdr_codec_mknod_ret)

lemma xdr_codec_utime_ret: "xdr_codec xdr_utime_ret (\<lambda>_. True)"
proof (rule xdr_codecI)
  fix a assume "True"
  then show "\<exists>bs f. enc_ok xdr_utime_ret a bs \<and> dec_ok xdr_utime_ret bs f \<and> (\<forall>b. f b = a)"
    unfolding xdr_utime_ret_def
    by - (rule exI conjI enc_rules dec_rules enc_prims dec_prims | simp)+
qed

interpretation utime_ret: xdr_codec xdr_utime_ret "(\<lambda>_. True)"
  by (rule xdr_codec_utime_ret)

lemma xdr_codec_truncate_arg: "xdr_codec xdr_truncate_arg ok_truncate_arg"
proof (rule xdr_codecI)
  fix a assume "ok_truncate_arg a"
  then show "\<exists>bs f. enc_ok xdr_truncate_arg a bs \<and> dec_ok xdr_truncate_arg bs f \<and> (\<forall>b. f b = a)"
    unfolding xdr_truncate_arg_def
    by - (rule exI conjI enc_rules dec_rules enc_prims dec_prims enc_ok_identity dec_ok_identity | simp add: ok_truncate_arg_def)+
qed

interpretation truncate_arg: xdr_codec xdr_truncate_arg "ok_truncate_arg"
  by (rule xdr_codec_truncate_arg)

lemma xdr_codec_truncate_ret: "xdr_codec xdr_truncate_ret (\<lambda>_. True)"
proof (rule xdr_codecI)
  fix a assume "True"
  then show "\<exists>bs f. enc_ok xdr_truncate_ret a bs \<and> dec_ok xdr_truncate_ret bs f \<and> (\<forall>b. f b = a)"
    unfolding xdr_truncate_ret_def
    by - (rule exI conjI enc_rules dec_rules enc_prims dec_prims | simp)+
qed

interpretation truncate_ret: xdr_codec xdr_truncate_ret "(\<lambda>_. True)"
  by (rule xdr_codec_truncate_ret)

lemma xdr_codec_chmod_arg: "xdr_codec xdr_chmod_arg ok_chmod_arg"
proof (rule xdr_codecI)
  fix a assume "ok_chmod_arg a"
  then show "\<exists>bs f. enc_ok xdr_chmod_arg a bs \<and> dec_ok xdr_chmod_arg bs f \<and> (\<forall>b. f b = a)"
    unfolding xdr_chmod_arg_def
    by - (rule exI conjI enc_rules dec_rules enc_prims dec_prims enc_ok_identity dec_ok_identity | simp add: ok_chmod_arg_def)+
qed

interpretation chmod_arg: xdr_codec xdr_chmod_arg "ok_chmod_arg"
  by (rule xdr_codec_chmod_arg)

lemma xdr_codec_chmod_ret: "xdr_codec xdr_chmod_ret (\<lambda>_. True)"
proof (rule xdr_codecI)
  fix a assume "True"
  then show "\<exists>bs f. enc_ok xdr_chmod_ret a bs \<and> dec_ok xdr_chmod_ret bs f \<and> (\<forall>b. f b = a)"
    unfolding xdr_chmod_ret_def
    by - (rule exI conjI enc_rules dec_rules enc_prims dec_prims | simp)+
qed

interpretation chmod_ret: xdr_codec xdr_chmod_ret "(\<lambda>_. True)"
  by (rule xdr_codec_chmod_ret)

lemma xdr_codec_chown_arg: "xdr_codec xdr_chown_arg ok_chown_arg"
proof (rule xdr_codecI)
  fix a assume "ok_chown_arg a"
  then show "\<exists>bs f. enc_ok xdr_chown_arg a bs \<and> dec_ok xdr_chown_arg bs f \<and> (\<forall>b. f b = a)"
    unfolding xdr_chown_arg_def
    by - (rule exI conjI enc_rules dec_rules enc_prims dec_prims enc_ok_identity dec_ok_identity | simp add: ok_chown_arg_def)+
qed

interpretation chown_arg: xdr_codec xdr_chown_arg "ok_chown_arg"
  by (rule xdr_codec_chown_arg)

lemma xdr_codec_chown_ret: "xdr_codec xdr_chown_ret (\<lambda>_. True)"
proof (rule xdr_codecI)
  fix a assume "True"
  then show "\<exists>bs f. enc_ok xdr_chown_ret a bs \<and> dec_ok xdr_chown_ret bs f \<and> (\<forall>b. f b = a)"
    unfolding xdr_chown_ret_def
    by - (rule exI conjI enc_rules dec_rules enc_prims dec_prims | simp)+
qed

interpretation chown_ret: xdr_codec xdr_chown_ret "(\<lambda>_. True)"
  by (rule xdr_codec_chown_ret)

lemma xdr_codec_unlink_arg: "xdr_codec xdr_unlink_arg ok_unlink_arg"
proof (rule xdr_codecI)
  fix a assume "ok_unlink_arg a"
  then show "\<exists>bs f. enc_ok xdr_unlink_arg a bs \<and> dec_ok xdr_unlink_arg bs f \<and> (\<forall>b. f b = a)"
    unfolding xdr_unlink_arg_def
    by - (rule exI conjI enc_rules dec_rules enc_prims dec_prims enc_ok_identity dec_ok_identity | simp add: ok_unlink_arg_def)+
qed

interpretation unlink_arg: xdr_codec xdr_unlink_arg "ok_unlink_arg"
  by (rule xdr_codec_unlink_arg)

lemma xdr_codec_unlink_ret: "xdr_codec xdr_unlink_ret (\<lambda>_. True)"
proof (rule xdr_codecI)
  fix a assume "True"
  then show "\<exists>bs f. enc_ok xdr_unlink_ret a bs \<and> dec_ok xdr_unlink_ret bs f \<and> (\<forall>b. f b = a)"
    unfolding xdr_unlink_ret_def
    by - (rule exI conjI enc_rules dec_rules enc_prims dec_prims | simp)+
qed

interpretation unlink_ret: xdr_codec xdr_unlink_ret "(\<lambda>_. True)"
  by (rule xdr_codec_unlink_ret)

lemma xdr_codec_open_arg: "xdr_codec xdr_open_arg ok_open_arg"
proof (rule xdr_codecI)
  fix a assume "ok_open_arg a"
  then show "\<exists>bs f. enc_ok xdr_open_arg a bs \<and> dec_ok xdr_open_arg bs f \<and> (\<forall>b. f b = a)"
    unfolding xdr_open_arg_def
    by - (rule exI conjI enc_rules dec_rules enc_prims dec_prims | simp add: ok_open_arg_def)+
qed

interpretation open_arg: xdr_codec xdr_open_arg "ok_open_arg"
  by (rule xdr_codec_open_arg)

lemma xdr_codec_open_ret: "xdr_codec xdr_open_ret (\<lambda>_. True)"
proof (rule xdr_codecI)
  fix a assume "True"
  then show "\<exists>bs f. enc_ok xdr_open_ret a bs \<and> dec_ok xdr_open_ret bs f \<and> (\<forall>b. f b = a)"
    unfolding xdr_open_ret_def
    by - (rule exI conjI enc_rules dec_rules enc_prims dec_prims | simp)+
qed

interpretation open_ret: xdr_codec xdr_open_ret "(\<lambda>_. True)"
  by (rule xdr_codec_open_ret)

lemma xdr_codec_release_arg: "xdr_codec xdr_release_arg ok_release_arg"
proof (rule xdr_codecI)
  fix a assume "ok_release_arg a"
  then show "\<exists>bs f. enc_ok xdr_release_arg a bs \<and> dec_ok xdr_release_arg bs f \<and> (\<forall>b. f b = a)"
    unfolding xdr_release_arg_def
    by - (rule exI conjI enc_rules dec_rules enc_prims dec_prims | simp add: ok_release_arg_def)+
qed

interpretation release_arg: xdr_codec xdr_release_arg "ok_release_arg"
  by (rule xdr_codec_release_arg)

lemma xdr_codec_release_ret: "xdr_codec xdr_release_ret (\<lambda>_. True)"
proof (rule xdr_codecI)
  fix a assume "True"
  then show "\<exists>bs f. enc_ok xdr_release_ret a bs \<and> dec_ok xdr_release_ret bs f \<and> (\<forall>b. f b = a)"
    unfolding xdr_release_ret_def
    by - (rule exI conjI enc_rules dec_rules enc_prims dec_prims | simp)+
qed

interpretation release_ret: xdr_codec xdr_release_ret "(\<lambda>_. True)"
  by (rule xdr_codec_release_ret)

lemma xdr_codec_read_arg: "xdr_codec xdr_read_arg ok_read_arg"
proof (rule xdr_codecI)
  fix a assume "ok_read_arg a"
  then show "\<exists>bs f. enc_ok xdr_read_arg a bs \<and> dec_ok xdr_read_arg bs f \<and> (\<forall>b. f b = a)"
    unfolding xdr_read_arg_def
    by - (rule exI conjI enc_rules dec_rules enc_prims dec_prims | simp add: ok_read_arg_def)+
qed

interpretation read_arg: xdr_codec xdr_read_arg "ok_read_arg"
  by (rule xdr_codec_read_arg)

lemma xdr_codec_read_ret: "xdr_codec xdr_read_ret ok_read_ret"
proof (rule xdr_codecI)
  fix a assume "ok_read_ret a"
  then show "\<exists>bs f. enc_ok xdr_read_ret a bs \<and> dec_ok xdr_read_ret bs f \<and> (\<forall>b. f b = a)"
    unfolding xdr_read_ret_def
    by - (rule exI conjI enc_rules dec_rules enc_prims dec_prims | simp add: ok_read_ret_def)+
qed

interpretation read_ret: xdr_codec xdr_read_ret "ok_read_ret"
  by (rule xdr_codec_read_ret)

lemma xdr_codec_write_arg: "xdr_codec xdr_write_arg ok_write_arg"
proof (rule xdr_codecI)
  fix a assume "ok_write_arg a"
  then show "\<exists>bs f. enc_ok xdr_write_arg a bs \<and> dec_ok xdr_write_arg bs f \<and> (\<forall>b. f b = a)"
    unfolding xdr_write_arg_def
    by - (rule exI conjI enc_rules dec_rules enc_prims dec_prims enc_ok_identity dec_ok_identity | simp add: ok_write_arg_def)+
qed

interpretation write_arg: xdr_codec xdr_write_arg "ok_write_arg"
  by (rule xdr_codec_write_arg)

lemma xdr_codec_write_ret: "xdr_codec xdr_write_ret (\<lambda>_. True)"
proof (rule xdr_codecI)
  fix a assume "True"
  then show "\<exists>bs f. enc_ok xdr_write_ret a bs \<and> dec_ok xdr_write_ret bs f \<and> (\<forall>b. f b = a)"
    unfolding xdr_write_ret_def
    by - (rule exI conjI enc_rules dec_rules enc_prims dec_prims | simp)+
qed

interpretation write_ret: xdr_codec xdr_write_ret "(\<lambda>_. True)"
  by (rule xdr_codec_write_ret)

lemma xdr_codec_statfs_arg: "xdr_codec xdr_statfs_arg ok_statfs_arg"
proof (rule xdr_codecI)
  fix a assume "ok_statfs_arg a"
  then show "\<exists>bs f. enc_ok xdr_statfs_arg a bs \<and> dec_ok xdr_statfs_arg bs f \<and> (\<forall>b. f b = a)"
    unfolding xdr_statfs_arg_def
    by - (rule exI conjI enc_rules dec_rules enc_prims dec_prims | simp add: ok_statfs_arg_def)+
qed

interpretation statfs_arg: xdr_codec xdr_statfs_arg "ok_statfs_arg"
  by (rule xdr_codec_statfs_arg)

section \<open>The routines with 64-bit members\<close>

text \<open>
  The wire format of the two long replies: one unit per member, the low 32 bits of each. Both paths
  of the routine write it.
\<close>

definition wire_getattr_ret :: "getattr_ret \<Rightarrow> char list" where
  "wire_getattr_ret a =
     unit_bytes (getattr_ret_st_dev a) @
     unit_bytes (getattr_ret_st_ino a) @
     unit_bytes (getattr_ret_st_mode a) @
     unit_bytes (getattr_ret_st_nlink a) @
     unit_bytes (getattr_ret_st_uid a) @
     unit_bytes (getattr_ret_st_gid a) @
     unit_bytes (getattr_ret_st_rdev a) @
     unit_bytes (ucast (getattr_ret_st_size a)) @
     unit_bytes (ucast (getattr_ret_st_blksize a)) @
     unit_bytes (ucast (getattr_ret_st_blocks a)) @
     unit_bytes (ucast (getattr_ret_st_acc_time a)) @
     unit_bytes (ucast (getattr_ret_st_mod_time a)) @
     unit_bytes (ucast (getattr_ret_st_chg_time a)) @
     unit_bytes (getattr_ret_ret a)"

lemma length_wire_getattr_ret: "length (wire_getattr_ret a) = 14 * BYTES_PER_XDR_UNIT"
  by (simp add: wire_getattr_ret_def BYTES_PER_XDR_UNIT_def)

lemma unit_at_wire_getattr_ret:
  shows "unit_at (wire_getattr_ret a) 0 = getattr_ret_st_dev a"
    "unit_at (wire_getattr_ret a) (Suc 0) = getattr_ret_st_ino a"
    "unit_at (wire_getattr_ret a) 2 = getattr_ret_st_mode a"
    "unit_at (wire_getattr_ret a) 3 = getattr_ret_st_nlink a"
    "unit_at (wire_getattr_ret a) 4 = getattr_ret_st_uid a"
    "unit_at (wire_getattr_ret a) 5 = getattr_ret_st_gid a"
    "unit_at (wire_getattr_ret a) 6 = getattr_ret_st_rdev a"
    "unit_at (wire_getattr_ret a) 7 = ucast (getattr_ret_st_size a)"
    "unit_at (wire_getattr_ret a) 8 = ucast (getattr_ret_st_blksize a)"
    "unit_at (wire_getattr_ret a) 9 = ucast (getattr_ret_st_blocks a)"
    "unit_at (wire_getattr_ret a) 10 = ucast (getattr_ret_st_acc_time a)"
    "unit_at (wire_getattr_ret a) 11 = ucast (getattr_ret_st_mod_time a)"
    "unit_at (wire_getattr_ret a) 12 = ucast (getattr_ret_st_chg_time a)"
    "unit_at (wire_getattr_ret a) 13 = getattr_ret_ret a"
  by (simp_all add: wire_getattr_ret_def unit_at_def)

definition wire_statfs_ret :: "statfs_ret \<Rightarrow> char list" where
  "wire_statfs_ret a =
     unit_bytes (ucast (statfs_ret_f_bsize a)) @
     unit_bytes (ucast (statfs_ret_f_frsize a)) @
     unit_bytes (ucast (statfs_ret_f_blocks a)) @
     unit_bytes (ucast (statfs_ret_f_bfree a)) @
     unit_bytes (ucast (statfs_ret_f_bavail a)) @
     unit_bytes (ucast (statfs_ret_f_files a)) @
     unit_bytes (ucast (statfs_ret_f_ffree a)) @
     unit_bytes (ucast (statfs_ret_f_favail a)) @
     unit_bytes (ucast (statfs_ret_f_fsid a)) @
     unit_bytes (ucast (statfs_ret_f_flag a)) @
     unit_bytes (ucast (statfs_ret_f_namemax a)) @
     unit_bytes (statfs_ret_ret a)"

lemma length_wire_statfs_ret: "length (wire_statfs_ret a) = 12 * BYTES_PER_XDR_UNIT"
  by (simp add: wire_statfs_ret_def BYTES_PER_XDR_UNIT_def)

lemma unit_at_wire_statfs_ret:
  shows "unit_at (wire_statfs_ret a) 0 = ucast (statfs_ret_f_bsize a)"
    "unit_at (wire_statfs_ret a) (Suc 0) = ucast (statfs_ret_f_frsize a)"
    "unit_at (wire_statfs_ret a) 2 = ucast (statfs_ret_f_blocks a)"
    "unit_at (wire_statfs_ret a) 3 = ucast (statfs_ret_f_bfree a)"
    "unit_at (wire_statfs_ret a) 4 = ucast (statfs_ret_f_bavail a)"
    "unit_at (wire_statfs_ret a) 5 = ucast (statfs_ret_f_files a)"
    "unit_at (wire_statfs_ret a) 6 = ucast (statfs_ret_f_ffree a)"
    "unit_at (wire_statfs_ret a) 7 = ucast (statfs_ret_f_favail a)"
    "unit_at (wire_statfs_ret a) 8 = ucast (statfs_ret_f_fsid a)"
    "unit_at (wire_statfs_ret a) 9 = ucast (statfs_ret_f_flag a)"
    "unit_at (wire_statfs_ret a) 10 = ucast (statfs_ret_f_namemax a)"
    "unit_at (wire_statfs_ret a) 11 = statfs_ret_ret a"
  by (simp_all add: wire_statfs_ret_def unit_at_def)

lemma enc_ok_trans: "enc_ok p a bs \<Longrightarrow> bs = cs \<Longrightarrow> enc_ok p a cs"
  by simp

lemma dec_ok_trans: "dec_ok p bs f \<Longrightarrow> f = g \<Longrightarrow> dec_ok p bs g"
  by simp

context xdr_longs
begin

lemma enc_getattr_ret_members:
  assumes "ok_getattr_ret a"
  shows "enc_ok (xdr_getattr_ret_members L) a (wire_getattr_ret a)"
  using assms unfolding xdr_getattr_ret_members_def wire_getattr_ret_def
  by - (rule enc_ok_trans, (rule enc_rules enc_prims enc_longs | simp add: ok_getattr_ret_def)+)

lemma dec_getattr_ret_members:
  assumes "ok_getattr_ret a"
  shows "dec_ok (xdr_getattr_ret_members L) (wire_getattr_ret a) (\<lambda>_. a)"
proof -
  have "dec_ok (xdr_getattr_ret_members L) (wire_getattr_ret a @ []) (\<lambda>_. a)"
    using assms unfolding xdr_getattr_ret_members_def wire_getattr_ret_def append_assoc
    by - (rule dec_ok_trans, (rule dec_rules dec_prims dec_longs | simp add: ok_getattr_ret_def fun_eq_iff)+)
  then show ?thesis by simp
qed

lemma enc_getattr_ret:
  assumes "ok_getattr_ret a"
  shows "enc_ok (xdr_getattr_ret L) a (wire_getattr_ret a)"
  using enc_getattr_ret_members [OF assms]
  by (simp add: enc_ok_def xdr_getattr_ret_def IXDR_PUT_LONG_def IXDR_PUT_U_LONG_def wire_getattr_ret_def)

lemma dec_getattr_ret:
  assumes "ok_getattr_ret a"
  shows "dec_ok (xdr_getattr_ret L) (wire_getattr_ret a) (\<lambda>_. a)"
  using dec_getattr_ret_members [OF assms] assms
  by (simp add: dec_ok_def xdr_getattr_ret_def length_wire_getattr_ret Let_def unit_at_wire_getattr_ret
    iget_int iget_long iget_u_long ok_getattr_ret_def)

lemma enc_statfs_ret_members:
  assumes "ok_statfs_ret a"
  shows "enc_ok (xdr_statfs_ret_members L) a (wire_statfs_ret a)"
  using assms unfolding xdr_statfs_ret_members_def wire_statfs_ret_def
  by - (rule enc_ok_trans, (rule enc_rules enc_prims enc_longs | simp add: ok_statfs_ret_def)+)

lemma dec_statfs_ret_members:
  assumes "ok_statfs_ret a"
  shows "dec_ok (xdr_statfs_ret_members L) (wire_statfs_ret a) (\<lambda>_. a)"
proof -
  have "dec_ok (xdr_statfs_ret_members L) (wire_statfs_ret a @ []) (\<lambda>_. a)"
    using assms unfolding xdr_statfs_ret_members_def wire_statfs_ret_def append_assoc
    by - (rule dec_ok_trans, (rule dec_rules dec_prims dec_longs | simp add: ok_statfs_ret_def fun_eq_iff)+)
  then show ?thesis by simp
qed

lemma enc_statfs_ret:
  assumes "ok_statfs_ret a"
  shows "enc_ok (xdr_statfs_ret L) a (wire_statfs_ret a)"
  using enc_statfs_ret_members [OF assms]
  by (simp add: enc_ok_def xdr_statfs_ret_def IXDR_PUT_LONG_def IXDR_PUT_U_LONG_def wire_statfs_ret_def)

lemma dec_statfs_ret:
  assumes "ok_statfs_ret a"
  shows "dec_ok (xdr_statfs_ret L) (wire_statfs_ret a) (\<lambda>_. a)"
  using dec_statfs_ret_members [OF assms] assms
  by (simp add: dec_ok_def xdr_statfs_ret_def length_wire_statfs_ret Let_def unit_at_wire_statfs_ret
    iget_int iget_long iget_u_long ok_statfs_ret_def)

end

sublocale xdr_longs \<subseteq> utime_arg: xdr_codec "xdr_utime_arg L" ok_utime_arg
proof (rule xdr_codecI)
  fix a assume "ok_utime_arg a"
  then show "\<exists>bs f. enc_ok (xdr_utime_arg L) a bs \<and> dec_ok (xdr_utime_arg L) bs f \<and> (\<forall>b. f b = a)"
    unfolding xdr_utime_arg_def
    by - (rule exI conjI enc_rules dec_rules enc_prims dec_prims enc_ok_identity dec_ok_identity
      enc_longs dec_longs | simp add: ok_utime_arg_def)+
qed

sublocale xdr_longs \<subseteq> getattr_ret: xdr_codec "xdr_getattr_ret L" ok_getattr_ret
  by (rule xdr_codecI) (blast intro: enc_getattr_ret dec_getattr_ret)

sublocale xdr_longs \<subseteq> statfs_ret: xdr_codec "xdr_statfs_ret L" ok_statfs_ret
  by (rule xdr_codecI) (blast intro: enc_statfs_ret dec_statfs_ret)

end
