(* ===== verification/Clnt_Stubs.thy ===== *)
theory Clnt_Stubs
  imports Os_Interface Xdr_Codec
begin

text \<open>
  The client stubs of \<^verbatim>\<open>fuse_rpc_clnt.c\<close>, which the client program and the primary server call, over
  \<open>clnt_call\<close>, the call of the RPC library: it encodes the arguments, sends them, and decodes the
  results into the caller's object. When it fails before that, the object keeps what it held.
\<close>

definition clnt_call ::
  "'w rpc \<Rightarrow> clnt \<Rightarrow> nat \<Rightarrow> 'a xdrproc \<Rightarrow> 'a \<Rightarrow> 'r xdrproc \<Rightarrow> 'r \<Rightarrow> 'w \<Rightarrow> (clnt_stat \<times> 'r) \<times> 'w" where
  "clnt_call R clnt proc xargs argp xres clnt_res w =
     (case xargs \<lparr>x_op = XDR_ENCODE, x_bytes = []\<rparr> argp of (ok, s, _) \<Rightarrow>
       if \<not> ok \<or> rpc_limit R clnt < length (x_bytes s) then ((RPC_CANTENCODEARGS, clnt_res), w)
       else (case rpc_send R clnt proc (x_bytes s) w of
           (Inl e, w') \<Rightarrow> ((RPC_FAILED e, clnt_res), w')
         | (Inr reply, w') \<Rightarrow>
             (case xres \<lparr>x_op = XDR_DECODE, x_bytes = reply\<rparr> clnt_res of (ok', _, r) \<Rightarrow>
               ((if ok' then RPC_SUCCESS else RPC_CANTDECODERES, r), w'))))"

text \<open>A stub: the library, the transport, the arguments, the caller's result object, the handle.\<close>

type_synonym ('w, 'a, 'r) stub = "xdr_library \<Rightarrow> 'w rpc \<Rightarrow> 'a \<Rightarrow> 'r \<Rightarrow> clnt \<Rightarrow> 'w \<Rightarrow> (clnt_stat \<times> 'r) \<times> 'w"

definition init_rootdir_6 :: "('w, init_arg, init_ret) stub" where
  "init_rootdir_6 L R argp clnt_res clnt = clnt_call R clnt INIT_ROOTDIR xdr_init_arg argp xdr_init_ret clnt_res"

definition bb_getattr_6 :: "('w, getattr_arg, getattr_ret) stub" where
  "bb_getattr_6 L R argp clnt_res clnt = clnt_call R clnt BB_GETATTR xdr_getattr_arg argp (xdr_getattr_ret L) clnt_res"

definition bb_access_6 :: "('w, access_arg, access_ret) stub" where
  "bb_access_6 L R argp clnt_res clnt = clnt_call R clnt BB_ACCESS xdr_access_arg argp xdr_access_ret clnt_res"

definition bb_mkdir_6 :: "('w, mkdir_arg, mkdir_ret) stub" where
  "bb_mkdir_6 L R argp clnt_res clnt = clnt_call R clnt BB_MKDIR xdr_mkdir_arg argp xdr_mkdir_ret clnt_res"

definition bb_rmdir_6 :: "('w, rmdir_arg, rmdir_ret) stub" where
  "bb_rmdir_6 L R argp clnt_res clnt = clnt_call R clnt BB_RMDIR xdr_rmdir_arg argp xdr_rmdir_ret clnt_res"

definition bb_opendir_6 :: "('w, opendir_arg, opendir_ret) stub" where
  "bb_opendir_6 L R argp clnt_res clnt = clnt_call R clnt BB_OPENDIR xdr_opendir_arg argp xdr_opendir_ret clnt_res"

definition bb_readdir_6 :: "('w, readdir_arg, readdir_ret) stub" where
  "bb_readdir_6 L R argp clnt_res clnt = clnt_call R clnt BB_READDIR xdr_readdir_arg argp xdr_readdir_ret clnt_res"

definition bb_releasedir_6 :: "('w, releasedir_arg, releasedir_ret) stub" where
  "bb_releasedir_6 L R argp clnt_res clnt = clnt_call R clnt BB_RELEASEDIR xdr_releasedir_arg argp xdr_releasedir_ret clnt_res"

definition bb_rename_6 :: "('w, rename_arg, rename_ret) stub" where
  "bb_rename_6 L R argp clnt_res clnt = clnt_call R clnt BB_RENAME xdr_rename_arg argp xdr_rename_ret clnt_res"

definition bb_symlink_6 :: "('w, symlink_arg, symlink_ret) stub" where
  "bb_symlink_6 L R argp clnt_res clnt = clnt_call R clnt BB_SYMLINK xdr_symlink_arg argp xdr_symlink_ret clnt_res"

definition bb_link_6 :: "('w, link_arg, link_ret) stub" where
  "bb_link_6 L R argp clnt_res clnt = clnt_call R clnt BB_LINK xdr_link_arg argp xdr_link_ret clnt_res"

definition bb_readlink_6 :: "('w, readlink_arg, readlink_ret) stub" where
  "bb_readlink_6 L R argp clnt_res clnt = clnt_call R clnt BB_READLINK xdr_readlink_arg argp xdr_readlink_ret clnt_res"

definition bb_mknod_6 :: "('w, mknod_arg, mknod_ret) stub" where
  "bb_mknod_6 L R argp clnt_res clnt = clnt_call R clnt BB_MKNOD xdr_mknod_arg argp xdr_mknod_ret clnt_res"

definition bb_truncate_6 :: "('w, truncate_arg, truncate_ret) stub" where
  "bb_truncate_6 L R argp clnt_res clnt = clnt_call R clnt BB_TRUNCATE xdr_truncate_arg argp xdr_truncate_ret clnt_res"

definition bb_unlink_6 :: "('w, unlink_arg, unlink_ret) stub" where
  "bb_unlink_6 L R argp clnt_res clnt = clnt_call R clnt BB_UNLINK xdr_unlink_arg argp xdr_unlink_ret clnt_res"

definition bb_utime_6 :: "('w, utime_arg, utime_ret) stub" where
  "bb_utime_6 L R argp clnt_res clnt = clnt_call R clnt BB_UTIME (xdr_utime_arg L) argp xdr_utime_ret clnt_res"

definition bb_chmod_6 :: "('w, chmod_arg, chmod_ret) stub" where
  "bb_chmod_6 L R argp clnt_res clnt = clnt_call R clnt BB_CHMOD xdr_chmod_arg argp xdr_chmod_ret clnt_res"

definition bb_chown_6 :: "('w, chown_arg, chown_ret) stub" where
  "bb_chown_6 L R argp clnt_res clnt = clnt_call R clnt BB_CHOWN xdr_chown_arg argp xdr_chown_ret clnt_res"

definition bb_open_6 :: "('w, open_arg, open_ret) stub" where
  "bb_open_6 L R argp clnt_res clnt = clnt_call R clnt BB_OPEN xdr_open_arg argp xdr_open_ret clnt_res"

definition bb_release_6 :: "('w, release_arg, release_ret) stub" where
  "bb_release_6 L R argp clnt_res clnt = clnt_call R clnt BB_RELEASE xdr_release_arg argp xdr_release_ret clnt_res"

definition bb_read_6 :: "('w, read_arg, read_ret) stub" where
  "bb_read_6 L R argp clnt_res clnt = clnt_call R clnt BB_READ xdr_read_arg argp xdr_read_ret clnt_res"

definition bb_write_6 :: "('w, write_arg, write_ret) stub" where
  "bb_write_6 L R argp clnt_res clnt = clnt_call R clnt BB_WRITE xdr_write_arg argp xdr_write_ret clnt_res"

definition bb_statfs_6 :: "('w, statfs_arg, statfs_ret) stub" where
  "bb_statfs_6 L R argp clnt_res clnt = clnt_call R clnt BB_STATFS xdr_statfs_arg argp (xdr_statfs_ret L) clnt_res"

end
