(* ===== verification/Server_Paths.thy ===== *)
theory Server_Paths
  imports C_Runtime "HOL-Library.Monad_Syntax"
begin

text \<open>
  The path arithmetic of \<^verbatim>\<open>fuse_rpc_server.c\<close>: \<^verbatim>\<open>get_last_slash\<close>, \<^verbatim>\<open>get_parent_path\<close> and
  \<^verbatim>\<open>translate_abspath\<close>, which maps a client's path into the tree under \<^verbatim>\<open>/DFS\<close>. They fill arrays of
  \<^verbatim>\<open>MAX_PATH_LEN\<close> characters; the model gives the C string left in the array, and \<open>None\<close> where
  they write past its end.
\<close>

definition MAX_PATH_LEN :: nat where
  "MAX_PATH_LEN = 200"

fun last_slash_loop :: "string \<Rightarrow> int \<Rightarrow> int \<Rightarrow> int" where
  "last_slash_loop [] i idx = idx"
| "last_slash_loop (c # ptr) i idx =
     last_slash_loop ptr (i + 1) (if c = CHR ''/'' then i else idx)"

definition get_last_slash :: "string \<Rightarrow> int" where
  "get_last_slash fpath = last_slash_loop fpath 0 (- 1)"

definition get_parent_path :: "string \<Rightarrow> string option" where
  \<comment> \<open>the index is converted to \<^verbatim>\<open>size_t\<close> by the call of \<^verbatim>\<open>strncpy\<close>\<close>
  "get_parent_path fpath = do {
     let last_slash_idx = get_last_slash fpath;
     buf \<leftarrow> strncpy (zeros MAX_PATH_LEN) fpath (nat (last_slash_idx mod 2 ^ 64));
     Some (cstr buf) }"

definition first_char :: "string \<Rightarrow> char" where
  \<comment> \<open>\<^verbatim>\<open>path[0]\<close>\<close>
  "first_char path = (case path of [] \<Rightarrow> NUL | c # _ \<Rightarrow> c)"

definition translate_abspath :: "string \<Rightarrow> string option" where
  "translate_abspath path = do {
     let prefix = ''/DFS'';
     buf \<leftarrow> strncpy (zeros MAX_PATH_LEN) prefix (length prefix);
     if path = ''/'' then Some (cstr buf)
     else do {
       buf \<leftarrow> (if first_char path \<noteq> CHR ''/'' then poke buf 4 ''/'' else Some buf);
       buf \<leftarrow> strncat buf path (length path);
       Some (cstr buf) } }"

section \<open>Where a client's path goes\<close>

definition rooted :: "string \<Rightarrow> string" where
  \<comment> \<open>the path with its leading slash\<close>
  "rooted path = (if first_char path = CHR ''/'' then path else CHR ''/'' # path)"

lemma strncat_to_prefix:
  assumes "is_cstring pre" "is_cstring path" "length pre \<le> MAX_PATH_LEN"
  shows "Option.bind (strncat (pre @ zeros (MAX_PATH_LEN - length pre)) path (length path)) (\<lambda>b. Some (cstr b))
    = (if length pre + length path < MAX_PATH_LEN then Some (pre @ path) else None)"
proof (cases "length pre + length path < MAX_PATH_LEN")
  case True
  with assms show ?thesis by (simp add: strncat_zeros)
next
  case False
  with assms show ?thesis by (simp add: strncat_overflow)
qed

lemma translate_abspath_eq:
  assumes "is_cstring path"
  shows "translate_abspath path =
    (if path = ''/'' then Some ''/DFS''
     else if length (rooted path) < 196 then Some (''/DFS'' @ rooted path) else None)"
proof -
  have b1: "strncpy (zeros MAX_PATH_LEN) ''/DFS'' (length ''/DFS'') = Some (''/DFS'' @ zeros 196)"
    by (simp add: strncpy_def poke_def MAX_PATH_LEN_def)
  have b2: "poke (''/DFS'' @ zeros 196) 4 ''/'' = Some (''/DFS/'' @ zeros 195)"
    by (simp add: poke_def)
  have t: "translate_abspath path = (if path = ''/'' then Some (cstr (''/DFS'' @ zeros 196)) else
      Option.bind (if first_char path \<noteq> CHR ''/'' then Some (''/DFS/'' @ zeros 195) else Some (''/DFS'' @ zeros 196))
        (\<lambda>buf. Option.bind (strncat buf path (length path)) (\<lambda>buf. Some (cstr buf))))"
    by (simp only: translate_abspath_def Let_def b1 b2 Option.bind.bind_lunit)
  show ?thesis
  proof (cases "first_char path = CHR ''/''")
    case True
    then show ?thesis
      using strncat_to_prefix [of "''/DFS''" path] assms
      by (simp add: t rooted_def MAX_PATH_LEN_def)
  next
    case False
    then show ?thesis
      using strncat_to_prefix [of "''/DFS/''" path] assms
      by (auto simp: t rooted_def MAX_PATH_LEN_def first_char_def)
  qed
qed

text \<open>
  C25. \<^verbatim>\<open>translate_abspath\<close> on every C string: the root maps to \<^verbatim>\<open>/DFS\<close>, any other path to \<^verbatim>\<open>/DFS\<close>
  followed by the path with a leading slash, exactly when the result and its terminating null
  character fit the array of 200 characters, so that what it returns is a C string below \<^verbatim>\<open>/DFS\<close> that
  fits. Beyond that the copy writes past the array: no length is checked, although the client sends
  paths of up to \<^verbatim>\<open>PATH_MAX\<close> characters.
\<close>

theorem translate_abspath_spec:
  assumes "is_cstring path"
  shows "translate_abspath path =
    (if path = ''/'' then Some ''/DFS''
     else if length (rooted path) < 196 then Some (''/DFS'' @ rooted path) else None) \<and>
    (\<forall>f. translate_abspath path = Some f \<longrightarrow> is_cstring f \<and> length f < 200 \<and> take 4 f = ''/DFS'')"
  using assms by (auto simp: translate_abspath_eq [OF assms] rooted_def is_cstring_def)

theorem translate_abspath_spec_witness:
  "translate_abspath ''docs/a.txt'' = Some ''/DFS/docs/a.txt''"
  using translate_abspath_spec [of "''docs/a.txt''"] by (simp add: rooted_def first_char_def)

section \<open>The directory of a path\<close>

lemma last_slash_loop_none: "CHR ''/'' \<notin> set xs \<Longrightarrow> last_slash_loop xs i idx = idx"
  by (induction xs arbitrary: i) auto

lemma last_slash_loop_append:
  "last_slash_loop (xs @ CHR ''/'' # ys) i idx = last_slash_loop ys (i + int (length xs) + 1) (i + int (length xs))"
  by (induction xs arbitrary: i idx) (auto simp: algebra_simps)

lemma get_last_slash_append:
  "CHR ''/'' \<notin> set n \<Longrightarrow> get_last_slash (p @ CHR ''/'' # n) = int (length p)"
  by (simp add: get_last_slash_def last_slash_loop_append last_slash_loop_none)

lemma get_last_slash_none: "CHR ''/'' \<notin> set p \<Longrightarrow> get_last_slash p = - 1"
  by (simp add: get_last_slash_def last_slash_loop_none)

lemma get_parent_path_append:
  assumes "CHR ''/'' \<notin> set n" "is_cstring p" "length p < MAX_PATH_LEN"
  shows "get_parent_path (p @ CHR ''/'' # n) = Some p"
proof -
  have "nat (int (length p) mod 18446744073709551616) = length p"
    using assms(3) by (simp add: MAX_PATH_LEN_def)
  with assms show ?thesis
    by (simp add: get_parent_path_def get_last_slash_append strncpy_zeros_prefix Let_def)
qed

text \<open>A path without a slash has no parent: the length \<open>-1\<close> becomes the largest \<^verbatim>\<open>size_t\<close>.\<close>

lemma get_parent_path_none:
  assumes "CHR ''/'' \<notin> set p"
  shows "get_parent_path p = None"
  using assms
  by (simp add: get_parent_path_def get_last_slash_none strncpy_overflow MAX_PATH_LEN_def Let_def)

text \<open>
  C26. The parent directory the server checks and locks is the translation of the client's parent
  directory: for a path made of a directory and a name, \<^verbatim>\<open>get_parent_path\<close> of the translated path
  is the translated directory, and \<^verbatim>\<open>/DFS\<close> itself for a name directly under the root.
\<close>

theorem parent_of_translated_path:
  assumes "is_cstring d" "d = [] \<or> first_char d = CHR ''/'' \<and> d \<noteq> ''/''"
    and "CHR ''/'' \<notin> set n" "n \<noteq> []" "is_cstring n"
    and "translate_abspath (d @ CHR ''/'' # n) = Some fpath"
  shows "get_parent_path fpath = translate_abspath (if d = [] then ''/'' else d)"
proof -
  let ?path = "d @ CHR ''/'' # n"
  have rt: "rooted ?path = ?path"
    using assms(2) by (cases d) (auto simp: rooted_def first_char_def)
  have "?path \<noteq> ''/''" using assms(4) by (cases d) auto
  with assms(1,5,6) rt have f: "fpath = (''/DFS'' @ d) @ CHR ''/'' # n" and len: "length ?path < 196"
    using translate_abspath_eq [of ?path] by (auto split: if_splits)
  have p: "get_parent_path fpath = Some (''/DFS'' @ d)"
    unfolding f using assms(1,3) len by (intro get_parent_path_append) (simp_all add: MAX_PATH_LEN_def)
  show ?thesis
  proof (cases "d = []")
    case True
    with p show ?thesis by (simp add: translate_abspath_eq)
  next
    case False
    with assms(2) have "rooted d = d" and "d \<noteq> ''/''" by (auto simp: rooted_def)
    with False p len show ?thesis by (simp add: translate_abspath_eq [OF assms(1)])
  qed
qed

theorem parent_of_translated_path_witness:
  "get_parent_path ''/DFS/docs/a.txt'' = translate_abspath ''/docs''"
proof -
  have "translate_abspath (''/docs'' @ CHR ''/'' # ''a.txt'') = Some ''/DFS/docs/a.txt''"
    using translate_abspath_eq [of "''/docs/a.txt''"] by (simp add: rooted_def first_char_def)
  from parent_of_translated_path [OF _ _ _ _ _ this] show ?thesis by (simp add: first_char_def)
qed

end
