(* ===== verification/Server_Auth.thy ===== *)
theory Server_Auth
  imports Clnt_Stubs Server_Paths
begin

text \<open>
  The helpers of \<^verbatim>\<open>fuse_rpc_server.c\<close> that the handlers share: ownership and permission checks, the
  locks on directories, the transmission of a request to the secondary server, and the macros that
  return from a handler. A macro that contains a \<^verbatim>\<open>return\<close> takes the rest of the handler as its last
  argument.
\<close>

unbundle bit_operations_syntax

text \<open>What a handler runs with: the kernel, the RPC library and its XDR routines.\<close>

record 'w env =
  e_os :: "'w os"
  e_rpc :: "'w rpc"
  e_xdr :: xdr_library

section \<open>Permissions\<close>

definition R_REQ :: c_int where "R_REQ = 1"
definition W_REQ :: c_int where "W_REQ = 2"
definition X_REQ :: c_int where "X_REQ = 4"

text \<open>The bits of \<^verbatim>\<open>st_mode\<close> (\<^verbatim>\<open>sys/stat.h\<close>).\<close>

definition S_IRUSR :: c_int where "S_IRUSR = 256"
definition S_IWUSR :: c_int where "S_IWUSR = 128"
definition S_IXUSR :: c_int where "S_IXUSR = 64"
definition S_IROTH :: c_int where "S_IROTH = 4"
definition S_IWOTH :: c_int where "S_IWOTH = 2"
definition S_IXOTH :: c_int where "S_IXOTH = 1"

lemmas mode_bits = S_IRUSR_def S_IWUSR_def S_IXUSR_def S_IROTH_def S_IWOTH_def S_IXOTH_def
lemmas req_bits = R_REQ_def W_REQ_def X_REQ_def

definition set_owner :: "'w os \<Rightarrow> string \<Rightarrow> string \<Rightarrow> ('w process, c_int) prog" where
  "set_owner os fpath ip = (let ident = atoi ip in
     bnd (sys_int (sys_chown os fpath ident ident)) (\<lambda>r. ret (if r \<noteq> 0 then - 1 else 0)))"

definition set_softlink_owner :: "'w os \<Rightarrow> string \<Rightarrow> string \<Rightarrow> ('w process, c_int) prog" where
  "set_softlink_owner os flink ip = (let ident = atoi ip in
     bnd (sys_int (sys_lchown os flink ident ident)) (\<lambda>r. ret (if r \<noteq> 0 then - 1 else 0)))"

definition is_owner :: "'w os \<Rightarrow> string \<Rightarrow> string \<Rightarrow> ('w process, c_int) prog" where
  "is_owner os fpath ip = bnd (sys_query (sys_lstat os fpath)) (\<lambda>statbuf. case statbuf of
       None \<Rightarrow> ret 0
     | Some st \<Rightarrow> ret (if atoi ip = st_uid st then 1 else 0))"

definition op_valid_bits :: "c_int \<Rightarrow> c_int \<Rightarrow> c_int \<Rightarrow> c_int \<Rightarrow> c_int" where
  \<comment> \<open>the three checks of \<^verbatim>\<open>is_op_valid\<close>, in their order\<close>
  "op_valid_bits ident uid mode flags =
     (let is_valid = 1;
          is_valid = (if flags AND R_REQ \<noteq> 0
            then (let read_valid = (if uid = ident then mode AND S_IRUSR \<noteq> 0 else mode AND S_IROTH \<noteq> 0)
                  in if read_valid then is_valid else 0)
            else is_valid);
          is_valid = (if flags AND W_REQ \<noteq> 0
            then (let write_valid = (if uid = ident then mode AND S_IWUSR \<noteq> 0 else mode AND S_IWOTH \<noteq> 0)
                  in if write_valid then is_valid else 0)
            else is_valid);
          is_valid = (if flags AND X_REQ \<noteq> 0
            then (let exec_valid = (if uid = ident then mode AND S_IXUSR \<noteq> 0 else mode AND S_IXOTH \<noteq> 0)
                  in if exec_valid then is_valid else 0)
            else is_valid)
      in is_valid)"

definition is_op_valid :: "'w os \<Rightarrow> string \<Rightarrow> string \<Rightarrow> c_int \<Rightarrow> ('w process, c_int) prog" where
  "is_op_valid os fpath ip flags = bnd (sys_query (sys_lstat os fpath)) (\<lambda>statbuf. case statbuf of
       None \<Rightarrow> ret (- 1)
     | Some st \<Rightarrow> ret (op_valid_bits (atoi ip) (st_uid st) (st_mode st) flags))"

definition is_rootdir_op_valid_to_delete :: "'w os \<Rightarrow> string \<Rightarrow> string \<Rightarrow> ('w process, c_int) prog" where
  "is_rootdir_op_valid_to_delete os fpath ip =
     bnd (sys_query (sys_lstat os fpath)) (\<lambda>statbuf. case statbuf of
       None \<Rightarrow> ret (- 1)
     | Some st \<Rightarrow> ret (if atoi ip = st_uid st then 1 else 0))"

definition is_parent_dir_valid ::
  "'w os \<Rightarrow> string \<Rightarrow> string \<Rightarrow> string \<Rightarrow> string \<Rightarrow> ('w process, c_int) prog" where
  "is_parent_dir_valid os parent_path fpath ip op_name =
     (let flag_to_check = R_REQ OR W_REQ OR X_REQ in
      if parent_path = ''/DFS'' then
        (if op_name = ''rmdir'' \<or> op_name = ''unlink''
         then bnd (is_rootdir_op_valid_to_delete os fpath ip) (\<lambda>v. if v = 0 then ret 0 else ret 1)
         else ret 1)
      else bnd (is_op_valid os parent_path ip flag_to_check) (\<lambda>v. if v \<noteq> 1 then ret 0 else ret 1))"

section \<open>Locks on directories\<close>

definition dlock :: "'w os \<Rightarrow> string \<Rightarrow> ('w process, c_int) prog" where
  "dlock os path = bnd (sys_call (sys_opendir os path)) (\<lambda>dir. case dir of
       None \<Rightarrow> ret (- 1)
     | Some dp \<Rightarrow> bnd (sys_query (sys_dirfd os dp)) (\<lambda>fd. case fd of
           None \<Rightarrow> ret (- 1)
         | Some fd \<Rightarrow> (if fd = - 1 then ret (- 1)
             else bnd (flock os fd LOCK_EX) (\<lambda>r. if r \<noteq> 0 then ret (- 1) else ret fd))))"

definition dunlock :: "'w os \<Rightarrow> c_int \<Rightarrow> ('w process, c_int) prog" where
  "dunlock os fd = bnd (flock os fd LOCK_UN) (\<lambda>r. if r \<noteq> 0 then ret (- 1) else ret 0)"

section \<open>The macros\<close>

definition connect_server :: "'w env \<Rightarrow> ('w process, clnt option) prog" where
  "connect_server E = on_world (rpc_clnt_create (e_rpc E) ''10.148.54.200'' ''udp'')"

definition TRANSMIT_TO_SECONDATY ::
  "'w env \<Rightarrow> ('w, 'a, 'r) stub \<Rightarrow> ('a \<Rightarrow> identity) \<Rightarrow> ((identity \<Rightarrow> identity) \<Rightarrow> 'a \<Rightarrow> 'a) \<Rightarrow>
   'r \<Rightarrow> 'a \<Rightarrow> ('w process, unit) prog" where
  \<comment> \<open>\<open>slave_ret\<close> is what the uninitialised local holds; the reply is only logged\<close>
  "TRANSMIT_TO_SECONDATY E func server_info set_server_info slave_ret argp =
     (if is_master (server_info argp) \<noteq> 0 \<and> is_degraded (server_info argp) = 0 then
        bnd (connect_server E) (\<lambda>clnt. case clnt of
            None \<Rightarrow> ret ()
          | Some clnt \<Rightarrow>
              (let slave_arg = set_server_info (is_master_update (\<lambda>_. 0)) argp in
               bnd (on_world (func (e_xdr E) (e_rpc E) slave_arg slave_ret clnt)) (\<lambda>_.
               on_world (\<lambda>w. ((), rpc_clnt_destroy (e_rpc E) clnt w)))))
      else ret ())"

definition GET_PARENT_PATH :: "string \<Rightarrow> (string \<Rightarrow> ('w process, 'r) prog) \<Rightarrow> ('w process, 'r) prog" where
  "GET_PARENT_PATH fpath k = bnd (checked (get_parent_path fpath)) k"

definition CHECK_PARENT_DIRECTORY_VALID ::
  "'w os \<Rightarrow> string \<Rightarrow> string \<Rightarrow> string \<Rightarrow> string \<Rightarrow> ((c_int \<Rightarrow> c_int) \<Rightarrow> 'r \<Rightarrow> 'r) \<Rightarrow> 'r \<Rightarrow>
   ('w process, 'r) prog \<Rightarrow> ('w process, 'r) prog" where
  "CHECK_PARENT_DIRECTORY_VALID os parent_path fpath ip op_name set_ret result k =
     bnd (is_parent_dir_valid os parent_path fpath ip op_name) (\<lambda>v.
       if v = 0 then ret (set_ret (\<lambda>_. - EACCES) result) else k)"

definition LOCK_DIRECTORY ::
  "'w os \<Rightarrow> string \<Rightarrow> ((c_int \<Rightarrow> c_int) \<Rightarrow> 'r \<Rightarrow> 'r) \<Rightarrow> 'r \<Rightarrow>
   (c_int \<Rightarrow> ('w process, 'r) prog) \<Rightarrow> ('w process, 'r) prog" where
  "LOCK_DIRECTORY os parent_path set_ret result k =
     bnd (dlock os parent_path) (\<lambda>fd.
       if cneg fd then ret (set_ret (\<lambda>_. - 1) result) else k fd)"

definition UNLOCK_DIRECTORY ::
  "'w os \<Rightarrow> c_int \<Rightarrow> ((c_int \<Rightarrow> c_int) \<Rightarrow> 'r \<Rightarrow> 'r) \<Rightarrow> 'r \<Rightarrow> ('w process, 'r) prog" where
  "UNLOCK_DIRECTORY os fd set_ret result =
     bnd (dunlock os fd) (\<lambda>r. ret (if cneg r then set_ret (\<lambda>_. - 1) result else result))"

end
