(* ===== verification/Server_Handlers.thy ===== *)
theory Server_Handlers
  imports Server_Auth
begin

text \<open>
  The handlers of \<^verbatim>\<open>fuse_rpc_server.c\<close>, one per procedure, each whole: the transmission to the
  secondary, the path translation, the checks, the locks, the system calls in their order, and what
  every branch leaves in \<^verbatim>\<open>*result\<close>. A handler takes the arguments and the result object as it finds
  it (the dispatcher does not clear it) and returns the result object; all handlers return \<^verbatim>\<open>TRUE\<close>.
  Messages to \<^verbatim>\<open>stderr\<close> are left out.
\<close>

text \<open>A member of the result object set to \<open>-errno\<close>.\<close>

definition set_errno_ret :: "((c_int \<Rightarrow> c_int) \<Rightarrow> 'r \<Rightarrow> 'r) \<Rightarrow> 'r \<Rightarrow> ('w process, 'r) prog" where
  "set_errno_ret set_ret result = bnd get_errno (\<lambda>e. ret (set_ret (\<lambda>_. - e) result))"

section \<open>The root directory and attributes\<close>

definition init_rootdir_6_svc ::
  "'w env \<Rightarrow> init_ret \<Rightarrow> init_arg \<Rightarrow> init_ret \<Rightarrow> ('w process, init_ret) prog" where
  "init_rootdir_6_svc E slave_ret argp result =
     bnd (TRANSMIT_TO_SECONDATY E init_rootdir_6 init_arg_server_info init_arg_server_info_update
            slave_ret argp) (\<lambda>_.
     let root = ''/DFS'' in
     bnd (sys_query (sys_access (e_os E) root 0)) (\<lambda>exists.
     bnd (if exists = None
          then bnd (sys_int (sys_mkdir (e_os E) root 511)) (\<lambda>r. if r \<noteq> 0 then halt Exited else ret ())
          else ret ()) (\<lambda>_.
     let mode = 511 in
     bnd (sys_int (sys_chmod (e_os E) ''/DFS'' mode)) (\<lambda>r.
       if r \<noteq> 0 then halt Exited
       else bnd (checked (translate_abspath (init_arg_rootdir argp))) (\<lambda>fpath.
            ret (result\<lparr>init_ret_ret := 0\<rparr>))))))"

definition bb_getattr_6_svc ::
  "'w env \<Rightarrow> getattr_arg \<Rightarrow> getattr_ret \<Rightarrow> ('w process, getattr_ret) prog" where
  "bb_getattr_6_svc E argp result =
     bnd (checked (translate_abspath (getattr_arg_path argp))) (\<lambda>fpath.
     bnd (sys_query (sys_lstat (e_os E) fpath)) (\<lambda>statbuf. case statbuf of
         None \<Rightarrow> set_errno_ret getattr_ret_ret_update result
       | Some st \<Rightarrow> ret (result\<lparr>
             getattr_ret_st_dev := ucast (st_dev st),
             getattr_ret_st_ino := ucast (st_ino st),
             getattr_ret_st_mode := st_mode st,
             getattr_ret_st_nlink := ucast (st_nlink st),
             getattr_ret_st_uid := st_uid st,
             getattr_ret_st_gid := st_gid st,
             getattr_ret_st_rdev := ucast (st_rdev st),
             getattr_ret_st_size := st_size st,
             getattr_ret_st_blksize := st_blksize st,
             getattr_ret_st_blocks := st_blocks st,
             getattr_ret_st_acc_time := st_atime st,
             getattr_ret_st_mod_time := st_mtime st,
             getattr_ret_st_chg_time := st_ctime st,
             getattr_ret_ret := 0\<rparr>)))"

definition bb_access_6_svc ::
  "'w env \<Rightarrow> access_arg \<Rightarrow> access_ret \<Rightarrow> ('w process, access_ret) prog" where
  "bb_access_6_svc E argp result =
     bnd (checked (translate_abspath (access_arg_path argp))) (\<lambda>fpath.
     bnd (sys_query (sys_access (e_os E) fpath (access_arg_mask argp))) (\<lambda>r.
     ret (result\<lparr>access_ret_ret := int_result r\<rparr>)))"

section \<open>Directories\<close>

definition bb_mkdir_6_svc ::
  "'w env \<Rightarrow> mkdir_ret \<Rightarrow> mkdir_arg \<Rightarrow> mkdir_ret \<Rightarrow> ('w process, mkdir_ret) prog" where
  "bb_mkdir_6_svc E slave_ret argp result =
     bnd (TRANSMIT_TO_SECONDATY E bb_mkdir_6 mkdir_arg_server_info mkdir_arg_server_info_update
            slave_ret argp) (\<lambda>_.
     let ip = mkdir_arg_ip argp; path = mkdir_arg_path argp; mode = mkdir_arg_mode argp in
     bnd (checked (translate_abspath path)) (\<lambda>fpath.
     GET_PARENT_PATH fpath (\<lambda>parent_path.
     CHECK_PARENT_DIRECTORY_VALID (e_os E) parent_path fpath ip ''mkdir'' mkdir_ret_ret_update result (
     LOCK_DIRECTORY (e_os E) parent_path mkdir_ret_ret_update result (\<lambda>fd.
     bnd (sys_int (sys_mkdir (e_os E) fpath mode)) (\<lambda>r.
     bnd (UNLOCK_DIRECTORY (e_os E) fd mkdir_ret_ret_update (result\<lparr>mkdir_ret_ret := r\<rparr>)) (\<lambda>result.
       if \<not> cneg (mkdir_ret_ret result)
       then bnd (set_owner (e_os E) fpath ip) (\<lambda>own.
              ret (if cneg own then result\<lparr>mkdir_ret_ret := - 1\<rparr> else result))
       else ret result)))))))"

definition bb_rmdir_6_svc ::
  "'w env \<Rightarrow> rmdir_ret \<Rightarrow> rmdir_arg \<Rightarrow> rmdir_ret \<Rightarrow> ('w process, rmdir_ret) prog" where
  "bb_rmdir_6_svc E slave_ret argp result =
     bnd (TRANSMIT_TO_SECONDATY E bb_rmdir_6 rmdir_arg_server_info rmdir_arg_server_info_update
            slave_ret argp) (\<lambda>_.
     let ip = rmdir_arg_ip argp; path = rmdir_arg_path argp in
     bnd (checked (translate_abspath path)) (\<lambda>fpath.
     GET_PARENT_PATH fpath (\<lambda>parent_path.
     CHECK_PARENT_DIRECTORY_VALID (e_os E) parent_path fpath ip ''rmdir'' rmdir_ret_ret_update result (
     LOCK_DIRECTORY (e_os E) parent_path rmdir_ret_ret_update result (\<lambda>fd.
     bnd (sys_int (sys_rmdir (e_os E) fpath)) (\<lambda>r.
     UNLOCK_DIRECTORY (e_os E) fd rmdir_ret_ret_update (result\<lparr>rmdir_ret_ret := r\<rparr>)))))))"

definition bb_opendir_6_svc ::
  "'w env \<Rightarrow> opendir_arg \<Rightarrow> opendir_ret \<Rightarrow> ('w process, opendir_ret) prog" where
  "bb_opendir_6_svc E argp result =
     (let ip = opendir_arg_ip argp; path = opendir_arg_path argp in
     bnd (checked (translate_abspath path)) (\<lambda>fpath.
     let flag_to_check = R_REQ OR X_REQ in
     bnd (is_op_valid (e_os E) fpath ip flag_to_check) (\<lambda>v.
       if v \<noteq> 1 then ret (result\<lparr>opendir_ret_ret := - EACCES\<rparr>)
       else bnd (sys_call (sys_opendir (e_os E) fpath)) (\<lambda>dp. case dp of
           None \<Rightarrow> set_errno_ret opendir_ret_ret_update result
         | Some dp \<Rightarrow> bnd (sys_query (sys_dirfd (e_os E) dp)) (\<lambda>fd.
             ret (result\<lparr>opendir_ret_fd := (case fd of None \<Rightarrow> - 1 | Some fd \<Rightarrow> fd),
                         opendir_ret_ret := 0\<rparr>))))))"

text \<open>The loop over the entries: each name goes after the null character of the one before.\<close>

fun fill_entries :: "string list \<Rightarrow> buffer \<Rightarrow> nat \<Rightarrow> c_int \<Rightarrow> (buffer \<times> c_int) option" where
  "fill_entries [] buf offset count = Some (buf, count)"
| "fill_entries (entry_name # des) buf offset count =
     (let len = length entry_name in
      case poke buf offset entry_name of
        None \<Rightarrow> None
      | Some buf \<Rightarrow> fill_entries des buf (offset + len + 1) (count + 1))"

definition bb_readdir_6_svc ::
  "'w env \<Rightarrow> readdir_arg \<Rightarrow> readdir_ret \<Rightarrow> ('w process, readdir_ret) prog" where
  "bb_readdir_6_svc E argp result =
     (let fd = readdir_arg_fd argp; result = result\<lparr>readdir_ret_count := 0\<rparr> in
     bnd (flock (e_os E) fd LOCK_SH) (\<lambda>_.
     bnd (sys_call (sys_fdopendir (e_os E) fd)) (\<lambda>dp. case dp of
         None \<Rightarrow> bnd (flock (e_os E) fd LOCK_UN) (\<lambda>_. set_errno_ret readdir_ret_ret_update result)
       | Some dp \<Rightarrow>
           bnd (on_world (sys_readdir (e_os E) dp)) (\<lambda>des.
           bnd (checked (fill_entries des (zeros MAX_SIZE) 0 0)) (\<lambda>(buf, count).
           bnd (flock (e_os E) fd LOCK_UN) (\<lambda>_.
           ret (result\<lparr>readdir_ret_count := count, readdir_ret_ret := 0,
                        readdir_ret_entries := buf\<rparr>)))))))"

definition bb_releasedir_6_svc ::
  "'w env \<Rightarrow> releasedir_arg \<Rightarrow> releasedir_ret \<Rightarrow> ('w process, releasedir_ret) prog" where
  "bb_releasedir_6_svc E argp result =
     bnd (sys_call (sys_fdopendir (e_os E) (releasedir_arg_fd argp))) (\<lambda>dir. case dir of
         None \<Rightarrow> set_errno_ret releasedir_ret_ret_update result
       | Some dir \<Rightarrow> bnd (sys_int (sys_closedir (e_os E) dir)) (\<lambda>close_ret.
           if close_ret = - 1 then set_errno_ret releasedir_ret_ret_update result
           else ret (result\<lparr>releasedir_ret_ret := 0\<rparr>)))"

definition bb_rename_6_svc ::
  "'w env \<Rightarrow> rename_ret \<Rightarrow> rename_arg \<Rightarrow> rename_ret \<Rightarrow> ('w process, rename_ret) prog" where
  "bb_rename_6_svc E slave_ret argp result =
     bnd (TRANSMIT_TO_SECONDATY E bb_rename_6 rename_arg_server_info rename_arg_server_info_update
            slave_ret argp) (\<lambda>_.
     let ip = rename_arg_ip argp; path = rename_arg_path argp in
     bnd (checked (translate_abspath path)) (\<lambda>fpath.
     let newpath = rename_arg_newpath argp in
     bnd (checked (translate_abspath newpath)) (\<lambda>fnewpath.
     GET_PARENT_PATH fpath (\<lambda>parent_path.
     CHECK_PARENT_DIRECTORY_VALID (e_os E) parent_path fpath ip ''rename'' rename_ret_ret_update result (
     GET_PARENT_PATH fnewpath (\<lambda>new_parent_path.
     CHECK_PARENT_DIRECTORY_VALID (e_os E) new_parent_path fnewpath ip ''rename'' rename_ret_ret_update result (
     LOCK_DIRECTORY (e_os E) parent_path rename_ret_ret_update result (\<lambda>parent_fd.
     let rest = (\<lambda>new_parent_fd.
       bnd (sys_int (sys_rename (e_os E) fpath fnewpath)) (\<lambda>r.
       bnd (UNLOCK_DIRECTORY (e_os E) parent_fd rename_ret_ret_update (result\<lparr>rename_ret_ret := r\<rparr>)) (\<lambda>result.
         if parent_path \<noteq> new_parent_path
         then UNLOCK_DIRECTORY (e_os E) new_parent_fd rename_ret_ret_update result
         else ret result))) in
     if parent_path \<noteq> new_parent_path
     then LOCK_DIRECTORY (e_os E) new_parent_path rename_ret_ret_update result rest
     else rest (- 1)))))))))"

section \<open>Links\<close>

definition bb_symlink_6_svc ::
  "'w env \<Rightarrow> symlink_ret \<Rightarrow> symlink_arg \<Rightarrow> symlink_ret \<Rightarrow> ('w process, symlink_ret) prog" where
  "bb_symlink_6_svc E slave_ret argp result =
     bnd (TRANSMIT_TO_SECONDATY E bb_symlink_6 symlink_arg_server_info symlink_arg_server_info_update
            slave_ret argp) (\<lambda>_.
     let ip = symlink_arg_ip argp; path = symlink_arg_path argp; link = symlink_arg_link argp in
     bnd (checked (translate_abspath link)) (\<lambda>flink.
     GET_PARENT_PATH flink (\<lambda>link_parent_path.
     CHECK_PARENT_DIRECTORY_VALID (e_os E) link_parent_path flink ip ''symlink'' symlink_ret_ret_update result (
     bnd (sys_int (sys_symlink (e_os E) path flink)) (\<lambda>r.
     let result = result\<lparr>symlink_ret_ret := r\<rparr> in
       if \<not> cneg r
       then bnd (set_softlink_owner (e_os E) flink ip) (\<lambda>own.
              ret (if cneg own then result\<lparr>symlink_ret_ret := - 1\<rparr> else result))
       else ret result)))))"

definition bb_link_6_svc ::
  "'w env \<Rightarrow> link_ret \<Rightarrow> link_arg \<Rightarrow> link_ret \<Rightarrow> ('w process, link_ret) prog" where
  "bb_link_6_svc E slave_ret argp result =
     bnd (TRANSMIT_TO_SECONDATY E bb_link_6 link_arg_server_info link_arg_server_info_update
            slave_ret argp) (\<lambda>_.
     let ip = link_arg_ip argp; path = link_arg_path argp in
     bnd (checked (translate_abspath path)) (\<lambda>fpath.
     let newpath = link_arg_newpath argp in
     bnd (checked (translate_abspath newpath)) (\<lambda>fnewpath.
     GET_PARENT_PATH fpath (\<lambda>parent_path.
     CHECK_PARENT_DIRECTORY_VALID (e_os E) parent_path fpath ip ''link'' link_ret_ret_update result (
     GET_PARENT_PATH fnewpath (\<lambda>new_parent_path.
     CHECK_PARENT_DIRECTORY_VALID (e_os E) new_parent_path fnewpath ip ''link'' link_ret_ret_update result (
     bnd (sys_int (sys_link (e_os E) fpath fnewpath)) (\<lambda>r.
     let result = result\<lparr>link_ret_ret := r\<rparr> in
       if \<not> cneg r
       then bnd (set_owner (e_os E) fnewpath ip) (\<lambda>own.
              ret (if cneg own then result\<lparr>link_ret_ret := - 1\<rparr> else result))
       else ret result))))))))"

definition bb_readlink_6_svc ::
  "'w env \<Rightarrow> readlink_arg \<Rightarrow> readlink_ret \<Rightarrow> ('w process, readlink_ret) prog" where
  "bb_readlink_6_svc E argp result =
     (let size = unat (readlink_arg_size argp); path = readlink_arg_path argp in
     bnd (checked (translate_abspath path)) (\<lambda>fpath.
     bnd (sys_query (sys_readlink (e_os E) fpath size)) (\<lambda>target. case target of
         None \<Rightarrow> set_errno_ret readlink_ret_ret_update result
       | Some target \<Rightarrow> bnd (checked (poke (zeros MAX_SIZE) 0 target)) (\<lambda>buffer.
           ret (result\<lparr>readlink_ret_len := of_nat (length target), readlink_ret_ret := 0,
                        readlink_ret_buffer := buffer\<rparr>)))))"

section \<open>Files\<close>

definition S_ISREG :: "c_int \<Rightarrow> bool" where
  "S_ISREG mode \<longleftrightarrow> mode AND 61440 = 32768"

definition S_ISFIFO :: "c_int \<Rightarrow> bool" where
  "S_ISFIFO mode \<longleftrightarrow> mode AND 61440 = 4096"

definition bb_mknod_6_svc ::
  "'w env \<Rightarrow> mknod_ret \<Rightarrow> mknod_arg \<Rightarrow> mknod_ret \<Rightarrow> ('w process, mknod_ret) prog" where
  "bb_mknod_6_svc E slave_ret argp result =
     bnd (TRANSMIT_TO_SECONDATY E bb_mknod_6 mknod_arg_server_info mknod_arg_server_info_update
            slave_ret argp) (\<lambda>_.
     let ip = mknod_arg_ip argp; path = mknod_arg_path argp in
     bnd (checked (translate_abspath path)) (\<lambda>fpath.
     let mode = mknod_arg_mode argp; dev = mknod_arg_dev argp in
     GET_PARENT_PATH fpath (\<lambda>parent_path.
     CHECK_PARENT_DIRECTORY_VALID (e_os E) parent_path fpath ip ''mknod'' mknod_ret_ret_update result (
     LOCK_DIRECTORY (e_os E) parent_path mknod_ret_ret_update result (\<lambda>fd.
     bnd (if S_ISREG mode
          then bnd (sys_call (sys_open (e_os E) fpath 193 mode)) (\<lambda>func_ret. case func_ret of
                   None \<Rightarrow> ret (- 1)
                 | Some func_ret \<Rightarrow> bnd (sys_int (sys_close (e_os E) func_ret)) (\<lambda>_. ret 0))
          else if S_ISFIFO mode then sys_int (sys_mkfifo (e_os E) fpath mode)
          else sys_int (sys_mknod (e_os E) fpath mode dev)) (\<lambda>func_ret.
       if cneg func_ret
       then bnd (UNLOCK_DIRECTORY (e_os E) fd mknod_ret_ret_update result) (\<lambda>result.
              ret (result\<lparr>mknod_ret_ret := - 1\<rparr>))
       else let result = result\<lparr>mknod_ret_ret := 0\<rparr> in
         bnd (set_owner (e_os E) fpath ip) (\<lambda>own.
         UNLOCK_DIRECTORY (e_os E) fd mknod_ret_ret_update
           (if cneg own then result\<lparr>mknod_ret_ret := - 1\<rparr> else result))))))))"

definition bb_truncate_6_svc ::
  "'w env \<Rightarrow> truncate_ret \<Rightarrow> truncate_arg \<Rightarrow> truncate_ret \<Rightarrow> ('w process, truncate_ret) prog" where
  "bb_truncate_6_svc E slave_ret argp result =
     bnd (TRANSMIT_TO_SECONDATY E bb_truncate_6 truncate_arg_server_info truncate_arg_server_info_update
            slave_ret argp) (\<lambda>_.
     bnd (checked (translate_abspath (truncate_arg_path argp))) (\<lambda>fpath.
     bnd (sys_int (sys_truncate (e_os E) fpath (truncate_arg_newsize argp))) (\<lambda>syscall_ret.
       if cneg syscall_ret then set_errno_ret truncate_ret_ret_update result
       else ret (result\<lparr>truncate_ret_ret := 0\<rparr>))))"

definition bb_unlink_6_svc ::
  "'w env \<Rightarrow> unlink_ret \<Rightarrow> unlink_arg \<Rightarrow> unlink_ret \<Rightarrow> ('w process, unlink_ret) prog" where
  "bb_unlink_6_svc E slave_ret argp result =
     bnd (TRANSMIT_TO_SECONDATY E bb_unlink_6 unlink_arg_server_info unlink_arg_server_info_update
            slave_ret argp) (\<lambda>_.
     let ip = unlink_arg_ip argp; path = unlink_arg_path argp in
     bnd (checked (translate_abspath path)) (\<lambda>fpath.
     GET_PARENT_PATH fpath (\<lambda>parent_path.
     CHECK_PARENT_DIRECTORY_VALID (e_os E) parent_path fpath ip ''unlink'' unlink_ret_ret_update result (
     LOCK_DIRECTORY (e_os E) parent_path unlink_ret_ret_update result (\<lambda>fd.
     bnd (sys_int (sys_unlink (e_os E) fpath)) (\<lambda>r.
     UNLOCK_DIRECTORY (e_os E) fd unlink_ret_ret_update (result\<lparr>unlink_ret_ret := r\<rparr>)))))))"

definition bb_utime_6_svc ::
  "'w env \<Rightarrow> utime_ret \<Rightarrow> utime_arg \<Rightarrow> utime_ret \<Rightarrow> ('w process, utime_ret) prog" where
  "bb_utime_6_svc E slave_ret argp result =
     bnd (TRANSMIT_TO_SECONDATY E bb_utime_6 utime_arg_server_info utime_arg_server_info_update
            slave_ret argp) (\<lambda>_.
     let ip = utime_arg_ip argp; path = utime_arg_path argp in
     bnd (checked (translate_abspath path)) (\<lambda>fpath.
     let actime = utime_arg_actime argp; modtime = utime_arg_modtime argp in
     bnd (is_owner (e_os E) fpath ip) (\<lambda>owner.
       if owner = 0 then ret (result\<lparr>utime_ret_ret := - EACCES\<rparr>)
       else bnd (sys_int (sys_utime (e_os E) fpath actime modtime)) (\<lambda>r.
              ret (result\<lparr>utime_ret_ret := r\<rparr>)))))"

definition bb_chmod_6_svc ::
  "'w env \<Rightarrow> chmod_ret \<Rightarrow> chmod_arg \<Rightarrow> chmod_ret \<Rightarrow> ('w process, chmod_ret) prog" where
  "bb_chmod_6_svc E slave_ret argp result =
     bnd (TRANSMIT_TO_SECONDATY E bb_chmod_6 chmod_arg_server_info chmod_arg_server_info_update
            slave_ret argp) (\<lambda>_.
     let ip = chmod_arg_ip argp; path = chmod_arg_path argp in
     bnd (checked (translate_abspath path)) (\<lambda>fpath.
     let mode = chmod_arg_mode argp in
     bnd (is_owner (e_os E) fpath ip) (\<lambda>owner.
       if owner = 0 then ret (result\<lparr>chmod_ret_ret := - EACCES\<rparr>)
       else bnd (sys_int (sys_chmod (e_os E) fpath mode)) (\<lambda>r.
              ret (result\<lparr>chmod_ret_ret := r\<rparr>)))))"

definition bb_chown_6_svc ::
  "'w env \<Rightarrow> chown_ret \<Rightarrow> chown_arg \<Rightarrow> chown_ret \<Rightarrow> ('w process, chown_ret) prog" where
  "bb_chown_6_svc E slave_ret argp result =
     bnd (TRANSMIT_TO_SECONDATY E bb_chown_6 chown_arg_server_info chown_arg_server_info_update
            slave_ret argp) (\<lambda>_.
     bnd (checked (translate_abspath (chown_arg_path argp))) (\<lambda>fpath.
     bnd (sys_int (sys_chown (e_os E) fpath (chown_arg_uid argp) (chown_arg_gid argp))) (\<lambda>syscall_ret.
       if cneg syscall_ret then set_errno_ret chown_ret_ret_update result
       else ret (result\<lparr>chown_ret_ret := 0\<rparr>))))"

section \<open>Open files\<close>

definition O_RDONLY :: c_int where "O_RDONLY = 0"
definition O_WRONLY :: c_int where "O_WRONLY = 1"
definition O_RDWR :: c_int where "O_RDWR = 2"
definition O_ACCMODE :: c_int where "O_ACCMODE = 3"

definition open_flag_to_check :: "c_int \<Rightarrow> c_int" where
  "open_flag_to_check flags =
     (let flag_to_check = 0; acc_mode = flags AND O_ACCMODE;
          flag_to_check = (if acc_mode = O_RDONLY \<or> acc_mode = O_RDWR
            then flag_to_check OR R_REQ else flag_to_check);
          flag_to_check = (if acc_mode = O_WRONLY \<or> acc_mode = O_RDWR
            then flag_to_check OR W_REQ else flag_to_check)
      in flag_to_check)"

definition bb_open_6_svc ::
  "'w env \<Rightarrow> open_arg \<Rightarrow> open_ret \<Rightarrow> ('w process, open_ret) prog" where
  "bb_open_6_svc E argp result =
     (let ip = open_arg_ip argp; path = open_arg_path argp in
     bnd (checked (translate_abspath path)) (\<lambda>fpath.
     let flags = open_arg_flags argp in
     bnd (is_op_valid (e_os E) fpath ip (open_flag_to_check flags)) (\<lambda>v.
       if v \<noteq> 1 then ret (result\<lparr>open_ret_ret := - EACCES\<rparr>)
       else bnd (sys_call (sys_open (e_os E) fpath flags 0)) (\<lambda>fd. case fd of
           None \<Rightarrow> set_errno_ret open_ret_ret_update (result\<lparr>open_ret_fd := - 1\<rparr>)
         | Some fd \<Rightarrow> ret (result\<lparr>open_ret_fd := fd, open_ret_ret := 0\<rparr>)))))"

definition bb_release_6_svc ::
  "'w env \<Rightarrow> release_arg \<Rightarrow> release_ret \<Rightarrow> ('w process, release_ret) prog" where
  "bb_release_6_svc E argp result =
     bnd (sys_int (sys_close (e_os E) (release_arg_fd argp))) (\<lambda>close_ret.
       if close_ret = - 1 then set_errno_ret release_ret_ret_update result
       else ret (result\<lparr>release_ret_ret := 0\<rparr>))"

definition bb_read_6_svc ::
  "'w env \<Rightarrow> read_arg \<Rightarrow> read_ret \<Rightarrow> ('w process, read_ret) prog" where
  "bb_read_6_svc E argp result =
     (let fd = read_arg_fd argp; size = unat (read_arg_size argp); offset = unat (read_arg_offset argp) in
     bnd (flock (e_os E) fd LOCK_SH) (\<lambda>_.
     bnd (sys_call (sys_pread (e_os E) fd size offset)) (\<lambda>data.
     bnd (case data of None \<Rightarrow> ret (zeros MAX_SIZE)
          | Some data \<Rightarrow> checked (poke (zeros MAX_SIZE) 0 data)) (\<lambda>buf.
     bnd (flock (e_os E) fd LOCK_UN) (\<lambda>_. case data of
         None \<Rightarrow> set_errno_ret read_ret_ret_update result
       | Some data \<Rightarrow> ret (result\<lparr>read_ret_len := of_nat (length data), read_ret_ret := 0,
                                   read_ret_buffer := buf\<rparr>))))))"

definition bb_write_6_svc ::
  "'w env \<Rightarrow> write_ret \<Rightarrow> write_arg \<Rightarrow> write_ret \<Rightarrow> ('w process, write_ret) prog" where
  "bb_write_6_svc E slave_ret argp result =
     bnd (TRANSMIT_TO_SECONDATY E bb_write_6 write_arg_server_info write_arg_server_info_update
            slave_ret argp) (\<lambda>_.
     let fd = write_arg_fd argp; size = unat (write_arg_size argp);
         offset = unat (write_arg_offset argp); buf = write_arg_buffer argp;
         secondary = (is_master (write_arg_server_info argp) = 0 \<and>
                      is_degraded (write_arg_server_info argp) = 0) in
     bnd (if secondary
          then bnd (checked (translate_abspath (write_arg_path argp))) (\<lambda>fpath.
               bnd (sys_call (sys_open (e_os E) fpath 33793 0)) (\<lambda>fd.
               ret (case fd of None \<Rightarrow> - 1 | Some fd \<Rightarrow> fd)))
          else ret fd) (\<lambda>fd.
     bnd (flock (e_os E) fd LOCK_EX) (\<lambda>_.
     bnd (checked (if size \<le> length buf then Some (take size buf) else None)) (\<lambda>data.
     bnd (sys_call (sys_pwrite (e_os E) fd data offset)) (\<lambda>written.
     bnd (flock (e_os E) fd LOCK_UN) (\<lambda>_. case written of
         None \<Rightarrow> set_errno_ret write_ret_ret_update result
       | Some n \<Rightarrow>
           bnd (if secondary then bnd (sys_int (sys_close (e_os E) fd)) (\<lambda>_. ret ()) else ret ()) (\<lambda>_.
           ret (result\<lparr>write_ret_len := of_nat n, write_ret_ret := 0\<rparr>))))))))"

definition bb_statfs_6_svc ::
  "'w env \<Rightarrow> statfs_arg \<Rightarrow> statfs_ret \<Rightarrow> ('w process, statfs_ret) prog" where
  "bb_statfs_6_svc E argp result =
     bnd (checked (translate_abspath (statfs_arg_path argp))) (\<lambda>fpath.
     bnd (sys_query (sys_statvfs (e_os E) fpath)) (\<lambda>statv. case statv of
         None \<Rightarrow> set_errno_ret statfs_ret_ret_update result
       | Some statv \<Rightarrow> ret (result\<lparr>
             statfs_ret_ret := 0,
             statfs_ret_f_bavail := f_bavail statv,
             statfs_ret_f_bfree := f_bfree statv,
             statfs_ret_f_blocks := f_blocks statv,
             statfs_ret_f_bsize := f_bsize statv,
             statfs_ret_f_favail := f_favail statv,
             statfs_ret_f_ffree := f_ffree statv,
             statfs_ret_f_files := f_files statv,
             statfs_ret_f_flag := f_flag statv,
             statfs_ret_f_frsize := f_frsize statv,
             statfs_ret_f_fsid := f_fsid statv,
             statfs_ret_f_namemax := f_namemax statv\<rparr>)))"

end
