(* ===== verification/Mem_Os.thy ===== *)
theory Mem_Os
  imports Server_Handlers
begin

text \<open>
  A small kernel in memory, on which the theorems about the server are evaluated: an instance of
  the record of system calls, so that their hypotheses are seen to hold. Paths are looked up as they
  are (no symbolic link is followed, no \<^verbatim>\<open>..\<close> resolved), the process is privileged, and nothing of
  the program is verified here. What the theorems rely on is as documented in the manual pages: error
  numbers, the lowest free descriptor being new, an advisory lock belonging to the open file and
  blocking the others, \<^verbatim>\<open>pwrite\<close> appending on a descriptor opened with \<^verbatim>\<open>O_APPEND\<close>.
\<close>

record node =
  n_mode :: c_int
  n_uid :: c_int
  n_gid :: c_int
  n_atime :: c_long
  n_mtime :: c_long
  n_data :: "char list"

record mem =
  m_paths :: "(string \<times> nat) list"
  m_nodes :: "(nat \<times> node) list"
  m_fds :: "(c_int \<times> nat \<times> c_int) list" \<comment> \<open>descriptor, inode, flags\<close>
  m_locks :: "(c_int \<times> nat \<times> bool) list" \<comment> \<open>descriptor, inode, exclusive\<close>

section \<open>Names and nodes\<close>

definition m_lookup :: "mem \<Rightarrow> string \<Rightarrow> (nat \<times> node) option" where
  "m_lookup m p = (case map_of (m_paths m) p of
       None \<Rightarrow> None
     | Some i \<Rightarrow> (case map_of (m_nodes m) i of None \<Rightarrow> None | Some nd \<Rightarrow> Some (i, nd)))"

definition m_dir_of :: "string \<Rightarrow> string" where
  "m_dir_of p = rev (drop 1 (dropWhile (\<lambda>c. c \<noteq> CHR ''/'') (rev p)))"

definition m_is_dir :: "c_int \<Rightarrow> bool" where
  "m_is_dir mode \<longleftrightarrow> mode AND 61440 = 16384"

definition m_below :: "string \<Rightarrow> string \<Rightarrow> bool" where
  "m_below d p \<longleftrightarrow> length d < length p \<and> take (length d + 1) p = d @ ''/''"

definition m_fresh :: "nat list \<Rightarrow> nat" where
  "m_fresh xs = fold max xs 0 + 1"

definition m_stat :: "nat \<Rightarrow> node \<Rightarrow> stat_buf" where
  "m_stat i nd = \<lparr>st_dev = 1, st_ino = of_nat i, st_mode = n_mode nd, st_nlink = 1, st_uid = n_uid nd,
     st_gid = n_gid nd, st_rdev = 0, st_size = of_nat (length (n_data nd)), st_blksize = 4096,
     st_blocks = 8, st_atime = n_atime nd, st_mtime = n_mtime nd, st_ctime = n_mtime nd\<rparr>"

text \<open>A call on the node a path names, and the creation of a new name.\<close>

definition m_on_node :: "string \<Rightarrow> (node \<Rightarrow> c_int + node) \<Rightarrow> (mem, unit) sysfun" where
  "m_on_node p f m = (case m_lookup m p of
       None \<Rightarrow> (Inl 2, m)
     | Some (i, nd) \<Rightarrow> (case f nd of
           Inl e \<Rightarrow> (Inl e, m)
         | Inr nd' \<Rightarrow> (Inr (), m\<lparr>m_nodes := (i, nd') # m_nodes m\<rparr>)))"

definition m_parent_error :: "mem \<Rightarrow> string \<Rightarrow> c_int" where
  \<comment> \<open>\<open>0\<close> when the directory of \<open>p\<close> can take a new name\<close>
  "m_parent_error m p = (case m_lookup m (m_dir_of p) of
       None \<Rightarrow> 2
     | Some (i, nd) \<Rightarrow> if m_is_dir (n_mode nd) then 0 else 20)"

definition m_create :: "string \<Rightarrow> c_int \<Rightarrow> char list \<Rightarrow> (mem, unit) sysfun" where
  "m_create p mode data m =
     (if m_lookup m p \<noteq> None then (Inl 17, m)
      else if m_parent_error m p \<noteq> 0 then (Inl (m_parent_error m p), m)
      else let i = m_fresh (map fst (m_nodes m)) in
        (Inr (), m\<lparr>m_paths := (p, i) # m_paths m,
          m_nodes := (i, \<lparr>n_mode = mode, n_uid = 0, n_gid = 0, n_atime = 0, n_mtime = 0,
            n_data = data\<rparr>) # m_nodes m\<rparr>))"

definition m_remove :: "string \<Rightarrow> mem \<Rightarrow> mem" where
  "m_remove p m = m\<lparr>m_paths := filter (\<lambda>(q, _). q \<noteq> p) (m_paths m)\<rparr>"

definition m_rmdir :: "string \<Rightarrow> (mem, unit) sysfun" where
  "m_rmdir p m = (case m_lookup m p of
       None \<Rightarrow> (Inl 2, m)
     | Some (i, nd) \<Rightarrow>
         if \<not> m_is_dir (n_mode nd) then (Inl 20, m)
         else if list_ex (\<lambda>(q, _). m_below p q) (m_paths m) then (Inl 39, m)
         else (Inr (), m_remove p m))"

definition m_unlink :: "string \<Rightarrow> (mem, unit) sysfun" where
  "m_unlink p m = (case m_lookup m p of
       None \<Rightarrow> (Inl 2, m)
     | Some (i, nd) \<Rightarrow> if m_is_dir (n_mode nd) then (Inl 21, m) else (Inr (), m_remove p m))"

definition m_rename :: "string \<Rightarrow> string \<Rightarrow> (mem, unit) sysfun" where
  "m_rename p q m =
     (if m_lookup m p = None then (Inl 2, m)
      else if m_parent_error m q \<noteq> 0 then (Inl (m_parent_error m q), m)
      else if p = q then (Inr (), m)
      else (Inr (), m\<lparr>m_paths := List.map (\<lambda>(x, i).
          (if x = p then q else if m_below p x then q @ drop (length p) x else x, i))
          (filter (\<lambda>(x, _). x \<noteq> q) (m_paths m))\<rparr>))"

definition m_link :: "string \<Rightarrow> string \<Rightarrow> (mem, unit) sysfun" where
  "m_link p q m = (case m_lookup m p of
       None \<Rightarrow> (Inl 2, m)
     | Some (i, nd) \<Rightarrow>
         if m_is_dir (n_mode nd) then (Inl 1, m)
         else if m_lookup m q \<noteq> None then (Inl 17, m)
         else if m_parent_error m q \<noteq> 0 then (Inl (m_parent_error m q), m)
         else (Inr (), m\<lparr>m_paths := (q, i) # m_paths m\<rparr>))"

section \<open>Descriptors\<close>

definition m_new_fd :: "mem \<Rightarrow> c_int" where
  "m_new_fd m = (let used = List.map fst (m_fds m);
                     free = filter (\<lambda>k. of_nat k \<notin> set used) [3..<4 + length used] in of_nat (hd free))"

definition m_open_node :: "nat \<Rightarrow> c_int \<Rightarrow> (mem, c_int) sysfun" where
  "m_open_node i flags m = (let fd = m_new_fd m in
     if 1024 \<le> length (m_fds m) then (Inl 24, m)
     else (Inr fd, m\<lparr>m_fds := (fd, i, flags) # m_fds m,
                    m_locks := filter (\<lambda>(f, _). f \<noteq> fd) (m_locks m)\<rparr>))"

definition m_open :: "string \<Rightarrow> c_int \<Rightarrow> c_int \<Rightarrow> (mem, c_int) sysfun" where
  "m_open p flags mode m = (case m_lookup m p of
       Some (i, nd) \<Rightarrow>
         if flags AND 192 = 192 then (Inl 17, m) else m_open_node i flags m
     | None \<Rightarrow>
         if flags AND 64 = 0 then (Inl 2, m)
         else (case m_create p (32768 OR mode) [] m of
             (Inl e, m') \<Rightarrow> (Inl e, m')
           | (Inr u, m') \<Rightarrow> (case m_lookup m' p of
                 None \<Rightarrow> (Inl 2, m')
               | Some (i, nd) \<Rightarrow> m_open_node i flags m')))"

definition m_close :: "c_int \<Rightarrow> (mem, unit) sysfun" where
  "m_close fd m = (case map_of (m_fds m) fd of
       None \<Rightarrow> (Inl 9, m)
     | Some _ \<Rightarrow> (Inr (), m\<lparr>m_fds := filter (\<lambda>(f, _). f \<noteq> fd) (m_fds m),
                          m_locks := filter (\<lambda>(f, _). f \<noteq> fd) (m_locks m)\<rparr>))"

definition m_flock :: "c_int \<Rightarrow> lock_op \<Rightarrow> mem \<Rightarrow> ((c_int + unit) \<times> mem) option" where
  "m_flock fd operation m = (case map_of (m_fds m) fd of
       None \<Rightarrow> Some (Inl 9, m)
     | Some (i, flags) \<Rightarrow>
         let others = filter (\<lambda>(f, _). f \<noteq> fd) (m_locks m) in
         (case operation of
            LOCK_UN \<Rightarrow> Some (Inr (), m\<lparr>m_locks := others\<rparr>)
          | LOCK_SH \<Rightarrow>
              if list_ex (\<lambda>(f, j, ex). j = i \<and> ex) others then None
              else Some (Inr (), m\<lparr>m_locks := (fd, i, False) # others\<rparr>)
          | LOCK_EX \<Rightarrow>
              if list_ex (\<lambda>(f, j, ex). j = i) others then None
              else Some (Inr (), m\<lparr>m_locks := (fd, i, True) # others\<rparr>)))"

definition m_pread :: "c_int \<Rightarrow> nat \<Rightarrow> nat \<Rightarrow> (mem, char list) sysfun" where
  "m_pread fd n off m = (case map_of (m_fds m) fd of
       None \<Rightarrow> (Inl 9, m)
     | Some (i, flags) \<Rightarrow> (case map_of (m_nodes m) i of
           None \<Rightarrow> (Inl 5, m)
         | Some nd \<Rightarrow> (Inr (take n (drop off (n_data nd))), m)))"

definition m_splice :: "char list \<Rightarrow> nat \<Rightarrow> char list \<Rightarrow> char list" where
  "m_splice old off data =
     take off old @ zeros (off - length old) @ data @ drop (off + length data) old"

definition m_pwrite :: "c_int \<Rightarrow> char list \<Rightarrow> nat \<Rightarrow> (mem, nat) sysfun" where
  "m_pwrite fd data off m = (case map_of (m_fds m) fd of
       None \<Rightarrow> (Inl 9, m)
     | Some (i, flags) \<Rightarrow> (case map_of (m_nodes m) i of
           None \<Rightarrow> (Inl 5, m)
         | Some nd \<Rightarrow> (Inr (length data), m\<lparr>m_nodes := (i, nd\<lparr>n_data :=
             m_splice (n_data nd) (if flags AND 1024 \<noteq> 0 then length (n_data nd) else off) data\<rparr>)
             # m_nodes m\<rparr>)))"

definition m_opendir :: "string \<Rightarrow> (mem, dirp) sysfun" where
  "m_opendir p m = (case m_lookup m p of
       None \<Rightarrow> (Inl 2, m)
     | Some (i, nd) \<Rightarrow>
         if \<not> m_is_dir (n_mode nd) then (Inl 20, m)
         else (case m_open_node i 0 m of (Inl e, m') \<Rightarrow> (Inl e, m') | (Inr fd, m') \<Rightarrow> (Inr (unat fd), m')))"

definition m_readdir :: "dirp \<Rightarrow> mem \<Rightarrow> string list \<times> mem" where
  "m_readdir dp m = (case map_of (m_fds m) (of_nat dp) of
       None \<Rightarrow> ([], m)
     | Some (i, flags) \<Rightarrow>
         (''.'' # ''..'' # concat (List.map (\<lambda>(q, _).
            case map_of (m_paths m) (m_dir_of q) of
              None \<Rightarrow> []
            | Some j \<Rightarrow> if j = i \<and> q \<noteq> [] then [drop (length (m_dir_of q) + 1) q] else []) (m_paths m)), m))"

section \<open>The record\<close>

definition mem_os :: "mem os" where
  "mem_os = \<lparr>
     sys_lstat = (\<lambda>p m. case m_lookup m p of None \<Rightarrow> Inl 2 | Some (i, nd) \<Rightarrow> Inr (m_stat i nd)),
     sys_access = (\<lambda>p mask m. case m_lookup m p of None \<Rightarrow> Inl 2 | Some _ \<Rightarrow> Inr ()),
     sys_readlink = (\<lambda>p n m. case m_lookup m p of
         None \<Rightarrow> Inl 2
       | Some (i, nd) \<Rightarrow> if n_mode nd AND 61440 = 40960 then Inr (take n (n_data nd)) else Inl 22),
     sys_statvfs = (\<lambda>p m. case m_lookup m p of
         None \<Rightarrow> Inl 2
       | Some _ \<Rightarrow> Inr \<lparr>f_bsize = 4096, f_frsize = 4096, f_blocks = 1000, f_bfree = 500, f_bavail = 400,
           f_files = 100, f_ffree = 50, f_favail = 40, f_fsid = 7, f_flag = 0, f_namemax = 255\<rparr>),
     sys_dirfd = (\<lambda>dp m. Inr (of_nat dp)),
     sys_mkdir = (\<lambda>p mode. m_create p (16384 OR mode) []),
     sys_rmdir = m_rmdir,
     sys_rename = m_rename,
     sys_symlink = (\<lambda>target p. m_create p 41471 target),
     sys_link = m_link,
     sys_unlink = m_unlink,
     sys_mkfifo = (\<lambda>p mode. m_create p (4096 OR mode) []),
     sys_mknod = (\<lambda>p mode dev. if mode AND 61440 = 40960 then (\<lambda>m. (Inl 22, m)) else m_create p mode []),
     sys_truncate = (\<lambda>p n. m_on_node p (\<lambda>nd. if cneg n then Inl 22 else
         Inr (nd\<lparr>n_data := take (unat n) (n_data nd) @ zeros (unat n - length (n_data nd))\<rparr>))),
     sys_utime = (\<lambda>p at mt. m_on_node p (\<lambda>nd. Inr (nd\<lparr>n_atime := at, n_mtime := mt\<rparr>))),
     sys_chmod = (\<lambda>p mode. m_on_node p (\<lambda>nd. Inr (nd\<lparr>n_mode :=
         (n_mode nd AND 61440) OR (mode AND 4095)\<rparr>))),
     sys_chown = (\<lambda>p uid gid. m_on_node p (\<lambda>nd. Inr (nd\<lparr>n_uid := uid, n_gid := gid\<rparr>))),
     sys_lchown = (\<lambda>p uid gid. m_on_node p (\<lambda>nd. Inr (nd\<lparr>n_uid := uid, n_gid := gid\<rparr>))),
     sys_open = m_open,
     sys_close = m_close,
     sys_flock = m_flock,
     sys_pread = m_pread,
     sys_pwrite = m_pwrite,
     sys_opendir = m_opendir,
     sys_fdopendir = (\<lambda>fd m. case map_of (m_fds m) fd of None \<Rightarrow> (Inl 9, m) | Some _ \<Rightarrow> (Inr (unat fd), m)),
     sys_readdir = m_readdir,
     sys_closedir = (\<lambda>dp. m_close (of_nat dp))\<rparr>"

text \<open>A transport on which every message is lost, and a server on it.\<close>

definition no_rpc :: "'w rpc" where
  "no_rpc = \<lparr>rpc_clnt_create = (\<lambda>h p w. (None, w)), rpc_send = (\<lambda>c n b w. (Inl 5, w)),
     rpc_clnt_destroy = (\<lambda>c w. w), rpc_limit = (\<lambda>c. 8800)\<rparr>"

definition mem_env :: "mem env" where
  "mem_env = \<lparr>e_os = mem_os, e_rpc = no_rpc, e_xdr = strict_library\<rparr>"

text \<open>
  A served tree: the root directory, a directory \<^verbatim>\<open>d\<close> of user 7 that others may only read, with a file
  \<^verbatim>\<open>f\<close> of user 7, and a file \<^verbatim>\<open>g\<close> of user 8 in the root directory.
\<close>

definition mem_node :: "c_int \<Rightarrow> c_int \<Rightarrow> char list \<Rightarrow> node" where
  "mem_node mode uid data =
     \<lparr>n_mode = mode, n_uid = uid, n_gid = uid, n_atime = 0, n_mtime = 0, n_data = data\<rparr>"

definition mem_tree :: mem where
  "mem_tree = \<lparr>
     m_paths = [(''/DFS'', 1), (''/DFS/d'', 2), (''/DFS/d/f'', 3), (''/DFS/g'', 4)],
     m_nodes = [(1, mem_node 16895 0 []), (2, mem_node 16836 7 []),
                (3, mem_node 33188 7 ''hello''), (4, mem_node 33152 8 ''secret'')],
     m_fds = [], m_locks = []\<rparr>"

definition mem_start :: "mem process" where
  "mem_start = \<lparr>world = mem_tree, errno = 0\<rparr>"

end
