(* ===== verification/Server_Guards.thy ===== *)
theory Server_Guards
  imports Mem_Os
begin

text \<open>
  What the checks of the server decide and what a refused request changes: the specification of the
  permission bits and of the check on the parent directory, and for every handler that has a check,
  that a request which fails it gets \<open>-EACCES\<close> and leaves the server's world as it was.
\<close>

section \<open>The permission bits\<close>

definition permitted :: "bool \<Rightarrow> c_int \<Rightarrow> c_int \<Rightarrow> bool" where
  \<comment> \<open>every requested permission is among the owner's bits for the owner, the others' for the rest\<close>
  "permitted owner mode flags \<longleftrightarrow>
     (flags AND R_REQ \<noteq> 0 \<longrightarrow> mode AND (if owner then S_IRUSR else S_IROTH) \<noteq> 0) \<and>
     (flags AND W_REQ \<noteq> 0 \<longrightarrow> mode AND (if owner then S_IWUSR else S_IWOTH) \<noteq> 0) \<and>
     (flags AND X_REQ \<noteq> 0 \<longrightarrow> mode AND (if owner then S_IXUSR else S_IXOTH) \<noteq> 0)"

lemma op_valid_bits_iff:
  "op_valid_bits ident uid mode flags = (if permitted (uid = ident) mode flags then 1 else 0)"
  by (simp add: op_valid_bits_def permitted_def Let_def)

lemma is_op_valid_run:
  "is_op_valid os fpath ip flags s = (case sys_lstat os fpath (world s) of
       Inl e \<Rightarrow> Inr (- 1, s\<lparr>errno := e\<rparr>)
     | Inr st \<Rightarrow> Inr (if permitted (st_uid st = atoi ip) (st_mode st) flags then 1 else 0, s))"
  by (simp add: is_op_valid_def bnd_def sys_run op_valid_bits_iff split: sum.splits)

lemma is_owner_run:
  "is_owner os fpath ip s = (case sys_lstat os fpath (world s) of
       Inl e \<Rightarrow> Inr (0, s\<lparr>errno := e\<rparr>)
     | Inr st \<Rightarrow> Inr (if atoi ip = st_uid st then 1 else 0, s))"
  by (simp add: is_owner_def bnd_def sys_run split: sum.splits)

section \<open>The check on the parent directory\<close>

definition owns :: "'w os \<Rightarrow> string \<Rightarrow> string \<Rightarrow> 'w \<Rightarrow> bool" where
  "owns os fpath ip w \<longleftrightarrow> (case sys_lstat os fpath w of Inl e \<Rightarrow> False | Inr st \<Rightarrow> st_uid st = atoi ip)"

definition may_use :: "'w os \<Rightarrow> string \<Rightarrow> string \<Rightarrow> c_int \<Rightarrow> 'w \<Rightarrow> bool" where
  "may_use os fpath ip flags w \<longleftrightarrow> (case sys_lstat os fpath w of
       Inl e \<Rightarrow> False
     | Inr st \<Rightarrow> permitted (st_uid st = atoi ip) (st_mode st) flags)"

definition unreadable :: "'w os \<Rightarrow> string \<Rightarrow> 'w \<Rightarrow> bool" where
  "unreadable os fpath w \<longleftrightarrow> (case sys_lstat os fpath w of Inl e \<Rightarrow> True | Inr st \<Rightarrow> False)"

definition parent_ok :: "'w os \<Rightarrow> string \<Rightarrow> string \<Rightarrow> string \<Rightarrow> string \<Rightarrow> 'w \<Rightarrow> bool" where
  "parent_ok os parent_path fpath ip op_name w \<longleftrightarrow>
     (if parent_path = ''/DFS''
      then op_name \<in> {''rmdir'', ''unlink''} \<longrightarrow>
           owns os fpath ip w \<or> unreadable os fpath w
      else may_use os parent_path ip (R_REQ OR W_REQ OR X_REQ) w)"

lemma is_parent_dir_valid_run:
  "\<exists>s'. is_parent_dir_valid os parent_path fpath ip op_name s
      = Inr (if parent_ok os parent_path fpath ip op_name (world s) then 1 else 0, s') \<and>
     world s' = world s"
proof (cases "parent_path = ''/DFS''")
  case True
  then show ?thesis
    by (cases "sys_lstat os fpath (world s)")
      (auto simp: is_parent_dir_valid_def is_rootdir_op_valid_to_delete_def parent_ok_def owns_def unreadable_def
        Let_def bnd_def sys_run)
next
  case False
  then show ?thesis
    by (cases "sys_lstat os parent_path (world s)")
      (auto simp: is_parent_dir_valid_def parent_ok_def may_use_def Let_def bnd_def is_op_valid_run)
qed

section \<open>Requests that are not transmitted\<close>

definition transmits :: "identity \<Rightarrow> bool" where
  \<comment> \<open>a request of a client to a primary server that is not degraded\<close>
  "transmits i \<longleftrightarrow> is_master i \<noteq> 0 \<and> is_degraded i = 0"

lemma TRANSMIT_local: "\<not> transmits (info a) \<Longrightarrow> TRANSMIT_TO_SECONDATY E func info set_info u a = ret ()"
  unfolding transmits_def TRANSMIT_TO_SECONDATY_def by auto

definition degraded_info :: identity where
  "degraded_info = \<lparr>is_master = 1, is_degraded = 1\<rparr>"

lemma degraded_info_local: "\<not> transmits degraded_info"
  by (simp add: transmits_def degraded_info_def)

text \<open>The transmission always returns: the state it leaves is the one the handler goes on in.\<close>

definition forwards ::
  "'w env \<Rightarrow> ('w, 'a, 'r) stub \<Rightarrow> ('a \<Rightarrow> identity) \<Rightarrow> ((identity \<Rightarrow> identity) \<Rightarrow> 'a \<Rightarrow> 'a) \<Rightarrow> 'r \<Rightarrow> 'a \<Rightarrow>
   'w process \<Rightarrow> 'w process" where
  "forwards E func info set_info u a s = end_state (TRANSMIT_TO_SECONDATY E func info set_info u a s)"

lemma TRANSMIT_forwards:
  "TRANSMIT_TO_SECONDATY E func info set_info u a s = Inr ((), forwards E func info set_info u a s)"
  by (auto simp: forwards_def TRANSMIT_TO_SECONDATY_def connect_server_def on_world_def bnd_def Let_def
    split: prod.split option.split)

lemma bnd_TRANSMIT:
  "bnd (TRANSMIT_TO_SECONDATY E func info set_info u a) k s = k () (forwards E func info set_info u a s)"
  by (simp add: bnd_def TRANSMIT_forwards)

lemma forwards_local: "\<not> transmits (info a) \<Longrightarrow> forwards E func info set_info u a s = s"
  by (simp add: forwards_def TRANSMIT_local)

text \<open>The request is answered with \<open>r\<close> and the world of the server is as before.\<close>

definition answers_only :: "('w process, 'r) prog \<Rightarrow> 'w process \<Rightarrow> 'r \<Rightarrow> bool" where
  "answers_only m s r \<longleftrightarrow> (\<exists>s'. m s = Inr (r, s') \<and> world s' = world s)"

lemma answers_only_ret: "answers_only (ret r) s r"
  by (simp add: answers_only_def)

lemma answers_only_checked: "answers_only (f a) s r \<Longrightarrow> answers_only (bnd (checked (Some a)) f) s r"
  by simp

lemma CHECK_denied:
  "\<not> parent_ok os parent_path fpath ip op_name (world s) \<Longrightarrow>
   answers_only (CHECK_PARENT_DIRECTORY_VALID os parent_path fpath ip op_name set_ret r k) s
     (set_ret (\<lambda>_. - EACCES) r)"
  using is_parent_dir_valid_run [of os parent_path fpath ip op_name s]
  by (auto simp: CHECK_PARENT_DIRECTORY_VALID_def answers_only_def bnd_def)

lemma CHECK_granted:
  assumes "parent_ok os parent_path fpath ip op_name (world s)"
  obtains s' where "CHECK_PARENT_DIRECTORY_VALID os parent_path fpath ip op_name set_ret r k s = k s'"
    and "world s' = world s"
  using is_parent_dir_valid_run [of os parent_path fpath ip op_name s] assms
  by (auto simp: CHECK_PARENT_DIRECTORY_VALID_def bnd_def)

lemma CHECK_denied_after_granted:
  assumes "parent_ok os p f ip op_name (world s)" and "\<not> parent_ok os p' f' ip op_name (world s)"
  shows "answers_only (CHECK_PARENT_DIRECTORY_VALID os p f ip op_name set_ret r
           (CHECK_PARENT_DIRECTORY_VALID os p' f' ip op_name set_ret r k)) s (set_ret (\<lambda>_. - EACCES) r)"
proof -
  obtain s' where e: "CHECK_PARENT_DIRECTORY_VALID os p f ip op_name set_ret r
      (CHECK_PARENT_DIRECTORY_VALID os p' f' ip op_name set_ret r k) s
    = CHECK_PARENT_DIRECTORY_VALID os p' f' ip op_name set_ret r k s'" and w: "world s' = world s"
    by (rule CHECK_granted [OF assms(1)])
  with CHECK_denied [of os p' f' ip op_name s' set_ret r k] assms(2) show ?thesis
    by (simp add: answers_only_def)
qed

lemma CHECK_two_denied:
  assumes "\<not> (parent_ok os p f ip op_name (world s) \<and> parent_ok os p' f' ip op_name (world s))"
  shows "answers_only (CHECK_PARENT_DIRECTORY_VALID os p f ip op_name set_ret r
           (CHECK_PARENT_DIRECTORY_VALID os p' f' ip op_name set_ret r k)) s (set_ret (\<lambda>_. - EACCES) r)"
proof (cases "parent_ok os p f ip op_name (world s)")
  case True
  with assms have "\<not> parent_ok os p' f' ip op_name (world s)" by simp
  with True show ?thesis by (rule CHECK_denied_after_granted)
next
  case False
  then show ?thesis by (rule CHECK_denied)
qed

text \<open>
  A handler that refuses: where \<open>ok\<close> does not hold of the world after the transmission, the answer is
  \<open>-EACCES\<close> and that world is left as it is; a request that is not transmitted is judged, and leaves the
  world, as it was found.
\<close>

definition refuses ::
  "'w env \<Rightarrow> ('w, 'a, 'r) stub \<Rightarrow> ('a \<Rightarrow> identity) \<Rightarrow> ((identity \<Rightarrow> identity) \<Rightarrow> 'a \<Rightarrow> 'a) \<Rightarrow>
   ('r \<Rightarrow> 'a \<Rightarrow> 'r \<Rightarrow> ('w process, 'r) prog) \<Rightarrow> ((c_int \<Rightarrow> c_int) \<Rightarrow> 'r \<Rightarrow> 'r) \<Rightarrow> ('w \<Rightarrow> bool) \<Rightarrow> 'a \<Rightarrow> bool" where
  "refuses E func info set_info svc set_ret ok a \<longleftrightarrow>
     (\<forall>u r s. let t = forwards E func info set_info u a s in
        (\<not> transmits (info a) \<longrightarrow> t = s) \<and>
        (\<not> ok (world t) \<longrightarrow> (\<exists>s'. svc u a r s = Inr (set_ret (\<lambda>_. - EACCES) r, s') \<and> world s' = world t)))"

lemma refusesI:
  assumes "\<And>u r. svc u a r = bnd (TRANSMIT_TO_SECONDATY E func info set_info u a) (\<lambda>_. k r)"
    and "\<And>r t. \<not> ok (world t) \<Longrightarrow> answers_only (k r) t (set_ret (\<lambda>_. - EACCES) r)"
  shows "refuses E func info set_info svc set_ret ok a"
  using assms(2) unfolding refuses_def Let_def assms(1) bnd_TRANSMIT answers_only_def
  by (blast intro: forwards_local)

lemma unlink_refused:
  assumes "translate_abspath path = Some fpath" and "get_parent_path fpath = Some p"
  shows "refuses E bb_unlink_6 unlink_arg_server_info unlink_arg_server_info_update (bb_unlink_6_svc E)
      unlink_ret_ret_update (parent_ok (e_os E) p fpath ip ''unlink'')
      \<lparr>unlink_arg_ip = ip, unlink_arg_server_info = info, unlink_arg_path = path\<rparr>"
  by (rule refusesI, unfold bb_unlink_6_svc_def, rule refl) (simp add: GET_PARENT_PATH_def Let_def assms CHECK_denied)

text \<open>
  C6. A change to a directory (\<^verbatim>\<open>mkdir\<close>, \<^verbatim>\<open>rmdir\<close>, \<^verbatim>\<open>mknod\<close>, \<^verbatim>\<open>unlink\<close>, \<^verbatim>\<open>symlink\<close>) that the check on the
  parent refuses gets \<open>-EACCES\<close>, and no file, directory or lock of the server is touched: for every request,
  whether the server transmits it or not. A primary transmits before it checks, and the check sees the
  world that the transmission left.
\<close>

theorem refused_directory_change:
  assumes "translate_abspath path = Some fpath" and "get_parent_path fpath = Some p"
  shows "refuses E bb_mkdir_6 mkdir_arg_server_info mkdir_arg_server_info_update (bb_mkdir_6_svc E)
      mkdir_ret_ret_update (parent_ok (e_os E) p fpath ip ''mkdir'')
      \<lparr>mkdir_arg_ip = ip, mkdir_arg_server_info = info, mkdir_arg_path = path, mkdir_arg_mode = mode\<rparr> \<and>
    refuses E bb_rmdir_6 rmdir_arg_server_info rmdir_arg_server_info_update (bb_rmdir_6_svc E)
      rmdir_ret_ret_update (parent_ok (e_os E) p fpath ip ''rmdir'')
      \<lparr>rmdir_arg_ip = ip, rmdir_arg_server_info = info, rmdir_arg_path = path\<rparr> \<and>
    refuses E bb_mknod_6 mknod_arg_server_info mknod_arg_server_info_update (bb_mknod_6_svc E)
      mknod_ret_ret_update (parent_ok (e_os E) p fpath ip ''mknod'')
      \<lparr>mknod_arg_ip = ip, mknod_arg_server_info = info, mknod_arg_path = path, mknod_arg_mode = mode,
        mknod_arg_dev = dev\<rparr> \<and>
    refuses E bb_unlink_6 unlink_arg_server_info unlink_arg_server_info_update (bb_unlink_6_svc E)
      unlink_ret_ret_update (parent_ok (e_os E) p fpath ip ''unlink'')
      \<lparr>unlink_arg_ip = ip, unlink_arg_server_info = info, unlink_arg_path = path\<rparr> \<and>
    refuses E bb_symlink_6 symlink_arg_server_info symlink_arg_server_info_update (bb_symlink_6_svc E)
      symlink_ret_ret_update (parent_ok (e_os E) p fpath ip ''symlink'')
      \<lparr>symlink_arg_ip = ip, symlink_arg_server_info = info, symlink_arg_path = target,
        symlink_arg_link = path\<rparr>"
proof (intro conjI)
  note run = GET_PARENT_PATH_def Let_def
  show "refuses E bb_mkdir_6 mkdir_arg_server_info mkdir_arg_server_info_update (bb_mkdir_6_svc E)
      mkdir_ret_ret_update (parent_ok (e_os E) p fpath ip ''mkdir'')
      \<lparr>mkdir_arg_ip = ip, mkdir_arg_server_info = info, mkdir_arg_path = path, mkdir_arg_mode = mode\<rparr>"
    by (rule refusesI, unfold bb_mkdir_6_svc_def, rule refl) (simp add: run assms CHECK_denied)
  show "refuses E bb_rmdir_6 rmdir_arg_server_info rmdir_arg_server_info_update (bb_rmdir_6_svc E)
      rmdir_ret_ret_update (parent_ok (e_os E) p fpath ip ''rmdir'')
      \<lparr>rmdir_arg_ip = ip, rmdir_arg_server_info = info, rmdir_arg_path = path\<rparr>"
    by (rule refusesI, unfold bb_rmdir_6_svc_def, rule refl) (simp add: run assms CHECK_denied)
  show "refuses E bb_mknod_6 mknod_arg_server_info mknod_arg_server_info_update (bb_mknod_6_svc E)
      mknod_ret_ret_update (parent_ok (e_os E) p fpath ip ''mknod'')
      \<lparr>mknod_arg_ip = ip, mknod_arg_server_info = info, mknod_arg_path = path, mknod_arg_mode = mode,
        mknod_arg_dev = dev\<rparr>"
    by (rule refusesI, unfold bb_mknod_6_svc_def, rule refl) (simp add: run assms CHECK_denied)
  show "refuses E bb_unlink_6 unlink_arg_server_info unlink_arg_server_info_update (bb_unlink_6_svc E)
      unlink_ret_ret_update (parent_ok (e_os E) p fpath ip ''unlink'')
      \<lparr>unlink_arg_ip = ip, unlink_arg_server_info = info, unlink_arg_path = path\<rparr>"
    by (rule unlink_refused [OF assms])
  show "refuses E bb_symlink_6 symlink_arg_server_info symlink_arg_server_info_update (bb_symlink_6_svc E)
      symlink_ret_ret_update (parent_ok (e_os E) p fpath ip ''symlink'')
      \<lparr>symlink_arg_ip = ip, symlink_arg_server_info = info, symlink_arg_path = target, symlink_arg_link = path\<rparr>"
    by (rule refusesI, unfold bb_symlink_6_svc_def, rule refl) (simp add: run assms CHECK_denied)
qed

text \<open>A request of a client to the primary: on a server whose secondary does not answer, it is judged as it stands.\<close>

definition primary_info :: identity where
  "primary_info = \<lparr>is_master = 1, is_degraded = 0\<rparr>"

lemma mem_forwards: "forwards mem_env func info set_info u a s = s"
  by (simp add: forwards_def TRANSMIT_TO_SECONDATY_def connect_server_def on_world_def bnd_def mem_env_def no_rpc_def)

lemma refused_directory_change_witness:
  "\<exists>t. bb_mkdir_6_svc mem_env \<lparr>mkdir_ret_ret = 0\<rparr> \<lparr>mkdir_arg_ip = ''8'',
     mkdir_arg_server_info = primary_info, mkdir_arg_path = ''/d/x'', mkdir_arg_mode = 511\<rparr>
     \<lparr>mkdir_ret_ret = 0\<rparr> mem_start = Inr (\<lparr>mkdir_ret_ret = - EACCES\<rparr>, t) \<and> world t = mem_tree"
proof -
  have a: "translate_abspath ''/d/x'' = Some ''/DFS/d/x''" and b: "get_parent_path ''/DFS/d/x'' = Some ''/DFS/d''"
    and c: "\<not> parent_ok (e_os mem_env) ''/DFS/d'' ''/DFS/d/x'' ''8'' ''mkdir'' mem_tree"
    by code_simp+
  from conjunct1 [OF refused_directory_change [OF a b, where E = mem_env and ip = "''8''" and mode = 511
        and info = primary_info]] c
  show ?thesis unfolding refuses_def mem_forwards Let_def
    by (auto dest!: spec [of _ "\<lparr>mkdir_ret_ret = 0\<rparr>"] spec [of _ mem_start] simp: mem_start_def)
qed

text \<open>
  C7. \<^verbatim>\<open>rename\<close> and \<^verbatim>\<open>link\<close> check both parents: if either refuses, the answer is \<open>-EACCES\<close> and nothing is
  touched, again for every request, transmitted before the checks or not.
\<close>

theorem refused_two_parents:
  assumes "translate_abspath path = Some fpath" and "get_parent_path fpath = Some p"
    and "translate_abspath newpath = Some fnewpath" and "get_parent_path fnewpath = Some p'"
  shows "refuses E bb_rename_6 rename_arg_server_info rename_arg_server_info_update (bb_rename_6_svc E)
      rename_ret_ret_update (\<lambda>w. parent_ok (e_os E) p fpath ip ''rename'' w \<and>
        parent_ok (e_os E) p' fnewpath ip ''rename'' w)
      \<lparr>rename_arg_ip = ip, rename_arg_server_info = info, rename_arg_path = path,
        rename_arg_newpath = newpath\<rparr> \<and>
    refuses E bb_link_6 link_arg_server_info link_arg_server_info_update (bb_link_6_svc E)
      link_ret_ret_update (\<lambda>w. parent_ok (e_os E) p fpath ip ''link'' w \<and>
        parent_ok (e_os E) p' fnewpath ip ''link'' w)
      \<lparr>link_arg_ip = ip, link_arg_server_info = info, link_arg_path = path, link_arg_newpath = newpath\<rparr>"
proof
  show "refuses E bb_rename_6 rename_arg_server_info rename_arg_server_info_update (bb_rename_6_svc E)
      rename_ret_ret_update (\<lambda>w. parent_ok (e_os E) p fpath ip ''rename'' w \<and>
        parent_ok (e_os E) p' fnewpath ip ''rename'' w)
      \<lparr>rename_arg_ip = ip, rename_arg_server_info = info, rename_arg_path = path, rename_arg_newpath = newpath\<rparr>"
    by (rule refusesI, unfold bb_rename_6_svc_def, rule refl)
      (simp add: GET_PARENT_PATH_def Let_def assms CHECK_two_denied)
  show "refuses E bb_link_6 link_arg_server_info link_arg_server_info_update (bb_link_6_svc E)
      link_ret_ret_update (\<lambda>w. parent_ok (e_os E) p fpath ip ''link'' w \<and>
        parent_ok (e_os E) p' fnewpath ip ''link'' w)
      \<lparr>link_arg_ip = ip, link_arg_server_info = info, link_arg_path = path, link_arg_newpath = newpath\<rparr>"
    by (rule refusesI, unfold bb_link_6_svc_def, rule refl)
      (simp add: GET_PARENT_PATH_def Let_def assms CHECK_two_denied)
qed

lemma refused_two_parents_witness:
  "\<exists>t. bb_rename_6_svc mem_env \<lparr>rename_ret_ret = 0\<rparr> \<lparr>rename_arg_ip = ''8'',
     rename_arg_server_info = primary_info, rename_arg_path = ''/d/f'', rename_arg_newpath = ''/h''\<rparr>
     \<lparr>rename_ret_ret = 0\<rparr> mem_start = Inr (\<lparr>rename_ret_ret = - EACCES\<rparr>, t) \<and> world t = mem_tree"
proof -
  have a: "translate_abspath ''/d/f'' = Some ''/DFS/d/f''" and b: "get_parent_path ''/DFS/d/f'' = Some ''/DFS/d''"
    and a': "translate_abspath ''/h'' = Some ''/DFS/h''" and b': "get_parent_path ''/DFS/h'' = Some ''/DFS''"
    and c: "\<not> parent_ok (e_os mem_env) ''/DFS/d'' ''/DFS/d/f'' ''8'' ''rename'' mem_tree"
    by code_simp+
  from conjunct1 [OF refused_two_parents [OF a b a' b', where E = mem_env and ip = "''8''" and info = primary_info]] c
  show ?thesis unfolding refuses_def mem_forwards Let_def
    by (auto dest!: spec [of _ "\<lparr>rename_ret_ret = 0\<rparr>"] spec [of _ mem_start] simp: mem_start_def)
qed

section \<open>Owners\<close>

text \<open>A handler that acts: where \<open>ok\<close> holds after the transmission, it is \<open>act\<close> in the state it left.\<close>

definition permits ::
  "'w env \<Rightarrow> ('w, 'a, 'r) stub \<Rightarrow> ('a \<Rightarrow> identity) \<Rightarrow> ((identity \<Rightarrow> identity) \<Rightarrow> 'a \<Rightarrow> 'a) \<Rightarrow>
   ('r \<Rightarrow> 'a \<Rightarrow> 'r \<Rightarrow> ('w process, 'r) prog) \<Rightarrow> ('r \<Rightarrow> ('w process, 'r) prog) \<Rightarrow> ('w \<Rightarrow> bool) \<Rightarrow> 'a \<Rightarrow> bool" where
  "permits E func info set_info svc act ok a \<longleftrightarrow>
     (\<forall>u r s. let t = forwards E func info set_info u a s in ok (world t) \<longrightarrow> svc u a r s = act r t)"

lemma permitsI:
  assumes "\<And>u r. svc u a r = bnd (TRANSMIT_TO_SECONDATY E func info set_info u a) (\<lambda>_. k r)"
    and "\<And>r t. ok (world t) \<Longrightarrow> k r t = act r t"
  shows "permits E func info set_info svc act ok a"
  using assms(2) unfolding permits_def Let_def assms(1) bnd_TRANSMIT by blast

lemma bnd_is_owner:
  "bnd (is_owner os f ip) k s = (if owns os f ip (world s) then k 1 s
     else k 0 (case sys_lstat os f (world s) of Inl e \<Rightarrow> s\<lparr>errno := e\<rparr> | Inr st \<Rightarrow> s))"
  by (auto simp: owns_def bnd_def is_owner_run split: sum.splits)

text \<open>
  C22. Only the owner of a file changes its mode or its times, whether the server transmits the request or not:
  for anyone else, and for a file whose status cannot be read, the answer is \<open>-EACCES\<close> and nothing is touched
  after the transmission; for the owner the answer and the new world are those of the system call.
\<close>

theorem owner_guards_chmod_and_utime:
  fixes ip path :: string and info :: identity and mode :: c_int and at mt :: c_long
  assumes "translate_abspath path = Some fpath"
  defines "chmod \<equiv> \<lparr>chmod_arg_ip = ip, chmod_arg_server_info = info, chmod_arg_path = path, chmod_arg_mode = mode\<rparr>"
    and "utime \<equiv> \<lparr>utime_arg_ip = ip, utime_arg_server_info = info, utime_arg_path = path, utime_arg_actime = at,
      utime_arg_modtime = mt\<rparr>"
  shows "refuses E bb_chmod_6 chmod_arg_server_info chmod_arg_server_info_update (bb_chmod_6_svc E)
      chmod_ret_ret_update (owns (e_os E) fpath ip) chmod \<and>
    permits E bb_chmod_6 chmod_arg_server_info chmod_arg_server_info_update (bb_chmod_6_svc E)
      (\<lambda>r. bnd (sys_int (sys_chmod (e_os E) fpath mode)) (\<lambda>x. ret (r\<lparr>chmod_ret_ret := x\<rparr>)))
      (owns (e_os E) fpath ip) chmod \<and>
    refuses E bb_utime_6 utime_arg_server_info utime_arg_server_info_update (bb_utime_6_svc E)
      utime_ret_ret_update (owns (e_os E) fpath ip) utime \<and>
    permits E bb_utime_6 utime_arg_server_info utime_arg_server_info_update (bb_utime_6_svc E)
      (\<lambda>r. bnd (sys_int (sys_utime (e_os E) fpath at mt)) (\<lambda>x. ret (r\<lparr>utime_ret_ret := x\<rparr>)))
      (owns (e_os E) fpath ip) utime"
proof (intro conjI)
  note run = Let_def assms bnd_is_owner
  show "refuses E bb_chmod_6 chmod_arg_server_info chmod_arg_server_info_update (bb_chmod_6_svc E)
      chmod_ret_ret_update (owns (e_os E) fpath ip) chmod"
    by (rule refusesI, unfold bb_chmod_6_svc_def, rule refl) (simp add: run answers_only_def split: sum.split)
  show "permits E bb_chmod_6 chmod_arg_server_info chmod_arg_server_info_update (bb_chmod_6_svc E)
      (\<lambda>r. bnd (sys_int (sys_chmod (e_os E) fpath mode)) (\<lambda>x. ret (r\<lparr>chmod_ret_ret := x\<rparr>)))
      (owns (e_os E) fpath ip) chmod"
    by (rule permitsI, unfold bb_chmod_6_svc_def, rule refl) (simp add: run)
  show "refuses E bb_utime_6 utime_arg_server_info utime_arg_server_info_update (bb_utime_6_svc E)
      utime_ret_ret_update (owns (e_os E) fpath ip) utime"
    by (rule refusesI, unfold bb_utime_6_svc_def, rule refl) (simp add: run answers_only_def split: sum.split)
  show "permits E bb_utime_6 utime_arg_server_info utime_arg_server_info_update (bb_utime_6_svc E)
      (\<lambda>r. bnd (sys_int (sys_utime (e_os E) fpath at mt)) (\<lambda>x. ret (r\<lparr>utime_ret_ret := x\<rparr>)))
      (owns (e_os E) fpath ip) utime"
    by (rule permitsI, unfold bb_utime_6_svc_def, rule refl) (simp add: run)
qed

lemma owner_guards_chmod_and_utime_witness:
  "(\<exists>t. bb_chmod_6_svc mem_env \<lparr>chmod_ret_ret = 0\<rparr> \<lparr>chmod_arg_ip = ''8'', chmod_arg_server_info = primary_info,
       chmod_arg_path = ''/d/f'', chmod_arg_mode = 511\<rparr> \<lparr>chmod_ret_ret = 0\<rparr> mem_start
     = Inr (\<lparr>chmod_ret_ret = - EACCES\<rparr>, t) \<and> world t = mem_tree) \<and>
   bb_chmod_6_svc mem_env \<lparr>chmod_ret_ret = 0\<rparr> \<lparr>chmod_arg_ip = ''7'',
     chmod_arg_server_info = primary_info, chmod_arg_path = ''/d/f'', chmod_arg_mode = 511\<rparr>
     \<lparr>chmod_ret_ret = 0\<rparr> mem_start
   = bnd (sys_int (sys_chmod mem_os ''/DFS/d/f'' 511)) (\<lambda>r. ret \<lparr>chmod_ret_ret = r\<rparr>) mem_start"
proof -
  have a: "translate_abspath ''/d/f'' = Some ''/DFS/d/f''"
    and c: "\<not> owns (e_os mem_env) ''/DFS/d/f'' ''8'' mem_tree"
    and d: "owns (e_os mem_env) ''/DFS/d/f'' ''7'' mem_tree"
    by code_simp+
  note all = owner_guards_chmod_and_utime [OF a, where E = mem_env and mode = 511 and info = primary_info]
  note start = spec [of _ "\<lparr>chmod_ret_ret = 0\<rparr>"] spec [of _ mem_start]
  from conjunct1 [OF all [of "''8''"]] c conjunct1 [OF conjunct2 [OF all [of "''7''"]]] d show ?thesis
    unfolding refuses_def permits_def mem_forwards Let_def
    by (auto dest!: start simp: mem_start_def, simp add: mem_env_def)
qed

section \<open>Opening\<close>

lemma open_flag_to_check_eq:
  "open_flag_to_check flags =
     (if flags AND 3 = 0 then R_REQ else if flags AND 3 = 1 then W_REQ
      else if flags AND 3 = 2 then R_REQ OR W_REQ else 0)"
  by (auto simp: open_flag_to_check_def Let_def req_bits O_ACCMODE_def O_RDONLY_def O_WRONLY_def O_RDWR_def)

text \<open>
  What a client may do with a file of a given status, in the bits of \<^verbatim>\<open>chmod(1)\<close>: those of the owner for the
  owner of the file, those of the others for everybody else; the group's are never looked at.
\<close>

definition may_read :: "string \<Rightarrow> stat_buf \<Rightarrow> bool" where
  "may_read ip st \<longleftrightarrow> st_mode st AND (if st_uid st = atoi ip then 256 else 4) \<noteq> 0"

definition may_write :: "string \<Rightarrow> stat_buf \<Rightarrow> bool" where
  "may_write ip st \<longleftrightarrow> st_mode st AND (if st_uid st = atoi ip then 128 else 2) \<noteq> 0"

definition may_search :: "string \<Rightarrow> stat_buf \<Rightarrow> bool" where
  "may_search ip st \<longleftrightarrow> st_mode st AND (if st_uid st = atoi ip then 64 else 1) \<noteq> 0"

lemma permitted_open:
  "permitted (st_uid st = atoi ip) (st_mode st) (open_flag_to_check flags) \<longleftrightarrow>
     (flags AND 3 \<in> {0, 2} \<longrightarrow> may_read ip st) \<and> (flags AND 3 \<in> {1, 2} \<longrightarrow> may_write ip st)"
  by (auto simp: open_flag_to_check_eq permitted_def may_read_def may_write_def mode_bits req_bits)

lemma permitted_opendir:
  "permitted (st_uid st = atoi ip) (st_mode st) (R_REQ OR X_REQ) \<longleftrightarrow> may_read ip st \<and> may_search ip st"
  by (auto simp: permitted_def may_read_def may_search_def mode_bits req_bits)

text \<open>
  C23. A file is opened exactly when its status can be read and grants what the access mode of the flags
  needs: reading for the modes \<^verbatim>\<open>0\<close> and \<^verbatim>\<open>2\<close>, writing for \<^verbatim>\<open>1\<close> and \<^verbatim>\<open>2\<close>, and nothing for the mode \<^verbatim>\<open>3\<close>; a
  directory exactly when it grants reading and searching. Then the handler makes the system call; otherwise
  the answer is \<open>-EACCES\<close> and nothing is opened.
\<close>

theorem open_needs_permission:
  fixes E :: "'w env" and s :: "'w process"
  assumes "translate_abspath path = Some fpath"
  defines "granted \<equiv> \<lambda>needs. case sys_lstat (e_os E) fpath (world s) of Inl e \<Rightarrow> False | Inr st \<Rightarrow> needs st"
  shows "(if granted (\<lambda>st. (flags AND 3 \<in> {0, 2} \<longrightarrow> may_read ip st) \<and> (flags AND 3 \<in> {1, 2} \<longrightarrow> may_write ip st))
     then bb_open_6_svc E \<lparr>open_arg_ip = ip, open_arg_path = path, open_arg_flags = flags\<rparr> ra s
       = bnd (sys_call (sys_open (e_os E) fpath flags 0)) (\<lambda>fd. case fd of
           None \<Rightarrow> set_errno_ret open_ret_ret_update (ra\<lparr>open_ret_fd := - 1\<rparr>)
         | Some fd \<Rightarrow> ret (ra\<lparr>open_ret_fd := fd, open_ret_ret := 0\<rparr>)) s
     else answers_only (bb_open_6_svc E \<lparr>open_arg_ip = ip, open_arg_path = path, open_arg_flags = flags\<rparr> ra) s
       (ra\<lparr>open_ret_ret := - EACCES\<rparr>)) \<and>
    (if granted (\<lambda>st. may_read ip st \<and> may_search ip st)
     then bb_opendir_6_svc E \<lparr>opendir_arg_ip = ip, opendir_arg_path = path\<rparr> rb s
       = bnd (sys_call (sys_opendir (e_os E) fpath)) (\<lambda>dp. case dp of
           None \<Rightarrow> set_errno_ret opendir_ret_ret_update rb
         | Some dp \<Rightarrow> bnd (sys_query (sys_dirfd (e_os E) dp)) (\<lambda>fd.
             ret (rb\<lparr>opendir_ret_fd := (case fd of None \<Rightarrow> - 1 | Some fd \<Rightarrow> fd), opendir_ret_ret := 0\<rparr>))) s
     else answers_only (bb_opendir_6_svc E \<lparr>opendir_arg_ip = ip, opendir_arg_path = path\<rparr> rb) s
       (rb\<lparr>opendir_ret_ret := - EACCES\<rparr>))"
proof (cases "sys_lstat (e_os E) fpath (world s)")
  case (Inl e)
  then show ?thesis
    by (simp add: granted_def bb_open_6_svc_def bb_opendir_6_svc_def Let_def assms(1) answers_only_def
      bnd_def [of "is_op_valid _ _ _ _"] is_op_valid_run)
next
  case (Inr st)
  note run = Let_def assms(1) answers_only_def bnd_def [of "is_op_valid _ _ _ _"] is_op_valid_run Inr
  show ?thesis
    unfolding granted_def Inr sum.case permitted_open [symmetric] permitted_opendir [symmetric]
    by (simp add: run bb_open_6_svc_def bb_opendir_6_svc_def)
qed

text \<open>User 7 may not read the file \<^verbatim>\<open>g\<close> of user 8; user 8 may.\<close>

lemma open_needs_permission_witness:
  "answers_only (bb_open_6_svc mem_env \<lparr>open_arg_ip = ''7'', open_arg_path = ''/g'', open_arg_flags = 0\<rparr>
     \<lparr>open_ret_fd = 0, open_ret_ret = 0\<rparr>) mem_start \<lparr>open_ret_fd = 0, open_ret_ret = - EACCES\<rparr> \<and>
   bb_open_6_svc mem_env \<lparr>open_arg_ip = ''8'', open_arg_path = ''/g'', open_arg_flags = 0\<rparr>
     \<lparr>open_ret_fd = 0, open_ret_ret = 0\<rparr> mem_start
   = Inr (\<lparr>open_ret_fd = 3, open_ret_ret = 0\<rparr>, \<lparr>world = mem_tree\<lparr>m_fds := [(3, 4, 0)]\<rparr>, errno = 0\<rparr>)"
proof -
  have a: "translate_abspath ''/g'' = Some ''/DFS/g''" by code_simp
  have st: "sys_lstat (e_os mem_env) ''/DFS/g'' (world mem_start) = Inr (m_stat 4 (mem_node 33152 8 ''secret''))"
    and c: "\<not> may_read ''7'' (m_stat 4 (mem_node 33152 8 ''secret''))"
    and d: "may_read ''8'' (m_stat 4 (mem_node 33152 8 ''secret''))"
    and o: "sys_open (e_os mem_env) ''/DFS/g'' 0 0 mem_tree = (Inr 3, mem_tree\<lparr>m_fds := [(3, 4, 0)]\<rparr>)"
    by code_simp+
  note opens = conjunct1 [OF open_needs_permission [OF a, where E = mem_env and flags = 0
        and s = mem_start and ra = "\<lparr>open_ret_fd = 0, open_ret_ret = 0\<rparr>"]]
  from opens [of "''7''"] opens [of "''8''"] st c d show ?thesis
    by (simp add: bnd_def) (simp add: mem_start_def sys_run o)
qed

section \<open>What is not checked\<close>

text \<open>
  C35. Truncating a file and changing its owner look neither at the caller nor at the file: whatever
  address the request carries, the handlers do the same, so any client may truncate or take any
  file the server can reach.
\<close>

theorem truncate_and_chown_ignore_caller:
  assumes "\<not> transmits info"
  shows "bb_truncate_6_svc E ua \<lparr>truncate_arg_ip = ip, truncate_arg_server_info = info,
      truncate_arg_path = path, truncate_arg_newsize = n\<rparr> ra
    = bb_truncate_6_svc E ua \<lparr>truncate_arg_ip = ip', truncate_arg_server_info = info,
      truncate_arg_path = path, truncate_arg_newsize = n\<rparr> ra \<and>
    bb_chown_6_svc E ub \<lparr>chown_arg_ip = ip, chown_arg_server_info = info,
      chown_arg_path = path, chown_arg_uid = uid, chown_arg_gid = gid\<rparr> rb
    = bb_chown_6_svc E ub \<lparr>chown_arg_ip = ip', chown_arg_server_info = info,
      chown_arg_path = path, chown_arg_uid = uid, chown_arg_gid = gid\<rparr> rb"
  using assms by (simp add: bb_truncate_6_svc_def bb_chown_6_svc_def TRANSMIT_local)

lemma truncate_and_chown_ignore_caller_witness:
  "bb_truncate_6_svc mem_env \<lparr>truncate_ret_ret = 0\<rparr> \<lparr>truncate_arg_ip = ''7'',
      truncate_arg_server_info = degraded_info, truncate_arg_path = ''/g'', truncate_arg_newsize = 0\<rparr>
      \<lparr>truncate_ret_ret = 1\<rparr> mem_start
   = bb_truncate_6_svc mem_env \<lparr>truncate_ret_ret = 0\<rparr> \<lparr>truncate_arg_ip = ''8'',
      truncate_arg_server_info = degraded_info, truncate_arg_path = ''/g'', truncate_arg_newsize = 0\<rparr>
      \<lparr>truncate_ret_ret = 1\<rparr> mem_start"
  using conjunct1 [OF truncate_and_chown_ignore_caller [OF degraded_info_local, where E = mem_env
        and ip = "''7''" and ip' = "''8''" and path = "''/g''" and n = 0
        and ua = "\<lparr>truncate_ret_ret = 0\<rparr>" and ra = "\<lparr>truncate_ret_ret = 1\<rparr>"]]
  by simp

text \<open>
  C37. Anyone may rename any file of the root directory: with both names in \<^verbatim>\<open>/DFS\<close>, the handler of \<^verbatim>\<open>rename\<close>
  transmits, locks the directory, renames and unlocks, for every request, whatever address it carries and
  whoever owns the files, while it refuses an \<^verbatim>\<open>unlink\<close> of a file by anyone but its owner.
\<close>

theorem root_rename_is_open_to_all:
  assumes "translate_abspath path = Some f" and "get_parent_path f = Some ''/DFS''"
    and "translate_abspath newpath = Some g" and "get_parent_path g = Some ''/DFS''"
  shows "bb_rename_6_svc E u \<lparr>rename_arg_ip = ip, rename_arg_server_info = info, rename_arg_path = path,
        rename_arg_newpath = newpath\<rparr> r s
      = LOCK_DIRECTORY (e_os E) ''/DFS'' rename_ret_ret_update r (\<lambda>fd.
          bnd (sys_int (sys_rename (e_os E) f g)) (\<lambda>x.
          UNLOCK_DIRECTORY (e_os E) fd rename_ret_ret_update (r\<lparr>rename_ret_ret := x\<rparr>)))
        (forwards E bb_rename_6 rename_arg_server_info rename_arg_server_info_update u
          \<lparr>rename_arg_ip = ip, rename_arg_server_info = info, rename_arg_path = path,
            rename_arg_newpath = newpath\<rparr> s) \<and>
    refuses E bb_unlink_6 unlink_arg_server_info unlink_arg_server_info_update (bb_unlink_6_svc E)
      unlink_ret_ret_update (\<lambda>w. owns (e_os E) f ip w \<or> unreadable (e_os E) f w)
      \<lparr>unlink_arg_ip = ip, unlink_arg_server_info = info, unlink_arg_path = path\<rparr>"
proof
  show "bb_rename_6_svc E u \<lparr>rename_arg_ip = ip, rename_arg_server_info = info, rename_arg_path = path,
        rename_arg_newpath = newpath\<rparr> r s
      = LOCK_DIRECTORY (e_os E) ''/DFS'' rename_ret_ret_update r (\<lambda>fd.
          bnd (sys_int (sys_rename (e_os E) f g)) (\<lambda>x.
          UNLOCK_DIRECTORY (e_os E) fd rename_ret_ret_update (r\<lparr>rename_ret_ret := x\<rparr>)))
        (forwards E bb_rename_6 rename_arg_server_info rename_arg_server_info_update u
          \<lparr>rename_arg_ip = ip, rename_arg_server_info = info, rename_arg_path = path,
            rename_arg_newpath = newpath\<rparr> s)"
    unfolding bb_rename_6_svc_def bnd_TRANSMIT
    by (simp add: GET_PARENT_PATH_def CHECK_PARENT_DIRECTORY_VALID_def is_parent_dir_valid_def Let_def assms)
  have "parent_ok (e_os E) ''/DFS'' f ip ''unlink'' = (\<lambda>w. owns (e_os E) f ip w \<or> unreadable (e_os E) f w)"
    by (simp add: parent_ok_def fun_eq_iff)
  then show "refuses E bb_unlink_6 unlink_arg_server_info unlink_arg_server_info_update (bb_unlink_6_svc E)
      unlink_ret_ret_update (\<lambda>w. owns (e_os E) f ip w \<or> unreadable (e_os E) f w)
      \<lparr>unlink_arg_ip = ip, unlink_arg_server_info = info, unlink_arg_path = path\<rparr>"
    using unlink_refused [OF assms(1,2), of E ip info] by simp
qed

lemma root_rename_is_open_to_all_witness:
  "case bb_rename_6_svc mem_env \<lparr>rename_ret_ret = 0\<rparr> \<lparr>rename_arg_ip = ''7'', rename_arg_server_info = primary_info,
      rename_arg_path = ''/g'', rename_arg_newpath = ''/h''\<rparr> \<lparr>rename_ret_ret = 5\<rparr> mem_start of
    Inr (r, t) \<Rightarrow> rename_ret_ret r = 0 \<and> \<not> owns mem_os ''/DFS/g'' ''7'' mem_tree \<and>
      m_lookup (world t) ''/DFS/g'' = None \<and> m_lookup (world t) ''/DFS/h'' = m_lookup mem_tree ''/DFS/g''
  | Inl _ \<Rightarrow> False"
proof -
  have a: "translate_abspath ''/g'' = Some ''/DFS/g''" "get_parent_path ''/DFS/g'' = Some ''/DFS''"
    "translate_abspath ''/h'' = Some ''/DFS/h''" "get_parent_path ''/DFS/h'' = Some ''/DFS''"
    by code_simp+
  show ?thesis
    unfolding conjunct1 [OF root_rename_is_open_to_all [OF a]] mem_forwards by code_simp
qed

end
