(* ===== verification/Server_Effects.thy ===== *)
theory Server_Effects
  imports Server_Guards
begin

text \<open>
  What a request that the server answers with \<open>0\<close> has done to the files, over any kernel that satisfies
  \<open>file_kernel\<close>, the documented effects of the calls that succeed: whatever the request's server
  information, the secondary and the transport do before.
\<close>

section \<open>The kernel's part\<close>

definition soft :: "stat_buf \<Rightarrow> bool" where
  \<comment> \<open>\<^verbatim>\<open>S_ISLNK\<close>\<close>
  "soft st \<longleftrightarrow> st_mode st AND 61440 = 40960"

definition there :: "'w os \<Rightarrow> string \<Rightarrow> (stat_buf \<Rightarrow> bool) \<Rightarrow> 'w \<Rightarrow> bool" where
  \<comment> \<open>\<open>lstat\<close> finds a file at \<open>p\<close>, and its status is in \<open>Q\<close>\<close>
  "there os p Q w \<longleftrightarrow> (case sys_lstat os p w of Inl e \<Rightarrow> False | Inr st \<Rightarrow> Q st)"

abbreviation (input) plain :: "'w os \<Rightarrow> string \<Rightarrow> 'w \<Rightarrow> bool" where
  "plain os p \<equiv> there os p (\<lambda>st. \<not> soft st)"

definition done_by :: "('w, 'a) sysfun \<Rightarrow> ('w \<Rightarrow> bool) \<Rightarrow> bool" where
  \<comment> \<open>when the call succeeds, the world it leaves is in \<open>Q\<close>\<close>
  "done_by f Q \<longleftrightarrow> (\<forall>w v w'. f w = (Inr v, w') \<longrightarrow> Q w')"

definition file_kernel :: "'w os \<Rightarrow> bool" where
  "file_kernel os \<longleftrightarrow>
     (\<forall>p mode. done_by (sys_mkdir os p mode) (plain os p)) \<and>
     (\<forall>p mode. S_ISREG mode \<longrightarrow> done_by (sys_open os p 193 mode) (plain os p)) \<and>
     (\<forall>p mode. done_by (sys_mkfifo os p mode) (plain os p)) \<and>
     (\<forall>p mode dev. done_by (sys_mknod os p mode dev) (plain os p)) \<and>
     (\<forall>target p. done_by (sys_symlink os target p) (there os p (\<lambda>_. True))) \<and>
     (\<forall>p. done_by (sys_rmdir os p) (unreadable os p)) \<and>
     (\<forall>p. done_by (sys_unlink os p) (unreadable os p)) \<and>
     (\<forall>p q. done_by (sys_rename os p q) (there os q (\<lambda>_. True))) \<and>
     (\<forall>p mode. done_by (sys_chmod os p mode)
        (there os p (\<lambda>st. \<not> soft st \<longrightarrow> st_mode st AND 4095 = mode AND 4095))) \<and>
     (\<forall>p n. done_by (sys_truncate os p n) (there os p (\<lambda>st. \<not> soft st \<longrightarrow> st_size st = scast n))) \<and>
     (\<forall>p n w w'. sys_truncate os p n w \<noteq> (Inl 0, w')) \<and>
     (\<forall>p u g w v w'. sys_chown os p u g w = (Inr v, w') \<longrightarrow> u \<noteq> - 1 \<longrightarrow> plain os p w \<longrightarrow>
        there os p (\<lambda>st. st_uid st = u) w') \<and>
     (\<forall>p u g. u \<noteq> - 1 \<longrightarrow> done_by (sys_lchown os p u g) (there os p (\<lambda>st. st_uid st = u))) \<and>
     (\<forall>p fd op w r w'. sys_flock os fd op w = Some (r, w') \<longrightarrow> sys_lstat os p w' = sys_lstat os p w) \<and>
     (\<forall>p fd w. sys_lstat os p (snd (sys_close os fd w)) = sys_lstat os p w)"

lemma file_kernelD:
  assumes "file_kernel os"
  shows "done_by (sys_mkdir os p mode) (plain os p)"
    and "S_ISREG mode \<Longrightarrow> done_by (sys_open os p 193 mode) (plain os p)"
    and "done_by (sys_mkfifo os p mode) (plain os p)"
    and "done_by (sys_mknod os p mode dev) (plain os p)"
    and "done_by (sys_symlink os target p) (there os p (\<lambda>_. True))"
    and "done_by (sys_rmdir os p) (unreadable os p)"
    and "done_by (sys_unlink os p) (unreadable os p)"
    and "done_by (sys_rename os p q) (there os q (\<lambda>_. True))"
    and "done_by (sys_chmod os p mode) (there os p (\<lambda>st. \<not> soft st \<longrightarrow> st_mode st AND 4095 = mode AND 4095))"
    and "done_by (sys_truncate os p n) (there os p (\<lambda>st. \<not> soft st \<longrightarrow> st_size st = scast n))"
    and "sys_chown os p i g w = (Inr v, w') \<Longrightarrow> i \<noteq> - 1 \<Longrightarrow> plain os p w \<Longrightarrow> there os p (\<lambda>st. st_uid st = i) w'"
    and "i \<noteq> - 1 \<Longrightarrow> done_by (sys_lchown os p i g) (there os p (\<lambda>st. st_uid st = i))"
    and "sys_flock os fd op w = Some (r, w') \<Longrightarrow> sys_lstat os p w' = sys_lstat os p w"
    and "sys_lstat os p (snd (sys_close os fd w)) = sys_lstat os p w"
    and "sys_truncate os p n w \<noteq> (Inl 0, w')"
  by (insert assms, unfold file_kernel_def) (elim conjE; simp)+

lemma owns_there: "owns os p ip = there os p (\<lambda>st. st_uid st = atoi ip)"
  by (rule ext) (simp add: owns_def there_def)

section \<open>Rules\<close>

abbreviation (input) effect :: "('r \<Rightarrow> c_int) \<Rightarrow> ('w \<Rightarrow> bool) \<Rightarrow> ('w process, 'r) prog \<Rightarrow> bool" where
  "effect get Q m \<equiv> hoare (\<lambda>_. True) m (\<lambda>r t. get r = 0 \<longrightarrow> Q (world t)) (\<lambda>_. True)"

lemma hoare_any: "hoare P m (\<lambda>_ _. True) (\<lambda>_. True)"
  by (auto simp: hoare_def split: sum.split)

lemma effect_after: "(\<And>a. effect get Q (f a)) \<Longrightarrow> effect get Q (bnd m f)"
  by (rule hoare_bnd [OF hoare_any])

lemma effect_checked: "(\<And>a. x = Some a \<Longrightarrow> effect get Q (f a)) \<Longrightarrow> effect get Q (bnd (checked x) f)"
  by (rule hoare_checked) simp_all

lemma effect_PARENT: "(\<And>p. effect get Q (k p)) \<Longrightarrow> effect get Q (GET_PARENT_PATH f k)"
  unfolding GET_PARENT_PATH_def by (rule effect_checked)

lemma effect_CHECK:
  "effect get Q k \<Longrightarrow> get (u (\<lambda>_. - EACCES) r) \<noteq> 0 \<Longrightarrow>
   effect get Q (CHECK_PARENT_DIRECTORY_VALID os p f ip n u r k)"
  unfolding CHECK_PARENT_DIRECTORY_VALID_def by (rule effect_after) (simp add: hoare_def)

lemma effect_LOCK:
  "(\<And>fd. effect get Q (k fd)) \<Longrightarrow> get (u (\<lambda>_. - 1) r) \<noteq> 0 \<Longrightarrow> effect get Q (LOCK_DIRECTORY os p u r k)"
  unfolding LOCK_DIRECTORY_def by (rule effect_after) (simp add: hoare_def)

text \<open>After a call that returned \<open>0\<close> or \<open>-1\<close> into the member \<open>ret\<close>.\<close>

abbreviation (input) outcome :: "('r \<Rightarrow> c_int) \<Rightarrow> ('w \<Rightarrow> bool) \<Rightarrow> 'r \<Rightarrow> 'w process \<Rightarrow> bool" where
  "outcome get Q r t \<equiv> (get r = 0 \<longrightarrow> Q (world t)) \<and> (get r = 0 \<or> get r = - 1)"

lemma sys_int_done: "done_by f Q \<Longrightarrow> hoare P (sys_int f) (outcome (\<lambda>x. x) Q) S"
  by (auto simp: hoare_def sys_int_def bnd_def sys_call_def done_by_def split: sum.splits prod.splits)

text \<open>The lock is given back with no change to the files.\<close>

definition lasting :: "'w os \<Rightarrow> ('w \<Rightarrow> bool) \<Rightarrow> bool" where
  "lasting os Q \<longleftrightarrow> (\<forall>fd op w r w'. sys_flock os fd op w = Some (r, w') \<longrightarrow> Q w \<longrightarrow> Q w')"

lemma UNLOCK_lasting:
  assumes "lasting os Q" and "get (u (\<lambda>_. - 1) r) = - 1"
  shows "hoare (outcome get Q r) (UNLOCK_DIRECTORY os fd u r) (outcome get Q) (\<lambda>_. True)"
  using assms
  by (auto simp: hoare_def UNLOCK_DIRECTORY_def dunlock_def bnd_def flock_def sys_int_def sys_call_def lasting_def
      split: sum.splits option.splits prod.splits)

lemma lasting_files:
  assumes "file_kernel os"
  shows "lasting os (there os p Q)" "lasting os (unreadable os p)"
  using file_kernelD(13) [OF assms] by (auto simp: lasting_def there_def unreadable_def)

lemma set_owner_effect:
  assumes "file_kernel os" and "atoi ip \<noteq> - 1"
  shows "hoare (\<lambda>s. plain os p (world s)) (set_owner os p ip) (outcome (\<lambda>x. x) (owns os p ip)) S"
  using file_kernelD(11) [OF assms(1) _ assms(2)]
  by (auto simp: hoare_def set_owner_def Let_def sys_int_def bnd_def sys_call_def owns_there
      split: sum.splits prod.splits)

lemma set_softlink_owner_effect:
  assumes "file_kernel os" and "atoi ip \<noteq> - 1"
  shows "hoare P (set_softlink_owner os p ip) (outcome (\<lambda>x. x) (owns os p ip)) S"
  using file_kernelD(12) [OF assms, of p "atoi ip"]
  by (auto simp: hoare_def set_softlink_owner_def Let_def sys_int_def bnd_def sys_call_def owns_there done_by_def
      split: sum.splits prod.splits)

text \<open>A call under the lock, and what follows it.\<close>

lemma locked_call:
  assumes "done_by f Q" and "lasting os Q" and "\<And>x r. get (upd (\<lambda>_. x) r) = x"
  shows "hoare P (bnd (sys_int f) (\<lambda>x. UNLOCK_DIRECTORY os fd upd (upd (\<lambda>_. x) r))) (outcome get Q) (\<lambda>_. True)"
proof (rule hoare_bnd [OF sys_int_done [OF assms(1)]])
  fix x
  show "hoare (outcome (\<lambda>x. x) Q x) (UNLOCK_DIRECTORY os fd upd (upd (\<lambda>_. x) r)) (outcome get Q) (\<lambda>_. True)"
    by (rule hoare_conseq [OF UNLOCK_lasting [OF assms(2)]]) (simp_all add: assms(3))
qed

lemma locked_call_then:
  assumes "done_by f Q" and "lasting os Q" and "\<And>x r. get (upd (\<lambda>_. x) r) = x"
    and "\<And>r. hoare (outcome get Q r) (k r) M (\<lambda>_. True)"
  shows "hoare P (bnd (sys_int f) (\<lambda>x. bnd (UNLOCK_DIRECTORY os fd upd (upd (\<lambda>_. x) r)) k)) M (\<lambda>_. True)"
  using hoare_bnd [OF locked_call [where get = get and upd = upd, OF assms(1-3)] assms(4)] by (simp add: bnd_assoc)

lemma then_owner:
  assumes "hoare (\<lambda>s. Q (world s)) m (outcome (\<lambda>x. x) Q') (\<lambda>_. True)" and "\<And>x r. get (upd (\<lambda>_. x) r) = x"
  shows "hoare (outcome get Q r) (if \<not> cneg (get r)
      then bnd m (\<lambda>own. ret (if cneg own then upd (\<lambda>_. - 1) r else r)) else ret r)
    (\<lambda>r t. get r = 0 \<longrightarrow> Q' (world t)) (\<lambda>_. True)"
proof (cases "get r = 0")
  case True
  then have "hoare (outcome get Q r) m (outcome (\<lambda>x. x) Q') (\<lambda>_. True)"
    by (intro hoare_conseq [OF assms(1)]) simp_all
  then have "hoare (outcome get Q r) (bnd m (\<lambda>own. ret (if cneg own then upd (\<lambda>_. - 1) r else r)))
      (\<lambda>r t. get r = 0 \<longrightarrow> Q' (world t)) (\<lambda>_. True)"
    by (rule hoare_bnd) (rule hoare_ret, auto simp: assms(2))
  with True show ?thesis by simp
qed (auto intro!: hoare_ret simp: hoare_def split: sum.split)

lemma locked_effect:
  assumes "done_by f Q" and "lasting os Q" and "\<And>x r. get (upd (\<lambda>_. x) r) = x"
  shows "effect get Q (bnd (sys_int f) (\<lambda>x. UNLOCK_DIRECTORY os fd upd (upd (\<lambda>_. x) r)))"
  by (rule hoare_conseq [OF locked_call [where get = get and upd = upd, OF assms]]) simp_all

lemma ret_effect:
  assumes "done_by f Q" and "\<And>x r. get (upd (\<lambda>_. x) r) = x"
  shows "effect get Q (bnd (sys_int f) (\<lambda>x. ret (upd (\<lambda>_. x) r)))"
  by (rule hoare_bnd [OF sys_int_done [OF assms(1)]]) (auto intro: hoare_ret simp: assms(2))

section \<open>The handlers\<close>

lemmas effect_rules = effect_PARENT effect_CHECK effect_LOCK effect_after

lemma mkdir_effect:
  assumes K: "file_kernel (e_os E)" and ip: "atoi (mkdir_arg_ip a) \<noteq> - 1"
    and "translate_abspath (mkdir_arg_path a) = Some f"
  shows "effect mkdir_ret_ret (owns (e_os E) f (mkdir_arg_ip a)) (bb_mkdir_6_svc E u a r)"
  unfolding bb_mkdir_6_svc_def Let_def assms(3) checked_Some bnd_ret
  by (rule locked_call_then [where get = mkdir_ret_ret, OF file_kernelD(1) [OF K] lasting_files(1) [OF K]]
      then_owner [OF set_owner_effect [OF K ip]] effect_rules | simp; fail)+

lemma rmdir_effect:
  assumes K: "file_kernel (e_os E)" and "translate_abspath (rmdir_arg_path a) = Some f"
  shows "effect rmdir_ret_ret (unreadable (e_os E) f) (bb_rmdir_6_svc E u a r)"
  unfolding bb_rmdir_6_svc_def Let_def assms(2) checked_Some bnd_ret
  by (rule locked_effect [OF file_kernelD(6) [OF K] lasting_files(2) [OF K]] effect_rules | simp; fail)+

lemma unlink_effect:
  assumes K: "file_kernel (e_os E)" and "translate_abspath (unlink_arg_path a) = Some f"
  shows "effect unlink_ret_ret (unreadable (e_os E) f) (bb_unlink_6_svc E u a r)"
  unfolding bb_unlink_6_svc_def Let_def assms(2) checked_Some bnd_ret
  by (rule locked_effect [OF file_kernelD(7) [OF K] lasting_files(2) [OF K]] effect_rules | simp; fail)+

lemma rename_effect:
  assumes K: "file_kernel (e_os E)" and "translate_abspath (rename_arg_path a) = Some f"
    and "translate_abspath (rename_arg_newpath a) = Some f'"
  shows "effect rename_ret_ret (there (e_os E) f' (\<lambda>_. True)) (bb_rename_6_svc E u a r)"
proof -
  let ?Q = "there (e_os E) f' (\<lambda>_. True)"
  have last: "hoare (outcome rename_ret_ret ?Q r) (if b then UNLOCK_DIRECTORY (e_os E) fd rename_ret_ret_update r else ret r)
      (\<lambda>r t. rename_ret_ret r = 0 \<longrightarrow> ?Q (world t)) (\<lambda>_. True)" for b fd r
    by (cases b) (auto intro: hoare_ret hoare_conseq [OF UNLOCK_lasting [where get = rename_ret_ret, OF lasting_files(1) [OF K]]])
  show ?thesis
    unfolding bb_rename_6_svc_def Let_def assms(2,3) checked_Some bnd_ret
    by (rule hoare_if locked_call_then [where get = rename_ret_ret, OF file_kernelD(8) [OF K] lasting_files(1) [OF K]]
        last effect_rules | simp; fail)+
qed

lemma symlink_effect:
  assumes K: "file_kernel (e_os E)" and ip: "atoi (symlink_arg_ip a) \<noteq> - 1"
    and "translate_abspath (symlink_arg_link a) = Some f"
  shows "effect symlink_ret_ret (owns (e_os E) f (symlink_arg_ip a)) (bb_symlink_6_svc E u a r)"
proof -
  have own: "hoare (outcome (\<lambda>x. x) Q x) (if \<not> cneg x then bnd (set_softlink_owner (e_os E) f (symlink_arg_ip a))
        (\<lambda>own. ret (if cneg own then r\<lparr>symlink_ret_ret := x, symlink_ret_ret := - 1\<rparr> else r\<lparr>symlink_ret_ret := x\<rparr>))
      else ret (r\<lparr>symlink_ret_ret := x\<rparr>))
    (\<lambda>r t. symlink_ret_ret r = 0 \<longrightarrow> owns (e_os E) f (symlink_arg_ip a) (world t)) (\<lambda>_. True)" for Q x
    using then_owner [OF set_softlink_owner_effect [OF K ip, where S = "\<lambda>_. True"],
      where get = symlink_ret_ret and upd = symlink_ret_ret_update and r = "r\<lparr>symlink_ret_ret := x\<rparr>" and Q = Q]
    by simp
  show ?thesis
    unfolding bb_symlink_6_svc_def Let_def assms(3) checked_Some bnd_ret
    by (rule hoare_bnd [OF sys_int_done [OF file_kernelD(5) [OF K]] own] effect_rules | simp; fail)+
qed

lemma chmod_effect:
  assumes K: "file_kernel (e_os E)" and "translate_abspath (chmod_arg_path a) = Some f"
  shows "effect chmod_ret_ret (there (e_os E) f (\<lambda>st. \<not> soft st \<longrightarrow> st_mode st AND 4095 = chmod_arg_mode a AND 4095))
    (bb_chmod_6_svc E u a r)"
  unfolding bb_chmod_6_svc_def Let_def assms(2) checked_Some bnd_ret
  by (rule ret_effect [where get = chmod_ret_ret, OF file_kernelD(9) [OF K]] hoare_if effect_after
      | simp add: hoare_def; fail)+

lemma truncate_effect:
  assumes K: "file_kernel (e_os E)" and "translate_abspath (truncate_arg_path a) = Some f"
  shows "effect truncate_ret_ret (there (e_os E) f (\<lambda>st. \<not> soft st \<longrightarrow> st_size st = scast (truncate_arg_newsize a)))
    (bb_truncate_6_svc E u a r)"
proof -
  let ?Q = "there (e_os E) f (\<lambda>st. \<not> soft st \<longrightarrow> st_size st = scast (truncate_arg_newsize a))"
  have call: "hoare P (sys_int (sys_truncate (e_os E) f n)) (\<lambda>x t. if cneg x then errno t \<noteq> 0
      else there (e_os E) f (\<lambda>st. \<not> soft st \<longrightarrow> st_size st = scast n) (world t)) S" for P S n
    using file_kernelD(10) [OF K, of f n] file_kernelD(15) [OF K, of f n]
    by (auto simp: hoare_def sys_int_def bnd_def sys_call_def done_by_def split: sum.splits prod.splits)
  have last: "hoare (\<lambda>t. if cneg x then errno t \<noteq> 0 else Q (world t))
      (if cneg x then set_errno_ret truncate_ret_ret_update r else ret (r\<lparr>truncate_ret_ret := 0\<rparr>))
      (\<lambda>r t. truncate_ret_ret r = 0 \<longrightarrow> Q (world t)) (\<lambda>_. True)" for Q x
    by (simp add: hoare_def set_errno_ret_def bnd_def get_errno_apply)
  show ?thesis
    unfolding bb_truncate_6_svc_def Let_def assms(2) checked_Some bnd_ret
    by (rule effect_after hoare_bnd [OF call last])+
qed

lemma mknod_made:
  assumes K: "file_kernel os"
  shows "hoare P (if S_ISREG mode
          then bnd (sys_call (sys_open os f 193 mode)) (\<lambda>func_ret. case func_ret of
                   None \<Rightarrow> ret (- 1)
                 | Some func_ret \<Rightarrow> bnd (sys_int (sys_close os func_ret)) (\<lambda>_. ret 0))
          else if S_ISFIFO mode then sys_int (sys_mkfifo os f mode)
          else sys_int (sys_mknod os f mode dev))
      (outcome (\<lambda>x. x) (plain os f)) (\<lambda>_. True)"
proof (intro hoare_if sys_int_done file_kernelD [OF K])
  assume "S_ISREG mode"
  note opened = file_kernelD(2) [OF K this, of f]
  note closed = file_kernelD(14) [OF K, of f]
  show "hoare P (bnd (sys_call (sys_open os f 193 mode)) (\<lambda>func_ret. case func_ret of
         None \<Rightarrow> ret (- 1) | Some func_ret \<Rightarrow> bnd (sys_int (sys_close os func_ret)) (\<lambda>_. ret 0)))
      (outcome (\<lambda>x. x) (plain os f)) (\<lambda>_. True)"
    using opened closed
    by (auto simp: hoare_def bnd_def sys_int_def sys_call_def done_by_def there_def split: sum.splits prod.splits)
      (metis snd_conv old.sum.simps)+
qed

lemma mknod_owned:
  assumes K: "file_kernel os" and ip: "atoi ip \<noteq> - 1"
  shows "hoare (outcome (\<lambda>x. x) (plain os f) x) (if cneg x
       then bnd (UNLOCK_DIRECTORY os fd mknod_ret_ret_update r) (\<lambda>result. ret (result\<lparr>mknod_ret_ret := - 1\<rparr>))
       else bnd (set_owner os f ip) (\<lambda>own.
         UNLOCK_DIRECTORY os fd mknod_ret_ret_update
           (if cneg own then r\<lparr>mknod_ret_ret := 0, mknod_ret_ret := - 1\<rparr> else r\<lparr>mknod_ret_ret := 0\<rparr>)))
     (\<lambda>r t. mknod_ret_ret r = 0 \<longrightarrow> owns os f ip (world t)) (\<lambda>_. True)"
proof -
  consider "x = 0" | "cneg x" | "x \<noteq> 0" "\<not> cneg x" by blast
  then show ?thesis
  proof cases
    case 1
    have "hoare (outcome (\<lambda>x. x) (plain os f) x) (set_owner os f ip)
        (outcome (\<lambda>x. x) (owns os f ip)) (\<lambda>_. True)"
      using 1 by (intro hoare_conseq [OF set_owner_effect [OF K ip]]) simp_all
    then have "hoare (outcome (\<lambda>x. x) (plain os f) x) (bnd (set_owner os f ip) (\<lambda>own.
       UNLOCK_DIRECTORY os fd mknod_ret_ret_update
         (if cneg own then r\<lparr>mknod_ret_ret := 0, mknod_ret_ret := - 1\<rparr> else r\<lparr>mknod_ret_ret := 0\<rparr>)))
      (\<lambda>r t. mknod_ret_ret r = 0 \<longrightarrow> owns os f ip (world t)) (\<lambda>_. True)"
      by (rule hoare_bnd) (rule hoare_conseq [OF UNLOCK_lasting [where get = mknod_ret_ret and Q = "owns os f ip"]],
        auto simp: owns_there lasting_files [OF K])
    with 1 show ?thesis by simp
  next
    case 2
    then show ?thesis by (auto intro!: hoare_bnd [OF hoare_any] hoare_ret)
  next
    case 3
    then show ?thesis by (auto simp: hoare_def)
  qed
qed

lemma mknod_effect:
  assumes K: "file_kernel (e_os E)" and ip: "atoi (mknod_arg_ip a) \<noteq> - 1"
    and "translate_abspath (mknod_arg_path a) = Some f"
  shows "effect mknod_ret_ret (owns (e_os E) f (mknod_arg_ip a)) (bb_mknod_6_svc E u a r)"
  unfolding bb_mknod_6_svc_def Let_def assms(3) checked_Some bnd_ret
  by (rule hoare_bnd [OF mknod_made [OF K] mknod_owned [OF K ip]] effect_rules | simp; fail)+

section \<open>The kernel in memory\<close>

lemma mem_lstat:
  "sys_lstat mem_os p m = (case m_lookup m p of None \<Rightarrow> Inl 2 | Some (i, nd) \<Rightarrow> Inr (m_stat i nd))"
  by (simp add: mem_os_def)

lemma mem_calls:
  "sys_mkdir mem_os p mode = m_create p (16384 OR mode) []"
  "sys_open mem_os = m_open"
  "sys_mkfifo mem_os p mode = m_create p (4096 OR mode) []"
  "sys_mknod mem_os p mode dev = (if mode AND 61440 = 40960 then (\<lambda>m. (Inl 22, m)) else m_create p mode [])"
  "sys_symlink mem_os target p = m_create p 41471 target"
  "sys_rmdir mem_os = m_rmdir"
  "sys_unlink mem_os = m_unlink"
  "sys_rename mem_os = m_rename"
  "sys_link mem_os = m_link"
  "sys_chmod mem_os p mode = m_on_node p (\<lambda>nd. Inr (nd\<lparr>n_mode := (n_mode nd AND 61440) OR (mode AND 4095)\<rparr>))"
  "sys_truncate mem_os p n = m_on_node p (\<lambda>nd. if cneg n then Inl 22 else
     Inr (nd\<lparr>n_data := take (unat n) (n_data nd) @ zeros (unat n - length (n_data nd))\<rparr>))"
  "sys_chown mem_os p uid gid = m_on_node p (\<lambda>nd. Inr (nd\<lparr>n_uid := uid, n_gid := gid\<rparr>))"
  "sys_lchown mem_os p uid gid = m_on_node p (\<lambda>nd. Inr (nd\<lparr>n_uid := uid, n_gid := gid\<rparr>))"
  "sys_flock mem_os = m_flock"
  "sys_close mem_os = m_close"
  by (simp_all add: mem_os_def fun_eq_iff)

lemma mem_there:
  "there mem_os p Q m \<longleftrightarrow> (case m_lookup m p of None \<Rightarrow> False | Some (i, nd) \<Rightarrow> Q (m_stat i nd))"
  "unreadable mem_os p m \<longleftrightarrow> m_lookup m p = None"
  by (auto simp: there_def unreadable_def mem_lstat split: option.splits)

lemma m_create_done:
  "done_by (m_create p mode data) (there mem_os p (\<lambda>st. st_mode st = mode))"
  by (auto simp: done_by_def m_create_def mem_there m_lookup_def m_stat_def Let_def split: if_splits)

lemma done_by_conseq: "done_by f Q \<Longrightarrow> (\<And>w. Q w \<Longrightarrow> Q' w) \<Longrightarrow> done_by f Q'"
  by (auto simp: done_by_def)

lemma there_mono: "there os p Q w \<Longrightarrow> (\<And>st. Q st \<Longrightarrow> Q' st) \<Longrightarrow> there os p Q' w"
  by (auto simp: there_def split: sum.splits)

lemma m_on_node_done:
  assumes "\<And>nd nd'. f nd = Inr nd' \<Longrightarrow> Q nd'"
  shows "done_by (m_on_node p f) (there mem_os p (\<lambda>st. \<exists>i nd. st = m_stat i nd \<and> Q nd))"
  using assms by (auto simp: done_by_def m_on_node_def mem_there m_lookup_def split: option.splits sum.splits prod.splits) blast

lemma m_remove_lookup: "m_lookup (m_remove p m) p = None"
proof -
  have "map_of (filter (\<lambda>(q, _). q \<noteq> p) xs) p = None" for xs :: "(string \<times> nat) list" by (induction xs) auto
  then show ?thesis by (simp add: m_remove_def m_lookup_def)
qed

lemma m_rename_lookup:
  assumes "p \<noteq> q"
  shows "map_of (List.map (\<lambda>(x, i :: nat). (if x = p then q else if m_below p x then q @ drop (length p) x else x, i))
      (filter (\<lambda>(x, _). x \<noteq> q) xs)) q = map_of xs p"
  using assms by (induction xs) (auto simp: m_below_def split: if_splits)

lemma m_flock_files: "m_flock fd op m = Some (r, m') \<Longrightarrow> m_lookup m' p = m_lookup m p"
  by (auto simp: m_flock_def m_lookup_def Let_def split: option.splits if_splits lock_op.splits)

lemma m_close_files: "m_lookup (snd (m_close fd m)) p = m_lookup m p"
  by (simp add: m_close_def m_lookup_def split: option.splits)

lemma not_soft: "(16384 OR m) AND 61440 \<noteq> (40960 :: c_int)" "(4096 OR m) AND 61440 \<noteq> (40960 :: c_int)"
proof -
  have "bit ((16384 OR m) AND 61440) 14" "bit ((4096 OR m) AND 61440) 12" "\<not> bit (40960 :: c_int) 14" "\<not> bit (40960 :: c_int) 12"
    by (simp_all add: bit_simps)
  then show "(16384 OR m) AND 61440 \<noteq> (40960 :: c_int)" "(4096 OR m) AND 61440 \<noteq> (40960 :: c_int)" by metis+
qed

lemma m_open_done:
  assumes "S_ISREG mode"
  shows "done_by (m_open p 193 mode) (plain mem_os p)"
proof -
  have "(32768 OR mode) AND 61440 \<noteq> 40960"
    using assms by (simp add: S_ISREG_def bit.conj_disj_distrib2)
  then show ?thesis
    using m_create_done [of p "32768 OR mode" "[]"]
    by (auto simp: m_open_def m_open_node_def done_by_def mem_there soft_def m_stat_def Let_def
        split: option.splits sum.splits prod.splits if_splits)
      (auto simp: m_lookup_def split: option.splits)
qed

lemma mem_file_kernel: "file_kernel mem_os"
  unfolding file_kernel_def
proof (intro conjI allI impI)
  fix p q target :: string and mode dev n u g fd :: c_int and op w v w' r
  show "done_by (sys_mkdir mem_os p mode) (plain mem_os p)"
    by (auto simp: mem_calls soft_def not_soft intro!: done_by_conseq [OF m_create_done] elim!: there_mono)
  show "S_ISREG mode \<Longrightarrow> done_by (sys_open mem_os p 193 mode) (plain mem_os p)"
    using m_open_done by (simp add: mem_calls)
  show "done_by (sys_mkfifo mem_os p mode) (plain mem_os p)"
    by (auto simp: mem_calls soft_def not_soft intro!: done_by_conseq [OF m_create_done] elim!: there_mono)
  show "done_by (sys_mknod mem_os p mode dev) (plain mem_os p)"
  proof (cases "mode AND 61440 = 40960")
    case False
    then show ?thesis
      by (auto simp: mem_calls soft_def intro!: done_by_conseq [OF m_create_done] elim!: there_mono)
  qed (simp add: mem_calls done_by_def)
  show "done_by (sys_symlink mem_os target p) (there mem_os p (\<lambda>_. True))"
    by (auto simp: mem_calls intro!: done_by_conseq [OF m_create_done] elim!: there_mono)
  show "done_by (sys_rmdir mem_os p) (unreadable mem_os p)" "done_by (sys_unlink mem_os p) (unreadable mem_os p)"
    by (auto simp: done_by_def mem_there mem_calls m_rmdir_def m_unlink_def m_remove_lookup split: option.splits if_splits)
  show "done_by (sys_rename mem_os p q) (there mem_os q (\<lambda>_. True))"
    using m_rename_lookup [of p q]
    by (auto simp: done_by_def mem_there mem_calls m_rename_def m_lookup_def split: option.splits if_splits)
  show "done_by (sys_chmod mem_os p mode)
     (there mem_os p (\<lambda>st. \<not> soft st \<longrightarrow> st_mode st AND 4095 = mode AND 4095))"
  proof -
    have "((m AND 61440) OR (mode AND 4095)) AND 4095 = mode AND 4095" for m
      by (simp add: bit.conj_disj_distrib2 and.assoc)
    then show ?thesis
      by (auto simp: mem_calls m_stat_def intro!: done_by_conseq
        [OF m_on_node_done [where Q = "\<lambda>nd. n_mode nd AND 4095 = mode AND 4095"]] elim!: there_mono)
  qed
  show "done_by (sys_truncate mem_os p n) (there mem_os p (\<lambda>st. \<not> soft st \<longrightarrow> st_size st = scast n))"
  proof -
    have "of_nat (unat n) = (scast n :: c_long)" if "\<not> cneg n"
    proof -
      have "sint n = uint n" using that uint_sint [of n] sint_less [of n]
        by (simp add: cneg_def take_bit_int_eq_self)
      then show ?thesis by (metis of_int_sint of_int_uint uint_nat of_int_of_nat_eq)
    qed
    moreover have "done_by (sys_truncate mem_os p n)
        (there mem_os p (\<lambda>st. \<exists>i nd. st = m_stat i nd \<and> length (n_data nd) = unat n \<and> \<not> cneg n))"
      unfolding mem_calls by (rule m_on_node_done) (auto simp: zeros_def split: if_splits)
    ultimately show ?thesis
      by (elim done_by_conseq there_mono) (auto simp: m_stat_def)
  qed
  show "sys_truncate mem_os p n w \<noteq> (Inl 0, w')"
    by (auto simp: mem_calls m_on_node_def split: option.splits)
  show "u \<noteq> - 1 \<Longrightarrow> done_by (sys_lchown mem_os p u g) (there mem_os p (\<lambda>st. st_uid st = u))"
    by (auto simp: mem_calls m_stat_def intro!: done_by_conseq
        [OF m_on_node_done [where Q = "\<lambda>nd. n_uid nd = u"]] elim!: there_mono)
  show "there mem_os p (\<lambda>st. st_uid st = u) w'"
    if "sys_chown mem_os p u g w = (Inr v, w')" and "u \<noteq> - 1" and "plain mem_os p w"
  proof -
    have "there mem_os p (\<lambda>st. \<exists>i nd. st = m_stat i nd \<and> n_uid nd = u) w'"
      using m_on_node_done [of "\<lambda>nd. Inr (nd\<lparr>n_uid := u, n_gid := g\<rparr>)" "\<lambda>nd. n_uid nd = u" p] that(1)
      by (simp add: mem_calls done_by_def)
    then show ?thesis by (rule there_mono) (auto simp: m_stat_def)
  qed
  show "sys_flock mem_os fd op w = Some (r, w') \<Longrightarrow> sys_lstat mem_os p w' = sys_lstat mem_os p w"
    by (simp add: mem_lstat mem_calls m_flock_files)
  show "sys_lstat mem_os p (snd (sys_close mem_os fd w)) = sys_lstat mem_os p w"
    by (simp add: mem_lstat mem_calls m_close_files)
qed

section \<open>Requests answered with success\<close>

definition takes_effect :: "('r \<Rightarrow> c_int) \<Rightarrow> ('w \<Rightarrow> bool) \<Rightarrow> ('w process, 'r) prog \<Rightarrow> bool" where
  "takes_effect get Q m \<longleftrightarrow> (\<forall>s r t. m s = Inr (r, t) \<longrightarrow> get r = 0 \<longrightarrow> Q (world t))"

lemma takes_effectI: "effect get Q m \<Longrightarrow> takes_effect get Q m"
  by (auto simp: takes_effect_def dest: hoareD_Inr)

text \<open>
  C5. A request answered with \<open>0\<close> has taken effect, from any state of the server and whatever the secondary
  did: what \<^verbatim>\<open>mkdir\<close>, \<^verbatim>\<open>mknod\<close> and \<^verbatim>\<open>symlink\<close> made is there and belongs to the client, what \<^verbatim>\<open>rmdir\<close>
  and \<^verbatim>\<open>unlink\<close> removed is gone, the new path of a \<^verbatim>\<open>rename\<close> names a file, and after \<^verbatim>\<open>chmod\<close> and
  \<^verbatim>\<open>truncate\<close> a file that is not a symbolic link has the requested permissions and length.
\<close>

theorem successful_requests_take_effect:
  assumes "file_kernel (e_os E)" and "translate_abspath path = Some f" and "translate_abspath newpath = Some f'"
    and "atoi ip \<noteq> - 1"
  shows "takes_effect mkdir_ret_ret (owns (e_os E) f ip) (bb_mkdir_6_svc E u_mkdir \<lparr>mkdir_arg_ip = ip,
      mkdir_arg_server_info = info, mkdir_arg_path = path, mkdir_arg_mode = mode\<rparr> r_mkdir) \<and>
    takes_effect mknod_ret_ret (owns (e_os E) f ip) (bb_mknod_6_svc E u_mknod \<lparr>mknod_arg_ip = ip,
      mknod_arg_server_info = info, mknod_arg_path = path, mknod_arg_mode = mode, mknod_arg_dev = dev\<rparr> r_mknod) \<and>
    takes_effect symlink_ret_ret (owns (e_os E) f' ip) (bb_symlink_6_svc E u_symlink \<lparr>symlink_arg_ip = ip,
      symlink_arg_server_info = info, symlink_arg_path = path, symlink_arg_link = newpath\<rparr> r_symlink) \<and>
    takes_effect rmdir_ret_ret (unreadable (e_os E) f) (bb_rmdir_6_svc E u_rmdir \<lparr>rmdir_arg_ip = ip,
      rmdir_arg_server_info = info, rmdir_arg_path = path\<rparr> r_rmdir) \<and>
    takes_effect unlink_ret_ret (unreadable (e_os E) f) (bb_unlink_6_svc E u_unlink \<lparr>unlink_arg_ip = ip,
      unlink_arg_server_info = info, unlink_arg_path = path\<rparr> r_unlink) \<and>
    takes_effect rename_ret_ret (there (e_os E) f' (\<lambda>_. True)) (bb_rename_6_svc E u_rename \<lparr>rename_arg_ip = ip,
      rename_arg_server_info = info, rename_arg_path = path, rename_arg_newpath = newpath\<rparr> r_rename) \<and>
    takes_effect chmod_ret_ret (there (e_os E) f (\<lambda>st. \<not> soft st \<longrightarrow> st_mode st AND 4095 = mode AND 4095))
      (bb_chmod_6_svc E u_chmod \<lparr>chmod_arg_ip = ip, chmod_arg_server_info = info, chmod_arg_path = path,
        chmod_arg_mode = mode\<rparr> r_chmod) \<and>
    takes_effect truncate_ret_ret (there (e_os E) f (\<lambda>st. \<not> soft st \<longrightarrow> st_size st = scast newsize))
      (bb_truncate_6_svc E u_truncate \<lparr>truncate_arg_ip = ip, truncate_arg_server_info = info,
        truncate_arg_path = path, truncate_arg_newsize = newsize\<rparr> r_truncate)"
  using assms mkdir_effect [OF assms(1), of "\<lparr>mkdir_arg_ip = ip, mkdir_arg_server_info = info,
      mkdir_arg_path = path, mkdir_arg_mode = mode\<rparr>" f]
    mknod_effect [OF assms(1), of "\<lparr>mknod_arg_ip = ip, mknod_arg_server_info = info,
      mknod_arg_path = path, mknod_arg_mode = mode, mknod_arg_dev = dev\<rparr>" f]
    symlink_effect [OF assms(1), of "\<lparr>symlink_arg_ip = ip, symlink_arg_server_info = info,
      symlink_arg_path = path, symlink_arg_link = newpath\<rparr>" f']
    rmdir_effect [OF assms(1), of "\<lparr>rmdir_arg_ip = ip, rmdir_arg_server_info = info, rmdir_arg_path = path\<rparr>" f]
    unlink_effect [OF assms(1), of "\<lparr>unlink_arg_ip = ip, unlink_arg_server_info = info, unlink_arg_path = path\<rparr>" f]
    rename_effect [OF assms(1), of "\<lparr>rename_arg_ip = ip, rename_arg_server_info = info,
      rename_arg_path = path, rename_arg_newpath = newpath\<rparr>" f f']
    chmod_effect [OF assms(1), of "\<lparr>chmod_arg_ip = ip, chmod_arg_server_info = info,
      chmod_arg_path = path, chmod_arg_mode = mode\<rparr>" f]
    truncate_effect [OF assms(1), of "\<lparr>truncate_arg_ip = ip, truncate_arg_server_info = info,
      truncate_arg_path = path, truncate_arg_newsize = newsize\<rparr>" f]
  by (intro conjI takes_effectI) simp_all

lemma successful_requests_take_effect_witness:
  "case bb_mkdir_6_svc mem_env \<lparr>mkdir_ret_ret = 3\<rparr> \<lparr>mkdir_arg_ip = ''7'', mkdir_arg_server_info = degraded_info,
      mkdir_arg_path = ''/d/x'', mkdir_arg_mode = 493\<rparr> \<lparr>mkdir_ret_ret = 3\<rparr> mem_start of
     Inr (r, t) \<Rightarrow> mkdir_ret_ret r = 0 \<and> owns mem_os ''/DFS/d/x'' ''7'' (world t) | Inl _ \<Rightarrow> False"
proof -
  have "translate_abspath ''/d/x'' = Some ''/DFS/d/x''" "translate_abspath ''/y'' = Some ''/DFS/y''" "atoi ''7'' \<noteq> - 1"
    by code_simp+
  moreover have "file_kernel (e_os mem_env)" by (simp add: mem_env_def mem_file_kernel)
  moreover have "case bb_mkdir_6_svc mem_env \<lparr>mkdir_ret_ret = 3\<rparr> \<lparr>mkdir_arg_ip = ''7'', mkdir_arg_server_info = degraded_info,
      mkdir_arg_path = ''/d/x'', mkdir_arg_mode = 493\<rparr> \<lparr>mkdir_ret_ret = 3\<rparr> mem_start of
     Inr (r, t) \<Rightarrow> mkdir_ret_ret r = 0 | Inl _ \<Rightarrow> False"
    by code_simp
  ultimately show ?thesis
    using conjunct1 [OF successful_requests_take_effect [of mem_env "''/d/x''" "''/DFS/d/x''" "''/y''" "''/DFS/y''" "''7''"
      "\<lparr>mkdir_ret_ret = 3\<rparr>" degraded_info 493 "\<lparr>mkdir_ret_ret = 3\<rparr>"]]
    by (simp add: takes_effect_def mem_env_def split: sum.splits prod.splits)
qed

section \<open>Hard links\<close>

text \<open>
  What \<^verbatim>\<open>link(2)\<close> documents, with \<open>file_at w f\<close> the file (the inode) that the path \<open>f\<close> names in the world \<open>w\<close>: the
  names of one file have one status, a successful \<^verbatim>\<open>link\<close> makes the new path a name of the file of the old
  one, whose type stays, while its other numbers, as the count of its links and the time of its change, may
  change, and \<^verbatim>\<open>chown\<close> moves no name.
\<close>

definition link_kernel :: "'w os \<Rightarrow> ('w \<Rightarrow> string \<Rightarrow> 'i option) \<Rightarrow> bool" where
  "link_kernel os file_at \<longleftrightarrow>
     (\<forall>w f g i. file_at w f = Some i \<longrightarrow> file_at w g = Some i \<longrightarrow> sys_lstat os f w = sys_lstat os g w) \<and>
     (\<forall>f f' w w1. sys_link os f f' w = (Inr (), w1) \<longrightarrow>
        (\<exists>i. file_at w1 f = Some i \<and> file_at w1 f' = Some i) \<and> (plain os f w \<longrightarrow> plain os f w1)) \<and>
     (\<forall>f u g w w2. sys_chown os f u g w = (Inr (), w2) \<longrightarrow> file_at w2 = file_at w)"

lemma linked_names:
  assumes "link_kernel os file_at" and "sys_link os f f' w = (Inr (), w1)" and "sys_chown os f' u g w1 = (Inr (), w2)"
  shows "sys_lstat os f' w1 = sys_lstat os f w1" and "sys_lstat os f w2 = sys_lstat os f' w2"
    and "plain os f w \<Longrightarrow> plain os f w1"
proof -
  obtain i where w1: "file_at w1 f = Some i" "file_at w1 f' = Some i"
    using assms(1,2) unfolding link_kernel_def by blast
  moreover have "file_at w2 = file_at w1" using assms(1,3) unfolding link_kernel_def by blast
  ultimately show "sys_lstat os f' w1 = sys_lstat os f w1" "sys_lstat os f w2 = sys_lstat os f' w2"
    using assms(1) unfolding link_kernel_def by metis+
  show "plain os f w \<Longrightarrow> plain os f w1" using assms(1,2) unfolding link_kernel_def by blast
qed

text \<open>
  C36. \<^verbatim>\<open>link\<close> hands a file to whoever links it: the handler gives the new name to the client, and with it the
  file under its old name, although nothing asks whether the file was his. In the root directory, where
  the check on the parents lets every \<^verbatim>\<open>link\<close> pass, any client takes any file this way that is not a symbolic
  link, whether the request was sent on to the secondary before or not.
\<close>

theorem link_takes_ownership:
  assumes "file_kernel (e_os E)" and "link_kernel (e_os E) file_at" and "atoi ip \<noteq> - 1"
    and "translate_abspath path = Some f" and "get_parent_path f = Some ''/DFS''"
    and "translate_abspath newpath = Some f'" and "get_parent_path f' = Some ''/DFS''"
    and "q = forwards E bb_link_6 link_arg_server_info link_arg_server_info_update u \<lparr>link_arg_ip = ip,
      link_arg_server_info = info, link_arg_path = path, link_arg_newpath = newpath\<rparr> s"
    and "plain (e_os E) f (world q)"
    and "sys_link (e_os E) f f' (world q) = (Inr (), w1)"
    and "sys_chown (e_os E) f' (atoi ip) (atoi ip) w1 = (Inr (), w2)"
  shows "\<exists>t. bb_link_6_svc E u \<lparr>link_arg_ip = ip, link_arg_server_info = info, link_arg_path = path,
      link_arg_newpath = newpath\<rparr> r s = Inr (r\<lparr>link_ret_ret := 0\<rparr>, t) \<and>
    owns (e_os E) f' ip (world t) \<and> owns (e_os E) f ip (world t)"
proof -
  note names = linked_names [OF assms(2,10,11)]
  have "plain (e_os E) f' w1" using names(1,3) assms(9) by (simp add: there_def)
  then have own: "owns (e_os E) f' ip w2"
    using file_kernelD(11) [OF assms(1,11,3)] by (simp add: owns_there)
  then have "owns (e_os E) f ip w2" using names(2) by (simp add: owns_def)
  moreover have "bb_link_6_svc E u \<lparr>link_arg_ip = ip, link_arg_server_info = info, link_arg_path = path,
      link_arg_newpath = newpath\<rparr> r s = Inr (r\<lparr>link_ret_ret := 0\<rparr>, q\<lparr>world := w2\<rparr>)"
    using assms(4-7,10,11) unfolding bb_link_6_svc_def bnd_TRANSMIT assms(8) [symmetric]
    by (simp add: GET_PARENT_PATH_def CHECK_PARENT_DIRECTORY_VALID_def
      is_parent_dir_valid_def set_owner_def Let_def bnd_def sys_int_Inr)
  ultimately show ?thesis using own by auto
qed

lemma mem_link_kernel: "link_kernel mem_os (\<lambda>m p. map_of (m_paths m) p)"
proof -
  have "m_link f f' w = (Inr (), w1) \<Longrightarrow> \<exists>i nd. map_of (m_paths w) f = Some i \<and> map_of (m_nodes w) i = Some nd \<and>
      f \<noteq> f' \<and> w1 = w\<lparr>m_paths := (f', i) # m_paths w\<rparr>" for f f' w w1
    by (auto simp: m_link_def m_lookup_def split: option.splits if_splits)
  then show ?thesis
    by (fastforce simp: link_kernel_def there_def mem_lstat mem_calls m_on_node_def m_lookup_def split: option.splits sum.splits)
qed

lemma link_takes_ownership_witness:
  "\<exists>t. bb_link_6_svc mem_env \<lparr>link_ret_ret = 1\<rparr> \<lparr>link_arg_ip = ''7'', link_arg_server_info = primary_info,
      link_arg_path = ''/g'', link_arg_newpath = ''/h''\<rparr> \<lparr>link_ret_ret = 1\<rparr> mem_start = Inr (\<lparr>link_ret_ret = 0\<rparr>, t) \<and>
    \<not> owns mem_os ''/DFS/g'' ''7'' (world mem_start) \<and> owns mem_os ''/DFS/g'' ''7'' (world t)"
proof -
  let ?w1 = "snd (m_link ''/DFS/g'' ''/DFS/h'' mem_tree)"
  let ?w2 = "snd (sys_chown mem_os ''/DFS/h'' 7 7 ?w1)"
  have "translate_abspath ''/g'' = Some ''/DFS/g''" "get_parent_path ''/DFS/g'' = Some ''/DFS''"
    "translate_abspath ''/h'' = Some ''/DFS/h''" "get_parent_path ''/DFS/h'' = Some ''/DFS''" "atoi ''7'' = 7"
    "plain mem_os ''/DFS/g'' mem_tree" "sys_link mem_os ''/DFS/g'' ''/DFS/h'' mem_tree = (Inr (), ?w1)"
    "sys_chown mem_os ''/DFS/h'' 7 7 ?w1 = (Inr (), ?w2)" "\<not> owns mem_os ''/DFS/g'' ''7'' mem_tree"
    by code_simp+
  then show ?thesis
    using link_takes_ownership [of mem_env "\<lambda>m p. map_of (m_paths m) p" "''7''" "''/g''" "''/DFS/g''" "''/h''" "''/DFS/h''"
      mem_start "\<lparr>link_ret_ret = 1\<rparr>" primary_info mem_start ?w1 ?w2 "\<lparr>link_ret_ret = 1\<rparr>"] mem_file_kernel mem_link_kernel
    by (simp add: mem_forwards mem_env_def mem_start_def) (simp add: mem_env_def [symmetric] mem_forwards, blast)
qed

end
