(* ===== verification/Server_Locks.thy ===== *)
theory Server_Locks
  imports Server_Guards
begin

text \<open>
  The locks and the descriptors of the server. A handler that changes a directory takes the lock of
  the parent directory, on a descriptor of its own, and gives it back; it never closes that
  descriptor. The theorems are over any kernel that satisfies \<open>lock_kernel\<close>, the documented behaviour of
  \<^verbatim>\<open>flock(2)\<close>, \<^verbatim>\<open>opendir(3)\<close>, \<^verbatim>\<open>open(2)\<close> and \<^verbatim>\<open>close(2)\<close>: \<open>held w\<close> are the descriptors on which the
  server has an exclusive lock in the world \<open>w\<close>, \<open>opened w\<close> those that are open.
\<close>

section \<open>The kernel's part\<close>

definition same_locks :: "('w \<Rightarrow> c_int set) \<Rightarrow> ('w \<Rightarrow> c_int set) \<Rightarrow> 'w \<Rightarrow> 'w \<Rightarrow> bool" where
  "same_locks held opened w w' \<longleftrightarrow> held w' = held w \<and> opened w' = opened w"

definition path_calls :: "'w os \<Rightarrow> ('w, unit) sysfun set" where
  \<comment> \<open>the calls that name files by paths and return no descriptor\<close>
  "path_calls os =
     (\<Union>p q n m k l. {sys_mkdir os p n, sys_rmdir os p, sys_rename os p q, sys_symlink os p q,
       sys_link os p q, sys_unlink os p, sys_mkfifo os p n, sys_mknod os p n m, sys_truncate os p n,
       sys_utime os p k l, sys_chmod os p n, sys_chown os p n m, sys_lchown os p n m})"

definition lock_kernel :: "'w os \<Rightarrow> ('w \<Rightarrow> c_int set) \<Rightarrow> ('w \<Rightarrow> c_int set) \<Rightarrow> bool" where
  "lock_kernel os held opened \<longleftrightarrow>
     (\<forall>w. held w \<subseteq> opened w) \<and>
     (\<forall>f \<in> path_calls os. \<forall>w. same_locks held opened w (snd (f w))) \<and>
     (\<forall>fd w u w'. sys_flock os fd LOCK_EX w = Some (Inr u, w') \<longrightarrow>
        held w' = insert fd (held w) \<and> opened w' = opened w) \<and>
     (\<forall>fd w e w'. sys_flock os fd LOCK_EX w = Some (Inl e, w') \<longrightarrow> same_locks held opened w w') \<and>
     (\<forall>fd w. fd \<in> held w \<longrightarrow> (\<exists>w'. sys_flock os fd LOCK_UN w = Some (Inr (), w') \<and>
        held w' = held w - {fd} \<and> opened w' = opened w)) \<and>
     (\<forall>p w. case sys_opendir os p w of
        (Inl e, w') \<Rightarrow> same_locks held opened w w'
      | (Inr dp, w') \<Rightarrow> (case sys_dirfd os dp w' of
          Inl e \<Rightarrow> False
        | Inr fd \<Rightarrow> \<not> cneg fd \<and> fd \<notin> opened w \<and> opened w' = insert fd (opened w) \<and> held w' = held w)) \<and>
     (\<forall>p flags mode w. case sys_open os p flags mode w of
        (Inl e, w') \<Rightarrow> same_locks held opened w w'
      | (Inr fd, w') \<Rightarrow> \<not> cneg fd \<and> fd \<notin> opened w \<and> opened w' = insert fd (opened w) \<and> held w' = held w) \<and>
     (\<forall>fd w u w'. sys_close os fd w = (u, w') \<longrightarrow>
        held w' = held w - {fd} \<and> opened w' = opened w - {fd})"

text \<open>The transport leaves the server's files alone.\<close>

definition lock_rpc :: "'w rpc \<Rightarrow> ('w \<Rightarrow> c_int set) \<Rightarrow> ('w \<Rightarrow> c_int set) \<Rightarrow> bool" where
  "lock_rpc R held opened \<longleftrightarrow>
     (\<forall>host proto w. same_locks held opened w (snd (rpc_clnt_create R host proto w))) \<and>
     (\<forall>c proc bs w. same_locks held opened w (snd (rpc_send R c proc bs w))) \<and>
     (\<forall>c w. same_locks held opened w (rpc_clnt_destroy R c w))"

lemma lock_kernelD:
  assumes "lock_kernel os held opened"
  shows "held w \<subseteq> opened w"
    and "f \<in> path_calls os \<Longrightarrow> held (snd (f w)) = held w \<and> opened (snd (f w)) = opened w"
    and "sys_flock os fd LOCK_EX w = Some (Inr u, w') \<Longrightarrow> held w' = insert fd (held w) \<and> opened w' = opened w"
    and "sys_flock os fd LOCK_EX w = Some (Inl e, w') \<Longrightarrow> held w' = held w \<and> opened w' = opened w"
    and "fd \<in> held w \<Longrightarrow> \<exists>w'. sys_flock os fd LOCK_UN w = Some (Inr (), w') \<and>
      held w' = held w - {fd} \<and> opened w' = opened w"
    and "sys_opendir os p w = (Inl e, w') \<Longrightarrow> held w' = held w \<and> opened w' = opened w"
    and "sys_opendir os p w = (Inr dp, w') \<Longrightarrow> \<exists>fd. sys_dirfd os dp w' = Inr fd \<and> \<not> cneg fd \<and>
      fd \<notin> opened w \<and> opened w' = insert fd (opened w) \<and> held w' = held w"
    and "sys_open os p flags mode w = (Inl e, w') \<Longrightarrow> held w' = held w \<and> opened w' = opened w"
    and "sys_open os p flags mode w = (Inr fd, w') \<Longrightarrow>
      fd \<notin> opened w \<and> opened w' = insert fd (opened w) \<and> held w' = held w"
    and "sys_close os fd w = (r, w') \<Longrightarrow> held w' = held w - {fd} \<and> opened w' = opened w - {fd}"
proof -
  note l = assms [unfolded lock_kernel_def same_locks_def]
  note l2 = conjunct2 [OF l] note l3 = conjunct2 [OF l2] note l4 = conjunct2 [OF l3]
  note l5 = conjunct2 [OF l4] note l6 = conjunct2 [OF l5] note l7 = conjunct2 [OF l6] note l8 = conjunct2 [OF l7]
  show "held w \<subseteq> opened w" using conjunct1 [OF l] by (rule spec)
  show "f \<in> path_calls os \<Longrightarrow> held (snd (f w)) = held w \<and> opened (snd (f w)) = opened w"
    using conjunct1 [OF l2] by simp
  show "sys_flock os fd LOCK_EX w = Some (Inr u, w') \<Longrightarrow> held w' = insert fd (held w) \<and> opened w' = opened w"
    using conjunct1 [OF l3] by simp
  show "sys_flock os fd LOCK_EX w = Some (Inl e, w') \<Longrightarrow> held w' = held w \<and> opened w' = opened w"
    using conjunct1 [OF l4] by simp
  show "fd \<in> held w \<Longrightarrow> \<exists>w'. sys_flock os fd LOCK_UN w = Some (Inr (), w') \<and>
      held w' = held w - {fd} \<and> opened w' = opened w"
    using conjunct1 [OF l5] by simp
  note od = conjunct1 [OF l6, THEN spec, of p, THEN spec, of w]
  show "sys_opendir os p w = (Inl e, w') \<Longrightarrow> held w' = held w \<and> opened w' = opened w"
    using od by simp
  show "sys_opendir os p w = (Inr dp, w') \<Longrightarrow> \<exists>fd. sys_dirfd os dp w' = Inr fd \<and> \<not> cneg fd \<and>
      fd \<notin> opened w \<and> opened w' = insert fd (opened w) \<and> held w' = held w"
    using od by (auto split: sum.splits)
  note op = conjunct1 [OF l7, THEN spec, of p, THEN spec, of flags, THEN spec, of mode, THEN spec, of w]
  show "sys_open os p flags mode w = (Inl e, w') \<Longrightarrow> held w' = held w \<and> opened w' = opened w"
    using op by simp
  show "sys_open os p flags mode w = (Inr fd, w') \<Longrightarrow>
      fd \<notin> opened w \<and> opened w' = insert fd (opened w) \<and> held w' = held w"
    using op by simp
  show "sys_close os fd w = (r, w') \<Longrightarrow> held w' = held w - {fd} \<and> opened w' = opened w - {fd}"
    using l8 by simp
qed

section \<open>Rules\<close>

text \<open>The states with given locks and open descriptors; more descriptors by at most one.\<close>

definition locks :: "('w \<Rightarrow> c_int set) \<Rightarrow> ('w \<Rightarrow> c_int set) \<Rightarrow> c_int set \<Rightarrow> c_int set \<Rightarrow> 'w process \<Rightarrow> bool" where
  "locks held opened H D s \<longleftrightarrow> held (world s) = H \<and> opened (world s) = D"

definition unlocked :: "('w \<Rightarrow> c_int set) \<Rightarrow> ('w \<Rightarrow> c_int set) \<Rightarrow> c_int set \<Rightarrow> c_int set \<Rightarrow> 'w process \<Rightarrow> bool" where
  "unlocked held opened H D s \<longleftrightarrow> held (world s) = H \<and>
     (opened (world s) = D \<or> (\<exists>fd. fd \<notin> D \<and> opened (world s) = insert fd D))"

abbreviation (input) releases where
  "releases held opened H D m \<equiv>
     hoare (locks held opened H D) m (\<lambda>_. unlocked held opened H D) (unlocked held opened H D)"

lemma locks_unlocked: "locks held opened H D s \<Longrightarrow> unlocked held opened H D s"
  by (simp add: locks_def unlocked_def)

lemma locks_grown: "locks held opened H (insert fd D) s \<Longrightarrow> fd \<notin> D \<Longrightarrow> unlocked held opened H D s"
  by (auto simp: locks_def unlocked_def)

lemma releases_ret: "releases held opened H D (ret a)"
  by (rule hoare_ret) (rule locks_unlocked)

lemma releases_after:
  "hoare (locks held opened H D) m (\<lambda>_. locks held opened H D) (unlocked held opened H D) \<Longrightarrow>
   (\<And>a. releases held opened H D (f a)) \<Longrightarrow> releases held opened H D (bnd m f)"
  by (rule hoare_bnd)

lemma hoare_world_query:
  assumes "\<And>s. \<exists>a s'. m s = Inr (a, s') \<and> world s' = world s"
  shows "hoare (locks held opened H D) m (\<lambda>_. locks held opened H D) S"
proof (rule hoareI)
  fix s a t assume "locks held opened H D s" and "m s = Inr (a, t)"
  then show "locks held opened H D t" using assms [of s] by (auto simp: locks_def)
next
  fix s e t assume "m s = Inl (e, t)"
  then show "S t" using assms [of s] by auto
qed

lemma hoare_sys_call:
  assumes "\<And>s r w. P s \<Longrightarrow> f (world s) = (Inr r, w) \<Longrightarrow> Q (Some r) (s\<lparr>world := w\<rparr>)"
    and "\<And>s e w. P s \<Longrightarrow> f (world s) = (Inl e, w) \<Longrightarrow> Q None (s\<lparr>world := w, errno := e\<rparr>)"
  shows "hoare P (sys_call f) Q S"
  using assms by (auto simp: hoare_def sys_call_def split: sum.split prod.split)

lemma hoare_sys_int:
  assumes "\<And>s r w. P s \<Longrightarrow> f (world s) = (r, w) \<Longrightarrow> Q (s\<lparr>world := w\<rparr>) \<and> (\<forall>e. Q (s\<lparr>world := w, errno := e\<rparr>))"
  shows "hoare P (sys_int f) (\<lambda>_. Q) S"
  unfolding sys_int_def
  by (rule hoare_bnd [where M = "\<lambda>_. Q"], rule hoare_sys_call) (use assms in \<open>auto intro: hoare_ret\<close>)

lemma hoare_path_call:
  assumes "lock_kernel os held opened" and "f \<in> path_calls os"
  shows "hoare (locks held opened H D) (sys_int f) (\<lambda>_. locks held opened H D) S"
proof (rule hoare_sys_int)
  fix s r w assume "locks held opened H D s" and "f (world s) = (r, w)"
  then show "locks held opened H D (s\<lparr>world := w\<rparr>) \<and> (\<forall>e. locks held opened H D (s\<lparr>world := w, errno := e\<rparr>))"
    using lock_kernelD(2) [OF assms, of "world s"] by (simp add: locks_def)
qed

lemma is_parent_dir_valid_locks:
  "hoare (locks held opened H D) (is_parent_dir_valid os p f ip n) (\<lambda>_. locks held opened H D) S"
  using is_parent_dir_valid_run by (intro hoare_world_query) blast

lemma in_path_calls:
  "sys_mkdir os p n \<in> path_calls os" "sys_rmdir os p \<in> path_calls os" "sys_rename os p q \<in> path_calls os"
  "sys_symlink os p q \<in> path_calls os" "sys_link os p q \<in> path_calls os" "sys_unlink os p \<in> path_calls os"
  "sys_mkfifo os p n \<in> path_calls os" "sys_mknod os p n m \<in> path_calls os"
  "sys_chown os p n m \<in> path_calls os" "sys_lchown os p n m \<in> path_calls os"
  by (auto simp: path_calls_def)

lemma set_owner_locks:
  assumes "lock_kernel os held opened"
  shows "hoare (locks held opened H D) (set_owner os p ip) (\<lambda>_. locks held opened H D) S"
  unfolding set_owner_def Let_def
  by (rule hoare_bnd, rule hoare_path_call [OF assms]) (auto simp: in_path_calls intro: hoare_ret)

lemma set_softlink_owner_locks:
  assumes "lock_kernel os held opened"
  shows "hoare (locks held opened H D) (set_softlink_owner os p ip) (\<lambda>_. locks held opened H D) S"
  unfolding set_softlink_owner_def Let_def
  by (rule hoare_bnd, rule hoare_path_call [OF assms]) (auto simp: in_path_calls intro: hoare_ret)

section \<open>Taking and releasing the lock of a directory\<close>

lemma dlock_cases:
  assumes K: "lock_kernel os held opened" and L: "locks held opened H D s" and sub: "H \<subseteq> D"
  shows "case dlock os p s of
      Inl (e, t) \<Rightarrow> unlocked held opened H D t
    | Inr (fd, t) \<Rightarrow> if cneg fd then unlocked held opened H D t
        else fd \<notin> D \<and> locks held opened (insert fd H) (insert fd D) t"
proof (cases "sys_opendir os p (world s)")
  case (Pair r w)
  show ?thesis
  proof (cases r)
    case (Inl e)
    with Pair lock_kernelD(6) [OF K, of p "world s" e w] L show ?thesis
      by (auto simp: dlock_def bnd_def sys_run locks_def unlocked_def)
  next
    case (Inr dp)
    with Pair lock_kernelD(7) [OF K, of p "world s" dp w] obtain fd where fd: "sys_dirfd os dp w = Inr fd"
      and pos: "\<not> cneg fd" and fresh: "fd \<notin> opened (world s)"
      and o: "opened w = insert fd (opened (world s))" and h: "held w = held (world s)" by auto
    have run: "dlock os p s = bnd (flock os fd LOCK_EX) (\<lambda>r. if r \<noteq> 0 then ret (- 1) else ret fd) (s\<lparr>world := w\<rparr>)"
      using Pair Inr fd pos by (auto simp: dlock_def bnd_def sys_run)
    show ?thesis
    proof (cases "sys_flock os fd LOCK_EX w")
      case None
      with L h o fresh show ?thesis
        by (auto simp: run flock_def bnd_def locks_def unlocked_def)
    next
      case (Some x)
      obtain q w' where x: "x = (q, w')" by (cases x)
      show ?thesis
      proof (cases q)
        case (Inl e)
        with Some x lock_kernelD(4) [OF K, of fd w e w'] L h o fresh show ?thesis
          by (auto simp: run flock_def bnd_def sys_run locks_def unlocked_def)
      next
        case (Inr u)
        with Some x lock_kernelD(3) [OF K, of fd w u w'] L h o fresh pos show ?thesis
          by (auto simp: run flock_def bnd_def sys_run locks_def)
      qed
    qed
  qed
qed

lemma dunlock_held:
  assumes K: "lock_kernel os held opened" and L: "locks held opened (insert fd H) D s" and "fd \<notin> H"
  shows "\<exists>t. dunlock os fd s = Inr (0, t) \<and> locks held opened H D t"
proof -
  have "fd \<in> held (world s)" using L by (simp add: locks_def)
  with lock_kernelD(5) [OF K this] L assms(3) show ?thesis
    by (auto simp: dunlock_def flock_def bnd_def sys_run locks_def)
qed

lemma hoare_UNLOCK:
  assumes "lock_kernel os held opened" and "fd \<notin> H"
  shows "hoare (locks held opened (insert fd H) D) (UNLOCK_DIRECTORY os fd u r)
     (\<lambda>_. locks held opened H D) S"
proof (rule hoareI)
  fix s a t assume "locks held opened (insert fd H) D s" and "UNLOCK_DIRECTORY os fd u r s = Inr (a, t)"
  then show "locks held opened H D t"
    using dunlock_held [OF assms(1) _ assms(2)] by (fastforce simp: UNLOCK_DIRECTORY_def bnd_def)
next
  fix s e t assume "locks held opened (insert fd H) D s" and "UNLOCK_DIRECTORY os fd u r s = Inl (e, t)"
  then show "S t"
    using dunlock_held [OF assms(1) _ assms(2)] by (fastforce simp: UNLOCK_DIRECTORY_def bnd_def)
qed

text \<open>
  A section between the lock and the release: what follows the lock only has to end with it released.
\<close>

lemma hoare_LOCK:
  assumes K: "lock_kernel os held opened" and sub: "H \<subseteq> D"
    and inside: "\<And>fd. fd \<notin> D \<Longrightarrow> hoare (locks held opened (insert fd H) (insert fd D)) (k fd) Q S"
    and fail: "\<And>a s. unlocked held opened H D s \<Longrightarrow> Q (u (\<lambda>_. - 1) r) s"
    and stop: "\<And>s. unlocked held opened H D s \<Longrightarrow> S s"
  shows "hoare (locks held opened H D) (LOCK_DIRECTORY os p u r k) Q S"
  unfolding LOCK_DIRECTORY_def
proof (rule hoare_bnd)
  show "hoare (locks held opened H D) (dlock os p) (\<lambda>fd t. if cneg fd then unlocked held opened H D t
      else fd \<notin> D \<and> locks held opened (insert fd H) (insert fd D) t) S"
  proof (rule hoareI)
    fix s a t assume "locks held opened H D s" and "dlock os p s = Inr (a, t)"
    then show "if cneg a then unlocked held opened H D t
      else a \<notin> D \<and> locks held opened (insert a H) (insert a D) t"
      using dlock_cases [OF K _ sub, of s p] by simp
  next
    fix s e t assume "locks held opened H D s" and "dlock os p s = Inl (e, t)"
    then show "S t" using dlock_cases [OF K _ sub, of s p] stop by simp
  qed
  fix fd
  show "hoare (\<lambda>t. if cneg fd then unlocked held opened H D t
      else fd \<notin> D \<and> locks held opened (insert fd H) (insert fd D) t)
    (if cneg fd then ret (u (\<lambda>_. - 1) r) else k fd) Q S"
  proof (cases "cneg fd")
    case True
    then show ?thesis using fail by (simp add: hoare_def)
  next
    case False
    with inside [of fd] show ?thesis by (auto simp: hoare_def)
  qed
qed

lemma releases_LOCK:
  assumes "lock_kernel os held opened" and "H \<subseteq> D"
    and "\<And>fd. fd \<notin> D \<Longrightarrow> fd \<notin> H \<Longrightarrow> hoare (locks held opened (insert fd H) (insert fd D)) (k fd)
      (\<lambda>_. locks held opened H (insert fd D)) (locks held opened H (insert fd D))"
  shows "releases held opened H D (LOCK_DIRECTORY os p u r k)"
proof (rule hoare_LOCK [OF assms(1,2)])
  fix fd assume "fd \<notin> D"
  moreover from this assms(2) have "fd \<notin> H" by auto
  ultimately have h: "hoare (locks held opened (insert fd H) (insert fd D)) (k fd)
      (\<lambda>_. locks held opened H (insert fd D)) (locks held opened H (insert fd D))" by (rule assms(3))
  show "hoare (locks held opened (insert fd H) (insert fd D)) (k fd)
      (\<lambda>_. unlocked held opened H D) (unlocked held opened H D)"
    by (rule hoareI)
      (blast intro: locks_grown [OF hoareD_Inr [OF h] \<open>fd \<notin> D\<close>] locks_grown [OF hoareD_Inl [OF h] \<open>fd \<notin> D\<close>])+
qed

lemma releases_CHECK:
  assumes "releases held opened H D k"
  shows "releases held opened H D (CHECK_PARENT_DIRECTORY_VALID os p f ip n u r k)"
  unfolding CHECK_PARENT_DIRECTORY_VALID_def
  by (rule releases_after [OF is_parent_dir_valid_locks]) (simp add: assms releases_ret)

lemma releases_checked:
  "(\<And>a. releases held opened H D (f a)) \<Longrightarrow> releases held opened H D (bnd (checked x) f)"
  by (rule hoare_checked) (auto intro: locks_unlocked)

lemma releases_PARENT:
  "(\<And>p. releases held opened H D (k p)) \<Longrightarrow> releases held opened H D (GET_PARENT_PATH f k)"
  unfolding GET_PARENT_PATH_def by (rule releases_checked)

section \<open>The transmission\<close>

lemma lock_rpcD:
  assumes "lock_rpc R held opened"
  shows "held (snd (rpc_clnt_create R host proto w)) = held w \<and> opened (snd (rpc_clnt_create R host proto w)) = opened w"
    and "held (snd (rpc_send R c proc bs w)) = held w \<and> opened (snd (rpc_send R c proc bs w)) = opened w"
    and "held (rpc_clnt_destroy R c w) = held w \<and> opened (rpc_clnt_destroy R c w) = opened w"
  using assms by (simp_all add: lock_rpc_def same_locks_def)

definition stub_locks :: "('w, 'a, 'r) stub \<Rightarrow> ('w \<Rightarrow> c_int set) \<Rightarrow> ('w \<Rightarrow> c_int set) \<Rightarrow> bool" where
  "stub_locks stub held opened \<longleftrightarrow> (\<forall>L R a r c w. lock_rpc R held opened \<longrightarrow>
     held (snd (stub L R a r c w)) = held w \<and> opened (snd (stub L R a r c w)) = opened w)"

lemma clnt_call_locks:
  assumes "lock_rpc R held opened"
  shows "held (snd (clnt_call R c n xa a xr r w)) = held w \<and> opened (snd (clnt_call R c n xa a xr r w)) = opened w"
proof -
  obtain ok t a' where x: "xa \<lparr>x_op = XDR_ENCODE, x_bytes = []\<rparr> a = (ok, t, a')"
    by (cases "xa \<lparr>x_op = XDR_ENCODE, x_bytes = []\<rparr> a") auto
  show ?thesis
    using lock_rpcD(2) [OF assms, of c n "x_bytes t" w]
    by (cases "rpc_send R c n (x_bytes t) w")
      (auto simp: clnt_call_def x split: prod.split sum.split)
qed

lemma stubs_locks:
  "stub_locks bb_mkdir_6 held opened" "stub_locks bb_rmdir_6 held opened" "stub_locks bb_rename_6 held opened"
  "stub_locks bb_mknod_6 held opened" "stub_locks bb_unlink_6 held opened" "stub_locks bb_symlink_6 held opened"
  "stub_locks bb_link_6 held opened"
  by (simp_all add: stub_locks_def clnt_call_locks bb_mkdir_6_def bb_rmdir_6_def bb_rename_6_def bb_mknod_6_def
    bb_unlink_6_def bb_symlink_6_def bb_link_6_def)

lemma hoare_on_world:
  assumes "\<And>w. held (snd (f w)) = held w \<and> opened (snd (f w)) = opened w"
  shows "hoare (locks held opened H D) (on_world f) (\<lambda>_. locks held opened H D) S"
proof (rule hoareI)
  fix s a t assume "locks held opened H D s" and "on_world f s = Inr (a, t)"
  then show "locks held opened H D t" using assms [of "world s"]
    by (auto simp: locks_def on_world_def split: prod.splits)
qed (simp add: on_world_def split: prod.splits)

lemma TRANSMIT_locks:
  assumes R: "lock_rpc (e_rpc E) held opened" and stub: "stub_locks func held opened"
  shows "hoare (locks held opened H D) (TRANSMIT_TO_SECONDATY E func info set_info u a)
     (\<lambda>_. locks held opened H D) S"
proof -
  let ?K = "\<lambda>_. locks held opened H D"
  have create: "hoare (?K ()) (connect_server E) ?K S"
    unfolding connect_server_def using lock_rpcD(1) [OF R] by (rule hoare_on_world)
  have send: "hoare (?K ()) (on_world (func (e_xdr E) (e_rpc E) b u c)) ?K S" for b c
    using stub R by (intro hoare_on_world) (simp add: stub_locks_def)
  have destroy: "hoare (?K ()) (on_world (\<lambda>w. ((), rpc_clnt_destroy (e_rpc E) c w))) ?K S" for c
    using lock_rpcD(3) [OF R] by (intro hoare_on_world) simp
  have contact: "hoare (?K ()) (case x of None \<Rightarrow> ret ()
      | Some c \<Rightarrow> (let b = set_info (is_master_update (\<lambda>_. 0)) a in
          bnd (on_world (func (e_xdr E) (e_rpc E) b u c)) (\<lambda>_.
          on_world (\<lambda>w. ((), rpc_clnt_destroy (e_rpc E) c w))))) ?K S" for x
    by (cases x) (auto simp: Let_def intro: hoare_ret hoare_bnd [OF send destroy])
  show ?thesis
    unfolding TRANSMIT_TO_SECONDATY_def by (intro hoare_if hoare_bnd [OF create contact] hoare_ret)
qed

section \<open>Every lock is given back\<close>

text \<open>
  \<open>keeps_locks\<close>: wherever the handler starts and however it ends (a reply, a system call that blocks
  for ever, an overflow), the server holds the locks it held before, and at most one more descriptor
  is open.
\<close>

definition keeps_locks ::
  "('w \<Rightarrow> c_int set) \<Rightarrow> ('w \<Rightarrow> c_int set) \<Rightarrow> ('w process, 'r) prog \<Rightarrow> bool" where
  "keeps_locks held opened m \<longleftrightarrow> (\<forall>s. let t = end_state (m s) in
     held (world t) = held (world s) \<and>
     (opened (world t) = opened (world s) \<or>
      (\<exists>fd. fd \<notin> opened (world s) \<and> opened (world t) = insert fd (opened (world s)))))"

lemma keeps_locksI:
  assumes "lock_kernel os held opened"
    and "\<And>H D. H \<subseteq> D \<Longrightarrow> releases held opened H D m"
  shows "keeps_locks held opened m"
  unfolding keeps_locks_def Let_def
proof
  fix s :: "'a process"
  let ?H = "held (world s)" and ?D = "opened (world s)"
  have h: "releases held opened ?H ?D m" using assms(2) lock_kernelD(1) [OF assms(1)] .
  have "locks held opened ?H ?D s" by (simp add: locks_def)
  then have "unlocked held opened ?H ?D (end_state (m s))"
    using h by (cases "m s") (auto simp: hoare_def split: sum.splits)
  then show "held (world (end_state (m s))) = ?H \<and> (opened (world (end_state (m s))) = ?D \<or>
      (\<exists>fd. fd \<notin> ?D \<and> opened (world (end_state (m s))) = insert fd ?D))"
    by (simp add: unlocked_def)
qed

lemmas section_rules = hoare_if hoare_ret hoare_bnd [OF set_owner_locks] hoare_bnd [OF hoare_UNLOCK]
  hoare_bnd [OF hoare_path_call] hoare_UNLOCK hoare_path_call in_path_calls

lemma releases_mkdir:
  assumes K: "lock_kernel (e_os E) held opened" and R: "lock_rpc (e_rpc E) held opened" and "H \<subseteq> D"
  shows "releases held opened H D (bb_mkdir_6_svc E u a r)"
  unfolding bb_mkdir_6_svc_def Let_def
  by (rule releases_after [OF TRANSMIT_locks [OF R stubs_locks(1)]] releases_checked releases_PARENT
      releases_CHECK releases_LOCK [OF K \<open>H \<subseteq> D\<close>] section_rules K | assumption)+

lemma releases_rmdir:
  assumes K: "lock_kernel (e_os E) held opened" and R: "lock_rpc (e_rpc E) held opened" and "H \<subseteq> D"
  shows "releases held opened H D (bb_rmdir_6_svc E u a r)"
  unfolding bb_rmdir_6_svc_def Let_def
  by (rule releases_after [OF TRANSMIT_locks [OF R stubs_locks(2)]] releases_checked releases_PARENT
      releases_CHECK releases_LOCK [OF K \<open>H \<subseteq> D\<close>] section_rules K | assumption)+

lemma releases_unlink:
  assumes K: "lock_kernel (e_os E) held opened" and R: "lock_rpc (e_rpc E) held opened" and "H \<subseteq> D"
  shows "releases held opened H D (bb_unlink_6_svc E u a r)"
  unfolding bb_unlink_6_svc_def Let_def
  by (rule releases_after [OF TRANSMIT_locks [OF R stubs_locks(5)]] releases_checked releases_PARENT
      releases_CHECK releases_LOCK [OF K \<open>H \<subseteq> D\<close>] section_rules K | assumption)+

text \<open>A file opened and closed again while the lock is held.\<close>

lemma open_close_locks:
  assumes K: "lock_kernel os held opened" and "H \<subseteq> D"
  shows "hoare (locks held opened H D)
     (bnd (sys_call (sys_open os f fl mode)) (\<lambda>x. case x of
         None \<Rightarrow> ret (- 1) | Some fd \<Rightarrow> bnd (sys_int (sys_close os fd)) (\<lambda>_. ret 0)))
     (\<lambda>_. locks held opened H D) S"
proof (rule hoare_bnd)
  show "hoare (locks held opened H D) (sys_call (sys_open os f fl mode))
     (\<lambda>x. case x of None \<Rightarrow> locks held opened H D
        | Some fd \<Rightarrow> (\<lambda>s. fd \<notin> D \<and> locks held opened H (insert fd D) s)) S"
    by (rule hoare_sys_call) (auto simp: locks_def dest: lock_kernelD(8,9) [OF K])
  fix x
  show "hoare (case x of None \<Rightarrow> locks held opened H D
        | Some fd \<Rightarrow> (\<lambda>s. fd \<notin> D \<and> locks held opened H (insert fd D) s))
     (case x of None \<Rightarrow> ret (- 1) | Some fd \<Rightarrow> bnd (sys_int (sys_close os fd)) (\<lambda>_. ret 0))
     (\<lambda>_. locks held opened H D) S"
  proof (cases x)
    case (Some fd)
    have "hoare (\<lambda>s. fd \<notin> D \<and> locks held opened H (insert fd D) s) (sys_int (sys_close os fd))
        (\<lambda>_. locks held opened H D) S"
    proof (rule hoare_sys_int)
      fix s r w assume P: "fd \<notin> D \<and> locks held opened H (insert fd D) s" and "sys_close os fd (world s) = (r, w)"
      with lock_kernelD(10) [OF K this(2)] \<open>H \<subseteq> D\<close>
      show "locks held opened H D (s\<lparr>world := w\<rparr>) \<and> (\<forall>e. locks held opened H D (s\<lparr>world := w, errno := e\<rparr>))"
        by (auto simp: locks_def)
    qed
    with Some show ?thesis by (auto intro: hoare_bnd hoare_ret)
  qed (simp add: hoare_def)
qed

lemma releases_mknod:
  assumes K: "lock_kernel (e_os E) held opened" and R: "lock_rpc (e_rpc E) held opened" and "H \<subseteq> D"
  shows "releases held opened H D (bb_mknod_6_svc E u a r)"
proof -
  have sub: "insert fd H \<subseteq> insert fd D" for fd using \<open>H \<subseteq> D\<close> by auto
  show ?thesis
    unfolding bb_mknod_6_svc_def Let_def
    by (rule releases_after [OF TRANSMIT_locks [OF R stubs_locks(4)]] releases_checked releases_PARENT
      releases_CHECK releases_LOCK [OF K \<open>H \<subseteq> D\<close>] open_close_locks [OF K sub] section_rules K | assumption
      | rule hoare_bnd)+
qed

lemma releases_symlink:
  assumes K: "lock_kernel (e_os E) held opened" and R: "lock_rpc (e_rpc E) held opened"
  shows "releases held opened H D (bb_symlink_6_svc E u a r)"
  unfolding bb_symlink_6_svc_def Let_def
  by (rule releases_after [OF TRANSMIT_locks [OF R stubs_locks(6)]] releases_checked releases_PARENT
      releases_CHECK releases_after [OF hoare_path_call [OF K]] releases_after [OF set_owner_locks [OF K]]
      releases_after [OF set_softlink_owner_locks [OF K]] hoare_if releases_ret in_path_calls)+

lemma releases_link:
  assumes K: "lock_kernel (e_os E) held opened" and R: "lock_rpc (e_rpc E) held opened"
  shows "releases held opened H D (bb_link_6_svc E u a r)"
  unfolding bb_link_6_svc_def Let_def
  by (rule releases_after [OF TRANSMIT_locks [OF R stubs_locks(7)]] releases_checked releases_PARENT
      releases_CHECK releases_after [OF hoare_path_call [OF K]] releases_after [OF set_owner_locks [OF K]]
      releases_after [OF set_softlink_owner_locks [OF K]] hoare_if releases_ret in_path_calls)+

text \<open>
  C8. Every change of one directory gives back the lock it takes, on every path through its handler: after
  \<^verbatim>\<open>mkdir\<close>, \<^verbatim>\<open>rmdir\<close>, \<^verbatim>\<open>unlink\<close>, \<^verbatim>\<open>mknod\<close>, \<^verbatim>\<open>symlink\<close> and \<^verbatim>\<open>link\<close>, whatever the request, the checks and
  the system calls answer, the server holds exactly the locks it held before, and has at most one more
  descriptor open.
\<close>

theorem directory_changes_release_locks:
  assumes "lock_kernel (e_os E) held opened" and "lock_rpc (e_rpc E) held opened"
  shows "keeps_locks held opened (bb_mkdir_6_svc E u1 a1 r1) \<and>
    keeps_locks held opened (bb_rmdir_6_svc E u2 a2 r2) \<and>
    keeps_locks held opened (bb_unlink_6_svc E u3 a3 r3) \<and>
    keeps_locks held opened (bb_mknod_6_svc E u4 a4 r4) \<and>
    keeps_locks held opened (bb_symlink_6_svc E u5 a5 r5) \<and>
    keeps_locks held opened (bb_link_6_svc E u6 a6 r6)"
  by (intro conjI keeps_locksI [OF assms(1)] releases_mkdir releases_rmdir releases_unlink releases_mknod
    releases_symlink releases_link assms)

section \<open>Every successful change leaves a descriptor open\<close>

definition grew :: "('w \<Rightarrow> c_int set) \<Rightarrow> c_int set \<Rightarrow> 'w process \<Rightarrow> bool" where
  "grew opened D s \<longleftrightarrow> (\<exists>fd. fd \<notin> D \<and> opened (world s) = insert fd D)"

abbreviation (input) grows where
  "grows held opened H D get m \<equiv>
     hoare (locks held opened H D) m (\<lambda>a s. get a = (0 :: c_int) \<longrightarrow> grew opened D s) (\<lambda>_. True)"

lemma grows_LOCK:
  assumes "lock_kernel os held opened" and "H \<subseteq> D" and "get (u (\<lambda>_. - 1) r) \<noteq> 0"
    and inside: "\<And>fd. fd \<notin> D \<Longrightarrow> fd \<notin> H \<Longrightarrow> hoare (locks held opened (insert fd H) (insert fd D)) (k fd)
      (\<lambda>_. locks held opened H (insert fd D)) (\<lambda>_. True)"
  shows "grows held opened H D get (LOCK_DIRECTORY os p u r k)"
proof (rule hoare_LOCK [OF assms(1,2)])
  fix fd assume "fd \<notin> D"
  moreover from this assms(2) have "fd \<notin> H" by auto
  ultimately show "hoare (locks held opened (insert fd H) (insert fd D)) (k fd)
      (\<lambda>a s. get a = 0 \<longrightarrow> grew opened D s) (\<lambda>_. True)"
    by (intro hoare_conseq [OF inside]) (auto simp: grew_def locks_def)
qed (use assms(3) in auto)

lemma grows_CHECK:
  assumes "grows held opened H D get k" and "get (u (\<lambda>_. - EACCES) r) \<noteq> 0"
  shows "grows held opened H D get (CHECK_PARENT_DIRECTORY_VALID os p f ip n u r k)"
  unfolding CHECK_PARENT_DIRECTORY_VALID_def
proof (rule hoare_bnd [OF is_parent_dir_valid_locks])
  fix v show "grows held opened H D get (if v = 0 then ret (u (\<lambda>_. - EACCES) r) else k)"
    using assms by (cases "v = 0") (auto simp: hoare_def)
qed

lemma grows_checked:
  "(\<And>a. grows held opened H D get (f a)) \<Longrightarrow> grows held opened H D get (bnd (checked x) f)"
  by (rule hoare_checked) auto

lemma grows_PARENT:
  "(\<And>p. grows held opened H D get (k p)) \<Longrightarrow> grows held opened H D get (GET_PARENT_PATH f k)"
  unfolding GET_PARENT_PATH_def by (rule grows_checked)

definition leaks_descriptor :: "('w \<Rightarrow> c_int set) \<Rightarrow> ('r \<Rightarrow> c_int) \<Rightarrow> ('w process, 'r) prog \<Rightarrow> bool" where
  "leaks_descriptor opened get m \<longleftrightarrow>
     (\<forall>s r t. m s = Inr (r, t) \<longrightarrow> get r = 0 \<longrightarrow> grew opened (opened (world s)) t)"

lemma leaks_descriptorI:
  assumes "lock_kernel os held opened" and "\<And>H D. H \<subseteq> D \<Longrightarrow> grows held opened H D get m"
  shows "leaks_descriptor opened get m"
  unfolding leaks_descriptor_def
proof (intro allI impI)
  fix s :: "'a process" and r t assume "m s = Inr (r, t)" and "get r = 0"
  moreover have "grows held opened (held (world s)) (opened (world s)) get m"
    using assms(2) lock_kernelD(1) [OF assms(1)] .
  moreover have "locks held opened (held (world s)) (opened (world s)) s" by (simp add: locks_def)
  ultimately show "grew opened (opened (world s)) t" by (blast dest: hoareD_Inr)
qed

lemma EACCES_neq: "- EACCES \<noteq> (0 :: c_int)" "- 1 \<noteq> (0 :: c_int)"
  by simp_all

lemma grows_mkdir:
  assumes K: "lock_kernel (e_os E) held opened" and R: "lock_rpc (e_rpc E) held opened" and "H \<subseteq> D"
  shows "grows held opened H D mkdir_ret_ret (bb_mkdir_6_svc E u a r)"
  unfolding bb_mkdir_6_svc_def Let_def
  by (rule hoare_bnd [OF TRANSMIT_locks [OF R stubs_locks(1)]] grows_checked grows_PARENT
      grows_CHECK grows_LOCK [OF K \<open>H \<subseteq> D\<close>] section_rules K | assumption | simp; fail)+

lemma grows_rmdir:
  assumes K: "lock_kernel (e_os E) held opened" and R: "lock_rpc (e_rpc E) held opened" and "H \<subseteq> D"
  shows "grows held opened H D rmdir_ret_ret (bb_rmdir_6_svc E u a r)"
  unfolding bb_rmdir_6_svc_def Let_def
  by (rule hoare_bnd [OF TRANSMIT_locks [OF R stubs_locks(2)]] grows_checked grows_PARENT
      grows_CHECK grows_LOCK [OF K \<open>H \<subseteq> D\<close>] section_rules K | assumption | simp; fail)+

lemma grows_unlink:
  assumes K: "lock_kernel (e_os E) held opened" and R: "lock_rpc (e_rpc E) held opened" and "H \<subseteq> D"
  shows "grows held opened H D unlink_ret_ret (bb_unlink_6_svc E u a r)"
  unfolding bb_unlink_6_svc_def Let_def
  by (rule hoare_bnd [OF TRANSMIT_locks [OF R stubs_locks(5)]] grows_checked grows_PARENT
      grows_CHECK grows_LOCK [OF K \<open>H \<subseteq> D\<close>] section_rules K | assumption | simp; fail)+

lemma grows_mknod:
  assumes K: "lock_kernel (e_os E) held opened" and R: "lock_rpc (e_rpc E) held opened" and "H \<subseteq> D"
  shows "grows held opened H D mknod_ret_ret (bb_mknod_6_svc E u a r)"
proof -
  have sub: "insert fd H \<subseteq> insert fd D" for fd using \<open>H \<subseteq> D\<close> by auto
  show ?thesis
    unfolding bb_mknod_6_svc_def Let_def
    by (rule hoare_bnd [OF TRANSMIT_locks [OF R stubs_locks(4)]] grows_checked grows_PARENT
      grows_CHECK grows_LOCK [OF K \<open>H \<subseteq> D\<close>] open_close_locks [OF K sub] section_rules K | assumption
      | simp; fail | rule hoare_bnd)+
qed

section \<open>Two directories\<close>

text \<open>The part of \<^verbatim>\<open>rename\<close> that runs with the locks taken.\<close>

definition rename_locked ::
  "'w os \<Rightarrow> string \<Rightarrow> string \<Rightarrow> bool \<Rightarrow> c_int \<Rightarrow> rename_ret \<Rightarrow> c_int \<Rightarrow> ('w process, rename_ret) prog" where
  "rename_locked os f f' two fd r nfd =
     bnd (sys_int (sys_rename os f f')) (\<lambda>x.
     bnd (UNLOCK_DIRECTORY os fd rename_ret_ret_update (r\<lparr>rename_ret_ret := x\<rparr>)) (\<lambda>r.
       if two then UNLOCK_DIRECTORY os nfd rename_ret_ret_update r else ret r))"

lemma rename_locked_two:
  assumes K: "lock_kernel os held opened" and "fd \<notin> H" and "nfd \<notin> insert fd H"
  shows "hoare (locks held opened (insert nfd (insert fd H)) D) (rename_locked os f f' True fd r nfd)
     (\<lambda>_. locks held opened H D) S"
proof -
  have a: "fd \<notin> insert nfd H" and b: "nfd \<notin> H" using assms(2,3) by auto
  show ?thesis
    unfolding rename_locked_def if_True insert_commute [of nfd fd]
    by (intro hoare_bnd [OF hoare_path_call [OF K in_path_calls(3)]] hoare_bnd [OF hoare_UNLOCK [OF K a]]
      hoare_UNLOCK [OF K b])
qed

lemma rename_locked_one:
  assumes K: "lock_kernel os held opened" and "fd \<notin> H"
  shows "hoare (locks held opened (insert fd H) D) (rename_locked os f f' False fd r nfd)
     (\<lambda>_. locks held opened H D) S"
  unfolding rename_locked_def if_False
  by (rule hoare_bnd [OF hoare_path_call [OF K in_path_calls(3)]] hoare_bnd [OF hoare_UNLOCK [OF K assms(2)]]
      hoare_ret | assumption)+

text \<open>How a \<^verbatim>\<open>rename\<close> that returns leaves the locks and the descriptors.\<close>

definition grew_twice :: "('w \<Rightarrow> c_int set) \<Rightarrow> c_int set \<Rightarrow> 'w process \<Rightarrow> bool" where
  \<comment> \<open>one descriptor more (then \<open>fd = fd'\<close>), or two\<close>
  "grew_twice opened D s \<longleftrightarrow> (\<exists>fd fd'. fd \<notin> D \<and> fd' \<notin> D \<and> opened (world s) = insert fd' (insert fd D))"

definition rename_end ::
  "('w \<Rightarrow> c_int set) \<Rightarrow> ('w \<Rightarrow> c_int set) \<Rightarrow> c_int set \<Rightarrow> c_int set \<Rightarrow> rename_ret \<Rightarrow> 'w process \<Rightarrow> bool" where
  "rename_end held opened H D r s \<longleftrightarrow> (held (world s) = H \<or>
     (rename_ret_ret r = - 1 \<and> (\<exists>fd. fd \<notin> D \<and> held (world s) = insert fd H))) \<and>
     (rename_ret_ret r = 0 \<longrightarrow> grew_twice opened D s)"

lemma rename_end_locks:
  "locks held opened H D' s \<Longrightarrow> rename_ret_ret r \<noteq> 0 \<Longrightarrow> rename_end held opened H D r s"
  "locks held opened H (insert fd' (insert fd D)) s \<Longrightarrow> fd \<notin> D \<Longrightarrow> fd' \<notin> D \<Longrightarrow> rename_end held opened H D r s"
  "locks held opened H (insert fd D) s \<Longrightarrow> fd \<notin> D \<Longrightarrow> rename_end held opened H D r s"
  by (auto simp: rename_end_def locks_def grew_twice_def)

lemma rename_end_unlocked:
  "unlocked held opened H D' s \<Longrightarrow> rename_ret_ret r \<noteq> 0 \<Longrightarrow> rename_end held opened H D r s"
  by (simp add: rename_end_def unlocked_def)

lemma rename_under_lock:
  assumes K: "lock_kernel os held opened" and sub: "H \<subseteq> D" and "fd \<notin> D"
  shows "hoare (locks held opened (insert fd H) (insert fd D))
     (if p \<noteq> p' then LOCK_DIRECTORY os p' rename_ret_ret_update r (rename_locked os f f' (p \<noteq> p') fd r)
      else rename_locked os f f' (p \<noteq> p') fd r (- 1)) (rename_end held opened H D) (\<lambda>_. True)"
proof (cases "p = p'")
  case True
  have "fd \<notin> H" using assms(2,3) by auto
  from rename_locked_one [OF K this] have "hoare (locks held opened (insert fd H) (insert fd D))
      (rename_locked os f f' False fd r (- 1)) (rename_end held opened H D) (\<lambda>_. True)"
    by (rule hoare_conseq) (auto intro: rename_end_locks(3) [OF _ assms(3)])
  with True show ?thesis by simp
next
  case False
  have sub': "insert fd H \<subseteq> insert fd D" and fresh: "fd \<notin> H" using assms(2,3) by auto
  have "hoare (locks held opened (insert fd H) (insert fd D))
      (LOCK_DIRECTORY os p' rename_ret_ret_update r (rename_locked os f f' True fd r))
      (rename_end held opened H D) (\<lambda>_. True)"
  proof (rule hoare_LOCK [OF K sub'])
    fix nfd assume "nfd \<notin> insert fd D"
    then have "nfd \<notin> insert fd H" and "nfd \<notin> D" using sub by auto
    from rename_locked_two [OF K fresh this(1)]
    show "hoare (locks held opened (insert nfd (insert fd H)) (insert nfd (insert fd D)))
        (rename_locked os f f' True fd r nfd) (rename_end held opened H D) (\<lambda>_. True)"
      by (rule hoare_conseq) (auto intro: rename_end_locks(2) [OF _ assms(3) \<open>nfd \<notin> D\<close>])
  next
    fix s assume "unlocked held opened (insert fd H) (insert fd D) s"
    then show "rename_end held opened H D (rename_ret_ret_update (\<lambda>_. - 1) r) s"
      using \<open>fd \<notin> D\<close> by (auto simp: rename_end_def unlocked_def)
  qed simp
  with False show ?thesis by simp
qed

lemma rename_end_CHECK:
  assumes "hoare (locks held opened H D) k (rename_end held opened H D) (\<lambda>_. True)"
  shows "hoare (locks held opened H D) (CHECK_PARENT_DIRECTORY_VALID os p f ip n rename_ret_ret_update r k)
    (rename_end held opened H D) (\<lambda>_. True)"
  unfolding CHECK_PARENT_DIRECTORY_VALID_def
proof (rule hoare_bnd [OF is_parent_dir_valid_locks])
  fix v show "hoare (locks held opened H D) (if v = 0 then ret (rename_ret_ret_update (\<lambda>_. - EACCES) r) else k)
      (rename_end held opened H D) (\<lambda>_. True)"
    using assms by (cases "v = 0") (auto simp: hoare_def rename_end_locks(1))
qed

lemma hoare_PARENT:
  "(\<And>p. hoare P (k p) Q (\<lambda>_. True)) \<Longrightarrow> hoare P (GET_PARENT_PATH f k) Q (\<lambda>_. True)"
  unfolding GET_PARENT_PATH_def by (rule hoare_checked) auto

lemma rename_hoare:
  assumes K: "lock_kernel (e_os E) held opened" and R: "lock_rpc (e_rpc E) held opened" and sub: "H \<subseteq> D"
  shows "hoare (locks held opened H D) (bb_rename_6_svc E u a r) (rename_end held opened H D) (\<lambda>_. True)"
  unfolding bb_rename_6_svc_def Let_def rename_locked_def [symmetric]
  by (rule hoare_bnd [OF TRANSMIT_locks [OF R stubs_locks(3)]] hoare_checked hoare_PARENT
      rename_end_CHECK hoare_LOCK [OF K sub] rename_under_lock [OF K sub] rename_end_unlocked
      | assumption | rule TrueI | simp; fail)+

text \<open>
  C9. A \<^verbatim>\<open>rename\<close> that returns holds the locks it held before, or it failed with \<open>-1\<close> and one lock more, on
  a descriptor that was not open before, stays with the server.
\<close>

theorem rename_locks:
  assumes "lock_kernel (e_os E) held opened" and "lock_rpc (e_rpc E) held opened"
    and "bb_rename_6_svc E u a r s = Inr (r', t)"
  shows "held (world t) = held (world s) \<or> (rename_ret_ret r' = - 1 \<and>
     (\<exists>fd. fd \<notin> opened (world s) \<and> held (world t) = insert fd (held (world s))))"
proof -
  have "locks held opened (held (world s)) (opened (world s)) s" by (simp add: locks_def)
  then have "rename_end held opened (held (world s)) (opened (world s)) r' t"
    by (rule hoareD_Inr [OF rename_hoare [OF assms(1,2) lock_kernelD(1) [OF assms(1)]] _ assms(3)])
  then show ?thesis by (simp add: rename_end_def)
qed

text \<open>
  C29. The descriptors that \<^verbatim>\<open>dlock\<close> opens are never closed: every \<^verbatim>\<open>mkdir\<close>, \<^verbatim>\<open>rmdir\<close>, \<^verbatim>\<open>unlink\<close> and \<^verbatim>\<open>mknod\<close>
  that succeeds leaves the server with exactly one more open descriptor, and every \<^verbatim>\<open>rename\<close> that succeeds
  with one more, or two, so that it runs out of them. (\<^verbatim>\<open>symlink\<close> and \<^verbatim>\<open>link\<close> take no lock.)
\<close>

theorem successful_changes_leak_descriptor:
  assumes "lock_kernel (e_os E) held opened" and "lock_rpc (e_rpc E) held opened"
  shows "leaks_descriptor opened mkdir_ret_ret (bb_mkdir_6_svc E u1 a1 r1) \<and>
    leaks_descriptor opened rmdir_ret_ret (bb_rmdir_6_svc E u2 a2 r2) \<and>
    leaks_descriptor opened unlink_ret_ret (bb_unlink_6_svc E u3 a3 r3) \<and>
    leaks_descriptor opened mknod_ret_ret (bb_mknod_6_svc E u4 a4 r4) \<and>
    (\<forall>s r t. bb_rename_6_svc E u5 a5 r5 s = Inr (r, t) \<longrightarrow> rename_ret_ret r = 0 \<longrightarrow>
       grew_twice opened (opened (world s)) t)"
proof -
  have "grew_twice opened (opened (world s)) t"
    if "bb_rename_6_svc E u5 a5 r5 s = Inr (r, t)" "rename_ret_ret r = 0" for s r t
  proof -
    have "locks held opened (held (world s)) (opened (world s)) s" by (simp add: locks_def)
    then have "rename_end held opened (held (world s)) (opened (world s)) r t"
      by (rule hoareD_Inr [OF rename_hoare [OF assms lock_kernelD(1) [OF assms(1)]] _ that(1)])
    with that(2) show ?thesis by (simp add: rename_end_def)
  qed
  then show ?thesis
    by (intro conjI leaks_descriptorI [OF assms(1)] grows_mkdir grows_rmdir grows_unlink grows_mknod assms) auto
qed

text \<open>
  C28. It does happen: when the second directory cannot be opened, the handler returns with the first still
  locked. The world it leaves is the one in which the lock was just taken, nothing after it undoes it.
\<close>

theorem rename_leaves_directory_locked:
  assumes "\<not> transmits (rename_arg_server_info a)"
    and "translate_abspath (rename_arg_path a) = Some f" and "get_parent_path f = Some p"
    and "translate_abspath (rename_arg_newpath a) = Some f'" and "get_parent_path f' = Some p'" and "p \<noteq> p'"
    and "parent_ok (e_os E) p f (rename_arg_ip a) ''rename'' (world s)"
    and "parent_ok (e_os E) p' f' (rename_arg_ip a) ''rename'' (world s)"
    and "sys_opendir (e_os E) p (world s) = (Inr dp, w1)" and "sys_dirfd (e_os E) dp w1 = Inr fd" and "\<not> cneg fd"
    and "sys_flock (e_os E) fd LOCK_EX w1 = Some (Inr u', w2)"
    and "sys_opendir (e_os E) p' w2 = (Inl e, w3)"
  shows "\<exists>t. bb_rename_6_svc E u a r s = Inr (r\<lparr>rename_ret_ret := - 1\<rparr>, t) \<and> world t = w3"
proof -
  obtain s1 where c1: "is_parent_dir_valid (e_os E) p f (rename_arg_ip a) ''rename'' s = Inr (1, s1)"
    and w1: "world s1 = world s"
    using is_parent_dir_valid_run [of "e_os E" p f "rename_arg_ip a" "''rename''" s] assms(7) by auto
  obtain s2 where c2: "is_parent_dir_valid (e_os E) p' f' (rename_arg_ip a) ''rename'' s1 = Inr (1, s2)"
    and w2: "world s2 = world s"
    using is_parent_dir_valid_run [of "e_os E" p' f' "rename_arg_ip a" "''rename''" s1] assms(8) w1 by auto
  have l1: "dlock (e_os E) p s2 = Inr (fd, s2\<lparr>world := w2\<rparr>)"
    using assms(9-12) w2 by (auto simp: dlock_def bnd_def sys_run flock_def)
  have l2: "dlock (e_os E) p' (s2\<lparr>world := w2\<rparr>) = Inr (- 1, s2\<lparr>world := w3, errno := e\<rparr>)"
    using assms(13) by (simp add: dlock_def bnd_def sys_run)
  show ?thesis
    using assms(1-6,11) by (simp add: bb_rename_6_svc_def TRANSMIT_local Let_def GET_PARENT_PATH_def
      CHECK_PARENT_DIRECTORY_VALID_def LOCK_DIRECTORY_def bnd_def c1 c2 l1 l2)
qed

section \<open>On the kernel in memory\<close>

definition m_opened :: "mem \<Rightarrow> c_int set" where
  "m_opened m = fst ` set (m_fds m)"

definition m_held :: "mem \<Rightarrow> c_int set" where
  "m_held m = {fd \<in> m_opened m. \<exists>i. (fd, i, True) \<in> set (m_locks m)}"

lemma m_new_fd_fresh:
  assumes "length (m_fds m) < 1024"
  shows "m_new_fd m \<notin> m_opened m" and "\<not> cneg (m_new_fd m)"
proof -
  define used where "used = List.map fst (m_fds m)"
  define free where "free = filter (\<lambda>k. (of_nat k :: c_int) \<notin> set used) [3..<4 + length used]"
  have small: "length used < 1024" using assms by (simp add: used_def)
  have inj: "inj_on (of_nat :: nat \<Rightarrow> c_int) {3..<4 + length used}"
  proof (rule inj_onI)
    fix x y assume xy: "x \<in> {3..<4 + length used}" "y \<in> {3..<4 + length used}"
      and eq: "(of_nat x :: c_int) = of_nat y"
    have "unat (of_nat k :: c_int) = k" if "k < 2000" for k
      using that by (simp add: unat_of_nat)
    moreover have "x < 2000" "y < 2000" using xy small by auto
    ultimately show "x = y" using eq by metis
  qed
  have "free \<noteq> []"
  proof
    assume "free = []"
    then have "of_nat ` {3..<4 + length used} \<subseteq> set used" by (auto simp: free_def filter_empty_conv)
    then have "card {3..<4 + length used} \<le> card (set used)"
      by (metis List.finite_set card_image card_mono inj)
    also have "card (set used) \<le> length used" by (rule card_length)
    finally show False by simp
  qed
  then have "hd free \<in> set free" by simp
  then have k: "of_nat (hd free) \<notin> set used" "hd free < 4 + length used" by (auto simp: free_def)
  have new: "m_new_fd m = of_nat (hd free)" by (simp add: m_new_fd_def Let_def used_def free_def)
  show "m_new_fd m \<notin> m_opened m" using k(1) by (simp add: new m_opened_def used_def)
  have "sint (of_nat (hd free) :: c_int) = int (hd free)"
    using k(2) small by (simp add: signed_of_nat signed_take_bit_int_eq_self)
  then show "\<not> cneg (m_new_fd m)" by (simp add: new cneg_def)
qed

lemma m_create_keeps [simp]: "m_fds (snd (m_create p mode data m)) = m_fds m" "m_locks (snd (m_create p mode data m)) = m_locks m"
  by (auto simp: m_create_def Let_def)

lemma m_path_calls:
  assumes "f \<in> path_calls mem_os"
  shows "m_fds (snd (f m)) = m_fds m" and "m_locks (snd (f m)) = m_locks m"
  using assms by (auto simp: path_calls_def mem_os_def m_rmdir_def m_rename_def m_link_def m_unlink_def
    m_on_node_def m_remove_def split: option.splits sum.splits)

lemma m_open_node_law:
  "case m_open_node i flags m of
     (Inl e, m') \<Rightarrow> m' = m
   | (Inr fd, m') \<Rightarrow> \<not> cneg fd \<and> fd \<notin> m_opened m \<and> m_opened m' = insert fd (m_opened m) \<and> m_held m' = m_held m"
proof (cases "1024 \<le> length (m_fds m)")
  case False
  then have new: "m_new_fd m \<notin> fst ` set (m_fds m)" "\<not> cneg (m_new_fd m)"
    using m_new_fd_fresh [of m] by (simp_all add: m_opened_def)
  then have "(m_new_fd m, x) \<notin> set (m_fds m)" for x by force
  with False new show ?thesis
    by (auto simp: m_open_node_def Let_def m_opened_def m_held_def)
qed (simp add: m_open_node_def)

lemma m_create_sets: "m_opened (snd (m_create p mode data m)) = m_opened m" "m_held (snd (m_create p mode data m)) = m_held m"
  by (simp_all add: m_opened_def m_held_def)

lemma m_open_law:
  "case m_open p flags mode m of
     (Inl e, m') \<Rightarrow> same_locks m_held m_opened m m'
   | (Inr fd, m') \<Rightarrow> \<not> cneg fd \<and> fd \<notin> m_opened m \<and> m_opened m' = insert fd (m_opened m) \<and> m_held m' = m_held m"
proof (cases "m_lookup m p")
  case None
  obtain r m' where c: "m_create p (32768 OR mode) [] m = (r, m')" by (cases "m_create p (32768 OR mode) [] m")
  have s: "m_opened m' = m_opened m" "m_held m' = m_held m"
    using m_create_sets [of p "32768 OR mode" "[]" m] c by simp_all
  show ?thesis
  proof (cases r)
    case (Inl e)
    with None c s show ?thesis by (simp add: m_open_def same_locks_def)
  next
    case (Inr u)
    show ?thesis
    proof (cases "m_lookup m' p")
      case (Some x)
      obtain i nd where x: "x = (i, nd)" by (cases x)
      from None c s Inr Some x m_open_node_law [where i = i and flags = flags and m = m'] show ?thesis
        by (auto simp: m_open_def same_locks_def split: sum.splits prod.splits)
    qed (use None c s Inr in \<open>simp add: m_open_def same_locks_def\<close>)
  qed
next
  case (Some x)
  obtain i nd where "x = (i, nd)" by (cases x)
  with Some m_open_node_law [where i = i and flags = flags and m = m] show ?thesis
    by (auto simp: m_open_def same_locks_def split: sum.splits prod.splits)
qed

lemma m_opendir_law:
  "case m_opendir p m of
     (Inl e, m') \<Rightarrow> same_locks m_held m_opened m m'
   | (Inr dp, m') \<Rightarrow> (case sys_dirfd mem_os dp m' of
       Inl e \<Rightarrow> False
     | Inr fd \<Rightarrow> \<not> cneg fd \<and> fd \<notin> m_opened m \<and> m_opened m' = insert fd (m_opened m) \<and> m_held m' = m_held m)"
proof (cases "m_lookup m p")
  case (Some x)
  obtain i nd where "x = (i, nd)" by (cases x)
  with Some m_open_node_law [where i = i and flags = 0 and m = m] show ?thesis
    by (auto simp: m_opendir_def same_locks_def mem_os_def split: sum.splits prod.splits)
qed (simp add: m_opendir_def same_locks_def)

lemma in_m_opened: "fd \<in> m_opened m \<longleftrightarrow> (\<exists>i fl. (fd, i, fl) \<in> set (m_fds m))"
  by (force simp: m_opened_def)

lemma in_m_held: "fd \<in> m_held m \<longleftrightarrow> fd \<in> m_opened m \<and> (\<exists>i. (fd, i, True) \<in> set (m_locks m))"
  by (simp add: m_held_def)

lemma m_flock_EX_law:
  "sys_flock mem_os fd LOCK_EX m = Some (Inr u, m') \<Longrightarrow> m_held m' = insert fd (m_held m) \<and> m_opened m' = m_opened m"
  "sys_flock mem_os fd LOCK_EX m = Some (Inl e, m') \<Longrightarrow> same_locks m_held m_opened m m'"
  by (auto simp: mem_os_def m_flock_def same_locks_def in_m_held in_m_opened set_eq_iff Let_def
    split: option.splits if_splits dest!: map_of_SomeD) blast+

lemma m_flock_UN_law:
  assumes "fd \<in> m_held m"
  shows "\<exists>m'. sys_flock mem_os fd LOCK_UN m = Some (Inr (), m') \<and> m_held m' = m_held m - {fd} \<and> m_opened m' = m_opened m"
proof -
  have "map_of (m_fds m) fd \<noteq> None" using assms by (auto simp: m_held_def m_opened_def map_of_eq_None_iff)
  then show ?thesis by (auto simp: mem_os_def m_flock_def m_held_def m_opened_def Let_def split: option.splits)
qed

lemma m_close_law:
  assumes "m_close fd m = (r, m')"
  shows "m_held m' = m_held m - {fd} \<and> m_opened m' = m_opened m - {fd}"
proof (cases "map_of (m_fds m) fd")
  case None
  then have "fd \<notin> m_opened m" by (simp add: m_opened_def map_of_eq_None_iff)
  with assms None show ?thesis by (auto simp: m_close_def m_held_def)
next
  case (Some x)
  with assms have "m' = m\<lparr>m_fds := filter (\<lambda>(f, _). f \<noteq> fd) (m_fds m), m_locks := filter (\<lambda>(f, _). f \<noteq> fd) (m_locks m)\<rparr>"
    by (simp add: m_close_def)
  then show ?thesis by (force simp: m_held_def m_opened_def)
qed

lemma mem_lock_kernel: "lock_kernel mem_os m_held m_opened"
  unfolding lock_kernel_def
proof (intro conjI allI ballI impI)
  fix w show "m_held w \<subseteq> m_opened w" by (auto simp: m_held_def)
next
  fix f w assume "f \<in> path_calls mem_os"
  then show "same_locks m_held m_opened w (snd (f w))"
    by (simp add: same_locks_def m_held_def m_opened_def m_path_calls)
next
  fix p flags mode w
  show "case sys_open mem_os p flags mode w of (Inl e, w') \<Rightarrow> same_locks m_held m_opened w w'
      | (Inr fd, w') \<Rightarrow> \<not> cneg fd \<and> fd \<notin> m_opened w \<and> m_opened w' = insert fd (m_opened w) \<and> m_held w' = m_held w"
    using m_open_law [where p = p and flags = flags and mode = mode and m = w] by (simp add: mem_os_def)
next
  fix p w
  show "case sys_opendir mem_os p w of (Inl e, w') \<Rightarrow> same_locks m_held m_opened w w'
      | (Inr dp, w') \<Rightarrow> (case sys_dirfd mem_os dp w' of Inl e \<Rightarrow> False
        | Inr fd \<Rightarrow> \<not> cneg fd \<and> fd \<notin> m_opened w \<and> m_opened w' = insert fd (m_opened w) \<and> m_held w' = m_held w)"
    using m_opendir_law [where p = p and m = w] by (simp add: mem_os_def)
next
  fix fd w and u :: "c_int + unit" and w' assume "sys_close mem_os fd w = (u, w')"
  then have "m_close fd w = (u, w')" by (simp add: mem_os_def)
  then show "m_held w' = m_held w - {fd}" and "m_opened w' = m_opened w - {fd}" by (auto dest: m_close_law)
qed (auto dest: m_flock_EX_law m_flock_UN_law)

lemma no_lock_rpc: "lock_rpc no_rpc held opened"
  by (simp add: lock_rpc_def same_locks_def no_rpc_def)

lemma mem_env_locks: "lock_kernel (e_os mem_env) m_held m_opened" "lock_rpc (e_rpc mem_env) m_held m_opened"
  by (simp_all add: mem_env_def mem_lock_kernel no_lock_rpc)

lemma mem_start_free: "m_held (world mem_start) = {}" "m_opened (world mem_start) = {}"
  by (simp_all add: mem_start_def mem_tree_def m_held_def m_opened_def)

definition mem_mkdir_arg :: mkdir_arg where
  "mem_mkdir_arg = \<lparr>mkdir_arg_ip = ''7'', mkdir_arg_server_info = degraded_info,
     mkdir_arg_path = ''/d/x'', mkdir_arg_mode = 509\<rparr>"

lemma directory_changes_release_locks_witness:
  "m_held (world (end_state (bb_mkdir_6_svc mem_env \<lparr>mkdir_ret_ret = 0\<rparr> mem_mkdir_arg
     \<lparr>mkdir_ret_ret = 0\<rparr> mem_start))) = {}"
proof -
  have "keeps_locks m_held m_opened (bb_mkdir_6_svc mem_env \<lparr>mkdir_ret_ret = 0\<rparr> mem_mkdir_arg \<lparr>mkdir_ret_ret = 0\<rparr>)"
    using directory_changes_release_locks [OF mem_env_locks] by (rule conjunct1)
  then show ?thesis by (simp add: keeps_locks_def Let_def mem_start_free)
qed

lemma successful_changes_leak_descriptor_witness:
  "\<exists>fd t. bb_mkdir_6_svc mem_env \<lparr>mkdir_ret_ret = 0\<rparr> mem_mkdir_arg \<lparr>mkdir_ret_ret = 5\<rparr> mem_start
     = Inr (\<lparr>mkdir_ret_ret = 0\<rparr>, t) \<and> m_opened (world t) = {fd}"
proof -
  have "case bb_mkdir_6_svc mem_env \<lparr>mkdir_ret_ret = 0\<rparr> mem_mkdir_arg \<lparr>mkdir_ret_ret = 5\<rparr> mem_start of
      Inr (r, t) \<Rightarrow> mkdir_ret_ret r = 0 | Inl _ \<Rightarrow> False"
    by code_simp
  then obtain t where run: "bb_mkdir_6_svc mem_env \<lparr>mkdir_ret_ret = 0\<rparr> mem_mkdir_arg \<lparr>mkdir_ret_ret = 5\<rparr> mem_start
      = Inr (\<lparr>mkdir_ret_ret = 0\<rparr>, t)"
    by (auto split: sum.splits)
  have "leaks_descriptor m_opened mkdir_ret_ret
      (bb_mkdir_6_svc mem_env \<lparr>mkdir_ret_ret = 0\<rparr> mem_mkdir_arg \<lparr>mkdir_ret_ret = 5\<rparr>)"
    using successful_changes_leak_descriptor [OF mem_env_locks] by (rule conjunct1)
  with run show ?thesis by (fastforce simp: leaks_descriptor_def grew_def mem_start_free)
qed

text \<open>A tree in which user 7 has a directory and a file of his own that is taken for a directory.\<close>

definition mem_start_two :: "mem process" where
  "mem_start_two = \<lparr>world = \<lparr>
     m_paths = [(''/DFS'', 1), (''/DFS/d'', 2), (''/DFS/d/f'', 3), (''/DFS/x'', 4)],
     m_nodes = [(1, mem_node 16895 0 []), (2, mem_node 16836 7 []),
                (3, mem_node 33188 7 ''hello''), (4, mem_node 33216 7 [])],
     m_fds = [], m_locks = []\<rparr>, errno = 0\<rparr>"

definition mem_rename_arg :: "string \<Rightarrow> rename_arg" where
  "mem_rename_arg newpath = \<lparr>rename_arg_ip = ''7'', rename_arg_server_info = degraded_info,
     rename_arg_path = ''/d/f'', rename_arg_newpath = newpath\<rparr>"

lemma rename_locks_witness:
  "case bb_rename_6_svc mem_env \<lparr>rename_ret_ret = 0\<rparr> (mem_rename_arg ''/h'') \<lparr>rename_ret_ret = 0\<rparr> mem_start_two of
     Inr (r, t) \<Rightarrow> rename_ret_ret r = 0 \<and> m_held (world t) = {} | Inl _ \<Rightarrow> False"
proof -
  have "case bb_rename_6_svc mem_env \<lparr>rename_ret_ret = 0\<rparr> (mem_rename_arg ''/h'') \<lparr>rename_ret_ret = 0\<rparr> mem_start_two of
     Inr (r, t) \<Rightarrow> rename_ret_ret r = 0 | Inl _ \<Rightarrow> False"
    by code_simp
  moreover have "m_held (world mem_start_two) = {}" by (simp add: mem_start_two_def m_held_def m_opened_def)
  ultimately show ?thesis using rename_locks [OF mem_env_locks] by (fastforce split: sum.splits)
qed

text \<open>
  The directory stays locked, and as the server has one thread, the next change in it blocks the
  server for ever.
\<close>

definition mem_unlink_arg :: unlink_arg where
  "mem_unlink_arg = \<lparr>unlink_arg_ip = ''7'', unlink_arg_server_info = degraded_info, unlink_arg_path = ''/d/f''\<rparr>"

lemma rename_leaves_directory_locked_witness:
  "\<exists>t u. bb_rename_6_svc mem_env \<lparr>rename_ret_ret = 0\<rparr> (mem_rename_arg ''/x/h'') \<lparr>rename_ret_ret = 0\<rparr> mem_start_two
     = Inr (\<lparr>rename_ret_ret = - 1\<rparr>, t) \<and> m_locks (world t) = [(3, 2, True)] \<and>
   bb_unlink_6_svc mem_env \<lparr>unlink_ret_ret = 0\<rparr> mem_unlink_arg \<lparr>unlink_ret_ret = 0\<rparr> t = Inl (Blocked, u)"
proof -
  let ?w = "world mem_start_two"
  let ?w1 = "snd (m_opendir ''/DFS/d'' ?w)"
  let ?w2 = "?w1\<lparr>m_locks := [(3, 2, True)]\<rparr>"
  have a: "translate_abspath (rename_arg_path (mem_rename_arg ''/x/h'')) = Some ''/DFS/d/f''"
    "get_parent_path ''/DFS/d/f'' = Some ''/DFS/d''"
    "translate_abspath (rename_arg_newpath (mem_rename_arg ''/x/h'')) = Some ''/DFS/x/h''"
    "get_parent_path ''/DFS/x/h'' = Some ''/DFS/x''" "''/DFS/d'' \<noteq> ''/DFS/x''"
    by code_simp+
  have b: "parent_ok (e_os mem_env) ''/DFS/d'' ''/DFS/d/f'' (rename_arg_ip (mem_rename_arg ''/x/h'')) ''rename'' ?w"
    "parent_ok (e_os mem_env) ''/DFS/x'' ''/DFS/x/h'' (rename_arg_ip (mem_rename_arg ''/x/h'')) ''rename'' ?w"
    "sys_opendir (e_os mem_env) ''/DFS/d'' ?w = (Inr 3, ?w1)"
    "sys_dirfd (e_os mem_env) 3 ?w1 = Inr 3" "\<not> cneg (3 :: c_int)"
    "sys_flock (e_os mem_env) 3 LOCK_EX ?w1 = Some (Inr (), ?w2)"
    "sys_opendir (e_os mem_env) ''/DFS/x'' ?w2 = (Inl 20, ?w2)"
    by code_simp+
  have c: "\<not> transmits (rename_arg_server_info (mem_rename_arg ''/x/h''))"
    by (simp add: mem_rename_arg_def degraded_info_local)
  obtain t where run: "bb_rename_6_svc mem_env \<lparr>rename_ret_ret = 0\<rparr> (mem_rename_arg ''/x/h'') \<lparr>rename_ret_ret = 0\<rparr> mem_start_two
      = Inr (\<lparr>rename_ret_ret = - 1\<rparr>, t)" and w: "world t = ?w2"
    using rename_leaves_directory_locked [OF c a b, of "\<lparr>rename_ret_ret = 0\<rparr>" "\<lparr>rename_ret_ret = 0\<rparr>"] by auto
  have "case bb_unlink_6_svc mem_env \<lparr>unlink_ret_ret = 0\<rparr> mem_unlink_arg \<lparr>unlink_ret_ret = 0\<rparr> \<lparr>world = ?w2, errno = n\<rparr> of
      Inl (Blocked, u) \<Rightarrow> True | _ \<Rightarrow> False" for n
    by code_simp
  from this [of "errno t"] have "\<exists>u. bb_unlink_6_svc mem_env \<lparr>unlink_ret_ret = 0\<rparr> mem_unlink_arg \<lparr>unlink_ret_ret = 0\<rparr> t
      = Inl (Blocked, u)"
    using w by (cases t) (auto split: sum.splits prod.splits stop.splits)
  with run w show ?thesis by auto
qed

end
