(* ===== verification/Server_Progress.thy ===== *)
theory Server_Progress
  imports Server_Locks
begin

text \<open>
  When the server answers. It handles one request at a time, so that a \<^verbatim>\<open>flock\<close> that waits stops it for
  every client. While no lock is taken it does not wait, and a request whose paths fit its arrays is answered.
\<close>

section \<open>How a computation may stop\<close>

text \<open>
  \<open>stops_in X P m\<close>: from a state in \<open>P\<close>, \<open>m\<close> stops for no reason outside \<open>X\<close>; for none at all, it returns.
  \<open>stops_keeps\<close>: and is in \<open>P\<close> when it returns.
\<close>

definition stops_in :: "stop set \<Rightarrow> ('s \<Rightarrow> bool) \<Rightarrow> ('s, 'a) prog \<Rightarrow> bool" where
  "stops_in X P m \<longleftrightarrow> (\<forall>s e t. P s \<longrightarrow> m s = Inl (e, t) \<longrightarrow> e \<in> X)"

definition stops_keeps :: "stop set \<Rightarrow> ('s \<Rightarrow> bool) \<Rightarrow> ('s, 'a) prog \<Rightarrow> bool" where
  "stops_keeps X P m \<longleftrightarrow> stops_in X P m \<and> hoare P m (\<lambda>_. P) (\<lambda>_. True)"

abbreviation (input) calm :: "('s \<Rightarrow> bool) \<Rightarrow> ('s, 'a) prog \<Rightarrow> bool" where
  "calm \<equiv> stops_in (- {Blocked})"

abbreviation (input) calm_keeps :: "('s \<Rightarrow> bool) \<Rightarrow> ('s, 'a) prog \<Rightarrow> bool" where
  "calm_keeps \<equiv> stops_keeps (- {Blocked})"

named_theorems calm_rules

lemma calm_def: "calm P m \<longleftrightarrow> (\<forall>s t. P s \<longrightarrow> m s \<noteq> Inl (Blocked, t))"
  by (auto simp: stops_in_def)

lemma returns_iff: "stops_in {} P m \<longleftrightarrow> (\<forall>s. P s \<longrightarrow> (\<exists>a t. m s = Inr (a, t)))"
  unfolding stops_in_def by (metis empty_iff old.prod.exhaust sum.distinct(1) sum.exhaust)

lemma stops_bnd: "stops_keeps X P m \<Longrightarrow> (\<And>a. stops_in X P (f a)) \<Longrightarrow> stops_in X P (bnd m f)"
  unfolding stops_in_def
proof (intro allI impI)
  fix s e t assume m: "stops_keeps X P m" and f: "\<And>a. \<forall>s e t. P s \<longrightarrow> f a s = Inl (e, t) \<longrightarrow> e \<in> X" and "P s"
    and "bnd m f s = Inl (e, t)"
  then consider "m s = Inl (e, t)" | a u where "m s = Inr (a, u)" "f a u = Inl (e, t)"
    by (auto simp: bnd_def split: sum.splits)
  then show "e \<in> X"
  proof cases
    case 1
    with m \<open>P s\<close> show ?thesis by (auto simp: stops_keeps_def stops_in_def)
  next
    case 2
    from m have "hoare P m (\<lambda>_. P) (\<lambda>_. True)" by (simp add: stops_keeps_def)
    then have "P u" using \<open>P s\<close> 2(1) by (rule hoareD_Inr)
    with f 2(2) show ?thesis by blast
  qed
qed

lemma stops_keeps_bnd: "stops_keeps X P m \<Longrightarrow> (\<And>a. stops_keeps X P (f a)) \<Longrightarrow> stops_keeps X P (bnd m f)"
  by (auto simp: stops_keeps_def intro: stops_bnd hoare_bnd)

lemma stops_keepsI: "(\<And>s. P s \<Longrightarrow> \<exists>a t. m s = Inr (a, t) \<and> P t) \<Longrightarrow> stops_keeps X P m"
  by (fastforce simp: stops_keeps_def stops_in_def hoare_def)

lemma stops_keeps_ret [calm_rules]: "stops_keeps X P (ret a)"
  by (rule stops_keepsI) simp

lemma stops_keeps_halt [calm_rules]: "e \<in> X \<Longrightarrow> stops_keeps X P (halt e)"
  by (simp add: stops_keeps_def stops_in_def hoare_def)

lemma stops_keeps_checked [calm_rules]: "OutOfBounds \<in> X \<Longrightarrow> stops_keeps X P (checked x)"
  by (cases x) (simp_all add: stops_keeps_ret stops_keeps_halt)

lemma stops_keeps_if [calm_rules]:
  "(b \<Longrightarrow> stops_keeps X P m) \<Longrightarrow> (\<not> b \<Longrightarrow> stops_keeps X P n) \<Longrightarrow> stops_keeps X P (if b then m else n)"
  by simp

lemma stops_keeps_option [calm_rules]:
  "stops_keeps X P m \<Longrightarrow> (\<And>a. stops_keeps X P (f a)) \<Longrightarrow>
   stops_keeps X P (case x of None \<Rightarrow> m | Some a \<Rightarrow> f a)"
  by (cases x) simp_all

lemma stops_weaken: "stops_keeps X Q m \<Longrightarrow> (\<And>s. P s \<Longrightarrow> Q s) \<Longrightarrow> stops_in X P m"
  unfolding stops_keeps_def stops_in_def by blast

lemma not_waiting [calm_rules]: "Exited \<in> - {Blocked}" "OutOfBounds \<in> - {Blocked}"
  by simp_all

text \<open>Anything but a request for a lock returns, whatever the world is.\<close>

abbreviation (input) anywhere :: "'w process \<Rightarrow> bool" where
  "anywhere \<equiv> \<lambda>_. True"

lemma stops_keeps_sys_call [calm_rules]: "stops_keeps X anywhere (sys_call f)"
  by (rule stops_keepsI) (auto simp: sys_call_def split: prod.splits sum.splits)

lemma stops_keeps_sys_query [calm_rules]: "stops_keeps X P (sys_query f)" if "\<And>s e. P s \<Longrightarrow> P (s\<lparr>errno := e\<rparr>)"
  using that by (intro stops_keepsI) (auto simp: sys_query_def sys_call_def split: sum.splits)

lemma stops_keeps_sys_int [calm_rules]: "stops_keeps X anywhere (sys_int f)"
  unfolding sys_int_def by (intro stops_keeps_bnd calm_rules)

definition unlocks :: "'w os \<Rightarrow> bool" where
  "unlocks os \<longleftrightarrow> (\<forall>fd w. sys_flock os fd LOCK_UN w \<noteq> None)"

lemma stops_keeps_UNLOCK: "unlocks os \<Longrightarrow> stops_keeps X anywhere (UNLOCK_DIRECTORY os fd u r)"
  unfolding UNLOCK_DIRECTORY_def dunlock_def
  by (intro stops_keeps_bnd calm_rules stops_keepsI)
    (auto simp: flock_def unlocks_def sys_int_def bnd_def sys_call_def split: option.splits sum.splits)

section \<open>A server at rest\<close>

text \<open>
  \<open>idle w\<close>: no lock is taken in \<open>w\<close>. Then no call of \<^verbatim>\<open>flock\<close> waits, and to open a directory or to send a
  message takes none. To give a lock back never waits.
\<close>

definition quiet_rpc :: "'w rpc \<Rightarrow> ('w \<Rightarrow> bool) \<Rightarrow> bool" where
  "quiet_rpc R idle \<longleftrightarrow>
     (\<forall>h proto w. idle w \<longrightarrow> idle (snd (rpc_clnt_create R h proto w))) \<and>
     (\<forall>c proc bs w. idle w \<longrightarrow> idle (snd (rpc_send R c proc bs w))) \<and>
     (\<forall>c w. idle w \<longrightarrow> idle (rpc_clnt_destroy R c w))"

definition idle_kernel :: "'w os \<Rightarrow> 'w rpc \<Rightarrow> ('w \<Rightarrow> bool) \<Rightarrow> bool" where
  "idle_kernel os R idle \<longleftrightarrow> unlocks os \<and> quiet_rpc R idle \<and>
     (\<forall>fd op w. idle w \<longrightarrow> sys_flock os fd op w \<noteq> None) \<and>
     (\<forall>p w. idle w \<longrightarrow> idle (snd (sys_opendir os p w)))"

lemma quiet_rpcD:
  assumes "quiet_rpc R idle" and "idle w"
  shows "idle (snd (rpc_clnt_create R h proto w))"
    and "idle (snd (rpc_send R c proc bs w))"
    and "idle (rpc_clnt_destroy R c w)"
  using assms by (simp_all add: quiet_rpc_def)

lemma idle_kernelD:
  assumes "idle_kernel os R idle"
  shows "unlocks os" and "quiet_rpc R idle"
    and "idle w \<Longrightarrow> sys_flock os fd op w \<noteq> None"
    and "idle w \<Longrightarrow> idle (snd (sys_opendir os p w))"
  using assms by (simp_all add: idle_kernel_def)

abbreviation (input) rests :: "('w \<Rightarrow> bool) \<Rightarrow> 'w process \<Rightarrow> bool" where
  "rests idle \<equiv> \<lambda>s. idle (world s)"

lemma stops_keeps_on_world:
  assumes "\<And>w. idle w \<Longrightarrow> idle (snd (f w))"
  shows "stops_keeps X (rests idle) (on_world f)"
proof (rule stops_keepsI)
  fix s :: "'a process" assume "idle (world s)"
  then show "\<exists>a t. on_world f s = Inr (a, t) \<and> idle (world t)"
    using assms [of "world s"] by (cases "f (world s)") (simp add: on_world_def)
qed

definition calling :: "('w, 'a, 'r) stub \<Rightarrow> 'w rpc \<Rightarrow> ('w \<Rightarrow> bool) \<Rightarrow> bool" where
  "calling func R idle \<longleftrightarrow> (\<forall>L a r c w. idle w \<longrightarrow> idle (snd (func L R a r c w)))"

lemma clnt_call_idle:
  assumes "quiet_rpc R idle" and "idle w"
  shows "idle (snd (clnt_call R c n x a y r w))"
proof -
  obtain ok u a' where x: "x \<lparr>x_op = XDR_ENCODE, x_bytes = []\<rparr> a = (ok, u, a')" by (metis prod_cases3)
  show ?thesis
    using quiet_rpcD(2) [OF assms, of c n "x_bytes u"] assms(2)
    by (cases "rpc_send R c n (x_bytes u) w") (auto simp: clnt_call_def x split: prod.split sum.split)
qed

lemma calling_stubs:
  assumes "quiet_rpc R idle"
  shows "calling bb_mkdir_6 R idle" "calling bb_rmdir_6 R idle" "calling bb_unlink_6 R idle"
    "calling bb_mknod_6 R idle" "calling bb_symlink_6 R idle" "calling bb_link_6 R idle"
    "calling init_rootdir_6 R idle" "calling bb_rename_6 R idle" "calling bb_truncate_6 R idle"
    "calling bb_utime_6 R idle" "calling bb_chmod_6 R idle" "calling bb_chown_6 R idle" "calling bb_write_6 R idle"
  by (simp_all add: calling_def clnt_call_idle [OF assms] bb_mkdir_6_def bb_rmdir_6_def bb_unlink_6_def bb_mknod_6_def
    bb_symlink_6_def bb_link_6_def init_rootdir_6_def bb_rename_6_def bb_truncate_6_def bb_utime_6_def bb_chmod_6_def
    bb_chown_6_def bb_write_6_def)

lemma calm_TRANSMIT:
  assumes "quiet_rpc (e_rpc E) idle" and "calling func (e_rpc E) idle"
  shows "stops_keeps X (rests idle) (TRANSMIT_TO_SECONDATY E func info set_info u a)"
  unfolding TRANSMIT_TO_SECONDATY_def connect_server_def Let_def
  using quiet_rpcD(1,3) [OF assms(1)] assms(2)
  by (intro stops_keeps_if stops_keeps_bnd stops_keeps_option stops_keeps_ret stops_keeps_on_world) (auto simp: calling_def)

lemma calm_CHECK:
  assumes "stops_in X (rests idle) k"
  shows "stops_in X (rests idle) (CHECK_PARENT_DIRECTORY_VALID os p f ip n u r k)"
proof -
  have "stops_keeps X (rests idle) (is_parent_dir_valid os p f ip n)"
    using is_parent_dir_valid_run [of os p f ip n] by (intro stops_keepsI) fastforce
  then show ?thesis
    unfolding CHECK_PARENT_DIRECTORY_VALID_def using assms by (intro stops_bnd) (auto simp: stops_in_def)
qed

lemma calm_LOCK:
  assumes "idle_kernel os R idle" and "\<And>fd. stops_keeps X anywhere (k fd)"
  shows "stops_in X (rests idle) (LOCK_DIRECTORY os p u r k)"
proof -
  have "dlock os p s \<noteq> Inl (e, t)" if "idle (world s)" for s e t
  proof -
    obtain x w where o: "sys_opendir os p (world s) = (x, w)" by (cases "sys_opendir os p (world s)")
    then have "idle w" using idle_kernelD(4) [OF assms(1) that, of p] by simp
    then have l: "sys_flock os fd op w \<noteq> None" for fd op by (rule idle_kernelD(3) [OF assms(1)])
    have f: "flock os fd LOCK_EX u \<noteq> Inl (e, t)" if "world u = w" for fd and u :: "'a process" and e t
      using l [of fd LOCK_EX] that by (auto simp: flock_def sys_int_def bnd_def sys_call_def split: sum.splits prod.splits)
    show ?thesis
      using o f by (auto simp: dlock_def bnd_def sys_call_def sys_query_def split: sum.splits option.splits if_splits)
  qed
  moreover have "k fd s = Inl (e, t) \<Longrightarrow> e \<in> X" for fd s e t
    using assms(2) [of fd] unfolding stops_keeps_def stops_in_def by blast
  ultimately show ?thesis
    by (auto simp: stops_in_def LOCK_DIRECTORY_def bnd_def split: sum.splits if_splits)
qed

lemma calm_owner: "stops_keeps X anywhere (set_owner os p ip)" "stops_keeps X anywhere (set_softlink_owner os p ip)"
  unfolding set_owner_def set_softlink_owner_def Let_def by (intro stops_keeps_bnd calm_rules)+

lemma calm_queries:
  "stops_keeps X anywhere get_errno" "stops_keeps X anywhere (set_errno_ret u r)"
  "stops_keeps X anywhere (is_op_valid os p ip n)" "stops_keeps X anywhere (is_owner os p ip)"
proof -
  show errno: "stops_keeps X anywhere get_errno" by (rule stops_keepsI) (simp add: get_errno_def)
  show "stops_keeps X anywhere (set_errno_ret u r)"
    unfolding set_errno_ret_def by (intro stops_keeps_bnd errno calm_rules)
  show "stops_keeps X anywhere (is_op_valid os p ip n)" "stops_keeps X anywhere (is_owner os p ip)"
    unfolding is_op_valid_def is_owner_def by (rule stops_keeps_bnd calm_rules TrueI)+
qed

lemma calm_rest: "stops_keeps X anywhere m \<Longrightarrow> stops_in X P m"
  by (rule stops_weaken) simp_all

section \<open>Paths that fit\<close>

definition fits_server :: "string \<Rightarrow> bool" where
  \<comment> \<open>the path, with \<^verbatim>\<open>/DFS\<close> before it, fits an array of \<^verbatim>\<open>MAX_PATH_LEN\<close> characters\<close>
  "fits_server path \<longleftrightarrow> is_cstring path \<and> (path = ''/'' \<or> length (rooted path) < 196)"

lemma fits_translated:
  assumes "fits_server path"
  shows "\<exists>f p. translate_abspath path = Some f \<and> get_parent_path f = Some p"
proof -
  let ?f = "if path = ''/'' then ''/DFS'' else ''/DFS'' @ rooted path"
  from assms have f: "translate_abspath path = Some ?f" "length ?f < 200" "is_cstring ?f" "CHR ''/'' \<in> set ?f"
    using translate_abspath_eq [of path] by (auto simp: fits_server_def rooted_def)
  obtain f where "f = ?f" by blast
  note f = f [folded this]
  from f(4) obtain p n where "f = p @ CHR ''/'' # n" "CHR ''/'' \<notin> set n" by (metis split_list_last)
  with f(1-3) show ?thesis using get_parent_path_append [of n p] by (auto simp: MAX_PATH_LEN_def)
qed

lemma calm_translate:
  assumes "fits_server path" and "\<And>f. get_parent_path f \<noteq> None \<Longrightarrow> stops_in X P (k f)"
  shows "stops_in X P (bnd (checked (translate_abspath path)) k)"
  using fits_translated [OF assms(1)] assms(2) by auto

lemma calm_PARENT:
  assumes "get_parent_path f \<noteq> None" and "\<And>p. get_parent_path f = Some p \<Longrightarrow> stops_in X P (k p)"
  shows "stops_in X P (GET_PARENT_PATH f k)"
  using assms by (auto simp: GET_PARENT_PATH_def)

lemmas calm_handler = calm_translate calm_PARENT calm_CHECK

lemma mem_idle: "idle_kernel mem_os no_rpc (\<lambda>m. m_locks m = [])"
  by (auto simp: idle_kernel_def quiet_rpc_def unlocks_def mem_os_def no_rpc_def m_flock_def m_opendir_def m_open_node_def Let_def
    split: option.splits lock_op.splits)

text \<open>\<open>answers m s\<close>: started in \<open>s\<close>, the handler returns, so that a reply is sent.\<close>

definition answers :: "('s, 'a) prog \<Rightarrow> 's \<Rightarrow> bool" where
  "answers m s \<longleftrightarrow> (\<exists>a t. m s = Inr (a, t))"

lemma answersI: "stops_in {} P m \<Longrightarrow> P s \<Longrightarrow> answers m s"
  unfolding returns_iff answers_def by blast



end
