(* ===== verification/Svc_Dispatch.thy ===== *)
theory Svc_Dispatch
  imports Server_Handlers
begin

text \<open>
  The dispatcher of \<^verbatim>\<open>fuse_rpc_svc.c\<close>: the procedure number selects the routines and the handler, the
  arguments are decoded into a cleared union, the handler runs, and its result object is encoded as
  the reply. Freeing the arguments and the results, which only releases memory, is left out; the
  messages of the server library are the values of \<open>svc_outcome\<close>.
\<close>

datatype svc_outcome = Reply "char list" | NoProc | DecodeError | SystemError

text \<open>What the union of the results, a local that is never cleared, holds before the handler runs.\<close>

record stack_garbage =
  g_init_ret :: init_ret
  g_getattr_ret :: getattr_ret
  g_access_ret :: access_ret
  g_mkdir_ret :: mkdir_ret
  g_rmdir_ret :: rmdir_ret
  g_opendir_ret :: opendir_ret
  g_readdir_ret :: readdir_ret
  g_releasedir_ret :: releasedir_ret
  g_rename_ret :: rename_ret
  g_symlink_ret :: symlink_ret
  g_link_ret :: link_ret
  g_readlink_ret :: readlink_ret
  g_mknod_ret :: mknod_ret
  g_truncate_ret :: truncate_ret
  g_unlink_ret :: unlink_ret
  g_utime_ret :: utime_ret
  g_chmod_ret :: chmod_ret
  g_chown_ret :: chown_ret
  g_open_ret :: open_ret
  g_release_ret :: release_ret
  g_read_ret :: read_ret
  g_write_ret :: write_ret
  g_statfs_ret :: statfs_ret

section \<open>The cleared arguments\<close>

definition zero_init_arg :: init_arg where
  "zero_init_arg = \<lparr>init_arg_server_info = \<lparr>is_master = 0, is_degraded = 0\<rparr>, init_arg_ip = [], init_arg_rootdir = []\<rparr>"

definition zero_getattr_arg :: getattr_arg where
  "zero_getattr_arg = \<lparr>getattr_arg_ip = [], getattr_arg_path = []\<rparr>"

definition zero_access_arg :: access_arg where
  "zero_access_arg = \<lparr>access_arg_ip = [], access_arg_path = [], access_arg_mask = 0\<rparr>"

definition zero_mkdir_arg :: mkdir_arg where
  "zero_mkdir_arg = \<lparr>mkdir_arg_ip = [], mkdir_arg_server_info = \<lparr>is_master = 0, is_degraded = 0\<rparr>, mkdir_arg_path = [], mkdir_arg_mode = 0\<rparr>"

definition zero_rmdir_arg :: rmdir_arg where
  "zero_rmdir_arg = \<lparr>rmdir_arg_ip = [], rmdir_arg_server_info = \<lparr>is_master = 0, is_degraded = 0\<rparr>, rmdir_arg_path = []\<rparr>"

definition zero_opendir_arg :: opendir_arg where
  "zero_opendir_arg = \<lparr>opendir_arg_ip = [], opendir_arg_path = []\<rparr>"

definition zero_readdir_arg :: readdir_arg where
  "zero_readdir_arg = \<lparr>readdir_arg_fd = 0\<rparr>"

definition zero_releasedir_arg :: releasedir_arg where
  "zero_releasedir_arg = \<lparr>releasedir_arg_fd = 0\<rparr>"

definition zero_rename_arg :: rename_arg where
  "zero_rename_arg = \<lparr>rename_arg_ip = [], rename_arg_server_info = \<lparr>is_master = 0, is_degraded = 0\<rparr>, rename_arg_path = [], rename_arg_newpath = []\<rparr>"

definition zero_symlink_arg :: symlink_arg where
  "zero_symlink_arg = \<lparr>symlink_arg_ip = [], symlink_arg_server_info = \<lparr>is_master = 0, is_degraded = 0\<rparr>, symlink_arg_path = [], symlink_arg_link = []\<rparr>"

definition zero_link_arg :: link_arg where
  "zero_link_arg = \<lparr>link_arg_ip = [], link_arg_server_info = \<lparr>is_master = 0, is_degraded = 0\<rparr>, link_arg_path = [], link_arg_newpath = []\<rparr>"

definition zero_readlink_arg :: readlink_arg where
  "zero_readlink_arg = \<lparr>readlink_arg_ip = [], readlink_arg_path = [], readlink_arg_size = 0\<rparr>"

definition zero_mknod_arg :: mknod_arg where
  "zero_mknod_arg = \<lparr>mknod_arg_ip = [], mknod_arg_server_info = \<lparr>is_master = 0, is_degraded = 0\<rparr>, mknod_arg_path = [], mknod_arg_mode = 0, mknod_arg_dev = 0\<rparr>"

definition zero_truncate_arg :: truncate_arg where
  "zero_truncate_arg = \<lparr>truncate_arg_ip = [], truncate_arg_server_info = \<lparr>is_master = 0, is_degraded = 0\<rparr>, truncate_arg_path = [], truncate_arg_newsize = 0\<rparr>"

definition zero_unlink_arg :: unlink_arg where
  "zero_unlink_arg = \<lparr>unlink_arg_ip = [], unlink_arg_server_info = \<lparr>is_master = 0, is_degraded = 0\<rparr>, unlink_arg_path = []\<rparr>"

definition zero_utime_arg :: utime_arg where
  "zero_utime_arg = \<lparr>utime_arg_ip = [], utime_arg_server_info = \<lparr>is_master = 0, is_degraded = 0\<rparr>, utime_arg_path = [], utime_arg_actime = 0, utime_arg_modtime = 0\<rparr>"

definition zero_chmod_arg :: chmod_arg where
  "zero_chmod_arg = \<lparr>chmod_arg_ip = [], chmod_arg_server_info = \<lparr>is_master = 0, is_degraded = 0\<rparr>, chmod_arg_path = [], chmod_arg_mode = 0\<rparr>"

definition zero_chown_arg :: chown_arg where
  "zero_chown_arg = \<lparr>chown_arg_ip = [], chown_arg_server_info = \<lparr>is_master = 0, is_degraded = 0\<rparr>, chown_arg_path = [], chown_arg_uid = 0, chown_arg_gid = 0\<rparr>"

definition zero_open_arg :: open_arg where
  "zero_open_arg = \<lparr>open_arg_ip = [], open_arg_path = [], open_arg_flags = 0\<rparr>"

definition zero_release_arg :: release_arg where
  "zero_release_arg = \<lparr>release_arg_ip = [], release_arg_fd = 0\<rparr>"

definition zero_read_arg :: read_arg where
  "zero_read_arg = \<lparr>read_arg_ip = [], read_arg_fd = 0, read_arg_size = 0, read_arg_offset = 0\<rparr>"

definition zero_write_arg :: write_arg where
  "zero_write_arg = \<lparr>write_arg_ip = [], write_arg_server_info = \<lparr>is_master = 0, is_degraded = 0\<rparr>, write_arg_fd = 0, write_arg_path = [], write_arg_size = 0, write_arg_offset = 0, write_arg_buffer = zeros MAX_SIZE\<rparr>"

definition zero_statfs_arg :: statfs_arg where
  "zero_statfs_arg = \<lparr>statfs_arg_path = []\<rparr>"

section \<open>The dispatcher\<close>

definition svc_case ::
  "'a xdrproc \<Rightarrow> 'r xdrproc \<Rightarrow> ('a \<Rightarrow> 'r \<Rightarrow> ('w process, 'r) prog) \<Rightarrow> 'a \<Rightarrow> 'r \<Rightarrow> char list \<Rightarrow>
   ('w process, svc_outcome) prog" where
  "svc_case xdr_argument xdr_result local argument result request =
     (case xdr_argument \<lparr>x_op = XDR_DECODE, x_bytes = request\<rparr> argument of (ok, _, argument) \<Rightarrow>
       if \<not> ok then ret DecodeError
       else bnd (local argument result) (\<lambda>result.
         case xdr_result \<lparr>x_op = XDR_ENCODE, x_bytes = []\<rparr> result of (ok, s, _) \<Rightarrow>
           ret (if ok then Reply (x_bytes s) else SystemError)))"

definition compute_6 ::
  "'w env \<Rightarrow> stack_garbage \<Rightarrow> nat \<Rightarrow> char list \<Rightarrow> ('w process, svc_outcome) prog" where
  "compute_6 E G rq_proc request =
     (if rq_proc = INIT_ROOTDIR then svc_case xdr_init_arg xdr_init_ret (init_rootdir_6_svc E (g_init_ret G)) zero_init_arg (g_init_ret G) request
      else if rq_proc = BB_GETATTR then svc_case xdr_getattr_arg (xdr_getattr_ret (e_xdr E)) (bb_getattr_6_svc E) zero_getattr_arg (g_getattr_ret G) request
      else if rq_proc = BB_ACCESS then svc_case xdr_access_arg xdr_access_ret (bb_access_6_svc E) zero_access_arg (g_access_ret G) request
      else if rq_proc = BB_MKDIR then svc_case xdr_mkdir_arg xdr_mkdir_ret (bb_mkdir_6_svc E (g_mkdir_ret G)) zero_mkdir_arg (g_mkdir_ret G) request
      else if rq_proc = BB_RMDIR then svc_case xdr_rmdir_arg xdr_rmdir_ret (bb_rmdir_6_svc E (g_rmdir_ret G)) zero_rmdir_arg (g_rmdir_ret G) request
      else if rq_proc = BB_OPENDIR then svc_case xdr_opendir_arg xdr_opendir_ret (bb_opendir_6_svc E) zero_opendir_arg (g_opendir_ret G) request
      else if rq_proc = BB_READDIR then svc_case xdr_readdir_arg xdr_readdir_ret (bb_readdir_6_svc E) zero_readdir_arg (g_readdir_ret G) request
      else if rq_proc = BB_RELEASEDIR then svc_case xdr_releasedir_arg xdr_releasedir_ret (bb_releasedir_6_svc E) zero_releasedir_arg (g_releasedir_ret G) request
      else if rq_proc = BB_RENAME then svc_case xdr_rename_arg xdr_rename_ret (bb_rename_6_svc E (g_rename_ret G)) zero_rename_arg (g_rename_ret G) request
      else if rq_proc = BB_SYMLINK then svc_case xdr_symlink_arg xdr_symlink_ret (bb_symlink_6_svc E (g_symlink_ret G)) zero_symlink_arg (g_symlink_ret G) request
      else if rq_proc = BB_LINK then svc_case xdr_link_arg xdr_link_ret (bb_link_6_svc E (g_link_ret G)) zero_link_arg (g_link_ret G) request
      else if rq_proc = BB_READLINK then svc_case xdr_readlink_arg xdr_readlink_ret (bb_readlink_6_svc E) zero_readlink_arg (g_readlink_ret G) request
      else if rq_proc = BB_MKNOD then svc_case xdr_mknod_arg xdr_mknod_ret (bb_mknod_6_svc E (g_mknod_ret G)) zero_mknod_arg (g_mknod_ret G) request
      else if rq_proc = BB_TRUNCATE then svc_case xdr_truncate_arg xdr_truncate_ret (bb_truncate_6_svc E (g_truncate_ret G)) zero_truncate_arg (g_truncate_ret G) request
      else if rq_proc = BB_UNLINK then svc_case xdr_unlink_arg xdr_unlink_ret (bb_unlink_6_svc E (g_unlink_ret G)) zero_unlink_arg (g_unlink_ret G) request
      else if rq_proc = BB_UTIME then svc_case (xdr_utime_arg (e_xdr E)) xdr_utime_ret (bb_utime_6_svc E (g_utime_ret G)) zero_utime_arg (g_utime_ret G) request
      else if rq_proc = BB_CHMOD then svc_case xdr_chmod_arg xdr_chmod_ret (bb_chmod_6_svc E (g_chmod_ret G)) zero_chmod_arg (g_chmod_ret G) request
      else if rq_proc = BB_CHOWN then svc_case xdr_chown_arg xdr_chown_ret (bb_chown_6_svc E (g_chown_ret G)) zero_chown_arg (g_chown_ret G) request
      else if rq_proc = BB_OPEN then svc_case xdr_open_arg xdr_open_ret (bb_open_6_svc E) zero_open_arg (g_open_ret G) request
      else if rq_proc = BB_RELEASE then svc_case xdr_release_arg xdr_release_ret (bb_release_6_svc E) zero_release_arg (g_release_ret G) request
      else if rq_proc = BB_READ then svc_case xdr_read_arg xdr_read_ret (bb_read_6_svc E) zero_read_arg (g_read_ret G) request
      else if rq_proc = BB_WRITE then svc_case xdr_write_arg xdr_write_ret (bb_write_6_svc E (g_write_ret G)) zero_write_arg (g_write_ret G) request
      else if rq_proc = BB_STATFS then svc_case xdr_statfs_arg (xdr_statfs_ret (e_xdr E)) (bb_statfs_6_svc E) zero_statfs_arg (g_statfs_ret G) request
      else ret NoProc)"

end
