(* ===== verification/Rpc_Roundtrip.thy ===== *)
theory Rpc_Roundtrip
  imports Svc_Dispatch Mem_Os
begin

text \<open>
  The two ends of the protocol joined: a transport that hands the bytes of a request to
  \<open>compute_6\<close> and the bytes of its reply back, and the theorem that a stub called over it is a call
  of the handler. \<open>rpc_procedure\<close> is the contract of one procedure of the protocol, interpreted for
  each of the 23.
\<close>

section \<open>A server at the end of the transport\<close>

text \<open>
  What the client library reports when the server does not reply with results: the numbers are
  those of \<^verbatim>\<open>enum clnt_stat\<close> (5 a timeout, 10 an unknown procedure, 11 undecodable arguments, 12 a
  system error).
\<close>

definition serve :: "'w env \<Rightarrow> stack_garbage \<Rightarrow> nat \<Rightarrow> char list \<Rightarrow> 'w process \<Rightarrow> (nat + char list) \<times> 'w process" where
  "serve E G proc request s = (case compute_6 E G proc request s of
       Inl (e, s') \<Rightarrow> (Inl 5, s')
     | Inr (Reply bs, s') \<Rightarrow> (Inr bs, s')
     | Inr (NoProc, s') \<Rightarrow> (Inl 10, s')
     | Inr (DecodeError, s') \<Rightarrow> (Inl 11, s')
     | Inr (SystemError, s') \<Rightarrow> (Inl 12, s'))"

definition direct_rpc :: "'w env \<Rightarrow> stack_garbage \<Rightarrow> 'w process rpc" where
  "direct_rpc E G = \<lparr>rpc_clnt_create = (\<lambda>host proto s. (Some 0, s)),
     rpc_send = (\<lambda>c proc request s. serve E G proc request s),
     rpc_clnt_destroy = (\<lambda>c s. s), rpc_limit = (\<lambda>c. 8800)\<rparr>"

section \<open>The contract of a procedure\<close>

locale rpc_procedure =
  fixes E :: "'w env" and G :: stack_garbage and proc :: nat
    and xarg :: "'a xdrproc" and ok_arg :: "'a \<Rightarrow> bool"
    and xret :: "'r xdrproc" and ok_ret :: "'r \<Rightarrow> bool"
    and handler :: "'a \<Rightarrow> ('w process, 'r) prog" and zero :: 'a and garbage :: 'r
    and local :: "'a \<Rightarrow> 'r \<Rightarrow> ('w process, 'r) prog"
  assumes arg_codec: "xdr_codec xarg ok_arg"
    and ret_codec: "xdr_codec xret ok_ret"
    and dispatch: "compute_6 E G proc request = svc_case xarg xret local zero garbage request"
    and handler: "handler a = local a garbage"
begin

lemma dispatched:
  assumes "ok_arg a" and "handler a s = Inr (r, s')" and "ok_ret r"
  shows "compute_6 E G proc (encoding xarg a) s = Inr (Reply (encoding xret r), s')"
proof -
  have d: "xarg \<lparr>x_op = XDR_DECODE, x_bytes = encoding xarg a\<rparr> zero
      = (True, \<lparr>x_op = XDR_DECODE, x_bytes = []\<rparr>, a)"
    using xdr_codec.decodes [OF arg_codec assms(1), of "\<lparr>x_op = XDR_DECODE, x_bytes = encoding xarg a\<rparr>" "[]" zero]
    by simp
  have e: "xret \<lparr>x_op = XDR_ENCODE, x_bytes = []\<rparr> r = (True, \<lparr>x_op = XDR_ENCODE, x_bytes = encoding xret r\<rparr>, r)"
    using xdr_codec.encodes [OF ret_codec assms(3), of "\<lparr>x_op = XDR_ENCODE, x_bytes = []\<rparr>"]
    by (simp add: put_bytes_def)
  show ?thesis
    using assms(2) by (simp add: dispatch svc_case_def d bnd_apply_Inr [where a = r and s' = s'] handler e)
qed

lemma stopped:
  assumes "ok_arg a" and "handler a s = Inl (e, s')"
  shows "compute_6 E G proc (encoding xarg a) s = Inl (e, s')"
proof -
  have d: "xarg \<lparr>x_op = XDR_DECODE, x_bytes = encoding xarg a\<rparr> zero
      = (True, \<lparr>x_op = XDR_DECODE, x_bytes = []\<rparr>, a)"
    using xdr_codec.decodes [OF arg_codec assms(1), of "\<lparr>x_op = XDR_DECODE, x_bytes = encoding xarg a\<rparr>" "[]" zero]
    by simp
  show ?thesis
    using assms(2) by (simp add: dispatch svc_case_def d bnd_apply_Inl handler)
qed

lemma served:
  assumes "ok_arg a" and "handler a s = Inr (r, s')" and "ok_ret r"
  shows "serve E G proc (encoding xarg a) s = (Inr (encoding xret r), s')"
  using dispatched [OF assms] by (simp add: serve_def)

lemma served_end:
  assumes "ok_arg a" and "\<And>r s'. handler a s = Inr (r, s') \<Longrightarrow> ok_ret r"
  shows "snd (serve E G proc (encoding xarg a) s) = end_state (handler a s)"
proof (cases "handler a s")
  case (Inl es)
  then show ?thesis using stopped [OF assms(1)] by (cases es) (simp add: serve_def)
next
  case (Inr rs)
  then show ?thesis using served [OF assms(1)] assms(2) by (cases rs) simp
qed

text \<open>A stub over any transport whose answer to the request is that of the server.\<close>

lemma called:
  assumes "ok_arg a" and "ok_ret r" and "length (encoding xarg a) \<le> rpc_limit R c"
    and "rpc_send R c proc (encoding xarg a) w = (Inr (encoding xret r), w')"
  shows "clnt_call R c proc xarg a xret r0 w = ((RPC_SUCCESS, r), w')"
proof -
  have e: "xarg \<lparr>x_op = XDR_ENCODE, x_bytes = []\<rparr> a = (True, \<lparr>x_op = XDR_ENCODE, x_bytes = encoding xarg a\<rparr>, a)"
    using xdr_codec.encodes [OF arg_codec assms(1), of "\<lparr>x_op = XDR_ENCODE, x_bytes = []\<rparr>"]
    by (simp add: put_bytes_def)
  have d: "xret \<lparr>x_op = XDR_DECODE, x_bytes = encoding xret r\<rparr> r0
      = (True, \<lparr>x_op = XDR_DECODE, x_bytes = []\<rparr>, r)"
    using xdr_codec.decodes [OF ret_codec assms(2), of "\<lparr>x_op = XDR_DECODE, x_bytes = encoding xret r\<rparr>" "[]" r0]
    by simp
  show ?thesis using assms(3,4) by (simp add: clnt_call_def e d)
qed

text \<open>Whatever the transport answers, the state is the one it leaves, if the request is sent at all.\<close>

lemma called_state:
  assumes "ok_arg a" and "length (encoding xarg a) \<le> rpc_limit R c"
  shows "snd (clnt_call R c proc xarg a xret r0 w) = snd (rpc_send R c proc (encoding xarg a) w)"
proof -
  have e: "xarg \<lparr>x_op = XDR_ENCODE, x_bytes = []\<rparr> a = (True, \<lparr>x_op = XDR_ENCODE, x_bytes = encoding xarg a\<rparr>, a)"
    using xdr_codec.encodes [OF arg_codec assms(1), of "\<lparr>x_op = XDR_ENCODE, x_bytes = []\<rparr>"]
    by (simp add: put_bytes_def)
  show ?thesis
    using assms(2) by (simp add: clnt_call_def e split: prod.split sum.split)
qed

lemma remote_call:
  assumes "ok_arg a" and "handler a s = Inr (r, s')" and "ok_ret r" and "length (encoding xarg a) \<le> 8800"
  shows "clnt_call (direct_rpc E G) c proc xarg a xret r0 s = ((RPC_SUCCESS, r), s')"
  using assms(4) served [OF assms(1-3)]
  by (intro called [OF assms(1,3)]) (simp_all add: direct_rpc_def)

end

section \<open>The procedures\<close>

text \<open>
  Each interpretation gives the procedure's number, its routines, and its handler on the result
  object the dispatcher hands it.
\<close>

interpretation call_init: rpc_procedure E G INIT_ROOTDIR xdr_init_arg ok_init_arg xdr_init_ret "\<lambda>_. True"
    "\<lambda>a. init_rootdir_6_svc E (g_init_ret G) a (g_init_ret G)" zero_init_arg "g_init_ret G" "init_rootdir_6_svc E (g_init_ret G)"
  for E :: "'w env" and G
  by (rule rpc_procedure.intro) (simp_all add: xdr_codec_init_arg xdr_codec_init_ret compute_6_def)

interpretation call_access: rpc_procedure E G BB_ACCESS xdr_access_arg ok_access_arg xdr_access_ret "\<lambda>_. True"
    "\<lambda>a. bb_access_6_svc E a (g_access_ret G)" zero_access_arg "g_access_ret G" "bb_access_6_svc E"
  for E :: "'w env" and G
  by (rule rpc_procedure.intro) (simp_all add: xdr_codec_access_arg xdr_codec_access_ret compute_6_def)

interpretation call_mkdir: rpc_procedure E G BB_MKDIR xdr_mkdir_arg ok_mkdir_arg xdr_mkdir_ret "\<lambda>_. True"
    "\<lambda>a. bb_mkdir_6_svc E (g_mkdir_ret G) a (g_mkdir_ret G)" zero_mkdir_arg "g_mkdir_ret G" "bb_mkdir_6_svc E (g_mkdir_ret G)"
  for E :: "'w env" and G
  by (rule rpc_procedure.intro) (simp_all add: xdr_codec_mkdir_arg xdr_codec_mkdir_ret compute_6_def)

interpretation call_rmdir: rpc_procedure E G BB_RMDIR xdr_rmdir_arg ok_rmdir_arg xdr_rmdir_ret "\<lambda>_. True"
    "\<lambda>a. bb_rmdir_6_svc E (g_rmdir_ret G) a (g_rmdir_ret G)" zero_rmdir_arg "g_rmdir_ret G" "bb_rmdir_6_svc E (g_rmdir_ret G)"
  for E :: "'w env" and G
  by (rule rpc_procedure.intro) (simp_all add: xdr_codec_rmdir_arg xdr_codec_rmdir_ret compute_6_def)

interpretation call_opendir: rpc_procedure E G BB_OPENDIR xdr_opendir_arg ok_opendir_arg xdr_opendir_ret "\<lambda>_. True"
    "\<lambda>a. bb_opendir_6_svc E a (g_opendir_ret G)" zero_opendir_arg "g_opendir_ret G" "bb_opendir_6_svc E"
  for E :: "'w env" and G
  by (rule rpc_procedure.intro) (simp_all add: xdr_codec_opendir_arg xdr_codec_opendir_ret compute_6_def)

interpretation call_readdir: rpc_procedure E G BB_READDIR xdr_readdir_arg "\<lambda>_. True" xdr_readdir_ret ok_readdir_ret
    "\<lambda>a. bb_readdir_6_svc E a (g_readdir_ret G)" zero_readdir_arg "g_readdir_ret G" "bb_readdir_6_svc E"
  for E :: "'w env" and G
  by (rule rpc_procedure.intro) (simp_all add: xdr_codec_readdir_arg xdr_codec_readdir_ret compute_6_def)

interpretation call_releasedir: rpc_procedure E G BB_RELEASEDIR xdr_releasedir_arg "\<lambda>_. True" xdr_releasedir_ret "\<lambda>_. True"
    "\<lambda>a. bb_releasedir_6_svc E a (g_releasedir_ret G)" zero_releasedir_arg "g_releasedir_ret G" "bb_releasedir_6_svc E"
  for E :: "'w env" and G
  by (rule rpc_procedure.intro) (simp_all add: xdr_codec_releasedir_arg xdr_codec_releasedir_ret compute_6_def)

interpretation call_rename: rpc_procedure E G BB_RENAME xdr_rename_arg ok_rename_arg xdr_rename_ret "\<lambda>_. True"
    "\<lambda>a. bb_rename_6_svc E (g_rename_ret G) a (g_rename_ret G)" zero_rename_arg "g_rename_ret G" "bb_rename_6_svc E (g_rename_ret G)"
  for E :: "'w env" and G
  by (rule rpc_procedure.intro) (simp_all add: xdr_codec_rename_arg xdr_codec_rename_ret compute_6_def)

interpretation call_symlink: rpc_procedure E G BB_SYMLINK xdr_symlink_arg ok_symlink_arg xdr_symlink_ret "\<lambda>_. True"
    "\<lambda>a. bb_symlink_6_svc E (g_symlink_ret G) a (g_symlink_ret G)" zero_symlink_arg "g_symlink_ret G" "bb_symlink_6_svc E (g_symlink_ret G)"
  for E :: "'w env" and G
  by (rule rpc_procedure.intro) (simp_all add: xdr_codec_symlink_arg xdr_codec_symlink_ret compute_6_def)

interpretation call_link: rpc_procedure E G BB_LINK xdr_link_arg ok_link_arg xdr_link_ret "\<lambda>_. True"
    "\<lambda>a. bb_link_6_svc E (g_link_ret G) a (g_link_ret G)" zero_link_arg "g_link_ret G" "bb_link_6_svc E (g_link_ret G)"
  for E :: "'w env" and G
  by (rule rpc_procedure.intro) (simp_all add: xdr_codec_link_arg xdr_codec_link_ret compute_6_def)

interpretation call_readlink: rpc_procedure E G BB_READLINK xdr_readlink_arg ok_readlink_arg xdr_readlink_ret ok_readlink_ret
    "\<lambda>a. bb_readlink_6_svc E a (g_readlink_ret G)" zero_readlink_arg "g_readlink_ret G" "bb_readlink_6_svc E"
  for E :: "'w env" and G
  by (rule rpc_procedure.intro) (simp_all add: xdr_codec_readlink_arg xdr_codec_readlink_ret compute_6_def)

interpretation call_mknod: rpc_procedure E G BB_MKNOD xdr_mknod_arg ok_mknod_arg xdr_mknod_ret "\<lambda>_. True"
    "\<lambda>a. bb_mknod_6_svc E (g_mknod_ret G) a (g_mknod_ret G)" zero_mknod_arg "g_mknod_ret G" "bb_mknod_6_svc E (g_mknod_ret G)"
  for E :: "'w env" and G
  by (rule rpc_procedure.intro) (simp_all add: xdr_codec_mknod_arg xdr_codec_mknod_ret compute_6_def)

interpretation call_truncate: rpc_procedure E G BB_TRUNCATE xdr_truncate_arg ok_truncate_arg xdr_truncate_ret "\<lambda>_. True"
    "\<lambda>a. bb_truncate_6_svc E (g_truncate_ret G) a (g_truncate_ret G)" zero_truncate_arg "g_truncate_ret G" "bb_truncate_6_svc E (g_truncate_ret G)"
  for E :: "'w env" and G
  by (rule rpc_procedure.intro) (simp_all add: xdr_codec_truncate_arg xdr_codec_truncate_ret compute_6_def)

interpretation call_unlink: rpc_procedure E G BB_UNLINK xdr_unlink_arg ok_unlink_arg xdr_unlink_ret "\<lambda>_. True"
    "\<lambda>a. bb_unlink_6_svc E (g_unlink_ret G) a (g_unlink_ret G)" zero_unlink_arg "g_unlink_ret G" "bb_unlink_6_svc E (g_unlink_ret G)"
  for E :: "'w env" and G
  by (rule rpc_procedure.intro) (simp_all add: xdr_codec_unlink_arg xdr_codec_unlink_ret compute_6_def)

interpretation call_chmod: rpc_procedure E G BB_CHMOD xdr_chmod_arg ok_chmod_arg xdr_chmod_ret "\<lambda>_. True"
    "\<lambda>a. bb_chmod_6_svc E (g_chmod_ret G) a (g_chmod_ret G)" zero_chmod_arg "g_chmod_ret G" "bb_chmod_6_svc E (g_chmod_ret G)"
  for E :: "'w env" and G
  by (rule rpc_procedure.intro) (simp_all add: xdr_codec_chmod_arg xdr_codec_chmod_ret compute_6_def)

interpretation call_chown: rpc_procedure E G BB_CHOWN xdr_chown_arg ok_chown_arg xdr_chown_ret "\<lambda>_. True"
    "\<lambda>a. bb_chown_6_svc E (g_chown_ret G) a (g_chown_ret G)" zero_chown_arg "g_chown_ret G" "bb_chown_6_svc E (g_chown_ret G)"
  for E :: "'w env" and G
  by (rule rpc_procedure.intro) (simp_all add: xdr_codec_chown_arg xdr_codec_chown_ret compute_6_def)

interpretation call_open: rpc_procedure E G BB_OPEN xdr_open_arg ok_open_arg xdr_open_ret "\<lambda>_. True"
    "\<lambda>a. bb_open_6_svc E a (g_open_ret G)" zero_open_arg "g_open_ret G" "bb_open_6_svc E"
  for E :: "'w env" and G
  by (rule rpc_procedure.intro) (simp_all add: xdr_codec_open_arg xdr_codec_open_ret compute_6_def)

interpretation call_release: rpc_procedure E G BB_RELEASE xdr_release_arg ok_release_arg xdr_release_ret "\<lambda>_. True"
    "\<lambda>a. bb_release_6_svc E a (g_release_ret G)" zero_release_arg "g_release_ret G" "bb_release_6_svc E"
  for E :: "'w env" and G
  by (rule rpc_procedure.intro) (simp_all add: xdr_codec_release_arg xdr_codec_release_ret compute_6_def)

interpretation call_read: rpc_procedure E G BB_READ xdr_read_arg ok_read_arg xdr_read_ret ok_read_ret
    "\<lambda>a. bb_read_6_svc E a (g_read_ret G)" zero_read_arg "g_read_ret G" "bb_read_6_svc E"
  for E :: "'w env" and G
  by (rule rpc_procedure.intro) (simp_all add: xdr_codec_read_arg xdr_codec_read_ret compute_6_def)

interpretation call_write: rpc_procedure E G BB_WRITE xdr_write_arg ok_write_arg xdr_write_ret "\<lambda>_. True"
    "\<lambda>a. bb_write_6_svc E (g_write_ret G) a (g_write_ret G)" zero_write_arg "g_write_ret G" "bb_write_6_svc E (g_write_ret G)"
  for E :: "'w env" and G
  by (rule rpc_procedure.intro) (simp_all add: xdr_codec_write_arg xdr_codec_write_ret compute_6_def)

text \<open>Those whose messages have 64-bit members, over any implementation of the library.\<close>

context xdr_longs
begin

lemma codec_utime_arg: "xdr_codec (xdr_utime_arg L) ok_utime_arg"
  by (rule utime_arg.xdr_codec_axioms)

lemma codec_getattr_ret: "xdr_codec (xdr_getattr_ret L) ok_getattr_ret"
  by (rule getattr_ret.xdr_codec_axioms)

lemma codec_statfs_ret: "xdr_codec (xdr_statfs_ret L) ok_statfs_ret"
  by (rule statfs_ret.xdr_codec_axioms)

end

lemma rpc_procedure_getattr:
  assumes "xdr_longs (e_xdr E)"
  shows "rpc_procedure E G BB_GETATTR xdr_getattr_arg ok_getattr_arg (xdr_getattr_ret (e_xdr E)) ok_getattr_ret
    (\<lambda>a. bb_getattr_6_svc E a (g_getattr_ret G)) zero_getattr_arg (g_getattr_ret G) (bb_getattr_6_svc E)"
  using xdr_codec_getattr_arg xdr_longs.codec_getattr_ret [OF assms]
  by (intro rpc_procedure.intro) (simp_all add: compute_6_def)

lemma rpc_procedure_utime:
  assumes "xdr_longs (e_xdr E)"
  shows "rpc_procedure E G BB_UTIME (xdr_utime_arg (e_xdr E)) ok_utime_arg xdr_utime_ret (\<lambda>_. True)
    (\<lambda>a. bb_utime_6_svc E (g_utime_ret G) a (g_utime_ret G)) zero_utime_arg (g_utime_ret G) (bb_utime_6_svc E (g_utime_ret G))"
  using xdr_longs.codec_utime_arg [OF assms] xdr_codec_utime_ret
  by (intro rpc_procedure.intro) (simp_all add: compute_6_def)

lemma rpc_procedure_statfs:
  assumes "xdr_longs (e_xdr E)"
  shows "rpc_procedure E G BB_STATFS xdr_statfs_arg ok_statfs_arg (xdr_statfs_ret (e_xdr E)) ok_statfs_ret
    (\<lambda>a. bb_statfs_6_svc E a (g_statfs_ret G)) zero_statfs_arg (g_statfs_ret G) (bb_statfs_6_svc E)"
  using xdr_codec_statfs_arg xdr_longs.codec_statfs_ret [OF assms]
  by (intro rpc_procedure.intro) (simp_all add: compute_6_def)

section \<open>A stub is a call of the handler\<close>

text \<open>
  \<open>remote E G stub handler ok_arg ok_ret enc\<close>: called over the direct transport with arguments that
  can be sent, the stub succeeds, gives exactly the result object the handler computed from the
  arguments, whatever its own object held, and leaves the server in the state the handler left.
\<close>

definition remote ::
  "'w env \<Rightarrow> stack_garbage \<Rightarrow> ('w process, 'a, 'r) stub \<Rightarrow> ('a \<Rightarrow> 'r \<Rightarrow> ('w process, 'r) prog) \<Rightarrow> 'r \<Rightarrow>
   ('a \<Rightarrow> bool) \<Rightarrow> ('r \<Rightarrow> bool) \<Rightarrow> 'a xdrproc \<Rightarrow> bool" where
  "remote E G stub handler garbage ok_arg ok_ret xarg \<longleftrightarrow>
     (\<forall>a r0 c s r s'. ok_arg a \<longrightarrow> length (encoding xarg a) \<le> 8800 \<longrightarrow>
        handler a garbage s = Inr (r, s') \<longrightarrow> ok_ret r \<longrightarrow>
        stub (e_xdr E) (direct_rpc E G) a r0 c s = ((RPC_SUCCESS, r), s'))"

lemma remote_init:
  "remote E G init_rootdir_6 (init_rootdir_6_svc E (g_init_ret G)) (g_init_ret G) ok_init_arg (\<lambda>_. True) xdr_init_arg"
  unfolding remote_def init_rootdir_6_def by (blast intro: call_init.remote_call)

lemma remote_getattr:
  assumes "xdr_longs (e_xdr E)"
  shows "remote E G bb_getattr_6 (bb_getattr_6_svc E) (g_getattr_ret G) ok_getattr_arg ok_getattr_ret xdr_getattr_arg"
  unfolding remote_def bb_getattr_6_def
  by (blast intro: rpc_procedure.remote_call [OF rpc_procedure_getattr [OF assms]])

lemma remote_access:
  "remote E G bb_access_6 (bb_access_6_svc E) (g_access_ret G) ok_access_arg (\<lambda>_. True) xdr_access_arg"
  unfolding remote_def bb_access_6_def by (blast intro: call_access.remote_call)

lemma remote_mkdir:
  "remote E G bb_mkdir_6 (bb_mkdir_6_svc E (g_mkdir_ret G)) (g_mkdir_ret G) ok_mkdir_arg (\<lambda>_. True) xdr_mkdir_arg"
  unfolding remote_def bb_mkdir_6_def by (blast intro: call_mkdir.remote_call)

lemma remote_rmdir:
  "remote E G bb_rmdir_6 (bb_rmdir_6_svc E (g_rmdir_ret G)) (g_rmdir_ret G) ok_rmdir_arg (\<lambda>_. True) xdr_rmdir_arg"
  unfolding remote_def bb_rmdir_6_def by (blast intro: call_rmdir.remote_call)

lemma remote_opendir:
  "remote E G bb_opendir_6 (bb_opendir_6_svc E) (g_opendir_ret G) ok_opendir_arg (\<lambda>_. True) xdr_opendir_arg"
  unfolding remote_def bb_opendir_6_def by (blast intro: call_opendir.remote_call)

lemma remote_readdir:
  "remote E G bb_readdir_6 (bb_readdir_6_svc E) (g_readdir_ret G) (\<lambda>_. True) ok_readdir_ret xdr_readdir_arg"
  unfolding remote_def bb_readdir_6_def by (blast intro: call_readdir.remote_call)

lemma remote_releasedir:
  "remote E G bb_releasedir_6 (bb_releasedir_6_svc E) (g_releasedir_ret G) (\<lambda>_. True) (\<lambda>_. True) xdr_releasedir_arg"
  unfolding remote_def bb_releasedir_6_def by (blast intro: call_releasedir.remote_call)

lemma remote_rename:
  "remote E G bb_rename_6 (bb_rename_6_svc E (g_rename_ret G)) (g_rename_ret G) ok_rename_arg (\<lambda>_. True) xdr_rename_arg"
  unfolding remote_def bb_rename_6_def by (blast intro: call_rename.remote_call)

lemma remote_symlink:
  "remote E G bb_symlink_6 (bb_symlink_6_svc E (g_symlink_ret G)) (g_symlink_ret G) ok_symlink_arg (\<lambda>_. True) xdr_symlink_arg"
  unfolding remote_def bb_symlink_6_def by (blast intro: call_symlink.remote_call)

lemma remote_link:
  "remote E G bb_link_6 (bb_link_6_svc E (g_link_ret G)) (g_link_ret G) ok_link_arg (\<lambda>_. True) xdr_link_arg"
  unfolding remote_def bb_link_6_def by (blast intro: call_link.remote_call)

lemma remote_readlink:
  "remote E G bb_readlink_6 (bb_readlink_6_svc E) (g_readlink_ret G) ok_readlink_arg ok_readlink_ret xdr_readlink_arg"
  unfolding remote_def bb_readlink_6_def by (blast intro: call_readlink.remote_call)

lemma remote_mknod:
  "remote E G bb_mknod_6 (bb_mknod_6_svc E (g_mknod_ret G)) (g_mknod_ret G) ok_mknod_arg (\<lambda>_. True) xdr_mknod_arg"
  unfolding remote_def bb_mknod_6_def by (blast intro: call_mknod.remote_call)

lemma remote_truncate:
  "remote E G bb_truncate_6 (bb_truncate_6_svc E (g_truncate_ret G)) (g_truncate_ret G) ok_truncate_arg (\<lambda>_. True) xdr_truncate_arg"
  unfolding remote_def bb_truncate_6_def by (blast intro: call_truncate.remote_call)

lemma remote_unlink:
  "remote E G bb_unlink_6 (bb_unlink_6_svc E (g_unlink_ret G)) (g_unlink_ret G) ok_unlink_arg (\<lambda>_. True) xdr_unlink_arg"
  unfolding remote_def bb_unlink_6_def by (blast intro: call_unlink.remote_call)

lemma remote_utime:
  assumes "xdr_longs (e_xdr E)"
  shows "remote E G bb_utime_6 (bb_utime_6_svc E (g_utime_ret G)) (g_utime_ret G) ok_utime_arg (\<lambda>_. True) (xdr_utime_arg (e_xdr E))"
  unfolding remote_def bb_utime_6_def
  by (blast intro: rpc_procedure.remote_call [OF rpc_procedure_utime [OF assms]])

lemma remote_chmod:
  "remote E G bb_chmod_6 (bb_chmod_6_svc E (g_chmod_ret G)) (g_chmod_ret G) ok_chmod_arg (\<lambda>_. True) xdr_chmod_arg"
  unfolding remote_def bb_chmod_6_def by (blast intro: call_chmod.remote_call)

lemma remote_chown:
  "remote E G bb_chown_6 (bb_chown_6_svc E (g_chown_ret G)) (g_chown_ret G) ok_chown_arg (\<lambda>_. True) xdr_chown_arg"
  unfolding remote_def bb_chown_6_def by (blast intro: call_chown.remote_call)

lemma remote_open:
  "remote E G bb_open_6 (bb_open_6_svc E) (g_open_ret G) ok_open_arg (\<lambda>_. True) xdr_open_arg"
  unfolding remote_def bb_open_6_def by (blast intro: call_open.remote_call)

lemma remote_release:
  "remote E G bb_release_6 (bb_release_6_svc E) (g_release_ret G) ok_release_arg (\<lambda>_. True) xdr_release_arg"
  unfolding remote_def bb_release_6_def by (blast intro: call_release.remote_call)

lemma remote_read:
  "remote E G bb_read_6 (bb_read_6_svc E) (g_read_ret G) ok_read_arg ok_read_ret xdr_read_arg"
  unfolding remote_def bb_read_6_def by (blast intro: call_read.remote_call)

lemma remote_write:
  "remote E G bb_write_6 (bb_write_6_svc E (g_write_ret G)) (g_write_ret G) ok_write_arg (\<lambda>_. True) xdr_write_arg"
  unfolding remote_def bb_write_6_def by (blast intro: call_write.remote_call)

lemma remote_statfs:
  assumes "xdr_longs (e_xdr E)"
  shows "remote E G bb_statfs_6 (bb_statfs_6_svc E) (g_statfs_ret G) ok_statfs_arg ok_statfs_ret xdr_statfs_arg"
  unfolding remote_def bb_statfs_6_def
  by (blast intro: rpc_procedure.remote_call [OF rpc_procedure_statfs [OF assms]])

lemmas remote_calls = remote_init remote_getattr remote_access remote_mkdir remote_rmdir remote_opendir remote_readdir remote_releasedir remote_rename remote_symlink remote_link remote_readlink remote_mknod remote_truncate remote_unlink remote_utime remote_chmod remote_chown remote_open remote_release remote_read remote_write remote_statfs

text \<open>
  C2. Every procedure, called through its stub, the encoding of its arguments, the dispatcher, and the
  encoding of its results, is a call of its handler: same result object, same state of the server.
  The three procedures whose messages have 64-bit members need the library to carry values below
  \<open>2\<^sup>3\<^sup>1\<close>, which their \<open>ok\<close> predicates ask of the values.
\<close>

theorem stubs_call_handlers:
  assumes "xdr_longs (e_xdr E)"
  shows "remote E G init_rootdir_6 (init_rootdir_6_svc E (g_init_ret G)) (g_init_ret G) ok_init_arg (\<lambda>_. True) xdr_init_arg \<and>
    remote E G bb_getattr_6 (bb_getattr_6_svc E) (g_getattr_ret G) ok_getattr_arg ok_getattr_ret xdr_getattr_arg \<and>
    remote E G bb_access_6 (bb_access_6_svc E) (g_access_ret G) ok_access_arg (\<lambda>_. True) xdr_access_arg \<and>
    remote E G bb_mkdir_6 (bb_mkdir_6_svc E (g_mkdir_ret G)) (g_mkdir_ret G) ok_mkdir_arg (\<lambda>_. True) xdr_mkdir_arg \<and>
    remote E G bb_rmdir_6 (bb_rmdir_6_svc E (g_rmdir_ret G)) (g_rmdir_ret G) ok_rmdir_arg (\<lambda>_. True) xdr_rmdir_arg \<and>
    remote E G bb_opendir_6 (bb_opendir_6_svc E) (g_opendir_ret G) ok_opendir_arg (\<lambda>_. True) xdr_opendir_arg \<and>
    remote E G bb_readdir_6 (bb_readdir_6_svc E) (g_readdir_ret G) (\<lambda>_. True) ok_readdir_ret xdr_readdir_arg \<and>
    remote E G bb_releasedir_6 (bb_releasedir_6_svc E) (g_releasedir_ret G) (\<lambda>_. True) (\<lambda>_. True) xdr_releasedir_arg \<and>
    remote E G bb_rename_6 (bb_rename_6_svc E (g_rename_ret G)) (g_rename_ret G) ok_rename_arg (\<lambda>_. True) xdr_rename_arg \<and>
    remote E G bb_symlink_6 (bb_symlink_6_svc E (g_symlink_ret G)) (g_symlink_ret G) ok_symlink_arg (\<lambda>_. True) xdr_symlink_arg \<and>
    remote E G bb_link_6 (bb_link_6_svc E (g_link_ret G)) (g_link_ret G) ok_link_arg (\<lambda>_. True) xdr_link_arg \<and>
    remote E G bb_readlink_6 (bb_readlink_6_svc E) (g_readlink_ret G) ok_readlink_arg ok_readlink_ret xdr_readlink_arg \<and>
    remote E G bb_mknod_6 (bb_mknod_6_svc E (g_mknod_ret G)) (g_mknod_ret G) ok_mknod_arg (\<lambda>_. True) xdr_mknod_arg \<and>
    remote E G bb_truncate_6 (bb_truncate_6_svc E (g_truncate_ret G)) (g_truncate_ret G) ok_truncate_arg (\<lambda>_. True) xdr_truncate_arg \<and>
    remote E G bb_unlink_6 (bb_unlink_6_svc E (g_unlink_ret G)) (g_unlink_ret G) ok_unlink_arg (\<lambda>_. True) xdr_unlink_arg \<and>
    remote E G bb_utime_6 (bb_utime_6_svc E (g_utime_ret G)) (g_utime_ret G) ok_utime_arg (\<lambda>_. True) (xdr_utime_arg (e_xdr E)) \<and>
    remote E G bb_chmod_6 (bb_chmod_6_svc E (g_chmod_ret G)) (g_chmod_ret G) ok_chmod_arg (\<lambda>_. True) xdr_chmod_arg \<and>
    remote E G bb_chown_6 (bb_chown_6_svc E (g_chown_ret G)) (g_chown_ret G) ok_chown_arg (\<lambda>_. True) xdr_chown_arg \<and>
    remote E G bb_open_6 (bb_open_6_svc E) (g_open_ret G) ok_open_arg (\<lambda>_. True) xdr_open_arg \<and>
    remote E G bb_release_6 (bb_release_6_svc E) (g_release_ret G) ok_release_arg (\<lambda>_. True) xdr_release_arg \<and>
    remote E G bb_read_6 (bb_read_6_svc E) (g_read_ret G) ok_read_arg ok_read_ret xdr_read_arg \<and>
    remote E G bb_write_6 (bb_write_6_svc E (g_write_ret G)) (g_write_ret G) ok_write_arg (\<lambda>_. True) xdr_write_arg \<and>
    remote E G bb_statfs_6 (bb_statfs_6_svc E) (g_statfs_ret G) ok_statfs_arg ok_statfs_ret xdr_statfs_arg"
  by (intro conjI remote_calls assms)

section \<open>Requests the dispatcher refuses\<close>

text \<open>
  A routine that decodes a piece of input decodes it as well, and to the same object, when more input
  follows. From this and the round trip: no proper prefix of an encoding decodes.
\<close>

definition extends :: "'a xdrproc \<Rightarrow> bool" where
  "extends p \<longleftrightarrow> (\<forall>s b r s' v. x_op s = XDR_DECODE \<longrightarrow> p s b = (True, s', v) \<longrightarrow>
     x_op s' = XDR_DECODE \<and>
     p (s\<lparr>x_bytes := x_bytes s @ r\<rparr>) b = (True, s'\<lparr>x_bytes := x_bytes s' @ r\<rparr>, v))"

lemma extendsD:
  "extends p \<Longrightarrow> p \<lparr>x_op = XDR_DECODE, x_bytes = bs\<rparr> b = (True, s', v) \<Longrightarrow>
   p \<lparr>x_op = XDR_DECODE, x_bytes = bs @ r\<rparr> b = (True, s'\<lparr>x_bytes := x_bytes s' @ r\<rparr>, v)"
  by (auto simp: extends_def dest: spec [of _ "\<lparr>x_op = XDR_DECODE, x_bytes = bs\<rparr>"])

lemma extends_get_bytes:
  assumes "get_bytes s n = Some (bs, s')"
  shows "get_bytes (s\<lparr>x_bytes := x_bytes s @ r\<rparr>) n = Some (bs, s'\<lparr>x_bytes := x_bytes s' @ r\<rparr>)"
    and "x_op s' = x_op s"
  using assms by (auto simp: get_bytes_def split: if_splits)

lemma extends_int: "extends xdr_int"
  by (auto simp: extends_def xdr_int_def extends_get_bytes split: option.splits)

lemma extends_u_int: "extends xdr_u_int"
  by (simp add: xdr_u_int_def extends_int)

lemma extends_opaque: "extends (xdr_opaque n)"
  by (auto simp: extends_def xdr_opaque_def extends_get_bytes split: option.splits)

lemma extends_string: "extends (xdr_string n)"
  by (auto simp: extends_def xdr_string_def extends_get_bytes Let_def split: option.splits if_splits)

lemma extends_u_long: "extends (xdr_u_long L)"
  by (auto simp: extends_def xdr_u_long_def xdr_wide_def extends_get_bytes split: option.splits)

lemma extends_long: "extends (xdr_long L)"
  by (auto simp: extends_def xdr_long_def xdr_wide_def extends_get_bytes split: option.splits)

lemma extends_member: "extends p \<Longrightarrow> extends (xdr_member p get upd)"
  by (fastforce simp: extends_def xdr_member_def split: prod.splits)

lemma extends_Nil: "extends (xdr_all [])"
  by (simp add: extends_def)

lemma extends_Cons:
  assumes "extends p" and "extends (xdr_all ps)"
  shows "extends (xdr_all (p # ps))"
  unfolding extends_def
proof (intro allI impI)
  fix s b r s' v
  assume op: "x_op s = XDR_DECODE" and run: "xdr_all (p # ps) s b = (True, s', v)"
  obtain ok t a where p: "p s b = (ok, t, a)" by (cases "p s b") auto
  with run have ok: "ok" and rest: "xdr_all ps t a = (True, s', v)" by (auto split: if_splits)
  with assms(1) p op have "x_op t = XDR_DECODE"
      "p (s\<lparr>x_bytes := x_bytes s @ r\<rparr>) b = (True, t\<lparr>x_bytes := x_bytes t @ r\<rparr>, a)"
    by (auto simp: extends_def)
  with assms(2) rest show "x_op s' = XDR_DECODE \<and>
      xdr_all (p # ps) (s\<lparr>x_bytes := x_bytes s @ r\<rparr>) b = (True, s'\<lparr>x_bytes := x_bytes s' @ r\<rparr>, v)"
    by (auto simp: extends_def)
qed

lemmas extends_rules = extends_Cons extends_Nil extends_member extends_int extends_u_int extends_opaque
  extends_string extends_u_long extends_long

locale rpc_decoder = rpc_procedure +
  assumes extends: "extends xarg"
begin

lemma truncated_rejected:
  assumes "ok_arg a" and "encoding xarg a = bs @ t" and "t \<noteq> []"
  shows "compute_6 E G proc bs s = Inr (DecodeError, s)"
proof -
  obtain ok s' v where p: "xarg \<lparr>x_op = XDR_DECODE, x_bytes = bs\<rparr> zero = (ok, s', v)"
    by (cases "xarg \<lparr>x_op = XDR_DECODE, x_bytes = bs\<rparr> zero") auto
  have "\<not> ok"
  proof
    assume ok
    with extends p have "xarg \<lparr>x_op = XDR_DECODE, x_bytes = bs @ t\<rparr> zero
        = (True, s'\<lparr>x_bytes := x_bytes s' @ t\<rparr>, v)"
      by (auto dest: extendsD)
    moreover have "xarg \<lparr>x_op = XDR_DECODE, x_bytes = bs @ t\<rparr> zero
        = (True, \<lparr>x_op = XDR_DECODE, x_bytes = []\<rparr>, a)"
      using xdr_codec.decodes [OF arg_codec assms(1), of "\<lparr>x_op = XDR_DECODE, x_bytes = bs @ t\<rparr>" "[]" zero] assms(2)
      by simp
    ultimately show False using assms(3) by (cases s') auto
  qed
  with p show ?thesis by (simp add: dispatch svc_case_def)
qed

end

lemma extends_identity: "extends xdr_identity"
  unfolding xdr_identity_def by (intro extends_rules)

lemma extends_init_arg: "extends xdr_init_arg"
  unfolding xdr_init_arg_def by (intro extends_rules extends_identity)

lemma extends_getattr_arg: "extends xdr_getattr_arg"
  unfolding xdr_getattr_arg_def by (intro extends_rules extends_identity)

lemma extends_access_arg: "extends xdr_access_arg"
  unfolding xdr_access_arg_def by (intro extends_rules extends_identity)

lemma extends_mkdir_arg: "extends xdr_mkdir_arg"
  unfolding xdr_mkdir_arg_def by (intro extends_rules extends_identity)

lemma extends_rmdir_arg: "extends xdr_rmdir_arg"
  unfolding xdr_rmdir_arg_def by (intro extends_rules extends_identity)

lemma extends_opendir_arg: "extends xdr_opendir_arg"
  unfolding xdr_opendir_arg_def by (intro extends_rules extends_identity)

lemma extends_readdir_arg: "extends xdr_readdir_arg"
  unfolding xdr_readdir_arg_def by (intro extends_rules extends_identity)

lemma extends_releasedir_arg: "extends xdr_releasedir_arg"
  unfolding xdr_releasedir_arg_def by (intro extends_rules extends_identity)

lemma extends_rename_arg: "extends xdr_rename_arg"
  unfolding xdr_rename_arg_def by (intro extends_rules extends_identity)

lemma extends_symlink_arg: "extends xdr_symlink_arg"
  unfolding xdr_symlink_arg_def by (intro extends_rules extends_identity)

lemma extends_link_arg: "extends xdr_link_arg"
  unfolding xdr_link_arg_def by (intro extends_rules extends_identity)

lemma extends_readlink_arg: "extends xdr_readlink_arg"
  unfolding xdr_readlink_arg_def by (intro extends_rules extends_identity)

lemma extends_mknod_arg: "extends xdr_mknod_arg"
  unfolding xdr_mknod_arg_def by (intro extends_rules extends_identity)

lemma extends_truncate_arg: "extends xdr_truncate_arg"
  unfolding xdr_truncate_arg_def by (intro extends_rules extends_identity)

lemma extends_unlink_arg: "extends xdr_unlink_arg"
  unfolding xdr_unlink_arg_def by (intro extends_rules extends_identity)

lemma extends_utime_arg: "extends (xdr_utime_arg L)"
  unfolding xdr_utime_arg_def by (intro extends_rules extends_identity)

lemma extends_chmod_arg: "extends xdr_chmod_arg"
  unfolding xdr_chmod_arg_def by (intro extends_rules extends_identity)

lemma extends_chown_arg: "extends xdr_chown_arg"
  unfolding xdr_chown_arg_def by (intro extends_rules extends_identity)

lemma extends_open_arg: "extends xdr_open_arg"
  unfolding xdr_open_arg_def by (intro extends_rules extends_identity)

lemma extends_release_arg: "extends xdr_release_arg"
  unfolding xdr_release_arg_def by (intro extends_rules extends_identity)

lemma extends_read_arg: "extends xdr_read_arg"
  unfolding xdr_read_arg_def by (intro extends_rules extends_identity)

lemma extends_write_arg: "extends xdr_write_arg"
  unfolding xdr_write_arg_def by (intro extends_rules extends_identity)

lemma extends_statfs_arg: "extends xdr_statfs_arg"
  unfolding xdr_statfs_arg_def by (intro extends_rules extends_identity)

definition rejects_truncated ::
  "'w env \<Rightarrow> stack_garbage \<Rightarrow> nat \<Rightarrow> ('a \<Rightarrow> bool) \<Rightarrow> 'a xdrproc \<Rightarrow> bool" where
  "rejects_truncated E G proc ok_arg xarg \<longleftrightarrow>
     (\<forall>a bs t s. ok_arg a \<longrightarrow> encoding xarg a = bs @ t \<longrightarrow> t \<noteq> [] \<longrightarrow>
        compute_6 E G proc bs s = Inr (DecodeError, s))"

interpretation call_init: rpc_decoder E G INIT_ROOTDIR xdr_init_arg ok_init_arg xdr_init_ret "\<lambda>_. True"
    "\<lambda>a. init_rootdir_6_svc E (g_init_ret G) a (g_init_ret G)" zero_init_arg "g_init_ret G" "init_rootdir_6_svc E (g_init_ret G)"
  for E :: "'w env" and G
  by unfold_locales (rule extends_init_arg)

lemma rejects_init: "rejects_truncated E G INIT_ROOTDIR ok_init_arg xdr_init_arg"
  unfolding rejects_truncated_def by (blast intro: call_init.truncated_rejected)

lemma rejects_getattr:
  assumes "xdr_longs (e_xdr E)"
  shows "rejects_truncated E G BB_GETATTR ok_getattr_arg xdr_getattr_arg"
  unfolding rejects_truncated_def
  using rpc_decoder.truncated_rejected [OF rpc_decoder.intro [OF rpc_procedure_getattr [OF assms] rpc_decoder_axioms.intro]]
    extends_getattr_arg by blast

interpretation call_access: rpc_decoder E G BB_ACCESS xdr_access_arg ok_access_arg xdr_access_ret "\<lambda>_. True"
    "\<lambda>a. bb_access_6_svc E a (g_access_ret G)" zero_access_arg "g_access_ret G" "bb_access_6_svc E"
  for E :: "'w env" and G
  by unfold_locales (rule extends_access_arg)

lemma rejects_access: "rejects_truncated E G BB_ACCESS ok_access_arg xdr_access_arg"
  unfolding rejects_truncated_def by (blast intro: call_access.truncated_rejected)

interpretation call_mkdir: rpc_decoder E G BB_MKDIR xdr_mkdir_arg ok_mkdir_arg xdr_mkdir_ret "\<lambda>_. True"
    "\<lambda>a. bb_mkdir_6_svc E (g_mkdir_ret G) a (g_mkdir_ret G)" zero_mkdir_arg "g_mkdir_ret G" "bb_mkdir_6_svc E (g_mkdir_ret G)"
  for E :: "'w env" and G
  by unfold_locales (rule extends_mkdir_arg)

lemma rejects_mkdir: "rejects_truncated E G BB_MKDIR ok_mkdir_arg xdr_mkdir_arg"
  unfolding rejects_truncated_def by (blast intro: call_mkdir.truncated_rejected)

interpretation call_rmdir: rpc_decoder E G BB_RMDIR xdr_rmdir_arg ok_rmdir_arg xdr_rmdir_ret "\<lambda>_. True"
    "\<lambda>a. bb_rmdir_6_svc E (g_rmdir_ret G) a (g_rmdir_ret G)" zero_rmdir_arg "g_rmdir_ret G" "bb_rmdir_6_svc E (g_rmdir_ret G)"
  for E :: "'w env" and G
  by unfold_locales (rule extends_rmdir_arg)

lemma rejects_rmdir: "rejects_truncated E G BB_RMDIR ok_rmdir_arg xdr_rmdir_arg"
  unfolding rejects_truncated_def by (blast intro: call_rmdir.truncated_rejected)

interpretation call_opendir: rpc_decoder E G BB_OPENDIR xdr_opendir_arg ok_opendir_arg xdr_opendir_ret "\<lambda>_. True"
    "\<lambda>a. bb_opendir_6_svc E a (g_opendir_ret G)" zero_opendir_arg "g_opendir_ret G" "bb_opendir_6_svc E"
  for E :: "'w env" and G
  by unfold_locales (rule extends_opendir_arg)

lemma rejects_opendir: "rejects_truncated E G BB_OPENDIR ok_opendir_arg xdr_opendir_arg"
  unfolding rejects_truncated_def by (blast intro: call_opendir.truncated_rejected)

interpretation call_readdir: rpc_decoder E G BB_READDIR xdr_readdir_arg "\<lambda>_. True" xdr_readdir_ret ok_readdir_ret
    "\<lambda>a. bb_readdir_6_svc E a (g_readdir_ret G)" zero_readdir_arg "g_readdir_ret G" "bb_readdir_6_svc E"
  for E :: "'w env" and G
  by unfold_locales (rule extends_readdir_arg)

lemma rejects_readdir: "rejects_truncated E G BB_READDIR (\<lambda>_. True) xdr_readdir_arg"
  unfolding rejects_truncated_def by (blast intro: call_readdir.truncated_rejected)

interpretation call_releasedir: rpc_decoder E G BB_RELEASEDIR xdr_releasedir_arg "\<lambda>_. True" xdr_releasedir_ret "\<lambda>_. True"
    "\<lambda>a. bb_releasedir_6_svc E a (g_releasedir_ret G)" zero_releasedir_arg "g_releasedir_ret G" "bb_releasedir_6_svc E"
  for E :: "'w env" and G
  by unfold_locales (rule extends_releasedir_arg)

lemma rejects_releasedir: "rejects_truncated E G BB_RELEASEDIR (\<lambda>_. True) xdr_releasedir_arg"
  unfolding rejects_truncated_def by (blast intro: call_releasedir.truncated_rejected)

interpretation call_rename: rpc_decoder E G BB_RENAME xdr_rename_arg ok_rename_arg xdr_rename_ret "\<lambda>_. True"
    "\<lambda>a. bb_rename_6_svc E (g_rename_ret G) a (g_rename_ret G)" zero_rename_arg "g_rename_ret G" "bb_rename_6_svc E (g_rename_ret G)"
  for E :: "'w env" and G
  by unfold_locales (rule extends_rename_arg)

lemma rejects_rename: "rejects_truncated E G BB_RENAME ok_rename_arg xdr_rename_arg"
  unfolding rejects_truncated_def by (blast intro: call_rename.truncated_rejected)

interpretation call_symlink: rpc_decoder E G BB_SYMLINK xdr_symlink_arg ok_symlink_arg xdr_symlink_ret "\<lambda>_. True"
    "\<lambda>a. bb_symlink_6_svc E (g_symlink_ret G) a (g_symlink_ret G)" zero_symlink_arg "g_symlink_ret G" "bb_symlink_6_svc E (g_symlink_ret G)"
  for E :: "'w env" and G
  by unfold_locales (rule extends_symlink_arg)

lemma rejects_symlink: "rejects_truncated E G BB_SYMLINK ok_symlink_arg xdr_symlink_arg"
  unfolding rejects_truncated_def by (blast intro: call_symlink.truncated_rejected)

interpretation call_link: rpc_decoder E G BB_LINK xdr_link_arg ok_link_arg xdr_link_ret "\<lambda>_. True"
    "\<lambda>a. bb_link_6_svc E (g_link_ret G) a (g_link_ret G)" zero_link_arg "g_link_ret G" "bb_link_6_svc E (g_link_ret G)"
  for E :: "'w env" and G
  by unfold_locales (rule extends_link_arg)

lemma rejects_link: "rejects_truncated E G BB_LINK ok_link_arg xdr_link_arg"
  unfolding rejects_truncated_def by (blast intro: call_link.truncated_rejected)

interpretation call_readlink: rpc_decoder E G BB_READLINK xdr_readlink_arg ok_readlink_arg xdr_readlink_ret ok_readlink_ret
    "\<lambda>a. bb_readlink_6_svc E a (g_readlink_ret G)" zero_readlink_arg "g_readlink_ret G" "bb_readlink_6_svc E"
  for E :: "'w env" and G
  by unfold_locales (rule extends_readlink_arg)

lemma rejects_readlink: "rejects_truncated E G BB_READLINK ok_readlink_arg xdr_readlink_arg"
  unfolding rejects_truncated_def by (blast intro: call_readlink.truncated_rejected)

interpretation call_mknod: rpc_decoder E G BB_MKNOD xdr_mknod_arg ok_mknod_arg xdr_mknod_ret "\<lambda>_. True"
    "\<lambda>a. bb_mknod_6_svc E (g_mknod_ret G) a (g_mknod_ret G)" zero_mknod_arg "g_mknod_ret G" "bb_mknod_6_svc E (g_mknod_ret G)"
  for E :: "'w env" and G
  by unfold_locales (rule extends_mknod_arg)

lemma rejects_mknod: "rejects_truncated E G BB_MKNOD ok_mknod_arg xdr_mknod_arg"
  unfolding rejects_truncated_def by (blast intro: call_mknod.truncated_rejected)

interpretation call_truncate: rpc_decoder E G BB_TRUNCATE xdr_truncate_arg ok_truncate_arg xdr_truncate_ret "\<lambda>_. True"
    "\<lambda>a. bb_truncate_6_svc E (g_truncate_ret G) a (g_truncate_ret G)" zero_truncate_arg "g_truncate_ret G" "bb_truncate_6_svc E (g_truncate_ret G)"
  for E :: "'w env" and G
  by unfold_locales (rule extends_truncate_arg)

lemma rejects_truncate: "rejects_truncated E G BB_TRUNCATE ok_truncate_arg xdr_truncate_arg"
  unfolding rejects_truncated_def by (blast intro: call_truncate.truncated_rejected)

interpretation call_unlink: rpc_decoder E G BB_UNLINK xdr_unlink_arg ok_unlink_arg xdr_unlink_ret "\<lambda>_. True"
    "\<lambda>a. bb_unlink_6_svc E (g_unlink_ret G) a (g_unlink_ret G)" zero_unlink_arg "g_unlink_ret G" "bb_unlink_6_svc E (g_unlink_ret G)"
  for E :: "'w env" and G
  by unfold_locales (rule extends_unlink_arg)

lemma rejects_unlink: "rejects_truncated E G BB_UNLINK ok_unlink_arg xdr_unlink_arg"
  unfolding rejects_truncated_def by (blast intro: call_unlink.truncated_rejected)

lemma rejects_utime:
  assumes "xdr_longs (e_xdr E)"
  shows "rejects_truncated E G BB_UTIME ok_utime_arg (xdr_utime_arg (e_xdr E))"
  unfolding rejects_truncated_def
  using rpc_decoder.truncated_rejected [OF rpc_decoder.intro [OF rpc_procedure_utime [OF assms] rpc_decoder_axioms.intro]]
    extends_utime_arg by blast

interpretation call_chmod: rpc_decoder E G BB_CHMOD xdr_chmod_arg ok_chmod_arg xdr_chmod_ret "\<lambda>_. True"
    "\<lambda>a. bb_chmod_6_svc E (g_chmod_ret G) a (g_chmod_ret G)" zero_chmod_arg "g_chmod_ret G" "bb_chmod_6_svc E (g_chmod_ret G)"
  for E :: "'w env" and G
  by unfold_locales (rule extends_chmod_arg)

lemma rejects_chmod: "rejects_truncated E G BB_CHMOD ok_chmod_arg xdr_chmod_arg"
  unfolding rejects_truncated_def by (blast intro: call_chmod.truncated_rejected)

interpretation call_chown: rpc_decoder E G BB_CHOWN xdr_chown_arg ok_chown_arg xdr_chown_ret "\<lambda>_. True"
    "\<lambda>a. bb_chown_6_svc E (g_chown_ret G) a (g_chown_ret G)" zero_chown_arg "g_chown_ret G" "bb_chown_6_svc E (g_chown_ret G)"
  for E :: "'w env" and G
  by unfold_locales (rule extends_chown_arg)

lemma rejects_chown: "rejects_truncated E G BB_CHOWN ok_chown_arg xdr_chown_arg"
  unfolding rejects_truncated_def by (blast intro: call_chown.truncated_rejected)

interpretation call_open: rpc_decoder E G BB_OPEN xdr_open_arg ok_open_arg xdr_open_ret "\<lambda>_. True"
    "\<lambda>a. bb_open_6_svc E a (g_open_ret G)" zero_open_arg "g_open_ret G" "bb_open_6_svc E"
  for E :: "'w env" and G
  by unfold_locales (rule extends_open_arg)

lemma rejects_open: "rejects_truncated E G BB_OPEN ok_open_arg xdr_open_arg"
  unfolding rejects_truncated_def by (blast intro: call_open.truncated_rejected)

interpretation call_release: rpc_decoder E G BB_RELEASE xdr_release_arg ok_release_arg xdr_release_ret "\<lambda>_. True"
    "\<lambda>a. bb_release_6_svc E a (g_release_ret G)" zero_release_arg "g_release_ret G" "bb_release_6_svc E"
  for E :: "'w env" and G
  by unfold_locales (rule extends_release_arg)

lemma rejects_release: "rejects_truncated E G BB_RELEASE ok_release_arg xdr_release_arg"
  unfolding rejects_truncated_def by (blast intro: call_release.truncated_rejected)

interpretation call_read: rpc_decoder E G BB_READ xdr_read_arg ok_read_arg xdr_read_ret ok_read_ret
    "\<lambda>a. bb_read_6_svc E a (g_read_ret G)" zero_read_arg "g_read_ret G" "bb_read_6_svc E"
  for E :: "'w env" and G
  by unfold_locales (rule extends_read_arg)

lemma rejects_read: "rejects_truncated E G BB_READ ok_read_arg xdr_read_arg"
  unfolding rejects_truncated_def by (blast intro: call_read.truncated_rejected)

interpretation call_write: rpc_decoder E G BB_WRITE xdr_write_arg ok_write_arg xdr_write_ret "\<lambda>_. True"
    "\<lambda>a. bb_write_6_svc E (g_write_ret G) a (g_write_ret G)" zero_write_arg "g_write_ret G" "bb_write_6_svc E (g_write_ret G)"
  for E :: "'w env" and G
  by unfold_locales (rule extends_write_arg)

lemma rejects_write: "rejects_truncated E G BB_WRITE ok_write_arg xdr_write_arg"
  unfolding rejects_truncated_def by (blast intro: call_write.truncated_rejected)

lemma rejects_statfs:
  assumes "xdr_longs (e_xdr E)"
  shows "rejects_truncated E G BB_STATFS ok_statfs_arg xdr_statfs_arg"
  unfolding rejects_truncated_def
  using rpc_decoder.truncated_rejected [OF rpc_decoder.intro [OF rpc_procedure_statfs [OF assms] rpc_decoder_axioms.intro]]
    extends_statfs_arg by blast

lemmas rejections = rejects_init rejects_getattr rejects_access rejects_mkdir rejects_rmdir rejects_opendir rejects_readdir rejects_releasedir rejects_rename rejects_symlink rejects_link rejects_readlink rejects_mknod rejects_truncate rejects_unlink rejects_utime rejects_chmod rejects_chown rejects_open rejects_release rejects_read rejects_write rejects_statfs

text \<open>
  C18. A request cut off anywhere is refused before any handler runs, whatever the procedure, and an
  unknown procedure number is refused: the state of the server is as it was.
\<close>

theorem malformed_requests_refused:
  assumes "xdr_longs (e_xdr E)"
  shows "(\<forall>n req s. 22 < n \<longrightarrow> compute_6 E G n req s = Inr (NoProc, s)) \<and>
    rejects_truncated E G INIT_ROOTDIR ok_init_arg xdr_init_arg \<and>
    rejects_truncated E G BB_GETATTR ok_getattr_arg xdr_getattr_arg \<and>
    rejects_truncated E G BB_ACCESS ok_access_arg xdr_access_arg \<and>
    rejects_truncated E G BB_MKDIR ok_mkdir_arg xdr_mkdir_arg \<and>
    rejects_truncated E G BB_RMDIR ok_rmdir_arg xdr_rmdir_arg \<and>
    rejects_truncated E G BB_OPENDIR ok_opendir_arg xdr_opendir_arg \<and>
    rejects_truncated E G BB_READDIR (\<lambda>_. True) xdr_readdir_arg \<and>
    rejects_truncated E G BB_RELEASEDIR (\<lambda>_. True) xdr_releasedir_arg \<and>
    rejects_truncated E G BB_RENAME ok_rename_arg xdr_rename_arg \<and>
    rejects_truncated E G BB_SYMLINK ok_symlink_arg xdr_symlink_arg \<and>
    rejects_truncated E G BB_LINK ok_link_arg xdr_link_arg \<and>
    rejects_truncated E G BB_READLINK ok_readlink_arg xdr_readlink_arg \<and>
    rejects_truncated E G BB_MKNOD ok_mknod_arg xdr_mknod_arg \<and>
    rejects_truncated E G BB_TRUNCATE ok_truncate_arg xdr_truncate_arg \<and>
    rejects_truncated E G BB_UNLINK ok_unlink_arg xdr_unlink_arg \<and>
    rejects_truncated E G BB_UTIME ok_utime_arg (xdr_utime_arg (e_xdr E)) \<and>
    rejects_truncated E G BB_CHMOD ok_chmod_arg xdr_chmod_arg \<and>
    rejects_truncated E G BB_CHOWN ok_chown_arg xdr_chown_arg \<and>
    rejects_truncated E G BB_OPEN ok_open_arg xdr_open_arg \<and>
    rejects_truncated E G BB_RELEASE ok_release_arg xdr_release_arg \<and>
    rejects_truncated E G BB_READ ok_read_arg xdr_read_arg \<and>
    rejects_truncated E G BB_WRITE ok_write_arg xdr_write_arg \<and>
    rejects_truncated E G BB_STATFS ok_statfs_arg xdr_statfs_arg"
  by (intro conjI rejections assms) (simp add: compute_6_def)

section \<open>A call on the kernel in memory\<close>

definition mem_garbage :: stack_garbage where
  "mem_garbage = \<lparr>g_init_ret = \<lparr>init_ret_ret = 9\<rparr>,
     g_getattr_ret = \<lparr>getattr_ret_st_dev = 9, getattr_ret_st_ino = 9, getattr_ret_st_mode = 9, getattr_ret_st_nlink = 9, getattr_ret_st_uid = 9, getattr_ret_st_gid = 9, getattr_ret_st_rdev = 9, getattr_ret_st_size = 9, getattr_ret_st_blksize = 9, getattr_ret_st_blocks = 9, getattr_ret_st_acc_time = 9, getattr_ret_st_mod_time = 9, getattr_ret_st_chg_time = 9, getattr_ret_ret = 9\<rparr>,
     g_access_ret = \<lparr>access_ret_ret = 9\<rparr>,
     g_mkdir_ret = \<lparr>mkdir_ret_ret = 9\<rparr>,
     g_rmdir_ret = \<lparr>rmdir_ret_ret = 9\<rparr>,
     g_opendir_ret = \<lparr>opendir_ret_fd = 9, opendir_ret_ret = 9\<rparr>,
     g_readdir_ret = \<lparr>readdir_ret_count = 9, readdir_ret_entries = zeros MAX_SIZE, readdir_ret_ret = 9\<rparr>,
     g_releasedir_ret = \<lparr>releasedir_ret_ret = 9\<rparr>,
     g_rename_ret = \<lparr>rename_ret_ret = 9\<rparr>,
     g_symlink_ret = \<lparr>symlink_ret_ret = 9\<rparr>,
     g_link_ret = \<lparr>link_ret_ret = 9\<rparr>,
     g_readlink_ret = \<lparr>readlink_ret_buffer = zeros MAX_SIZE, readlink_ret_len = 9, readlink_ret_ret = 9\<rparr>,
     g_mknod_ret = \<lparr>mknod_ret_ret = 9\<rparr>,
     g_truncate_ret = \<lparr>truncate_ret_ret = 9\<rparr>,
     g_unlink_ret = \<lparr>unlink_ret_ret = 9\<rparr>,
     g_utime_ret = \<lparr>utime_ret_ret = 9\<rparr>,
     g_chmod_ret = \<lparr>chmod_ret_ret = 9\<rparr>,
     g_chown_ret = \<lparr>chown_ret_ret = 9\<rparr>,
     g_open_ret = \<lparr>open_ret_fd = 9, open_ret_ret = 9\<rparr>,
     g_release_ret = \<lparr>release_ret_ret = 9\<rparr>,
     g_read_ret = \<lparr>read_ret_buffer = zeros MAX_SIZE, read_ret_len = 9, read_ret_ret = 9\<rparr>,
     g_write_ret = \<lparr>write_ret_len = 9, write_ret_ret = 9\<rparr>,
     g_statfs_ret = \<lparr>statfs_ret_f_bsize = 9, statfs_ret_f_frsize = 9, statfs_ret_f_blocks = 9, statfs_ret_f_bfree = 9, statfs_ret_f_bavail = 9, statfs_ret_f_files = 9, statfs_ret_f_ffree = 9, statfs_ret_f_favail = 9, statfs_ret_f_fsid = 9, statfs_ret_f_flag = 9, statfs_ret_f_namemax = 9, statfs_ret_ret = 9\<rparr>\<rparr>"

definition mem_mkdir :: mkdir_arg where
  "mem_mkdir = \<lparr>mkdir_arg_ip = ''7'', mkdir_arg_server_info = \<lparr>is_master = 1, is_degraded = 1\<rparr>,
     mkdir_arg_path = ''/d/x'', mkdir_arg_mode = 509\<rparr>"

lemma mem_mkdir_runs:
  obtains s' where "bb_mkdir_6_svc mem_env (g_mkdir_ret mem_garbage) mem_mkdir (g_mkdir_ret mem_garbage) mem_start
    = Inr (\<lparr>mkdir_ret_ret = 0\<rparr>, s')" and "m_lookup (world s') ''/DFS/d/x'' \<noteq> None"
proof -
  have "case bb_mkdir_6_svc mem_env (g_mkdir_ret mem_garbage) mem_mkdir (g_mkdir_ret mem_garbage) mem_start of
      Inr (r, s') \<Rightarrow> mkdir_ret_ret r = 0 \<and> m_lookup (world s') ''/DFS/d/x'' \<noteq> None | Inl _ \<Rightarrow> False"
    by code_simp
  then show thesis using that by (auto split: sum.splits)
qed

lemma mem_env_longs: "xdr_longs (e_xdr mem_env)"
  using strict.xdr_longs_axioms by (simp add: mem_env_def)

lemma mem_mkdir_ok: "ok_mkdir_arg mem_mkdir"
  by (simp add: ok_mkdir_arg_def mem_mkdir_def sendable_def)

lemma encoding_identity: "encoding xdr_identity i = unit_bytes (is_master i) @ unit_bytes (is_degraded i)"
proof (rule encoding_eq)
  show "enc_ok xdr_identity i (unit_bytes (is_master i) @ unit_bytes (is_degraded i))"
    unfolding xdr_identity_def by (rule enc_ok_trans, (rule enc_rules enc_prims | simp)+)
qed

lemma mem_mkdir_bytes:
  "encoding xdr_mkdir_arg mem_mkdir = unit_bytes 1 @ (''7'' @ zeros 3) @ unit_bytes 1 @ unit_bytes 1 @
     string_bytes ''/d/x'' @ unit_bytes 509"
proof -
  have "\<exists>bs. enc_ok xdr_mkdir_arg mem_mkdir bs \<and> bs = unit_bytes 1 @ (''7'' @ zeros 3) @
      unit_bytes 1 @ unit_bytes 1 @ string_bytes ''/d/x'' @ unit_bytes 509"
    unfolding xdr_mkdir_arg_def
    by - (rule exI conjI enc_rules enc_prims enc_ok_identity
      | simp add: mem_mkdir_def sendable_def string_bytes_def padding_def encoding_identity)+
  then show ?thesis by (auto dest: encoding_eq)
qed

lemma mem_mkdir_length: "length (encoding xdr_mkdir_arg mem_mkdir) \<le> 8800"
  by (simp add: mem_mkdir_bytes string_bytes_def padding_def)

lemma stubs_call_handlers_witness:
  "\<exists>s'. bb_mkdir_6 (e_xdr mem_env) (direct_rpc mem_env mem_garbage) mem_mkdir \<lparr>mkdir_ret_ret = 5\<rparr> 0 mem_start
     = ((RPC_SUCCESS, \<lparr>mkdir_ret_ret = 0\<rparr>), s') \<and> m_lookup (world s') ''/DFS/d/x'' \<noteq> None"
proof -
  have "remote mem_env mem_garbage bb_mkdir_6 (bb_mkdir_6_svc mem_env (g_mkdir_ret mem_garbage))
      (g_mkdir_ret mem_garbage) ok_mkdir_arg (\<lambda>_. True) xdr_mkdir_arg"
    using stubs_call_handlers [OF mem_env_longs, of mem_garbage] by (elim conjE)
  with mem_mkdir_ok mem_mkdir_length show ?thesis by (rule_tac mem_mkdir_runs) (auto simp: remote_def)
qed

lemma malformed_requests_refused_witness:
  "compute_6 mem_env mem_garbage BB_MKDIR (unit_bytes 1) mem_start = Inr (DecodeError, mem_start) \<and>
   compute_6 mem_env mem_garbage 99 [] mem_start = Inr (NoProc, mem_start)"
proof -
  note refused = malformed_requests_refused [OF mem_env_longs, of mem_garbage]
  then have "rejects_truncated mem_env mem_garbage BB_MKDIR ok_mkdir_arg xdr_mkdir_arg" by (elim conjE)
  then have "compute_6 mem_env mem_garbage BB_MKDIR (unit_bytes 1) mem_start = Inr (DecodeError, mem_start)"
    unfolding rejects_truncated_def using mem_mkdir_ok mem_mkdir_bytes by blast
  moreover have "compute_6 mem_env mem_garbage 99 [] mem_start = Inr (NoProc, mem_start)"
    using conjunct1 [OF refused] by simp
  ultimately show ?thesis ..
qed

end
