(* ===== verification/Server_Sessions.thy ===== *)
theory Server_Sessions
  imports Server_Progress Rpc_Roundtrip
begin

text \<open>
  The server over any sequence of requests, as the dispatcher takes them from the wire: the locks it has
  taken when it has answered, and that it never waits. The one request that is left out is a \<^verbatim>\<open>rename\<close> from
  one directory to another, which takes two locks.
\<close>

section \<open>The kernel's part\<close>

text \<open>
  \<open>only H w\<close>: in the world \<open>w\<close>, where no other process locks the files of the server, a lock, exclusive or
  shared, is taken on no descriptors but those in \<open>H\<close>. As \<^verbatim>\<open>flock(2)\<close> documents, a lock is refused by the
  locks of other descriptors only, a failed call takes none, \<^verbatim>\<open>LOCK_UN\<close> gives the lock of the descriptor
  back, and no other system call takes a lock. \<^verbatim>\<open>dirfd(3)\<close> gives no negative descriptor.
\<close>

inductive other_call :: "'w os \<Rightarrow> ('w \<Rightarrow> 'w) \<Rightarrow> bool" for os where
  \<comment> \<open>what the system calls other than \<^verbatim>\<open>flock\<close> do to the world\<close>
  path: "f \<in> path_calls os \<Longrightarrow> other_call os (snd \<circ> f)"
| opendir: "other_call os (snd \<circ> sys_opendir os p)"
| fdopendir: "other_call os (snd \<circ> sys_fdopendir os fd)"
| readdir: "other_call os (snd \<circ> sys_readdir os dp)"
| closedir: "other_call os (snd \<circ> sys_closedir os dp)"
| open_file: "other_call os (snd \<circ> sys_open os p flags mode)"
| close_file: "other_call os (snd \<circ> sys_close os fd)"
| pread: "other_call os (snd \<circ> sys_pread os fd n off)"
| pwrite: "other_call os (snd \<circ> sys_pwrite os fd data off)"

definition advisory_locks :: "'w os \<Rightarrow> 'w rpc \<Rightarrow> (c_int set \<Rightarrow> 'w \<Rightarrow> bool) \<Rightarrow> bool" where
  "advisory_locks os R only \<longleftrightarrow>
     (\<forall>fd op w. op \<noteq> LOCK_UN \<longrightarrow> only {} w \<longrightarrow> (\<exists>r w'. sys_flock os fd op w = Some (r, w') \<and>
        only {fd} w' \<and> (r \<noteq> Inr () \<longrightarrow> only {} w'))) \<and>
     (\<forall>fd w. only {fd} w \<longrightarrow> (\<exists>r w'. sys_flock os fd LOCK_UN w = Some (r, w') \<and> only {} w')) \<and>
     (\<forall>p w dp w' fd. sys_opendir os p w = (Inr dp, w') \<longrightarrow> sys_dirfd os dp w' = Inr fd \<longrightarrow> \<not> cneg fd) \<and>
     (\<forall>f H w. other_call os f \<longrightarrow> only H w \<longrightarrow> only H (f w)) \<and> (\<forall>H. quiet_rpc R (only H))"

lemma advisory_locksD:
  assumes "advisory_locks os R only"
  shows "op \<noteq> LOCK_UN \<Longrightarrow> only {} w \<Longrightarrow> \<exists>r w'. sys_flock os fd op w = Some (r, w') \<and>
      only {fd} w' \<and> (r \<noteq> Inr () \<longrightarrow> only {} w')"
    and "only {fd} w \<Longrightarrow> \<exists>r w'. sys_flock os fd LOCK_UN w = Some (r, w') \<and> only {} w'"
    and "sys_opendir os p w = (Inr dp, w') \<Longrightarrow> sys_dirfd os dp w' = Inr fd \<Longrightarrow> \<not> cneg fd"
    and "other_call os f \<Longrightarrow> only H w \<Longrightarrow> only H (f w)"
    and "quiet_rpc R (only H)"
  by (insert assms, unfold advisory_locks_def) (elim conjE; simp)+

lemma advisory_call:
  "advisory_locks os R only \<Longrightarrow> other_call os (snd \<circ> f) \<Longrightarrow> only H w \<Longrightarrow> only H (snd (f w))"
  using advisory_locksD(4) [of os R only "snd \<circ> f" H w] by simp

section \<open>Calls that take no lock\<close>

lemma stops_keeps_call:
  assumes "\<And>w. J w \<Longrightarrow> J (snd (f w))"
  shows "calm_keeps (rests J) (sys_call f)"
proof (rule stops_keepsI)
  fix s :: "'a process" assume "J (world s)"
  then show "\<exists>a t. sys_call f s = Inr (a, t) \<and> J (world t)"
    using assms [of "world s"] by (cases "f (world s)") (auto simp: sys_call_def split: sum.split)
qed

lemma stops_keeps_int: "calm_keeps (rests J) (sys_int f)" if "\<And>w. J w \<Longrightarrow> J (snd (f w))"
  unfolding sys_int_def using that by (intro stops_keeps_bnd stops_keeps_call stops_keeps_ret)

lemma stops_keeps_errno [calm_rules]: "calm_keeps P get_errno"
  by (rule stops_keepsI) (simp add: get_errno_def)

lemma stops_keeps_set_errno [calm_rules]: "calm_keeps P (set_errno_ret u r)"
  unfolding set_errno_ret_def by (intro stops_keeps_bnd calm_rules)

lemma stops_keeps_read [calm_rules]: "calm_keeps (rests J) (sys_query f)"
  by (rule stops_keeps_sys_query) simp

lemma in_path_calls_too:
  "sys_truncate os p n \<in> path_calls os" "sys_utime os p k l \<in> path_calls os" "sys_chmod os p n \<in> path_calls os"
proof -
  have "{sys_truncate os p n, sys_utime os p k l, sys_chmod os p n} \<subseteq> {sys_mkdir os p n, sys_rmdir os p,
      sys_rename os p p, sys_symlink os p p, sys_link os p p, sys_unlink os p, sys_mkfifo os p n,
      sys_mknod os p n n, sys_truncate os p n, sys_utime os p k l, sys_chmod os p n, sys_chown os p n n, sys_lchown os p n n}"
    by simp
  also have "\<dots> \<subseteq> path_calls os" unfolding path_calls_def by (rule subsetI) (rule UN_I [OF UNIV_I])+
  finally show "sys_truncate os p n \<in> path_calls os" "sys_utime os p k l \<in> path_calls os"
    "sys_chmod os p n \<in> path_calls os" by simp_all
qed

lemma calm_checks [calm_rules]:
  "calm_keeps (rests J) (is_op_valid os p ip n)" "calm_keeps (rests J) (is_owner os p ip)"
  "calm_keeps (rests J) (is_parent_dir_valid os p f ip op)"
proof -
  show "calm_keeps (rests J) (is_op_valid os p ip n)" "calm_keeps (rests J) (is_owner os p ip)"
    unfolding is_op_valid_def is_owner_def by (intro stops_keeps_bnd calm_rules)+
  show "calm_keeps (rests J) (is_parent_dir_valid os p f ip op)"
    using is_parent_dir_valid_run [of os p f ip op] by (intro stops_keepsI) fastforce
qed

lemma calm_other:
  assumes "advisory_locks os R only" and "other_call os (snd \<circ> f)"
  shows "calm_keeps (rests (only H)) (sys_call f)"
  using advisory_call [OF assms] by (intro stops_keeps_call)

lemma calm_other_int:
  assumes "advisory_locks os R only" and "other_call os (snd \<circ> f)"
  shows "calm_keeps (rests (only H)) (sys_int f)"
  using advisory_call [OF assms] by (intro stops_keeps_int)

lemma calm_other_world:
  assumes "advisory_locks os R only" and "other_call os (snd \<circ> f)"
  shows "calm_keeps (rests (only H)) (on_world f)"
  using advisory_call [OF assms] by (intro stops_keeps_on_world)

lemma calm_owners:
  assumes "advisory_locks os R only"
  shows "calm_keeps (rests (only H)) (set_owner os p ip)" "calm_keeps (rests (only H)) (set_softlink_owner os p ip)"
  unfolding set_owner_def set_softlink_owner_def Let_def
  by (rule stops_keeps_bnd calm_other_int [OF assms] other_call.intros in_path_calls calm_rules)+

section \<open>Computations that end without a lock\<close>

text \<open>\<open>frees only H m\<close>: with no locks but those of \<open>H\<close>, \<open>m\<close> does not wait, and has none when it returns.\<close>

definition frees :: "(c_int set \<Rightarrow> 'w \<Rightarrow> bool) \<Rightarrow> c_int set \<Rightarrow> ('w process, 'a) prog \<Rightarrow> bool" where
  "frees only H m \<longleftrightarrow> calm (rests (only H)) m \<and> hoare (rests (only H)) m (\<lambda>_. rests (only {})) (\<lambda>_. True)"

named_theorems frees_rules

lemma freesI:
  "(\<And>s. only H (world s) \<Longrightarrow> case m s of Inl (e, t) \<Rightarrow> e \<noteq> Blocked | Inr (a, t) \<Rightarrow> only {} (world t)) \<Longrightarrow> frees only H m"
  by (fastforce simp: frees_def calm_def hoare_def split: sum.splits)

lemma freesD:
  assumes "frees only H m" and "only H (world s)"
  shows "case m s of Inl (e, t) \<Rightarrow> e \<noteq> Blocked | Inr (a, t) \<Rightarrow> only {} (world t)"
  using assms by (auto simp: frees_def calm_def hoare_def split: sum.split)

lemma frees_keeps: "calm_keeps (rests (only {})) m \<Longrightarrow> frees only {} m"
  by (simp add: frees_def stops_keeps_def)

lemma frees_bnd:
  assumes "calm_keeps (rests (only H)) m" and "\<And>a. frees only H (f a)"
  shows "frees only H (bnd m f)"
  using assms by (auto simp: frees_def stops_keeps_def intro: stops_bnd [unfolded stops_keeps_def] hoare_bnd)

lemma frees_then:
  assumes "frees only H m" and "\<And>a. frees only {} (f a)"
  shows "frees only H (bnd m f)"
proof (rule freesI)
  fix s :: "'a process" assume "only H (world s)"
  from freesD [OF assms(1) this]
  show "case bnd m f s of Inl (e, t) \<Rightarrow> e \<noteq> Blocked | Inr (a, t) \<Rightarrow> only {} (world t)"
    using freesD [OF assms(2)] by (cases "m s") (fastforce simp: bnd_def)+
qed

lemma frees_ret [frees_rules]: "frees only {} (ret a)"
  by (rule frees_keeps) (rule stops_keeps_ret)

lemma frees_set_errno [frees_rules]: "frees only {} (set_errno_ret u r)"
  by (rule frees_keeps) (rule stops_keeps_set_errno)

lemma frees_halt [frees_rules]: "e \<noteq> Blocked \<Longrightarrow> frees only H (halt e)"
  by (rule freesI) simp

lemma frees_if [frees_rules]:
  "(b \<Longrightarrow> frees only H m) \<Longrightarrow> (\<not> b \<Longrightarrow> frees only H n) \<Longrightarrow> frees only H (if b then m else n)"
  by simp

lemma frees_option [frees_rules]:
  "frees only H m \<Longrightarrow> (\<And>a. frees only H (f a)) \<Longrightarrow> frees only H (case x of None \<Rightarrow> m | Some a \<Rightarrow> f a)"
  by (cases x) simp_all

lemma frees_prod [frees_rules]: "(\<And>a b. frees only H (f a b)) \<Longrightarrow> frees only H (case x of (a, b) \<Rightarrow> f a b)"
  by (cases x) simp

lemma flock_taken:
  assumes "advisory_locks os R only" and "op \<noteq> LOCK_UN" and "only {} (world s)"
  shows "\<exists>r t. flock os fd op s = Inr (r, t) \<and> only {fd} (world t) \<and> (r \<noteq> 0 \<longrightarrow> only {} (world t))"
proof -
  obtain x w where "sys_flock os fd op (world s) = Some (x, w)" "only {fd} w" "x \<noteq> Inr () \<longrightarrow> only {} w"
    using advisory_locksD(1) [OF assms] by blast
  then show ?thesis by (cases x) (auto simp: flock_def sys_int_def sys_call_def bnd_def)
qed

lemma frees_flock:
  assumes "advisory_locks os R only" and "op \<noteq> LOCK_UN" and "\<And>r. frees only {fd} (f r)"
  shows "frees only {} (bnd (flock os fd op) f)"
proof (rule freesI)
  fix s :: "'a process" assume "only {} (world s)"
  from flock_taken [OF assms(1,2) this, of fd] freesD [OF assms(3)]
  show "case bnd (flock os fd op) f s of Inl (e, t) \<Rightarrow> e \<noteq> Blocked | Inr (a, t) \<Rightarrow> only {} (world t)"
    by (auto simp: bnd_def)
qed

lemma frees_funlock:
  assumes "advisory_locks os R only"
  shows "frees only {fd} (flock os fd LOCK_UN)"
proof (rule freesI)
  fix s :: "'a process" assume "only {fd} (world s)"
  from advisory_locksD(2) [OF assms this]
  show "case flock os fd LOCK_UN s of Inl (e, t) \<Rightarrow> e \<noteq> Blocked | Inr (a, t) \<Rightarrow> only {} (world t)"
    by (auto simp: flock_def sys_int_def sys_call_def bnd_def split: sum.splits)
qed

lemma frees_UNLOCK: "frees only {fd} (UNLOCK_DIRECTORY os fd u r)" if "advisory_locks os R only"
  unfolding UNLOCK_DIRECTORY_def dunlock_def by (intro frees_then frees_funlock [OF that] frees_rules)

lemma frees_LOCK:
  assumes K: "advisory_locks os R only" and "\<And>fd. frees only {fd} (k fd)"
  shows "frees only {} (LOCK_DIRECTORY os p u r k)"
proof -
  have d: "case dlock os p s of Inl _ \<Rightarrow> False | Inr (fd, t) \<Rightarrow> if cneg fd then only {} (world t) else only {fd} (world t)"
    if s: "only {} (world s)" for s :: "'a process"
  proof (cases "sys_opendir os p (world s)")
    case (Pair x w)
    then have w: "only {} w" using advisory_call [OF K other_call.opendir s, of p] by simp
    show ?thesis
    proof (cases x)
      case (Inl e)
      with Pair w show ?thesis by (simp add: dlock_def bnd_def sys_run)
    next
      case (Inr dp)
      show ?thesis
      proof (cases "sys_dirfd os dp w")
        case (Inl e)
        with Pair Inr w show ?thesis by (simp add: dlock_def bnd_def sys_run)
      next
        case (Inr fd)
        with advisory_locksD(3) [OF K, of p "world s" dp w fd] Pair \<open>x = Inr dp\<close> have "\<not> cneg fd" by simp
        moreover from this have "fd \<noteq> - 1" by auto
        moreover obtain v t where "flock os fd LOCK_EX (s\<lparr>world := w\<rparr>) = Inr (v, t)" "only {fd} (world t)"
          "v \<noteq> 0 \<longrightarrow> only {} (world t)"
          using flock_taken [OF K, of LOCK_EX "s\<lparr>world := w\<rparr>" fd] w by auto
        ultimately show ?thesis using Pair \<open>x = Inr dp\<close> Inr by (auto simp: dlock_def bnd_def sys_run)
      qed
    qed
  qed
  show ?thesis
  proof (rule freesI)
    fix s :: "'a process" assume "only {} (world s)"
    from d [OF this] obtain fd t where "dlock os p s = Inr (fd, t)"
      and "if cneg fd then only {} (world t) else only {fd} (world t)"
      by (cases "dlock os p s") auto
    then show "case LOCK_DIRECTORY os p u r k s of Inl (e, t) \<Rightarrow> e \<noteq> Blocked | Inr (a, t) \<Rightarrow> only {} (world t)"
      using freesD [OF assms(2), of fd t] by (cases "cneg fd") (simp_all add: LOCK_DIRECTORY_def bnd_def)
  qed
qed

lemma frees_checked: "(\<And>a. x = Some a \<Longrightarrow> frees only H (f a)) \<Longrightarrow> frees only H (bnd (checked x) f)"
  by (cases x) (simp_all add: frees_halt)

lemma frees_PARENT: "(\<And>p. get_parent_path f = Some p \<Longrightarrow> frees only H (k p)) \<Longrightarrow> frees only H (GET_PARENT_PATH f k)"
  unfolding GET_PARENT_PATH_def by (rule frees_checked)

lemma frees_CHECK: "frees only {} k \<Longrightarrow> frees only {} (CHECK_PARENT_DIRECTORY_VALID os p f ip n u r k)"
  unfolding CHECK_PARENT_DIRECTORY_VALID_def by (intro frees_bnd calm_rules frees_rules)

section \<open>The handlers\<close>

lemma frees_transmitted:
  assumes "advisory_locks os (e_rpc E) only" and "calling func (e_rpc E) (only {})" and "\<And>a. frees only {} (f a)"
  shows "frees only {} (bnd (TRANSMIT_TO_SECONDATY E func info set_info u a) f)"
  by (rule frees_bnd [OF calm_TRANSMIT [OF advisory_locksD(5) [OF assms(1)] assms(2)] assms(3)])

lemma frees_bnd_UNLOCK:
  "advisory_locks os R only \<Longrightarrow> (\<And>a. frees only {} (f a)) \<Longrightarrow>
   frees only {fd} (bnd (UNLOCK_DIRECTORY os fd u r) f)"
  by (intro frees_then frees_UNLOCK)

lemma frees_bnd_funlock:
  "advisory_locks os R only \<Longrightarrow> (\<And>a. frees only {} (f a)) \<Longrightarrow> frees only {fd} (bnd (flock os fd LOCK_UN) f)"
  by (intro frees_then frees_funlock)

lemma handlers_free:
  fixes E :: "'w env"
  assumes K: "advisory_locks (e_os E) (e_rpc E) only"
  shows "frees only {} (init_rootdir_6_svc E u1 a1 r1)" and "frees only {} (bb_getattr_6_svc E a2 r2)"
    and "frees only {} (bb_access_6_svc E a3 r3)" and "frees only {} (bb_mkdir_6_svc E u4 a4 r4)"
    and "frees only {} (bb_rmdir_6_svc E u5 a5 r5)" and "frees only {} (bb_opendir_6_svc E a6 r6)"
    and "frees only {} (bb_readdir_6_svc E a7 r7)" and "frees only {} (bb_releasedir_6_svc E a8 r8)"
    and "frees only {} (bb_symlink_6_svc E u9 a9 r9)" and "frees only {} (bb_link_6_svc E u10 a10 r10)"
    and "frees only {} (bb_readlink_6_svc E a11 r11)" and "frees only {} (bb_mknod_6_svc E u12 a12 r12)"
    and "frees only {} (bb_truncate_6_svc E u13 a13 r13)" and "frees only {} (bb_unlink_6_svc E u14 a14 r14)"
    and "frees only {} (bb_utime_6_svc E u15 a15 r15)" and "frees only {} (bb_chmod_6_svc E u16 a16 r16)"
    and "frees only {} (bb_chown_6_svc E u17 a17 r17)" and "frees only {} (bb_open_6_svc E a18 r18)"
    and "frees only {} (bb_release_6_svc E a19 r19)" and "frees only {} (bb_read_6_svc E a20 r20)"
    and "frees only {} (bb_write_6_svc E u21 a21 r21)" and "frees only {} (bb_statfs_6_svc E a22 r22)"
proof -
  note locks = frees_LOCK [OF K] frees_flock [OF K] frees_bnd_UNLOCK [OF K] frees_bnd_funlock [OF K]
    frees_UNLOCK [OF K] frees_funlock [OF K]
  note calls = calm_other [OF K] calm_other_int [OF K] calm_other_world [OF K] calm_owners [OF K]
    other_call.intros in_path_calls in_path_calls_too lock_op.distinct
  note stubs = frees_transmitted [OF K] calling_stubs [OF advisory_locksD(5) [OF K]]
  note rules = stubs locks frees_checked frees_PARENT frees_CHECK frees_rules frees_bnd calls
    stops_keeps_bnd calm_rules stop.distinct
  show "frees only {} (init_rootdir_6_svc E u1 a1 r1)"
    unfolding init_rootdir_6_svc_def Let_def by (rule rules)+
  show "frees only {} (bb_getattr_6_svc E a2 r2)"
    unfolding bb_getattr_6_svc_def Let_def by (rule rules)+
  show "frees only {} (bb_access_6_svc E a3 r3)"
    unfolding bb_access_6_svc_def Let_def by (rule rules)+
  show "frees only {} (bb_mkdir_6_svc E u4 a4 r4)"
    unfolding bb_mkdir_6_svc_def Let_def by (rule rules)+
  show "frees only {} (bb_rmdir_6_svc E u5 a5 r5)"
    unfolding bb_rmdir_6_svc_def Let_def by (rule rules)+
  show "frees only {} (bb_opendir_6_svc E a6 r6)"
    unfolding bb_opendir_6_svc_def Let_def by (rule rules)+
  show "frees only {} (bb_readdir_6_svc E a7 r7)"
    unfolding bb_readdir_6_svc_def Let_def by (rule rules)+
  show "frees only {} (bb_releasedir_6_svc E a8 r8)"
    unfolding bb_releasedir_6_svc_def Let_def by (rule rules)+
  show "frees only {} (bb_symlink_6_svc E u9 a9 r9)"
    unfolding bb_symlink_6_svc_def Let_def by (rule rules)+
  show "frees only {} (bb_link_6_svc E u10 a10 r10)"
    unfolding bb_link_6_svc_def Let_def by (rule rules)+
  show "frees only {} (bb_readlink_6_svc E a11 r11)"
    unfolding bb_readlink_6_svc_def Let_def by (rule rules)+
  show "frees only {} (bb_mknod_6_svc E u12 a12 r12)"
    unfolding bb_mknod_6_svc_def Let_def by (rule rules)+
  show "frees only {} (bb_truncate_6_svc E u13 a13 r13)"
    unfolding bb_truncate_6_svc_def Let_def by (rule rules)+
  show "frees only {} (bb_unlink_6_svc E u14 a14 r14)"
    unfolding bb_unlink_6_svc_def Let_def by (rule rules)+
  show "frees only {} (bb_utime_6_svc E u15 a15 r15)"
    unfolding bb_utime_6_svc_def Let_def by (rule rules)+
  show "frees only {} (bb_chmod_6_svc E u16 a16 r16)"
    unfolding bb_chmod_6_svc_def Let_def by (rule rules)+
  show "frees only {} (bb_chown_6_svc E u17 a17 r17)"
    unfolding bb_chown_6_svc_def Let_def by (rule rules)+
  show "frees only {} (bb_open_6_svc E a18 r18)"
    unfolding bb_open_6_svc_def Let_def by (rule rules)+
  show "frees only {} (bb_release_6_svc E a19 r19)"
    unfolding bb_release_6_svc_def Let_def by (rule rules)+
  show "frees only {} (bb_read_6_svc E a20 r20)"
    unfolding bb_read_6_svc_def Let_def by (rule rules)+
  show "frees only {} (bb_write_6_svc E u21 a21 r21)"
    unfolding bb_write_6_svc_def Let_def by (rule rules)+
  show "frees only {} (bb_statfs_6_svc E a22 r22)"
    unfolding bb_statfs_6_svc_def Let_def by (rule rules)+
qed

text \<open>Whether a \<^verbatim>\<open>rename\<close> is from one directory to another.\<close>

definition parent_of :: "string \<Rightarrow> string option" where
  "parent_of path = Option.bind (translate_abspath path) get_parent_path"

lemma rename_free:
  fixes E :: "'w env"
  assumes K: "advisory_locks (e_os E) (e_rpc E) only"
    and same: "parent_of (rename_arg_path a) = parent_of (rename_arg_newpath a)"
  shows "frees only {} (bb_rename_6_svc E u a r)"
proof -
  note locks = frees_LOCK [OF K] frees_bnd_UNLOCK [OF K]
  note calls = calm_other_int [OF K] other_call.intros in_path_calls
  note stubs = frees_transmitted [OF K] calling_stubs [OF advisory_locksD(5) [OF K]]
  have one: "frees only H m"
    if "translate_abspath (rename_arg_path a) = Some f" "get_parent_path f = Some p"
      "translate_abspath (rename_arg_newpath a) = Some g" "get_parent_path g = Some q" "p \<noteq> q"
    for f g p q H and m :: "('w process, rename_ret) prog"
    using same that by (simp add: parent_of_def)
  show ?thesis
    unfolding bb_rename_6_svc_def Let_def
    by (rule stubs frees_checked frees_PARENT frees_CHECK locks frees_bnd frees_rules calls
      | (rule one, assumption, assumption, assumption, assumption, assumption))+
qed

section \<open>The dispatcher\<close>

lemma frees_svc_case:
  assumes "\<And>x a. xa \<lparr>x_op = XDR_DECODE, x_bytes = request\<rparr> argument = (True, x, a) \<Longrightarrow> frees only {} (local a result)"
  shows "frees only {} (svc_case xa xr local argument result request)"
proof -
  obtain ok x a where "xa \<lparr>x_op = XDR_DECODE, x_bytes = request\<rparr> argument = (ok, x, a)" by (metis prod_cases3)
  with assms show ?thesis
    by (cases ok) (auto simp: svc_case_def intro!: frees_then frees_rules)
qed

definition crosses_directories :: "nat \<Rightarrow> char list \<Rightarrow> bool" where
  "crosses_directories rq_proc request \<longleftrightarrow> rq_proc = BB_RENAME \<and>
     (case xdr_rename_arg \<lparr>x_op = XDR_DECODE, x_bytes = request\<rparr> zero_rename_arg of (ok, _, a) \<Rightarrow>
        ok \<and> parent_of (rename_arg_path a) \<noteq> parent_of (rename_arg_newpath a))"

lemma compute_6_frees:
  assumes K: "advisory_locks (e_os E) (e_rpc E) only" and "\<not> crosses_directories rq_proc request"
  shows "frees only {} (compute_6 E G rq_proc request)"
proof -
  have rename: "frees only {} (svc_case xdr_rename_arg xdr_rename_ret (bb_rename_6_svc E (g_rename_ret G))
      zero_rename_arg (g_rename_ret G) request)" if "rq_proc = BB_RENAME"
    using that assms(2) by (intro frees_svc_case rename_free [OF K]) (auto simp: crosses_directories_def)
  show ?thesis
    unfolding compute_6_def by (rule frees_if rename frees_svc_case handlers_free [OF K] frees_ret | assumption)+
qed

section \<open>Sequences of requests\<close>

text \<open>A request that is answered, in whatever state of the stack the dispatcher runs.\<close>

inductive serves :: "'w env \<Rightarrow> 'w process \<Rightarrow> 'w process \<Rightarrow> bool" for E where
  answered: "compute_6 E G rq_proc request s = Inr (reply, t) \<Longrightarrow> \<not> crosses_directories rq_proc request \<Longrightarrow>
    serves E s t"

lemma compute_6_run:
  assumes "advisory_locks (e_os E) (e_rpc E) only" and "\<not> crosses_directories rq_proc request" and "only {} (world s)"
  shows "compute_6 E G rq_proc request s = Inr (reply, t) \<Longrightarrow> only {} (world t)"
    and "compute_6 E G rq_proc request s \<noteq> Inl (Blocked, t)"
  using freesD [OF compute_6_frees [OF assms(1,2)] assms(3), of G] by auto

text \<open>
  C10. A server that starts without locks, after it has answered any sequence of requests, well formed or not,
  has none, and the next request does not wait either: unless one of them is a \<^verbatim>\<open>rename\<close> from one directory
  to another.
\<close>

theorem server_stays_responsive:
  assumes "advisory_locks (e_os E) (e_rpc E) only" and "(serves E)\<^sup>*\<^sup>* s t" and "only {} (world s)"
    and "\<not> crosses_directories rq_proc request"
  shows "only {} (world t) \<and> (\<forall>u. compute_6 E G rq_proc request t \<noteq> Inl (Blocked, u))"
proof -
  from assms(2,3) have "only {} (world t)"
  proof induction
    case (step t u)
    then show ?case by (auto elim!: serves.cases dest: compute_6_run(1) [OF assms(1)])
  qed
  then show ?thesis using compute_6_run(2) [OF assms(1,4)] by blast
qed

section \<open>On the kernel in memory\<close>

text \<open>Every lock is that of an open descriptor, and none outside \<open>H\<close> has one.\<close>

definition m_only :: "c_int set \<Rightarrow> mem \<Rightarrow> bool" where
  "m_only H m \<longleftrightarrow> fst ` set (m_locks m) \<subseteq> H \<inter> m_opened m"

lemma m_only_same: "m_fds m' = m_fds m \<Longrightarrow> m_locks m' = m_locks m \<Longrightarrow> m_only H m' = m_only H m"
  by (simp add: m_only_def m_opened_def)

lemma m_only_open_node: "m_only H m \<Longrightarrow> m_only H (snd (m_open_node i flags m))"
  by (auto simp: m_only_def m_opened_def m_open_node_def Let_def)

lemma m_only_create: "m_only H (snd (m_create p mode data m)) = m_only H m"
  by (rule m_only_same) simp_all

lemma m_only_open: "m_only H m \<Longrightarrow> m_only H (snd (m_open p flags mode m))"
  by (cases "m_create p (32768 OR mode) [] m")
    (use m_only_create [of H p "32768 OR mode" "[]" m] in \<open>auto simp: m_open_def m_only_open_node split: option.split sum.split\<close>)

lemma m_only_opendir:
  assumes "m_only H m"
  shows "m_only H (snd (m_opendir p m))"
proof (cases "m_lookup m p")
  case (Some x)
  obtain i nd where "x = (i, nd)" by (cases x)
  with Some assms m_only_open_node [OF assms, of i 0] show ?thesis
    by (cases "m_open_node i 0 m") (auto simp: m_opendir_def split: sum.split)
qed (use assms in \<open>simp add: m_opendir_def\<close>)

lemma fst_filter_neq: "fst ` set (filter (\<lambda>(f, _). f \<noteq> fd) xs) = fst ` set xs - {fd}"
  by force

lemma m_only_close: "m_only H m \<Longrightarrow> m_only H (snd (m_close fd m))"
  by (cases "map_of (m_fds m) fd")
    (auto simp: m_only_def m_opened_def m_close_def fst_filter_neq simp del: set_filter)

lemma m_only_lock:
  assumes "m_only {} m" and "operation \<noteq> LOCK_UN"
  shows "\<exists>r m'. m_flock fd operation m = Some (r, m') \<and> m_only {fd} m' \<and> (r \<noteq> Inr () \<longrightarrow> m_only {} m')"
proof (cases "map_of (m_fds m) fd")
  case None
  with assms show ?thesis by (auto simp: m_only_def m_flock_def)
next
  case (Some x)
  then have "fd \<in> m_opened m" by (auto simp: m_opened_def dest!: map_of_SomeD intro: rev_image_eqI)
  with assms Some show ?thesis
    by (cases x; cases operation) (auto simp: m_only_def m_flock_def m_opened_def Let_def)
qed

lemma m_only_unlock: "m_only {fd} m \<Longrightarrow> \<exists>r m'. m_flock fd LOCK_UN m = Some (r, m') \<and> m_only {} m'"
proof (cases "map_of (m_fds m) fd")
  case None
  moreover assume "m_only {fd} m"
  moreover from None have "fd \<notin> m_opened m" by (simp add: m_opened_def map_of_eq_None_iff)
  ultimately show ?thesis by (auto simp: m_only_def m_flock_def)
next
  case (Some x)
  moreover assume "m_only {fd} m"
  ultimately show ?thesis
    by (auto simp: m_only_def m_flock_def m_opened_def Let_def filter_empty_conv)
qed

lemma m_only_other:
  assumes "other_call mem_os f" and "m_only H m"
  shows "m_only H (f m)"
  using assms(1)
proof cases
  case (path g)
  then show ?thesis using m_path_calls [of g m] assms(2) m_only_same [of "snd (g m)" m H] by simp
next
  case (fdopendir fd)
  then show ?thesis using assms(2) by (simp add: mem_os_def split: option.split)
next
  case (readdir dp)
  then show ?thesis using assms(2) by (simp add: mem_os_def m_readdir_def split: option.split)
next
  case (pread fd n off)
  then show ?thesis using assms(2) by (simp add: mem_os_def m_pread_def split: option.split)
next
  case (pwrite fd data off)
  then show ?thesis
    using assms(2) by (auto simp: mem_os_def m_pwrite_def m_only_def m_opened_def split: option.split)
qed (use assms(2) in \<open>simp_all add: mem_os_def m_only_opendir m_only_close m_only_open\<close>)

lemma mem_advisory: "advisory_locks (e_os mem_env) (e_rpc mem_env) m_only"
proof -
  have "\<not> cneg fd" if "sys_opendir mem_os p m = (Inr dp, m')" "sys_dirfd mem_os dp m' = Inr fd" for p m dp m' fd
    using m_opendir_law [where p = p and m = m] that by (simp add: mem_os_def)
  moreover have "sys_flock mem_os = m_flock" by (simp add: mem_os_def)
  ultimately show ?thesis
    using m_only_lock m_only_unlock m_only_other
    by (simp add: advisory_locks_def mem_env_def) (simp add: quiet_rpc_def no_rpc_def)
qed

lemma server_stays_responsive_witness:
  "\<exists>t. serves mem_env mem_start t \<and> m_lookup (world t) ''/DFS/d/x'' \<noteq> None \<and> m_locks (world t) = [] \<and>
     (\<forall>u. compute_6 mem_env mem_garbage BB_MKDIR (encoding xdr_mkdir_arg mem_mkdir) t \<noteq> Inl (Blocked, u))"
proof -
  obtain t where "bb_mkdir_6_svc mem_env (g_mkdir_ret mem_garbage) mem_mkdir (g_mkdir_ret mem_garbage) mem_start
      = Inr (\<lparr>mkdir_ret_ret = 0\<rparr>, t)" and t: "m_lookup (world t) ''/DFS/d/x'' \<noteq> None"
    by (rule mem_mkdir_runs)
  then have run: "compute_6 mem_env mem_garbage BB_MKDIR (encoding xdr_mkdir_arg mem_mkdir) mem_start
      = Inr (Reply (encoding xdr_mkdir_ret \<lparr>mkdir_ret_ret = 0\<rparr>), t)"
    by (intro call_mkdir.dispatched mem_mkdir_ok) simp_all
  have other: "\<not> crosses_directories BB_MKDIR request" for request by (simp add: crosses_directories_def)
  from run other have step: "serves mem_env mem_start t" by (rule serves.answered)
  then have "(serves mem_env)\<^sup>*\<^sup>* mem_start t" ..
  moreover have "m_only {} (world mem_start)" by (simp add: m_only_def mem_start_def mem_tree_def)
  ultimately show ?thesis
    using server_stays_responsive [OF mem_advisory _ _ other] step t by (auto simp: m_only_def)
qed

end
