(* ===== verification/Rpc_Requests.thy ===== *)
theory Rpc_Requests
  imports Rpc_Roundtrip
begin

text \<open>
  What a request can make the server do, whoever wrote its bytes. The dispatcher decodes them; what it decodes
  has strings without a null character, of a length that a unit holds, and arrays of the length that the
  handlers count on. So every request is refused, or acts as the encoding of well-formed arguments does.
\<close>

section \<open>What a routine decodes\<close>

text \<open>\<open>decodes_to p P Q\<close>: an object in \<open>P\<close> into which \<open>p\<close> decodes any input is in \<open>Q\<close> afterwards.\<close>

definition decodes_to :: "'a xdrproc \<Rightarrow> ('a \<Rightarrow> bool) \<Rightarrow> ('a \<Rightarrow> bool) \<Rightarrow> bool" where
  "decodes_to p P Q \<longleftrightarrow> (\<forall>s b s' v. x_op s = XDR_DECODE \<longrightarrow> P b \<longrightarrow> p s b = (True, s', v) \<longrightarrow>
     x_op s' = XDR_DECODE \<and> Q v)"

abbreviation (input) yields :: "'a xdrproc \<Rightarrow> ('a \<Rightarrow> bool) \<Rightarrow> bool" where
  "yields p Q \<equiv> decodes_to p (\<lambda>_. True) Q"

lemma get_bytes_op: "get_bytes s n = Some (bs, s') \<Longrightarrow> x_op s' = x_op s \<and> length bs = n"
  by (auto simp: get_bytes_def split: if_splits)

lemma yields_int: "yields xdr_int (\<lambda>_. True)"
  by (auto simp: decodes_to_def xdr_int_def dest: get_bytes_op split: option.splits)

lemma yields_u_int: "yields xdr_u_int (\<lambda>_. True)"
  by (simp add: xdr_u_int_def yields_int)

lemma yields_opaque: "yields (xdr_opaque n) (\<lambda>b. length b = n)"
  by (auto simp: decodes_to_def xdr_opaque_def dest: get_bytes_op split: option.splits)

lemma sendable_cstr: "length cs < 2 ^ 32 \<Longrightarrow> sendable (cstr cs)"
  unfolding sendable_def cstr_def
  by (auto simp: is_cstring_def dest: set_takeWhileD intro: le_less_trans [OF length_takeWhile_le])

lemma yields_string: "yields (xdr_string n) sendable"
  unfolding decodes_to_def
proof (intro allI impI)
  fix s b s' v assume op: "x_op s = XDR_DECODE" and run: "xdr_string n s b = (True, s', v)"
  then obtain bs t cs where t: "get_bytes s 4 = Some (bs, t)"
    and c: "get_bytes t (unat (bytes_unit bs) + padding (unat (bytes_unit bs))) = Some (cs, s')"
    and v: "v = cstr (take (unat (bytes_unit bs)) cs)"
    by (auto simp: xdr_string_def Let_def split: option.splits if_splits)
  have "length (take (unat (bytes_unit bs)) cs) \<le> unat (bytes_unit bs)" by simp
  also have "\<dots> < 2 ^ LENGTH(32)" by (rule unsigned_less)
  finally have "length (take (unat (bytes_unit bs)) cs) < 2 ^ 32" by simp
  with op t c v show "x_op s' = XDR_DECODE \<and> sendable v" by (auto dest!: get_bytes_op intro: sendable_cstr)
qed

lemma decodes_to_member:
  "yields p \<phi> \<Longrightarrow> decodes_to (xdr_member p get upd) (\<lambda>a. \<forall>v. \<phi> v \<longrightarrow> Q (upd (\<lambda>_. v) a)) Q"
  by (fastforce simp: decodes_to_def xdr_member_def split: prod.splits)

lemma decodes_to_Nil: "decodes_to (xdr_all []) Q Q"
  by (simp add: decodes_to_def)

lemma decodes_to_Cons:
  assumes "decodes_to (xdr_all ps) M Q" and "decodes_to p P M"
  shows "decodes_to (xdr_all (p # ps)) P Q"
  unfolding decodes_to_def
proof (intro allI impI)
  fix s b s' v assume "x_op s = XDR_DECODE" and "P b" and run: "xdr_all (p # ps) s b = (True, s', v)"
  moreover from run obtain t a where "p s b = (True, t, a)" and "xdr_all ps t a = (True, s', v)"
    by (auto split: prod.splits if_splits)
  ultimately show "x_op s' = XDR_DECODE \<and> Q v" using assms unfolding decodes_to_def by blast
qed

lemma decodes_to_weaken: "decodes_to p P Q \<Longrightarrow> (\<And>b. P b) \<Longrightarrow> yields p Q"
  by (simp add: decodes_to_def)

lemmas decodes_rules = decodes_to_Cons decodes_to_Nil decodes_to_member yields_int yields_u_int yields_opaque
  yields_string

lemma yields_identity: "yields xdr_identity (\<lambda>_. True)"
  unfolding xdr_identity_def by (rule decodes_to_weaken, (rule decodes_rules)+) simp

section \<open>The arguments of the procedures\<close>

lemma yields_init_arg: "yields xdr_init_arg ok_init_arg"
  unfolding xdr_init_arg_def by (rule decodes_to_weaken, (rule decodes_rules yields_identity)+) (simp add: ok_init_arg_def)

lemma yields_getattr_arg: "yields xdr_getattr_arg ok_getattr_arg"
  unfolding xdr_getattr_arg_def by (rule decodes_to_weaken, (rule decodes_rules yields_identity)+) (simp add: ok_getattr_arg_def)

lemma yields_access_arg: "yields xdr_access_arg ok_access_arg"
  unfolding xdr_access_arg_def by (rule decodes_to_weaken, (rule decodes_rules yields_identity)+) (simp add: ok_access_arg_def)

lemma yields_mkdir_arg: "yields xdr_mkdir_arg ok_mkdir_arg"
  unfolding xdr_mkdir_arg_def by (rule decodes_to_weaken, (rule decodes_rules yields_identity)+) (simp add: ok_mkdir_arg_def)

lemma yields_rmdir_arg: "yields xdr_rmdir_arg ok_rmdir_arg"
  unfolding xdr_rmdir_arg_def by (rule decodes_to_weaken, (rule decodes_rules yields_identity)+) (simp add: ok_rmdir_arg_def)

lemma yields_opendir_arg: "yields xdr_opendir_arg ok_opendir_arg"
  unfolding xdr_opendir_arg_def by (rule decodes_to_weaken, (rule decodes_rules yields_identity)+) (simp add: ok_opendir_arg_def)

lemma yields_readdir_arg: "yields xdr_readdir_arg (\<lambda>_. True)"
  unfolding xdr_readdir_arg_def by (rule decodes_to_weaken, (rule decodes_rules yields_identity)+) (simp)

lemma yields_releasedir_arg: "yields xdr_releasedir_arg (\<lambda>_. True)"
  unfolding xdr_releasedir_arg_def by (rule decodes_to_weaken, (rule decodes_rules yields_identity)+) (simp)

lemma yields_rename_arg: "yields xdr_rename_arg ok_rename_arg"
  unfolding xdr_rename_arg_def by (rule decodes_to_weaken, (rule decodes_rules yields_identity)+) (simp add: ok_rename_arg_def)

lemma yields_symlink_arg: "yields xdr_symlink_arg ok_symlink_arg"
  unfolding xdr_symlink_arg_def by (rule decodes_to_weaken, (rule decodes_rules yields_identity)+) (simp add: ok_symlink_arg_def)

lemma yields_link_arg: "yields xdr_link_arg ok_link_arg"
  unfolding xdr_link_arg_def by (rule decodes_to_weaken, (rule decodes_rules yields_identity)+) (simp add: ok_link_arg_def)

lemma yields_readlink_arg: "yields xdr_readlink_arg ok_readlink_arg"
  unfolding xdr_readlink_arg_def by (rule decodes_to_weaken, (rule decodes_rules yields_identity)+) (simp add: ok_readlink_arg_def)

lemma yields_mknod_arg: "yields xdr_mknod_arg ok_mknod_arg"
  unfolding xdr_mknod_arg_def by (rule decodes_to_weaken, (rule decodes_rules yields_identity)+) (simp add: ok_mknod_arg_def)

lemma yields_truncate_arg: "yields xdr_truncate_arg ok_truncate_arg"
  unfolding xdr_truncate_arg_def by (rule decodes_to_weaken, (rule decodes_rules yields_identity)+) (simp add: ok_truncate_arg_def)

lemma yields_unlink_arg: "yields xdr_unlink_arg ok_unlink_arg"
  unfolding xdr_unlink_arg_def by (rule decodes_to_weaken, (rule decodes_rules yields_identity)+) (simp add: ok_unlink_arg_def)

lemma yields_chmod_arg: "yields xdr_chmod_arg ok_chmod_arg"
  unfolding xdr_chmod_arg_def by (rule decodes_to_weaken, (rule decodes_rules yields_identity)+) (simp add: ok_chmod_arg_def)

lemma yields_chown_arg: "yields xdr_chown_arg ok_chown_arg"
  unfolding xdr_chown_arg_def by (rule decodes_to_weaken, (rule decodes_rules yields_identity)+) (simp add: ok_chown_arg_def)

lemma yields_open_arg: "yields xdr_open_arg ok_open_arg"
  unfolding xdr_open_arg_def by (rule decodes_to_weaken, (rule decodes_rules yields_identity)+) (simp add: ok_open_arg_def)

lemma yields_release_arg: "yields xdr_release_arg ok_release_arg"
  unfolding xdr_release_arg_def by (rule decodes_to_weaken, (rule decodes_rules yields_identity)+) (simp add: ok_release_arg_def)

lemma yields_read_arg: "yields xdr_read_arg ok_read_arg"
  unfolding xdr_read_arg_def by (rule decodes_to_weaken, (rule decodes_rules yields_identity)+) (simp add: ok_read_arg_def)

lemma yields_write_arg: "yields xdr_write_arg ok_write_arg"
  unfolding xdr_write_arg_def by (rule decodes_to_weaken, (rule decodes_rules yields_identity)+) (simp add: ok_write_arg_def)

lemma yields_statfs_arg: "yields xdr_statfs_arg ok_statfs_arg"
  unfolding xdr_statfs_arg_def by (rule decodes_to_weaken, (rule decodes_rules yields_identity)+) (simp add: ok_statfs_arg_def)

lemmas yields_args =
  yields_init_arg yields_getattr_arg yields_access_arg yields_mkdir_arg yields_rmdir_arg yields_opendir_arg
  yields_readdir_arg yields_releasedir_arg yields_rename_arg yields_symlink_arg yields_link_arg
  yields_readlink_arg yields_mknod_arg yields_truncate_arg yields_unlink_arg yields_chmod_arg
  yields_chown_arg yields_open_arg yields_release_arg yields_read_arg yields_write_arg yields_statfs_arg

lemmas codec_args =
  xdr_codec_init_arg xdr_codec_getattr_arg xdr_codec_access_arg xdr_codec_mkdir_arg xdr_codec_rmdir_arg
  xdr_codec_opendir_arg xdr_codec_readdir_arg xdr_codec_releasedir_arg xdr_codec_rename_arg
  xdr_codec_symlink_arg xdr_codec_link_arg xdr_codec_readlink_arg xdr_codec_mknod_arg xdr_codec_truncate_arg
  xdr_codec_unlink_arg xdr_codec_chmod_arg xdr_codec_chown_arg xdr_codec_open_arg xdr_codec_release_arg
  xdr_codec_read_arg xdr_codec_write_arg xdr_codec_statfs_arg

section \<open>The dispatcher\<close>

definition acts_well_formed :: "'w env \<Rightarrow> stack_garbage \<Rightarrow> nat \<Rightarrow> ('a \<Rightarrow> bool) \<Rightarrow> 'a xdrproc \<Rightarrow> bool" where
  "acts_well_formed E G rq_proc ok xarg \<longleftrightarrow> (\<forall>request s.
     compute_6 E G rq_proc request s = Inr (DecodeError, s) \<or>
     (\<exists>a. ok a \<and> compute_6 E G rq_proc request s = compute_6 E G rq_proc (encoding xarg a) s))"

lemma svc_case_acts:
  assumes "xdr_codec xarg ok" and "yields xarg ok"
  shows "svc_case xarg xret local zero result request s = Inr (DecodeError, s) \<or>
    (\<exists>a. ok a \<and> svc_case xarg xret local zero result request s = svc_case xarg xret local zero result (encoding xarg a) s)"
proof -
  obtain d t a where d: "xarg \<lparr>x_op = XDR_DECODE, x_bytes = request\<rparr> zero = (d, t, a)" by (metis prod_cases3)
  show ?thesis
  proof (cases d)
    case True
    with d assms(2) have "ok a" by (auto simp: decodes_to_def dest: spec [of _ "\<lparr>x_op = XDR_DECODE, x_bytes = request\<rparr>"])
    moreover from this have "xarg \<lparr>x_op = XDR_DECODE, x_bytes = encoding xarg a\<rparr> zero
        = (True, \<lparr>x_op = XDR_DECODE, x_bytes = []\<rparr>, a)"
      using xdr_codec.decodes [OF assms(1), of a "\<lparr>x_op = XDR_DECODE, x_bytes = encoding xarg a\<rparr>" "[]" zero] by simp
    ultimately show ?thesis using d True by (intro disjI2 exI [of _ a]) (simp add: svc_case_def)
  qed (simp add: svc_case_def d)
qed

lemma acts_well_formedI:
  assumes "xdr_codec xarg ok" and "yields xarg ok"
    and "\<And>request. compute_6 E G rq_proc request = svc_case xarg xret local zero result request"
  shows "acts_well_formed E G rq_proc ok xarg"
  unfolding acts_well_formed_def assms(3) by (intro allI svc_case_acts assms(1,2))

lemma dispatch_getattr:
  "compute_6 E G BB_GETATTR request = svc_case xdr_getattr_arg (xdr_getattr_ret (e_xdr E)) (bb_getattr_6_svc E)
     zero_getattr_arg (g_getattr_ret G) request"
  by (simp add: compute_6_def)

lemma dispatch_statfs:
  "compute_6 E G BB_STATFS request = svc_case xdr_statfs_arg (xdr_statfs_ret (e_xdr E)) (bb_statfs_6_svc E)
     zero_statfs_arg (g_statfs_ret G) request"
  by (simp add: compute_6_def)

lemmas dispatched_args = dispatch_getattr dispatch_statfs
  call_init.dispatch call_access.dispatch call_mkdir.dispatch call_rmdir.dispatch call_opendir.dispatch
  call_readdir.dispatch call_releasedir.dispatch call_rename.dispatch call_symlink.dispatch
  call_link.dispatch call_readlink.dispatch call_mknod.dispatch call_truncate.dispatch call_unlink.dispatch
  call_chmod.dispatch call_chown.dispatch call_open.dispatch call_release.dispatch call_read.dispatch
  call_write.dispatch

text \<open>
  For \<^verbatim>\<open>utime\<close> the encoding of what was decoded may not exist, since the times that the library reads may be more
  than it can write: the statement is about the decoded arguments themselves.
\<close>

lemma yields_long: "yields (xdr_long L) (\<lambda>v. v \<in> range (xl_get_long L))"
  by (auto simp: decodes_to_def xdr_long_def xdr_wide_def dest: get_bytes_op split: option.splits)

definition decoded_utime_arg :: "xdr_library \<Rightarrow> utime_arg \<Rightarrow> bool" where
  "decoded_utime_arg L a \<longleftrightarrow> sendable (utime_arg_ip a) \<and> sendable (utime_arg_path a) \<and>
     utime_arg_actime a \<in> range (xl_get_long L) \<and> utime_arg_modtime a \<in> range (xl_get_long L)"

lemma yields_utime_arg: "yields (xdr_utime_arg L) (decoded_utime_arg L)"
  unfolding xdr_utime_arg_def
  by (rule decodes_to_weaken, (rule decodes_rules yields_identity yields_long)+) (simp add: decoded_utime_arg_def)

definition utime_acts :: "'w env \<Rightarrow> stack_garbage \<Rightarrow> bool" where
  "utime_acts E G \<longleftrightarrow> (\<forall>request s.
     compute_6 E G BB_UTIME request s = Inr (DecodeError, s) \<or>
     (\<exists>a. decoded_utime_arg (e_xdr E) a \<and> compute_6 E G BB_UTIME request s
        = bnd (bb_utime_6_svc E (g_utime_ret G) a (g_utime_ret G)) (\<lambda>r. ret (Reply (encoding xdr_utime_ret r))) s))"

lemma utime_request_acts: "utime_acts E G"
  unfolding utime_acts_def
proof (intro allI)
  fix request s
  let ?x = "\<lparr>x_op = XDR_DECODE, x_bytes = request\<rparr>"
  have c: "compute_6 E G BB_UTIME request = svc_case (xdr_utime_arg (e_xdr E)) xdr_utime_ret
      (bb_utime_6_svc E (g_utime_ret G)) zero_utime_arg (g_utime_ret G) request"
    by (simp add: compute_6_def)
  obtain d t a where d: "xdr_utime_arg (e_xdr E) ?x zero_utime_arg = (d, t, a)" by (metis prod_cases3)
  have e: "xdr_utime_ret \<lparr>x_op = XDR_ENCODE, x_bytes = []\<rparr> r
      = (True, \<lparr>x_op = XDR_ENCODE, x_bytes = encoding xdr_utime_ret r\<rparr>, r)" for r
    using utime_ret.encodes [of "\<lparr>x_op = XDR_ENCODE, x_bytes = []\<rparr>" r] by (simp add: put_bytes_def)
  show "compute_6 E G BB_UTIME request s = Inr (DecodeError, s) \<or>
     (\<exists>a. decoded_utime_arg (e_xdr E) a \<and> compute_6 E G BB_UTIME request s
        = bnd (bb_utime_6_svc E (g_utime_ret G) a (g_utime_ret G)) (\<lambda>r. ret (Reply (encoding xdr_utime_ret r))) s)"
  proof (cases d)
    case True
    with d yields_utime_arg [of "e_xdr E"] have "decoded_utime_arg (e_xdr E) a"
      by (auto simp: decodes_to_def dest: spec [of _ ?x])
    then show ?thesis using d True by (intro disjI2 exI [of _ a]) (simp add: c svc_case_def e)
  qed (simp add: c svc_case_def d)
qed

text \<open>
  C19. No bytes make the server do more than a client that calls the stubs can: every request for any of the
  procedures is refused without an effect, or does to the server and answers what the encoding of some
  well-formed arguments of the procedure does; a request for \<^verbatim>\<open>utime\<close> does what its handler does on arguments
  with well-formed strings and times that the library reads from four bytes.
\<close>

theorem requests_act_well_formed:
  "acts_well_formed E G INIT_ROOTDIR ok_init_arg xdr_init_arg \<and>
    acts_well_formed E G BB_GETATTR ok_getattr_arg xdr_getattr_arg \<and>
    acts_well_formed E G BB_ACCESS ok_access_arg xdr_access_arg \<and>
    acts_well_formed E G BB_MKDIR ok_mkdir_arg xdr_mkdir_arg \<and>
    acts_well_formed E G BB_RMDIR ok_rmdir_arg xdr_rmdir_arg \<and>
    acts_well_formed E G BB_OPENDIR ok_opendir_arg xdr_opendir_arg \<and>
    acts_well_formed E G BB_READDIR (\<lambda>_. True) xdr_readdir_arg \<and>
    acts_well_formed E G BB_RELEASEDIR (\<lambda>_. True) xdr_releasedir_arg \<and>
    acts_well_formed E G BB_RENAME ok_rename_arg xdr_rename_arg \<and>
    acts_well_formed E G BB_SYMLINK ok_symlink_arg xdr_symlink_arg \<and>
    acts_well_formed E G BB_LINK ok_link_arg xdr_link_arg \<and>
    acts_well_formed E G BB_READLINK ok_readlink_arg xdr_readlink_arg \<and>
    acts_well_formed E G BB_MKNOD ok_mknod_arg xdr_mknod_arg \<and>
    acts_well_formed E G BB_TRUNCATE ok_truncate_arg xdr_truncate_arg \<and>
    acts_well_formed E G BB_UNLINK ok_unlink_arg xdr_unlink_arg \<and>
    acts_well_formed E G BB_CHMOD ok_chmod_arg xdr_chmod_arg \<and>
    acts_well_formed E G BB_CHOWN ok_chown_arg xdr_chown_arg \<and>
    acts_well_formed E G BB_OPEN ok_open_arg xdr_open_arg \<and>
    acts_well_formed E G BB_RELEASE ok_release_arg xdr_release_arg \<and>
    acts_well_formed E G BB_READ ok_read_arg xdr_read_arg \<and>
    acts_well_formed E G BB_WRITE ok_write_arg xdr_write_arg \<and>
    acts_well_formed E G BB_STATFS ok_statfs_arg xdr_statfs_arg \<and> utime_acts E G"
  by (intro conjI; (rule utime_request_acts | rule acts_well_formedI, rule codec_args, rule yields_args, rule dispatched_args))

end
