(* ===== verification/Replication.thy ===== *)
theory Replication
  imports Rpc_Roundtrip Server_Locks
begin

text \<open>
  Two servers: a primary whose world is a pair, its own files and its peer, and a secondary that is
  reached through the transport, the dispatcher and the XDR routines. Two theorems: replication is
  transparent (the primary answers, and changes its files, as a server alone would, whatever the peer and
  the transport do), and replicas that start equal stay equal under any sequence of the twelve procedures
  that are transmitted and name files by paths. \<^verbatim>\<open>write\<close>, which is transmitted too, is the exception.
\<close>

section \<open>A primary and its peer\<close>

definition on_files :: "('w, 'a) sysfun \<Rightarrow> ('w \<times> 'v, 'a) sysfun" where
  "on_files f = (\<lambda>(w, v). case f w of (r, w') \<Rightarrow> (r, (w', v)))"

definition primary_os :: "'w os \<Rightarrow> ('w \<times> 'v) os" where
  "primary_os os = \<lparr>
     sys_lstat = (\<lambda>p s. sys_lstat os p (fst s)),
     sys_access = (\<lambda>p m s. sys_access os p m (fst s)),
     sys_readlink = (\<lambda>p n s. sys_readlink os p n (fst s)),
     sys_statvfs = (\<lambda>p s. sys_statvfs os p (fst s)),
     sys_dirfd = (\<lambda>dp s. sys_dirfd os dp (fst s)),
     sys_mkdir = (\<lambda>p m. on_files (sys_mkdir os p m)),
     sys_rmdir = (\<lambda>p. on_files (sys_rmdir os p)),
     sys_rename = (\<lambda>p q. on_files (sys_rename os p q)),
     sys_symlink = (\<lambda>p q. on_files (sys_symlink os p q)),
     sys_link = (\<lambda>p q. on_files (sys_link os p q)),
     sys_unlink = (\<lambda>p. on_files (sys_unlink os p)),
     sys_mkfifo = (\<lambda>p m. on_files (sys_mkfifo os p m)),
     sys_mknod = (\<lambda>p m d. on_files (sys_mknod os p m d)),
     sys_truncate = (\<lambda>p n. on_files (sys_truncate os p n)),
     sys_utime = (\<lambda>p a m. on_files (sys_utime os p a m)),
     sys_chmod = (\<lambda>p m. on_files (sys_chmod os p m)),
     sys_chown = (\<lambda>p i j. on_files (sys_chown os p i j)),
     sys_lchown = (\<lambda>p i j. on_files (sys_lchown os p i j)),
     sys_open = (\<lambda>p fl m. on_files (sys_open os p fl m)),
     sys_close = (\<lambda>fd. on_files (sys_close os fd)),
     sys_flock = (\<lambda>fd c (w, v). map_option (\<lambda>(r, w'). (r, (w', v))) (sys_flock os fd c w)),
     sys_pread = (\<lambda>fd n i. on_files (sys_pread os fd n i)),
     sys_pwrite = (\<lambda>fd b i. on_files (sys_pwrite os fd b i)),
     sys_opendir = (\<lambda>p. on_files (sys_opendir os p)),
     sys_fdopendir = (\<lambda>fd. on_files (sys_fdopendir os fd)),
     sys_readdir = (\<lambda>dp (w, v). case sys_readdir os dp w of (r, w') \<Rightarrow> (r, (w', v))),
     sys_closedir = (\<lambda>dp. on_files (sys_closedir os dp))\<rparr>"

definition peer_env :: "'w os \<Rightarrow> ('w \<times> 'v) rpc \<Rightarrow> xdr_library \<Rightarrow> ('w \<times> 'v) env" where
  "peer_env os R L = \<lparr>e_os = primary_os os, e_rpc = R, e_xdr = L\<rparr>"

lemma peer_env_simps [simp]:
  "e_os (peer_env os R L) = primary_os os" "e_rpc (peer_env os R L) = R" "e_xdr (peer_env os R L) = L"
  by (simp_all add: peer_env_def)

section \<open>A primary runs as a server alone\<close>

definition mirrors :: "'v \<Rightarrow> ('w \<times> 'v) process \<Rightarrow> 'w process \<Rightarrow> bool" where
  "mirrors v s t \<longleftrightarrow> world s = (world t, v)"

lemma mirror_query:
  "rel_prog (mirrors v) (sys_query (\<lambda>s. f (fst s))) (sys_query f)"
  by (rule rel_progI) (auto simp: mirrors_def sys_query_def sys_call_def split: sum.split)

lemma mirror_call: "rel_prog (mirrors v) (sys_call (on_files f)) (sys_call f)"
  by (rule rel_progI) (auto simp: mirrors_def sys_call_def on_files_def split: sum.split prod.split)

lemma mirror_int: "rel_prog (mirrors v) (sys_int (on_files f)) (sys_int f)"
  unfolding sys_int_def by (intro rel_intros mirror_call)

lemma mirror_flock: "rel_prog (mirrors v) (flock (primary_os os) fd c) (flock os fd c)"
  by (rule rel_progI)
    (auto simp: mirrors_def flock_def primary_os_def sys_int_def sys_call_def bnd_def
      split: option.split sum.split prod.split)

text \<open>Reading \<^verbatim>\<open>errno\<close> right after the call that set it.\<close>

lemma mirror_errno:
  "rel_prog (mirrors v)
     (bnd (sys_int (on_files f)) (\<lambda>x. if cneg x then set_errno_ret u r else ret r'))
     (bnd (sys_int f) (\<lambda>x. if cneg x then set_errno_ret u r else ret r'))"
  by (rule rel_progI)
    (auto simp: mirrors_def sys_int_def sys_call_def on_files_def set_errno_ret_def get_errno_def bnd_def
      split: sum.split prod.split)

lemma mirror_calls:
  "sys_mkdir (primary_os os) p m = on_files (sys_mkdir os p m)"
  "sys_rmdir (primary_os os) p = on_files (sys_rmdir os p)"
  "sys_rename (primary_os os) p q = on_files (sys_rename os p q)"
  "sys_symlink (primary_os os) p q = on_files (sys_symlink os p q)"
  "sys_link (primary_os os) p q = on_files (sys_link os p q)"
  "sys_unlink (primary_os os) p = on_files (sys_unlink os p)"
  "sys_mkfifo (primary_os os) p m = on_files (sys_mkfifo os p m)"
  "sys_mknod (primary_os os) p m d = on_files (sys_mknod os p m d)"
  "sys_truncate (primary_os os) p n = on_files (sys_truncate os p n)"
  "sys_utime (primary_os os) p a b = on_files (sys_utime os p a b)"
  "sys_chmod (primary_os os) p m = on_files (sys_chmod os p m)"
  "sys_chown (primary_os os) p i j = on_files (sys_chown os p i j)"
  "sys_lchown (primary_os os) p i j = on_files (sys_lchown os p i j)"
  "sys_open (primary_os os) p fl m = on_files (sys_open os p fl m)"
  "sys_close (primary_os os) fd = on_files (sys_close os fd)"
  "sys_opendir (primary_os os) p = on_files (sys_opendir os p)"
  "sys_lstat (primary_os os) p = (\<lambda>s. sys_lstat os p (fst s))"
  "sys_access (primary_os os) p m = (\<lambda>s. sys_access os p m (fst s))"
  "sys_dirfd (primary_os os) dp = (\<lambda>s. sys_dirfd os dp (fst s))"
  by (simp_all add: primary_os_def)

lemma mirror_case_sum_option [rel_intros]:
  "rel_prog R m n \<Longrightarrow> (\<And>a. rel_prog R (f a) (g a)) \<Longrightarrow> rel_prog R (case_option m f x) (case_option n g x)"
  by (cases x) simp_all

lemmas mirror_basic = rel_intros mirror_query mirror_call mirror_int mirror_flock

lemma mirror_owner:
  "rel_prog (mirrors v) (set_owner (primary_os os) p ip) (set_owner os p ip)"
  "rel_prog (mirrors v) (set_softlink_owner (primary_os os) p ip) (set_softlink_owner os p ip)"
  "rel_prog (mirrors v) (is_owner (primary_os os) p ip) (is_owner os p ip)"
  unfolding set_owner_def set_softlink_owner_def is_owner_def mirror_calls Let_def
  by (intro mirror_basic)+

lemma mirror_parent:
  "rel_prog (mirrors v) (is_parent_dir_valid (primary_os os) p f ip n) (is_parent_dir_valid os p f ip n)"
  unfolding is_parent_dir_valid_def is_op_valid_def is_rootdir_op_valid_to_delete_def mirror_calls Let_def
  by (intro mirror_basic)

lemma mirror_dlock: "rel_prog (mirrors v) (dlock (primary_os os) p) (dlock os p)"
  unfolding dlock_def mirror_calls by (intro mirror_basic)

lemma mirror_dunlock: "rel_prog (mirrors v) (dunlock (primary_os os) fd) (dunlock os fd)"
  unfolding dunlock_def by (intro mirror_basic)

lemma mirror_PARENT:
  "(\<And>p. rel_prog R (k p) (k' p)) \<Longrightarrow> rel_prog R (GET_PARENT_PATH f k) (GET_PARENT_PATH f k')"
  unfolding GET_PARENT_PATH_def by (intro rel_intros)

lemma mirror_CHECK:
  "rel_prog (mirrors v) k k' \<Longrightarrow>
   rel_prog (mirrors v) (CHECK_PARENT_DIRECTORY_VALID (primary_os os) p f ip n u r k)
     (CHECK_PARENT_DIRECTORY_VALID os p f ip n u r k')"
  unfolding CHECK_PARENT_DIRECTORY_VALID_def by (intro mirror_basic mirror_parent)

lemma mirror_LOCK:
  "(\<And>fd. rel_prog (mirrors v) (k fd) (k' fd)) \<Longrightarrow>
   rel_prog (mirrors v) (LOCK_DIRECTORY (primary_os os) p u r k) (LOCK_DIRECTORY os p u r k')"
  unfolding LOCK_DIRECTORY_def by (intro mirror_basic mirror_dlock)

lemma mirror_UNLOCK:
  "rel_prog (mirrors v) (UNLOCK_DIRECTORY (primary_os os) fd u r) (UNLOCK_DIRECTORY os fd u r)"
  unfolding UNLOCK_DIRECTORY_def by (intro mirror_basic mirror_dunlock)

lemmas mirror_rules = mirror_errno mirror_basic mirror_owner mirror_PARENT mirror_CHECK mirror_LOCK mirror_UNLOCK

section \<open>What a reply is made of\<close>

text \<open>
  The result objects of these procedures have one member, which every path sets: nothing of what the
  dispatcher's union held before reaches the client.
\<close>

lemma set_init_ret: "init_ret_ret_update f (r :: init_ret) = \<lparr>init_ret_ret = f (init_ret_ret r)\<rparr>"
  by (cases r) simp

lemma set_mkdir_ret: "mkdir_ret_ret_update f (r :: mkdir_ret) = \<lparr>mkdir_ret_ret = f (mkdir_ret_ret r)\<rparr>"
  by (cases r) simp

lemma set_rmdir_ret: "rmdir_ret_ret_update f (r :: rmdir_ret) = \<lparr>rmdir_ret_ret = f (rmdir_ret_ret r)\<rparr>"
  by (cases r) simp

lemma set_rename_ret: "rename_ret_ret_update f (r :: rename_ret) = \<lparr>rename_ret_ret = f (rename_ret_ret r)\<rparr>"
  by (cases r) simp

lemma set_symlink_ret: "symlink_ret_ret_update f (r :: symlink_ret) = \<lparr>symlink_ret_ret = f (symlink_ret_ret r)\<rparr>"
  by (cases r) simp

lemma set_link_ret: "link_ret_ret_update f (r :: link_ret) = \<lparr>link_ret_ret = f (link_ret_ret r)\<rparr>"
  by (cases r) simp

lemma set_mknod_ret: "mknod_ret_ret_update f (r :: mknod_ret) = \<lparr>mknod_ret_ret = f (mknod_ret_ret r)\<rparr>"
  by (cases r) simp

lemma set_truncate_ret: "truncate_ret_ret_update f (r :: truncate_ret) = \<lparr>truncate_ret_ret = f (truncate_ret_ret r)\<rparr>"
  by (cases r) simp

lemma set_unlink_ret: "unlink_ret_ret_update f (r :: unlink_ret) = \<lparr>unlink_ret_ret = f (unlink_ret_ret r)\<rparr>"
  by (cases r) simp

lemma set_utime_ret: "utime_ret_ret_update f (r :: utime_ret) = \<lparr>utime_ret_ret = f (utime_ret_ret r)\<rparr>"
  by (cases r) simp

lemma set_chmod_ret: "chmod_ret_ret_update f (r :: chmod_ret) = \<lparr>chmod_ret_ret = f (chmod_ret_ret r)\<rparr>"
  by (cases r) simp

lemma set_chown_ret: "chown_ret_ret_update f (r :: chown_ret) = \<lparr>chown_ret_ret = f (chown_ret_ret r)\<rparr>"
  by (cases r) simp

lemmas set_rets = set_init_ret set_mkdir_ret set_rmdir_ret set_rename_ret set_symlink_ret set_link_ret set_mknod_ret set_truncate_ret set_unlink_ret set_utime_ret set_chmod_ret set_chown_ret

lemmas handler_macros = CHECK_PARENT_DIRECTORY_VALID_def LOCK_DIRECTORY_def UNLOCK_DIRECTORY_def
  GET_PARENT_PATH_def set_errno_ret_def Let_def

lemma no_garbage_init: "init_rootdir_6_svc E u a r = init_rootdir_6_svc E u a r'"
  by (simp add: init_rootdir_6_svc_def handler_macros set_rets bnd_assoc cong: if_cong)

lemma no_garbage_mkdir: "bb_mkdir_6_svc E u a r = bb_mkdir_6_svc E u a r'"
  by (simp add: bb_mkdir_6_svc_def handler_macros set_rets bnd_assoc cong: if_cong)

lemma no_garbage_rmdir: "bb_rmdir_6_svc E u a r = bb_rmdir_6_svc E u a r'"
  by (simp add: bb_rmdir_6_svc_def handler_macros set_rets bnd_assoc cong: if_cong)

lemma no_garbage_rename: "bb_rename_6_svc E u a r = bb_rename_6_svc E u a r'"
  by (simp add: bb_rename_6_svc_def handler_macros set_rets bnd_assoc cong: if_cong)

lemma no_garbage_symlink: "bb_symlink_6_svc E u a r = bb_symlink_6_svc E u a r'"
  by (simp add: bb_symlink_6_svc_def handler_macros set_rets bnd_assoc cong: if_cong)

lemma no_garbage_link: "bb_link_6_svc E u a r = bb_link_6_svc E u a r'"
  by (simp add: bb_link_6_svc_def handler_macros set_rets bnd_assoc cong: if_cong)

lemma no_garbage_mknod: "bb_mknod_6_svc E u a r = bb_mknod_6_svc E u a r'"
  by (simp add: bb_mknod_6_svc_def handler_macros set_rets bnd_assoc cong: if_cong)

lemma no_garbage_truncate: "bb_truncate_6_svc E u a r = bb_truncate_6_svc E u a r'"
  by (simp add: bb_truncate_6_svc_def handler_macros set_rets bnd_assoc cong: if_cong)

lemma no_garbage_unlink: "bb_unlink_6_svc E u a r = bb_unlink_6_svc E u a r'"
  by (simp add: bb_unlink_6_svc_def handler_macros set_rets bnd_assoc cong: if_cong)

lemma no_garbage_utime: "bb_utime_6_svc E u a r = bb_utime_6_svc E u a r'"
  by (simp add: bb_utime_6_svc_def handler_macros set_rets bnd_assoc cong: if_cong)

lemma no_garbage_chmod: "bb_chmod_6_svc E u a r = bb_chmod_6_svc E u a r'"
  by (simp add: bb_chmod_6_svc_def handler_macros set_rets bnd_assoc cong: if_cong)

lemma no_garbage_chown: "bb_chown_6_svc E u a r = bb_chown_6_svc E u a r'"
  by (simp add: bb_chown_6_svc_def handler_macros set_rets bnd_assoc cong: if_cong)

section \<open>A handler is the transmission, then what a server alone does\<close>

lemma split_init:
  assumes "\<not> transmits i"
  shows "init_rootdir_6_svc E u a r = bnd (TRANSMIT_TO_SECONDATY E init_rootdir_6 init_arg_server_info init_arg_server_info_update u a)
    (\<lambda>_. init_rootdir_6_svc E u (a\<lparr>init_arg_server_info := i\<rparr>) r)"
  using assms by (simp add: init_rootdir_6_svc_def TRANSMIT_local Let_def cong: if_cong option.case_cong)

lemma split_mkdir:
  assumes "\<not> transmits i"
  shows "bb_mkdir_6_svc E u a r = bnd (TRANSMIT_TO_SECONDATY E bb_mkdir_6 mkdir_arg_server_info mkdir_arg_server_info_update u a)
    (\<lambda>_. bb_mkdir_6_svc E u (a\<lparr>mkdir_arg_server_info := i\<rparr>) r)"
  using assms by (simp add: bb_mkdir_6_svc_def TRANSMIT_local Let_def cong: if_cong option.case_cong)

lemma split_rmdir:
  assumes "\<not> transmits i"
  shows "bb_rmdir_6_svc E u a r = bnd (TRANSMIT_TO_SECONDATY E bb_rmdir_6 rmdir_arg_server_info rmdir_arg_server_info_update u a)
    (\<lambda>_. bb_rmdir_6_svc E u (a\<lparr>rmdir_arg_server_info := i\<rparr>) r)"
  using assms by (simp add: bb_rmdir_6_svc_def TRANSMIT_local Let_def cong: if_cong option.case_cong)

lemma split_rename:
  assumes "\<not> transmits i"
  shows "bb_rename_6_svc E u a r = bnd (TRANSMIT_TO_SECONDATY E bb_rename_6 rename_arg_server_info rename_arg_server_info_update u a)
    (\<lambda>_. bb_rename_6_svc E u (a\<lparr>rename_arg_server_info := i\<rparr>) r)"
  using assms by (simp add: bb_rename_6_svc_def TRANSMIT_local Let_def cong: if_cong option.case_cong)

lemma split_symlink:
  assumes "\<not> transmits i"
  shows "bb_symlink_6_svc E u a r = bnd (TRANSMIT_TO_SECONDATY E bb_symlink_6 symlink_arg_server_info symlink_arg_server_info_update u a)
    (\<lambda>_. bb_symlink_6_svc E u (a\<lparr>symlink_arg_server_info := i\<rparr>) r)"
  using assms by (simp add: bb_symlink_6_svc_def TRANSMIT_local Let_def cong: if_cong option.case_cong)

lemma split_link:
  assumes "\<not> transmits i"
  shows "bb_link_6_svc E u a r = bnd (TRANSMIT_TO_SECONDATY E bb_link_6 link_arg_server_info link_arg_server_info_update u a)
    (\<lambda>_. bb_link_6_svc E u (a\<lparr>link_arg_server_info := i\<rparr>) r)"
  using assms by (simp add: bb_link_6_svc_def TRANSMIT_local Let_def cong: if_cong option.case_cong)

lemma split_mknod:
  assumes "\<not> transmits i"
  shows "bb_mknod_6_svc E u a r = bnd (TRANSMIT_TO_SECONDATY E bb_mknod_6 mknod_arg_server_info mknod_arg_server_info_update u a)
    (\<lambda>_. bb_mknod_6_svc E u (a\<lparr>mknod_arg_server_info := i\<rparr>) r)"
  using assms by (simp add: bb_mknod_6_svc_def TRANSMIT_local Let_def cong: if_cong option.case_cong)

lemma split_truncate:
  assumes "\<not> transmits i"
  shows "bb_truncate_6_svc E u a r = bnd (TRANSMIT_TO_SECONDATY E bb_truncate_6 truncate_arg_server_info truncate_arg_server_info_update u a)
    (\<lambda>_. bb_truncate_6_svc E u (a\<lparr>truncate_arg_server_info := i\<rparr>) r)"
  using assms by (simp add: bb_truncate_6_svc_def TRANSMIT_local Let_def cong: if_cong option.case_cong)

lemma split_unlink:
  assumes "\<not> transmits i"
  shows "bb_unlink_6_svc E u a r = bnd (TRANSMIT_TO_SECONDATY E bb_unlink_6 unlink_arg_server_info unlink_arg_server_info_update u a)
    (\<lambda>_. bb_unlink_6_svc E u (a\<lparr>unlink_arg_server_info := i\<rparr>) r)"
  using assms by (simp add: bb_unlink_6_svc_def TRANSMIT_local Let_def cong: if_cong option.case_cong)

lemma split_utime:
  assumes "\<not> transmits i"
  shows "bb_utime_6_svc E u a r = bnd (TRANSMIT_TO_SECONDATY E bb_utime_6 utime_arg_server_info utime_arg_server_info_update u a)
    (\<lambda>_. bb_utime_6_svc E u (a\<lparr>utime_arg_server_info := i\<rparr>) r)"
  using assms by (simp add: bb_utime_6_svc_def TRANSMIT_local Let_def cong: if_cong option.case_cong)

lemma split_chmod:
  assumes "\<not> transmits i"
  shows "bb_chmod_6_svc E u a r = bnd (TRANSMIT_TO_SECONDATY E bb_chmod_6 chmod_arg_server_info chmod_arg_server_info_update u a)
    (\<lambda>_. bb_chmod_6_svc E u (a\<lparr>chmod_arg_server_info := i\<rparr>) r)"
  using assms by (simp add: bb_chmod_6_svc_def TRANSMIT_local Let_def cong: if_cong option.case_cong)

lemma split_chown:
  assumes "\<not> transmits i"
  shows "bb_chown_6_svc E u a r = bnd (TRANSMIT_TO_SECONDATY E bb_chown_6 chown_arg_server_info chown_arg_server_info_update u a)
    (\<lambda>_. bb_chown_6_svc E u (a\<lparr>chown_arg_server_info := i\<rparr>) r)"
  using assms by (simp add: bb_chown_6_svc_def TRANSMIT_local Let_def cong: if_cong option.case_cong)

section \<open>Alone, over its part of the pair\<close>

lemma mirror_init:
  assumes "\<not> transmits (init_arg_server_info a)" and "e_os E = os"
  shows "rel_prog (mirrors v) (init_rootdir_6_svc (peer_env os R L) u a r) (init_rootdir_6_svc E u' a r')"
proof -
  have "rel_prog (mirrors v) (init_rootdir_6_svc (peer_env os R L) u a r) (init_rootdir_6_svc E u' a r)"
    unfolding init_rootdir_6_svc_def Let_def TRANSMIT_local [where info = init_arg_server_info, OF assms(1)] bnd_ret assms(2) peer_env_simps mirror_calls
    by (intro mirror_rules)
  then show ?thesis by (simp only: no_garbage_init [of E u' a r' r])
qed

lemma mirror_mkdir:
  assumes "\<not> transmits (mkdir_arg_server_info a)" and "e_os E = os"
  shows "rel_prog (mirrors v) (bb_mkdir_6_svc (peer_env os R L) u a r) (bb_mkdir_6_svc E u' a r')"
proof -
  have "rel_prog (mirrors v) (bb_mkdir_6_svc (peer_env os R L) u a r) (bb_mkdir_6_svc E u' a r)"
    unfolding bb_mkdir_6_svc_def Let_def TRANSMIT_local [where info = mkdir_arg_server_info, OF assms(1)] bnd_ret assms(2) peer_env_simps mirror_calls
    by (intro mirror_rules)
  then show ?thesis by (simp only: no_garbage_mkdir [of E u' a r' r])
qed

lemma mirror_rmdir:
  assumes "\<not> transmits (rmdir_arg_server_info a)" and "e_os E = os"
  shows "rel_prog (mirrors v) (bb_rmdir_6_svc (peer_env os R L) u a r) (bb_rmdir_6_svc E u' a r')"
proof -
  have "rel_prog (mirrors v) (bb_rmdir_6_svc (peer_env os R L) u a r) (bb_rmdir_6_svc E u' a r)"
    unfolding bb_rmdir_6_svc_def Let_def TRANSMIT_local [where info = rmdir_arg_server_info, OF assms(1)] bnd_ret assms(2) peer_env_simps mirror_calls
    by (intro mirror_rules)
  then show ?thesis by (simp only: no_garbage_rmdir [of E u' a r' r])
qed

lemma mirror_rename:
  assumes "\<not> transmits (rename_arg_server_info a)" and "e_os E = os"
  shows "rel_prog (mirrors v) (bb_rename_6_svc (peer_env os R L) u a r) (bb_rename_6_svc E u' a r')"
proof -
  have "rel_prog (mirrors v) (bb_rename_6_svc (peer_env os R L) u a r) (bb_rename_6_svc E u' a r)"
    unfolding bb_rename_6_svc_def Let_def TRANSMIT_local [where info = rename_arg_server_info, OF assms(1)] bnd_ret assms(2) peer_env_simps mirror_calls
    by (intro mirror_rules)
  then show ?thesis by (simp only: no_garbage_rename [of E u' a r' r])
qed

lemma mirror_symlink:
  assumes "\<not> transmits (symlink_arg_server_info a)" and "e_os E = os"
  shows "rel_prog (mirrors v) (bb_symlink_6_svc (peer_env os R L) u a r) (bb_symlink_6_svc E u' a r')"
proof -
  have "rel_prog (mirrors v) (bb_symlink_6_svc (peer_env os R L) u a r) (bb_symlink_6_svc E u' a r)"
    unfolding bb_symlink_6_svc_def Let_def TRANSMIT_local [where info = symlink_arg_server_info, OF assms(1)] bnd_ret assms(2) peer_env_simps mirror_calls
    by (intro mirror_rules)
  then show ?thesis by (simp only: no_garbage_symlink [of E u' a r' r])
qed

lemma mirror_link:
  assumes "\<not> transmits (link_arg_server_info a)" and "e_os E = os"
  shows "rel_prog (mirrors v) (bb_link_6_svc (peer_env os R L) u a r) (bb_link_6_svc E u' a r')"
proof -
  have "rel_prog (mirrors v) (bb_link_6_svc (peer_env os R L) u a r) (bb_link_6_svc E u' a r)"
    unfolding bb_link_6_svc_def Let_def TRANSMIT_local [where info = link_arg_server_info, OF assms(1)] bnd_ret assms(2) peer_env_simps mirror_calls
    by (intro mirror_rules)
  then show ?thesis by (simp only: no_garbage_link [of E u' a r' r])
qed

lemma mirror_mknod:
  assumes "\<not> transmits (mknod_arg_server_info a)" and "e_os E = os"
  shows "rel_prog (mirrors v) (bb_mknod_6_svc (peer_env os R L) u a r) (bb_mknod_6_svc E u' a r')"
proof -
  have "rel_prog (mirrors v) (bb_mknod_6_svc (peer_env os R L) u a r) (bb_mknod_6_svc E u' a r)"
    unfolding bb_mknod_6_svc_def Let_def TRANSMIT_local [where info = mknod_arg_server_info, OF assms(1)] bnd_ret assms(2) peer_env_simps mirror_calls
    by (intro mirror_rules)
  then show ?thesis by (simp only: no_garbage_mknod [of E u' a r' r])
qed

lemma mirror_truncate:
  assumes "\<not> transmits (truncate_arg_server_info a)" and "e_os E = os"
  shows "rel_prog (mirrors v) (bb_truncate_6_svc (peer_env os R L) u a r) (bb_truncate_6_svc E u' a r')"
proof -
  have "rel_prog (mirrors v) (bb_truncate_6_svc (peer_env os R L) u a r) (bb_truncate_6_svc E u' a r)"
    unfolding bb_truncate_6_svc_def Let_def TRANSMIT_local [where info = truncate_arg_server_info, OF assms(1)] bnd_ret assms(2) peer_env_simps mirror_calls
    by (intro mirror_rules)
  then show ?thesis by (simp only: no_garbage_truncate [of E u' a r' r])
qed

lemma mirror_unlink:
  assumes "\<not> transmits (unlink_arg_server_info a)" and "e_os E = os"
  shows "rel_prog (mirrors v) (bb_unlink_6_svc (peer_env os R L) u a r) (bb_unlink_6_svc E u' a r')"
proof -
  have "rel_prog (mirrors v) (bb_unlink_6_svc (peer_env os R L) u a r) (bb_unlink_6_svc E u' a r)"
    unfolding bb_unlink_6_svc_def Let_def TRANSMIT_local [where info = unlink_arg_server_info, OF assms(1)] bnd_ret assms(2) peer_env_simps mirror_calls
    by (intro mirror_rules)
  then show ?thesis by (simp only: no_garbage_unlink [of E u' a r' r])
qed

lemma mirror_utime:
  assumes "\<not> transmits (utime_arg_server_info a)" and "e_os E = os"
  shows "rel_prog (mirrors v) (bb_utime_6_svc (peer_env os R L) u a r) (bb_utime_6_svc E u' a r')"
proof -
  have "rel_prog (mirrors v) (bb_utime_6_svc (peer_env os R L) u a r) (bb_utime_6_svc E u' a r)"
    unfolding bb_utime_6_svc_def Let_def TRANSMIT_local [where info = utime_arg_server_info, OF assms(1)] bnd_ret assms(2) peer_env_simps mirror_calls
    by (intro mirror_rules)
  then show ?thesis by (simp only: no_garbage_utime [of E u' a r' r])
qed

lemma mirror_chmod:
  assumes "\<not> transmits (chmod_arg_server_info a)" and "e_os E = os"
  shows "rel_prog (mirrors v) (bb_chmod_6_svc (peer_env os R L) u a r) (bb_chmod_6_svc E u' a r')"
proof -
  have "rel_prog (mirrors v) (bb_chmod_6_svc (peer_env os R L) u a r) (bb_chmod_6_svc E u' a r)"
    unfolding bb_chmod_6_svc_def Let_def TRANSMIT_local [where info = chmod_arg_server_info, OF assms(1)] bnd_ret assms(2) peer_env_simps mirror_calls
    by (intro mirror_rules)
  then show ?thesis by (simp only: no_garbage_chmod [of E u' a r' r])
qed

lemma mirror_chown:
  assumes "\<not> transmits (chown_arg_server_info a)" and "e_os E = os"
  shows "rel_prog (mirrors v) (bb_chown_6_svc (peer_env os R L) u a r) (bb_chown_6_svc E u' a r')"
proof -
  have "rel_prog (mirrors v) (bb_chown_6_svc (peer_env os R L) u a r) (bb_chown_6_svc E u' a r)"
    unfolding bb_chown_6_svc_def Let_def TRANSMIT_local [where info = chown_arg_server_info, OF assms(1)] bnd_ret assms(2) peer_env_simps mirror_calls
    by (intro mirror_rules)
  then show ?thesis by (simp only: no_garbage_chown [of E u' a r' r])
qed

section \<open>Replication is transparent\<close>

text \<open>A transport that leaves the primary's files alone, and the part of the pair a theorem speaks of.\<close>

definition peer_only :: "('w \<times> 'v) rpc \<Rightarrow> bool" where
  "peer_only R \<longleftrightarrow>
     (\<forall>host proto s. fst (snd (rpc_clnt_create R host proto s)) = fst s) \<and>
     (\<forall>c n bs s. fst (snd (rpc_send R c n bs s)) = fst s) \<and>
     (\<forall>c s. fst (rpc_clnt_destroy R c s) = fst s)"

definition same_files :: "('w \<times> 'v) process \<Rightarrow> 'w process \<Rightarrow> bool" where
  "same_files s t \<longleftrightarrow> fst (world s) = world t"

lemma clnt_call_peer:
  assumes "peer_only R"
  shows "fst (snd (clnt_call R c n xa a xr r s)) = fst s"
proof -
  obtain ok t a' where x: "xa \<lparr>x_op = XDR_ENCODE, x_bytes = []\<rparr> a = (ok, t, a')"
    by (cases "xa \<lparr>x_op = XDR_ENCODE, x_bytes = []\<rparr> a") auto
  have "fst (snd (rpc_send R c n (x_bytes t) s)) = fst s" using assms by (cases s) (simp add: peer_only_def)
  then show ?thesis
    by (cases "rpc_send R c n (x_bytes t) s") (auto simp: clnt_call_def x split: prod.split sum.split)
qed

definition stub_peer :: "('w \<times> 'v, 'a, 'r) stub \<Rightarrow> xdr_library \<Rightarrow> ('w \<times> 'v) rpc \<Rightarrow> bool" where
  "stub_peer stub L R \<longleftrightarrow> (\<forall>b u c s. fst (snd (stub L R b u c s)) = fst s)"

lemma TRANSMIT_peer:
  assumes "peer_only R" and "stub_peer stub L R"
  shows "\<exists>s'. TRANSMIT_TO_SECONDATY (peer_env os R L) stub info set_info u a s = Inr ((), s') \<and>
    fst (world s') = fst (world s)"
proof (cases "is_master (info a) \<noteq> 0 \<and> is_degraded (info a) = 0")
  case True
  obtain c w where create: "rpc_clnt_create R ''10.148.54.200'' ''udp'' (world s) = (c, w)"
    by (cases "rpc_clnt_create R ''10.148.54.200'' ''udp'' (world s)")
  then have w: "fst w = fst (world s)"
    using assms(1) unfolding peer_only_def by (metis snd_conv)
  show ?thesis
  proof (cases c)
    case None
    with True create w show ?thesis
      by (simp add: TRANSMIT_TO_SECONDATY_def connect_server_def bnd_def on_world_def)
  next
    case (Some h)
    obtain x w' where send: "stub L R (set_info (is_master_update (\<lambda>_. 0)) a) u h w = (x, w')"
      by (cases "stub L R (set_info (is_master_update (\<lambda>_. 0)) a) u h w")
    then have "fst w' = fst w" using assms(2) unfolding stub_peer_def by (metis snd_conv)
    moreover have "fst (rpc_clnt_destroy R h w') = fst w'" using assms(1) by (cases w') (simp add: peer_only_def)
    ultimately show ?thesis
      using True create w Some send
      by (simp add: TRANSMIT_TO_SECONDATY_def connect_server_def bnd_def on_world_def)
  qed
qed (auto simp: TRANSMIT_TO_SECONDATY_def)

lemma transparent:
  assumes "peer_only R" and "stub_peer stub L R"
    and m: "m = bnd (TRANSMIT_TO_SECONDATY (peer_env os R L) stub info set_info u a) (\<lambda>_. m')"
    and mirror: "\<And>v. rel_prog (mirrors v) m' n"
  shows "rel_prog same_files m n"
proof (rule rel_progI)
  fix s :: "('a \<times> 'b) process" and t :: "'a process" assume st: "same_files s t"
  obtain s' where run: "TRANSMIT_TO_SECONDATY (peer_env os R L) stub info set_info u a s = Inr ((), s')"
    and w: "fst (world s') = fst (world s)" using TRANSMIT_peer [OF assms(1,2)] by blast
  have "mirrors (snd (world s')) s' t" using st w by (simp add: mirrors_def same_files_def prod_eq_iff)
  with mirror have "rel_end (mirrors (snd (world s'))) (m' s') (n t)" by (rule rel_progD)
  then have "rel_end same_files (m' s') (n t)"
    by (cases rule: rel_end_cases) (auto simp: mirrors_def same_files_def)
  then show "rel_end same_files (m s) (n t)" by (simp add: m bnd_def run)
qed

lemma transparent_init:
  assumes "peer_only R" and "e_os E = os" and "\<not> transmits i"
  shows "rel_prog same_files (init_rootdir_6_svc (peer_env os R L) u a r) (init_rootdir_6_svc E u' (a\<lparr>init_arg_server_info := i\<rparr>) r')"
  using assms(2,3)
  by (intro transparent [OF assms(1) _ split_init [OF assms(3)]] mirror_init)
    (simp_all add: stub_peer_def init_rootdir_6_def clnt_call_peer assms(1))

lemma transparent_mkdir:
  assumes "peer_only R" and "e_os E = os" and "\<not> transmits i"
  shows "rel_prog same_files (bb_mkdir_6_svc (peer_env os R L) u a r) (bb_mkdir_6_svc E u' (a\<lparr>mkdir_arg_server_info := i\<rparr>) r')"
  using assms(2,3)
  by (intro transparent [OF assms(1) _ split_mkdir [OF assms(3)]] mirror_mkdir)
    (simp_all add: stub_peer_def bb_mkdir_6_def clnt_call_peer assms(1))

lemma transparent_rmdir:
  assumes "peer_only R" and "e_os E = os" and "\<not> transmits i"
  shows "rel_prog same_files (bb_rmdir_6_svc (peer_env os R L) u a r) (bb_rmdir_6_svc E u' (a\<lparr>rmdir_arg_server_info := i\<rparr>) r')"
  using assms(2,3)
  by (intro transparent [OF assms(1) _ split_rmdir [OF assms(3)]] mirror_rmdir)
    (simp_all add: stub_peer_def bb_rmdir_6_def clnt_call_peer assms(1))

lemma transparent_rename:
  assumes "peer_only R" and "e_os E = os" and "\<not> transmits i"
  shows "rel_prog same_files (bb_rename_6_svc (peer_env os R L) u a r) (bb_rename_6_svc E u' (a\<lparr>rename_arg_server_info := i\<rparr>) r')"
  using assms(2,3)
  by (intro transparent [OF assms(1) _ split_rename [OF assms(3)]] mirror_rename)
    (simp_all add: stub_peer_def bb_rename_6_def clnt_call_peer assms(1))

lemma transparent_symlink:
  assumes "peer_only R" and "e_os E = os" and "\<not> transmits i"
  shows "rel_prog same_files (bb_symlink_6_svc (peer_env os R L) u a r) (bb_symlink_6_svc E u' (a\<lparr>symlink_arg_server_info := i\<rparr>) r')"
  using assms(2,3)
  by (intro transparent [OF assms(1) _ split_symlink [OF assms(3)]] mirror_symlink)
    (simp_all add: stub_peer_def bb_symlink_6_def clnt_call_peer assms(1))

lemma transparent_link:
  assumes "peer_only R" and "e_os E = os" and "\<not> transmits i"
  shows "rel_prog same_files (bb_link_6_svc (peer_env os R L) u a r) (bb_link_6_svc E u' (a\<lparr>link_arg_server_info := i\<rparr>) r')"
  using assms(2,3)
  by (intro transparent [OF assms(1) _ split_link [OF assms(3)]] mirror_link)
    (simp_all add: stub_peer_def bb_link_6_def clnt_call_peer assms(1))

lemma transparent_mknod:
  assumes "peer_only R" and "e_os E = os" and "\<not> transmits i"
  shows "rel_prog same_files (bb_mknod_6_svc (peer_env os R L) u a r) (bb_mknod_6_svc E u' (a\<lparr>mknod_arg_server_info := i\<rparr>) r')"
  using assms(2,3)
  by (intro transparent [OF assms(1) _ split_mknod [OF assms(3)]] mirror_mknod)
    (simp_all add: stub_peer_def bb_mknod_6_def clnt_call_peer assms(1))

lemma transparent_truncate:
  assumes "peer_only R" and "e_os E = os" and "\<not> transmits i"
  shows "rel_prog same_files (bb_truncate_6_svc (peer_env os R L) u a r) (bb_truncate_6_svc E u' (a\<lparr>truncate_arg_server_info := i\<rparr>) r')"
  using assms(2,3)
  by (intro transparent [OF assms(1) _ split_truncate [OF assms(3)]] mirror_truncate)
    (simp_all add: stub_peer_def bb_truncate_6_def clnt_call_peer assms(1))

lemma transparent_unlink:
  assumes "peer_only R" and "e_os E = os" and "\<not> transmits i"
  shows "rel_prog same_files (bb_unlink_6_svc (peer_env os R L) u a r) (bb_unlink_6_svc E u' (a\<lparr>unlink_arg_server_info := i\<rparr>) r')"
  using assms(2,3)
  by (intro transparent [OF assms(1) _ split_unlink [OF assms(3)]] mirror_unlink)
    (simp_all add: stub_peer_def bb_unlink_6_def clnt_call_peer assms(1))

lemma transparent_utime:
  assumes "peer_only R" and "e_os E = os" and "\<not> transmits i"
  shows "rel_prog same_files (bb_utime_6_svc (peer_env os R L) u a r) (bb_utime_6_svc E u' (a\<lparr>utime_arg_server_info := i\<rparr>) r')"
  using assms(2,3)
  by (intro transparent [OF assms(1) _ split_utime [OF assms(3)]] mirror_utime)
    (simp_all add: stub_peer_def bb_utime_6_def clnt_call_peer assms(1))

lemma transparent_chmod:
  assumes "peer_only R" and "e_os E = os" and "\<not> transmits i"
  shows "rel_prog same_files (bb_chmod_6_svc (peer_env os R L) u a r) (bb_chmod_6_svc E u' (a\<lparr>chmod_arg_server_info := i\<rparr>) r')"
  using assms(2,3)
  by (intro transparent [OF assms(1) _ split_chmod [OF assms(3)]] mirror_chmod)
    (simp_all add: stub_peer_def bb_chmod_6_def clnt_call_peer assms(1))

lemma transparent_chown:
  assumes "peer_only R" and "e_os E = os" and "\<not> transmits i"
  shows "rel_prog same_files (bb_chown_6_svc (peer_env os R L) u a r) (bb_chown_6_svc E u' (a\<lparr>chown_arg_server_info := i\<rparr>) r')"
  using assms(2,3)
  by (intro transparent [OF assms(1) _ split_chown [OF assms(3)]] mirror_chown)
    (simp_all add: stub_peer_def bb_chown_6_def clnt_call_peer assms(1))

lemmas transparent_ops = transparent_init transparent_mkdir transparent_rmdir transparent_rename transparent_symlink transparent_link transparent_mknod transparent_truncate transparent_unlink transparent_utime transparent_chmod transparent_chown

text \<open>
  C4. Replication is transparent: for each of the twelve procedures, whatever the request's server
  information, whatever the peer and the transport do (answer, fail, time out), the primary ends as a
  server alone ends on the same request marked as not to be transmitted: the same reply, or the same
  stop, and the same files.
\<close>

theorem replication_is_transparent:
  assumes "peer_only R" and "e_os E = os" and "\<not> transmits i"
  shows "rel_prog same_files (init_rootdir_6_svc (peer_env os R L) u_init a_init r_init)
      (init_rootdir_6_svc E u_init' (a_init\<lparr>init_arg_server_info := i\<rparr>) r_init') \<and>
    rel_prog same_files (bb_mkdir_6_svc (peer_env os R L) u_mkdir a_mkdir r_mkdir)
      (bb_mkdir_6_svc E u_mkdir' (a_mkdir\<lparr>mkdir_arg_server_info := i\<rparr>) r_mkdir') \<and>
    rel_prog same_files (bb_rmdir_6_svc (peer_env os R L) u_rmdir a_rmdir r_rmdir)
      (bb_rmdir_6_svc E u_rmdir' (a_rmdir\<lparr>rmdir_arg_server_info := i\<rparr>) r_rmdir') \<and>
    rel_prog same_files (bb_rename_6_svc (peer_env os R L) u_rename a_rename r_rename)
      (bb_rename_6_svc E u_rename' (a_rename\<lparr>rename_arg_server_info := i\<rparr>) r_rename') \<and>
    rel_prog same_files (bb_symlink_6_svc (peer_env os R L) u_symlink a_symlink r_symlink)
      (bb_symlink_6_svc E u_symlink' (a_symlink\<lparr>symlink_arg_server_info := i\<rparr>) r_symlink') \<and>
    rel_prog same_files (bb_link_6_svc (peer_env os R L) u_link a_link r_link)
      (bb_link_6_svc E u_link' (a_link\<lparr>link_arg_server_info := i\<rparr>) r_link') \<and>
    rel_prog same_files (bb_mknod_6_svc (peer_env os R L) u_mknod a_mknod r_mknod)
      (bb_mknod_6_svc E u_mknod' (a_mknod\<lparr>mknod_arg_server_info := i\<rparr>) r_mknod') \<and>
    rel_prog same_files (bb_truncate_6_svc (peer_env os R L) u_truncate a_truncate r_truncate)
      (bb_truncate_6_svc E u_truncate' (a_truncate\<lparr>truncate_arg_server_info := i\<rparr>) r_truncate') \<and>
    rel_prog same_files (bb_unlink_6_svc (peer_env os R L) u_unlink a_unlink r_unlink)
      (bb_unlink_6_svc E u_unlink' (a_unlink\<lparr>unlink_arg_server_info := i\<rparr>) r_unlink') \<and>
    rel_prog same_files (bb_utime_6_svc (peer_env os R L) u_utime a_utime r_utime)
      (bb_utime_6_svc E u_utime' (a_utime\<lparr>utime_arg_server_info := i\<rparr>) r_utime') \<and>
    rel_prog same_files (bb_chmod_6_svc (peer_env os R L) u_chmod a_chmod r_chmod)
      (bb_chmod_6_svc E u_chmod' (a_chmod\<lparr>chmod_arg_server_info := i\<rparr>) r_chmod') \<and>
    rel_prog same_files (bb_chown_6_svc (peer_env os R L) u_chown a_chown r_chown)
      (bb_chown_6_svc E u_chown' (a_chown\<lparr>chown_arg_server_info := i\<rparr>) r_chown')"
  by (intro conjI transparent_ops assms)

section \<open>Replicas stay equal\<close>

text \<open>The transport between the two servers: a request to the secondary is served by \<open>compute_6\<close>.\<close>

definition secondary_rpc :: "'w env \<Rightarrow> stack_garbage \<Rightarrow> ('v \<times> 'w process) rpc" where
  "secondary_rpc E G = \<lparr>rpc_clnt_create = (\<lambda>host proto s. (Some 0, s)),
     rpc_send = (\<lambda>c n bs (w, q). case serve E G n bs q of (r, q') \<Rightarrow> (r, (w, q'))),
     rpc_clnt_destroy = (\<lambda>c s. s), rpc_limit = (\<lambda>c. 8800)\<rparr>"

definition primary_env :: "'w env \<Rightarrow> stack_garbage \<Rightarrow> ('w \<times> 'w process) env" where
  "primary_env E G = peer_env (e_os E) (secondary_rpc E G) (e_xdr E)"

definition in_sync :: "('w \<times> 'w process) process \<Rightarrow> bool" where
  "in_sync s \<longleftrightarrow> fst (world s) = world (snd (world s))"

definition fits_datagram :: "'a xdrproc \<Rightarrow> 'a \<Rightarrow> bool" where
  "fits_datagram xarg a \<longleftrightarrow> length (encoding xarg a) \<le> 8800"

abbreviation (input) demoted :: "identity \<Rightarrow> identity" where
  "demoted i \<equiv> i\<lparr>is_master := 0\<rparr>"

text \<open>
  The contract of a transmitted procedure: its stub is a call of it, its arguments carry the server
  information. Its transmission leaves the secondary as the handler of the demoted request leaves it.
\<close>

locale transmitted_op = rpc_procedure E G proc xarg ok_arg xret "\<lambda>_. True" handler zero garbage local
  for E :: "'w env" and G proc and xarg :: "'a xdrproc" and ok_arg and xret :: "'r xdrproc"
    and handler zero garbage local +
  fixes stub :: "('v \<times> 'w process, 'a, 'r) stub"
    and info :: "'a \<Rightarrow> identity" and set_info :: "(identity \<Rightarrow> identity) \<Rightarrow> 'a \<Rightarrow> 'a"
  assumes stub: "stub (e_xdr E) R a r c = clnt_call R c proc xarg a xret r"
    and info: "info (set_info f a) = f (info a)"
    and update: "set_info f a = set_info (\<lambda>_. f (info a)) a"
    and ok_info: "ok_arg a \<Longrightarrow> ok_arg (set_info f a)"
begin

abbreviation (input) demote :: "'a \<Rightarrow> 'a" where
  "demote a \<equiv> set_info (is_master_update (\<lambda>_. 0)) a"

lemma demote_eq: "set_info (\<lambda>_. demoted (info a)) a = demote a"
  using update [of "is_master_update (\<lambda>_. 0)" a] by simp

lemma transmission:
  assumes "ok_arg a" and "transmits (info a)" and "fits_datagram xarg (demote a)" and s: "world s = (w, q)"
    and "e_rpc P = secondary_rpc E G" and "e_xdr P = e_xdr E"
  shows "TRANSMIT_TO_SECONDATY P stub info set_info u a s
     = Inr ((), s\<lparr>world := (w, end_state (handler (demote a) q))\<rparr>)"
proof -
  let ?q = "end_state (handler (demote a) q)"
  have okb: "ok_arg (demote a)" using assms(1) by (rule ok_info)
  have "snd (clnt_call (secondary_rpc E G) 0 proc xarg (demote a) xret u (w, q))
      = snd (rpc_send (secondary_rpc E G) 0 proc (encoding xarg (demote a)) (w, q))"
    using assms(3) by (intro called_state [OF okb]) (simp add: secondary_rpc_def fits_datagram_def)
  also have "\<dots> = (w, ?q)"
    using served_end [OF okb, of q] by (cases "serve E G proc (encoding xarg (demote a)) q") (simp add: secondary_rpc_def)
  finally obtain x where call: "clnt_call (secondary_rpc E G) 0 proc xarg (demote a) xret u (w, q) = (x, (w, ?q))"
    by (metis prod.collapse)
  have connect: "rpc_clnt_create (secondary_rpc E G) host proto y = (Some 0, y)" for host proto y
    by (simp add: secondary_rpc_def)
  have close: "rpc_clnt_destroy (secondary_rpc E G) c y = y" for c y by (simp add: secondary_rpc_def)
  show ?thesis
    using assms(2,5,6) s by (simp add: TRANSMIT_TO_SECONDATY_def transmits_def connect_server_def bnd_def
      on_world_def stub call connect close)
qed

end

text \<open>
  The contract of a replicated procedure, moreover: its handler is the transmission followed by its
  handler on the demoted request, and alone it does what the secondary does.
\<close>

locale replicated_op = transmitted_op E G proc xarg ok_arg xret handler zero garbage local stub info set_info
  for E :: "'w env" and G proc and xarg :: "'a xdrproc" and ok_arg and xret :: "'r xdrproc"
    and handler zero garbage local and stub :: "('w \<times> 'w process, 'a, 'r) stub" and info set_info +
  fixes psvc :: "('w \<times> 'w process) env \<Rightarrow> 'r \<Rightarrow> 'a \<Rightarrow> 'r \<Rightarrow> (('w \<times> 'w process) process, 'r) prog"
  assumes split: "\<not> transmits i \<Longrightarrow> psvc P u a r =
      bnd (TRANSMIT_TO_SECONDATY P stub info set_info u a) (\<lambda>_. psvc P u (set_info (\<lambda>_. i) a) r)"
    and mirror: "\<not> transmits (info a) \<Longrightarrow>
      rel_prog (mirrors v) (psvc (peer_env (e_os E) R L) u a r) (handler a)"
begin

lemma replicated:
  assumes "ok_arg a" and "transmits (info a)" and "fits_datagram xarg (demote a)" and "in_sync s"
  shows "in_sync (end_state (psvc (primary_env E G) u a r s))"
proof -
  let ?P = "primary_env E G"
  obtain w q where s: "world s = (w, q)" by (cases "world s")
  let ?q = "end_state (handler (demote a) q)"
  have w: "world q = w" using assms(4) s by (simp add: in_sync_def)
  have nt: "\<not> transmits (info (demote a))" "\<not> transmits (demoted (info a))" by (simp_all add: info transmits_def)
  have run: "psvc ?P u a r s = psvc ?P u (demote a) r (s\<lparr>world := (w, ?q)\<rparr>)"
    by (subst split [OF nt(2)])
      (simp add: bnd_def demote_eq transmission [OF assms(1-3) s] primary_env_def)
  have "rel_end (mirrors ?q) (psvc ?P u (demote a) r (s\<lparr>world := (w, ?q)\<rparr>)) (handler (demote a) q)"
    unfolding primary_env_def by (rule rel_progD [OF mirror [OF nt(1)]]) (simp add: mirrors_def w)
  then have "mirrors ?q (end_state (psvc ?P u a r s)) ?q"
    unfolding run by (cases rule: rel_end_cases) simp_all
  then show ?thesis by (simp add: in_sync_def mirrors_def)
qed

end

interpretation repl_init: replicated_op E G INIT_ROOTDIR xdr_init_arg ok_init_arg xdr_init_ret
    "\<lambda>a. init_rootdir_6_svc E (g_init_ret G) a (g_init_ret G)" zero_init_arg "g_init_ret G" "init_rootdir_6_svc E (g_init_ret G)"
    init_rootdir_6 init_arg_server_info init_arg_server_info_update init_rootdir_6_svc
  for E :: "'w env" and G
  by (intro replicated_op.intro transmitted_op.intro transmitted_op_axioms.intro
      call_init.rpc_procedure_axioms replicated_op_axioms.intro split_init mirror_init)
    (simp_all add: init_rootdir_6_def fun_eq_iff ok_init_arg_def)

interpretation repl_mkdir: replicated_op E G BB_MKDIR xdr_mkdir_arg ok_mkdir_arg xdr_mkdir_ret
    "\<lambda>a. bb_mkdir_6_svc E (g_mkdir_ret G) a (g_mkdir_ret G)" zero_mkdir_arg "g_mkdir_ret G" "bb_mkdir_6_svc E (g_mkdir_ret G)"
    bb_mkdir_6 mkdir_arg_server_info mkdir_arg_server_info_update bb_mkdir_6_svc
  for E :: "'w env" and G
  by (intro replicated_op.intro transmitted_op.intro transmitted_op_axioms.intro
      call_mkdir.rpc_procedure_axioms replicated_op_axioms.intro split_mkdir mirror_mkdir)
    (simp_all add: bb_mkdir_6_def fun_eq_iff ok_mkdir_arg_def)

interpretation repl_rmdir: replicated_op E G BB_RMDIR xdr_rmdir_arg ok_rmdir_arg xdr_rmdir_ret
    "\<lambda>a. bb_rmdir_6_svc E (g_rmdir_ret G) a (g_rmdir_ret G)" zero_rmdir_arg "g_rmdir_ret G" "bb_rmdir_6_svc E (g_rmdir_ret G)"
    bb_rmdir_6 rmdir_arg_server_info rmdir_arg_server_info_update bb_rmdir_6_svc
  for E :: "'w env" and G
  by (intro replicated_op.intro transmitted_op.intro transmitted_op_axioms.intro
      call_rmdir.rpc_procedure_axioms replicated_op_axioms.intro split_rmdir mirror_rmdir)
    (simp_all add: bb_rmdir_6_def fun_eq_iff ok_rmdir_arg_def)

interpretation repl_rename: replicated_op E G BB_RENAME xdr_rename_arg ok_rename_arg xdr_rename_ret
    "\<lambda>a. bb_rename_6_svc E (g_rename_ret G) a (g_rename_ret G)" zero_rename_arg "g_rename_ret G" "bb_rename_6_svc E (g_rename_ret G)"
    bb_rename_6 rename_arg_server_info rename_arg_server_info_update bb_rename_6_svc
  for E :: "'w env" and G
  by (intro replicated_op.intro transmitted_op.intro transmitted_op_axioms.intro
      call_rename.rpc_procedure_axioms replicated_op_axioms.intro split_rename mirror_rename)
    (simp_all add: bb_rename_6_def fun_eq_iff ok_rename_arg_def)

interpretation repl_symlink: replicated_op E G BB_SYMLINK xdr_symlink_arg ok_symlink_arg xdr_symlink_ret
    "\<lambda>a. bb_symlink_6_svc E (g_symlink_ret G) a (g_symlink_ret G)" zero_symlink_arg "g_symlink_ret G" "bb_symlink_6_svc E (g_symlink_ret G)"
    bb_symlink_6 symlink_arg_server_info symlink_arg_server_info_update bb_symlink_6_svc
  for E :: "'w env" and G
  by (intro replicated_op.intro transmitted_op.intro transmitted_op_axioms.intro
      call_symlink.rpc_procedure_axioms replicated_op_axioms.intro split_symlink mirror_symlink)
    (simp_all add: bb_symlink_6_def fun_eq_iff ok_symlink_arg_def)

interpretation repl_link: replicated_op E G BB_LINK xdr_link_arg ok_link_arg xdr_link_ret
    "\<lambda>a. bb_link_6_svc E (g_link_ret G) a (g_link_ret G)" zero_link_arg "g_link_ret G" "bb_link_6_svc E (g_link_ret G)"
    bb_link_6 link_arg_server_info link_arg_server_info_update bb_link_6_svc
  for E :: "'w env" and G
  by (intro replicated_op.intro transmitted_op.intro transmitted_op_axioms.intro
      call_link.rpc_procedure_axioms replicated_op_axioms.intro split_link mirror_link)
    (simp_all add: bb_link_6_def fun_eq_iff ok_link_arg_def)

interpretation repl_mknod: replicated_op E G BB_MKNOD xdr_mknod_arg ok_mknod_arg xdr_mknod_ret
    "\<lambda>a. bb_mknod_6_svc E (g_mknod_ret G) a (g_mknod_ret G)" zero_mknod_arg "g_mknod_ret G" "bb_mknod_6_svc E (g_mknod_ret G)"
    bb_mknod_6 mknod_arg_server_info mknod_arg_server_info_update bb_mknod_6_svc
  for E :: "'w env" and G
  by (intro replicated_op.intro transmitted_op.intro transmitted_op_axioms.intro
      call_mknod.rpc_procedure_axioms replicated_op_axioms.intro split_mknod mirror_mknod)
    (simp_all add: bb_mknod_6_def fun_eq_iff ok_mknod_arg_def)

interpretation repl_truncate: replicated_op E G BB_TRUNCATE xdr_truncate_arg ok_truncate_arg xdr_truncate_ret
    "\<lambda>a. bb_truncate_6_svc E (g_truncate_ret G) a (g_truncate_ret G)" zero_truncate_arg "g_truncate_ret G" "bb_truncate_6_svc E (g_truncate_ret G)"
    bb_truncate_6 truncate_arg_server_info truncate_arg_server_info_update bb_truncate_6_svc
  for E :: "'w env" and G
  by (intro replicated_op.intro transmitted_op.intro transmitted_op_axioms.intro
      call_truncate.rpc_procedure_axioms replicated_op_axioms.intro split_truncate mirror_truncate)
    (simp_all add: bb_truncate_6_def fun_eq_iff ok_truncate_arg_def)

interpretation repl_unlink: replicated_op E G BB_UNLINK xdr_unlink_arg ok_unlink_arg xdr_unlink_ret
    "\<lambda>a. bb_unlink_6_svc E (g_unlink_ret G) a (g_unlink_ret G)" zero_unlink_arg "g_unlink_ret G" "bb_unlink_6_svc E (g_unlink_ret G)"
    bb_unlink_6 unlink_arg_server_info unlink_arg_server_info_update bb_unlink_6_svc
  for E :: "'w env" and G
  by (intro replicated_op.intro transmitted_op.intro transmitted_op_axioms.intro
      call_unlink.rpc_procedure_axioms replicated_op_axioms.intro split_unlink mirror_unlink)
    (simp_all add: bb_unlink_6_def fun_eq_iff ok_unlink_arg_def)

lemma replicated_op_utime:
  assumes "xdr_longs (e_xdr E)"
  shows "replicated_op E G BB_UTIME (xdr_utime_arg (e_xdr E)) ok_utime_arg xdr_utime_ret
    (\<lambda>a. bb_utime_6_svc E (g_utime_ret G) a (g_utime_ret G)) zero_utime_arg (g_utime_ret G)
    (bb_utime_6_svc E (g_utime_ret G)) bb_utime_6 utime_arg_server_info utime_arg_server_info_update bb_utime_6_svc"
  by (intro replicated_op.intro transmitted_op.intro transmitted_op_axioms.intro rpc_procedure_utime assms
      replicated_op_axioms.intro split_utime mirror_utime)
    (simp_all add: bb_utime_6_def fun_eq_iff ok_utime_arg_def)

interpretation repl_chmod: replicated_op E G BB_CHMOD xdr_chmod_arg ok_chmod_arg xdr_chmod_ret
    "\<lambda>a. bb_chmod_6_svc E (g_chmod_ret G) a (g_chmod_ret G)" zero_chmod_arg "g_chmod_ret G" "bb_chmod_6_svc E (g_chmod_ret G)"
    bb_chmod_6 chmod_arg_server_info chmod_arg_server_info_update bb_chmod_6_svc
  for E :: "'w env" and G
  by (intro replicated_op.intro transmitted_op.intro transmitted_op_axioms.intro
      call_chmod.rpc_procedure_axioms replicated_op_axioms.intro split_chmod mirror_chmod)
    (simp_all add: bb_chmod_6_def fun_eq_iff ok_chmod_arg_def)

interpretation repl_chown: replicated_op E G BB_CHOWN xdr_chown_arg ok_chown_arg xdr_chown_ret
    "\<lambda>a. bb_chown_6_svc E (g_chown_ret G) a (g_chown_ret G)" zero_chown_arg "g_chown_ret G" "bb_chown_6_svc E (g_chown_ret G)"
    bb_chown_6 chown_arg_server_info chown_arg_server_info_update bb_chown_6_svc
  for E :: "'w env" and G
  by (intro replicated_op.intro transmitted_op.intro transmitted_op_axioms.intro
      call_chown.rpc_procedure_axioms replicated_op_axioms.intro split_chown mirror_chown)
    (simp_all add: bb_chown_6_def fun_eq_iff ok_chown_arg_def)

text \<open>
  A step of the pair of servers: a client's request to the primary, one of the twelve replicated
  procedures or one of the four that only read by path, whose handler returns.
\<close>

inductive replicated_step ::
  "'w env \<Rightarrow> stack_garbage \<Rightarrow> ('w \<times> 'w process) process \<Rightarrow> ('w \<times> 'w process) process \<Rightarrow> bool"
  for E G where
  init: "ok_init_arg a \<Longrightarrow> transmits (init_arg_server_info a) \<Longrightarrow>
    fits_datagram xdr_init_arg (a\<lparr>init_arg_server_info := demoted (init_arg_server_info a)\<rparr>) \<Longrightarrow>
    init_rootdir_6_svc (primary_env E G) u a r s = Inr (r', t) \<Longrightarrow> replicated_step E G s t"
| mkdir: "ok_mkdir_arg a \<Longrightarrow> transmits (mkdir_arg_server_info a) \<Longrightarrow>
    fits_datagram xdr_mkdir_arg (a\<lparr>mkdir_arg_server_info := demoted (mkdir_arg_server_info a)\<rparr>) \<Longrightarrow>
    bb_mkdir_6_svc (primary_env E G) u a r s = Inr (r', t) \<Longrightarrow> replicated_step E G s t"
| rmdir: "ok_rmdir_arg a \<Longrightarrow> transmits (rmdir_arg_server_info a) \<Longrightarrow>
    fits_datagram xdr_rmdir_arg (a\<lparr>rmdir_arg_server_info := demoted (rmdir_arg_server_info a)\<rparr>) \<Longrightarrow>
    bb_rmdir_6_svc (primary_env E G) u a r s = Inr (r', t) \<Longrightarrow> replicated_step E G s t"
| rename: "ok_rename_arg a \<Longrightarrow> transmits (rename_arg_server_info a) \<Longrightarrow>
    fits_datagram xdr_rename_arg (a\<lparr>rename_arg_server_info := demoted (rename_arg_server_info a)\<rparr>) \<Longrightarrow>
    bb_rename_6_svc (primary_env E G) u a r s = Inr (r', t) \<Longrightarrow> replicated_step E G s t"
| symlink: "ok_symlink_arg a \<Longrightarrow> transmits (symlink_arg_server_info a) \<Longrightarrow>
    fits_datagram xdr_symlink_arg (a\<lparr>symlink_arg_server_info := demoted (symlink_arg_server_info a)\<rparr>) \<Longrightarrow>
    bb_symlink_6_svc (primary_env E G) u a r s = Inr (r', t) \<Longrightarrow> replicated_step E G s t"
| link: "ok_link_arg a \<Longrightarrow> transmits (link_arg_server_info a) \<Longrightarrow>
    fits_datagram xdr_link_arg (a\<lparr>link_arg_server_info := demoted (link_arg_server_info a)\<rparr>) \<Longrightarrow>
    bb_link_6_svc (primary_env E G) u a r s = Inr (r', t) \<Longrightarrow> replicated_step E G s t"
| mknod: "ok_mknod_arg a \<Longrightarrow> transmits (mknod_arg_server_info a) \<Longrightarrow>
    fits_datagram xdr_mknod_arg (a\<lparr>mknod_arg_server_info := demoted (mknod_arg_server_info a)\<rparr>) \<Longrightarrow>
    bb_mknod_6_svc (primary_env E G) u a r s = Inr (r', t) \<Longrightarrow> replicated_step E G s t"
| truncate: "ok_truncate_arg a \<Longrightarrow> transmits (truncate_arg_server_info a) \<Longrightarrow>
    fits_datagram xdr_truncate_arg (a\<lparr>truncate_arg_server_info := demoted (truncate_arg_server_info a)\<rparr>) \<Longrightarrow>
    bb_truncate_6_svc (primary_env E G) u a r s = Inr (r', t) \<Longrightarrow> replicated_step E G s t"
| unlink: "ok_unlink_arg a \<Longrightarrow> transmits (unlink_arg_server_info a) \<Longrightarrow>
    fits_datagram xdr_unlink_arg (a\<lparr>unlink_arg_server_info := demoted (unlink_arg_server_info a)\<rparr>) \<Longrightarrow>
    bb_unlink_6_svc (primary_env E G) u a r s = Inr (r', t) \<Longrightarrow> replicated_step E G s t"
| utime: "ok_utime_arg a \<Longrightarrow> transmits (utime_arg_server_info a) \<Longrightarrow>
    fits_datagram (xdr_utime_arg (e_xdr E)) (a\<lparr>utime_arg_server_info := demoted (utime_arg_server_info a)\<rparr>) \<Longrightarrow>
    bb_utime_6_svc (primary_env E G) u a r s = Inr (r', t) \<Longrightarrow> replicated_step E G s t"
| chmod: "ok_chmod_arg a \<Longrightarrow> transmits (chmod_arg_server_info a) \<Longrightarrow>
    fits_datagram xdr_chmod_arg (a\<lparr>chmod_arg_server_info := demoted (chmod_arg_server_info a)\<rparr>) \<Longrightarrow>
    bb_chmod_6_svc (primary_env E G) u a r s = Inr (r', t) \<Longrightarrow> replicated_step E G s t"
| chown: "ok_chown_arg a \<Longrightarrow> transmits (chown_arg_server_info a) \<Longrightarrow>
    fits_datagram xdr_chown_arg (a\<lparr>chown_arg_server_info := demoted (chown_arg_server_info a)\<rparr>) \<Longrightarrow>
    bb_chown_6_svc (primary_env E G) u a r s = Inr (r', t) \<Longrightarrow> replicated_step E G s t"
| getattr: "bb_getattr_6_svc (primary_env E G) a r s = Inr (r', t) \<Longrightarrow> replicated_step E G s t"
| access: "bb_access_6_svc (primary_env E G) a r s = Inr (r', t) \<Longrightarrow> replicated_step E G s t"
| readlink: "bb_readlink_6_svc (primary_env E G) a r s = Inr (r', t) \<Longrightarrow> replicated_step E G s t"
| statfs: "bb_statfs_6_svc (primary_env E G) a r s = Inr (r', t) \<Longrightarrow> replicated_step E G s t"

lemma keeps_set_errno_ret [keeps_intros]: "keeps I (set_errno_ret u r)"
  unfolding set_errno_ret_def by (intro keeps_intros)

lemma queries_keep_world:
  "keeps (world_inv J) (bb_getattr_6_svc E a1 r1)" "keeps (world_inv J) (bb_access_6_svc E a2 r2)"
  "keeps (world_inv J) (bb_readlink_6_svc E a3 r3)" "keeps (world_inv J) (bb_statfs_6_svc E a4 r4)"
  unfolding bb_getattr_6_svc_def bb_access_6_svc_def bb_readlink_6_svc_def bb_statfs_6_svc_def Let_def
  by (intro keeps_intros)+

lemma in_sync_query:
  assumes "\<And>J. keeps (world_inv J) m" and "m s = Inr (r, t)" and "in_sync s"
  shows "in_sync t"
  using keepsD_Inr [OF assms(1) _ assms(2), of "\<lambda>w. fst w = world (snd w)"] assms(3) by (simp add: in_sync_def)

lemma in_sync_end: "in_sync (end_state (m s)) \<Longrightarrow> m s = Inr (r, t) \<Longrightarrow> in_sync t"
  by simp

lemma init_arg_upd: "init_arg_server_info_update (is_master_update (\<lambda>_. 0)) a = a\<lparr>init_arg_server_info := demoted (init_arg_server_info a)\<rparr>"
  by (cases a) simp

lemma mkdir_arg_upd: "mkdir_arg_server_info_update (is_master_update (\<lambda>_. 0)) a = a\<lparr>mkdir_arg_server_info := demoted (mkdir_arg_server_info a)\<rparr>"
  by (cases a) simp

lemma rmdir_arg_upd: "rmdir_arg_server_info_update (is_master_update (\<lambda>_. 0)) a = a\<lparr>rmdir_arg_server_info := demoted (rmdir_arg_server_info a)\<rparr>"
  by (cases a) simp

lemma rename_arg_upd: "rename_arg_server_info_update (is_master_update (\<lambda>_. 0)) a = a\<lparr>rename_arg_server_info := demoted (rename_arg_server_info a)\<rparr>"
  by (cases a) simp

lemma symlink_arg_upd: "symlink_arg_server_info_update (is_master_update (\<lambda>_. 0)) a = a\<lparr>symlink_arg_server_info := demoted (symlink_arg_server_info a)\<rparr>"
  by (cases a) simp

lemma link_arg_upd: "link_arg_server_info_update (is_master_update (\<lambda>_. 0)) a = a\<lparr>link_arg_server_info := demoted (link_arg_server_info a)\<rparr>"
  by (cases a) simp

lemma mknod_arg_upd: "mknod_arg_server_info_update (is_master_update (\<lambda>_. 0)) a = a\<lparr>mknod_arg_server_info := demoted (mknod_arg_server_info a)\<rparr>"
  by (cases a) simp

lemma truncate_arg_upd: "truncate_arg_server_info_update (is_master_update (\<lambda>_. 0)) a = a\<lparr>truncate_arg_server_info := demoted (truncate_arg_server_info a)\<rparr>"
  by (cases a) simp

lemma unlink_arg_upd: "unlink_arg_server_info_update (is_master_update (\<lambda>_. 0)) a = a\<lparr>unlink_arg_server_info := demoted (unlink_arg_server_info a)\<rparr>"
  by (cases a) simp

lemma utime_arg_upd: "utime_arg_server_info_update (is_master_update (\<lambda>_. 0)) a = a\<lparr>utime_arg_server_info := demoted (utime_arg_server_info a)\<rparr>"
  by (cases a) simp

lemma chmod_arg_upd: "chmod_arg_server_info_update (is_master_update (\<lambda>_. 0)) a = a\<lparr>chmod_arg_server_info := demoted (chmod_arg_server_info a)\<rparr>"
  by (cases a) simp

lemma chown_arg_upd: "chown_arg_server_info_update (is_master_update (\<lambda>_. 0)) a = a\<lparr>chown_arg_server_info := demoted (chown_arg_server_info a)\<rparr>"
  by (cases a) simp

lemma replicated_step_in_sync:
  assumes "xdr_longs (e_xdr E)" and "replicated_step E G s t" and "in_sync s"
  shows "in_sync t"
  using assms(2,3)
proof (induction rule: replicated_step.induct)
  case (init a u r s r' t)
  then show ?case
    using repl_init.replicated [where E = E and G = G and a = a and s = s and u = u and r = r] by (auto simp: init_arg_upd)
next
  case (mkdir a u r s r' t)
  then show ?case
    using repl_mkdir.replicated [where E = E and G = G and a = a and s = s and u = u and r = r] by (auto simp: mkdir_arg_upd)
next
  case (rmdir a u r s r' t)
  then show ?case
    using repl_rmdir.replicated [where E = E and G = G and a = a and s = s and u = u and r = r] by (auto simp: rmdir_arg_upd)
next
  case (rename a u r s r' t)
  then show ?case
    using repl_rename.replicated [where E = E and G = G and a = a and s = s and u = u and r = r] by (auto simp: rename_arg_upd)
next
  case (symlink a u r s r' t)
  then show ?case
    using repl_symlink.replicated [where E = E and G = G and a = a and s = s and u = u and r = r] by (auto simp: symlink_arg_upd)
next
  case (link a u r s r' t)
  then show ?case
    using repl_link.replicated [where E = E and G = G and a = a and s = s and u = u and r = r] by (auto simp: link_arg_upd)
next
  case (mknod a u r s r' t)
  then show ?case
    using repl_mknod.replicated [where E = E and G = G and a = a and s = s and u = u and r = r] by (auto simp: mknod_arg_upd)
next
  case (truncate a u r s r' t)
  then show ?case
    using repl_truncate.replicated [where E = E and G = G and a = a and s = s and u = u and r = r] by (auto simp: truncate_arg_upd)
next
  case (unlink a u r s r' t)
  then show ?case
    using repl_unlink.replicated [where E = E and G = G and a = a and s = s and u = u and r = r] by (auto simp: unlink_arg_upd)
next
  case (utime a u r s r' t)
  then show ?case
    using replicated_op.replicated [OF replicated_op_utime [OF assms(1), where G = G], where a = a and s = s and u = u and r = r] by (auto simp: utime_arg_upd)
next
  case (chmod a u r s r' t)
  then show ?case
    using repl_chmod.replicated [where E = E and G = G and a = a and s = s and u = u and r = r] by (auto simp: chmod_arg_upd)
next
  case (chown a u r s r' t)
  then show ?case
    using repl_chown.replicated [where E = E and G = G and a = a and s = s and u = u and r = r] by (auto simp: chown_arg_upd)
next
  case (getattr a r s r' t)
  then show ?case by (rule in_sync_query [OF queries_keep_world(1)])
next
  case (access a r s r' t)
  then show ?case by (rule in_sync_query [OF queries_keep_world(2)])
next
  case (readlink a r s r' t)
  then show ?case by (rule in_sync_query [OF queries_keep_world(3)])
next
  case (statfs a r s r' t)
  then show ?case by (rule in_sync_query [OF queries_keep_world(4)])
qed

text \<open>
  C3. Replicas that start with equal files have equal files after any sequence of answered requests to the
  primary of sixteen procedures: the twelve that are transmitted and change files by their paths, \<^verbatim>\<open>write\<close> not
  among them, each sent to the secondary first as a message that fits a datagram, and the queries \<^verbatim>\<open>getattr\<close>,
  \<^verbatim>\<open>access\<close>, \<^verbatim>\<open>readlink\<close> and \<^verbatim>\<open>statfs\<close>; whether the operations succeed or fail. A \<^verbatim>\<open>write\<close> breaks the equality
  (\<open>bb_write_6_svc\<close> appends at the secondary), and the procedures on open files and directories change the
  descriptors of the primary alone; neither is a step here.
\<close>

theorem replicas_stay_equal:
  assumes "xdr_longs (e_xdr E)" and "(replicated_step E G)\<^sup>*\<^sup>* s t" and "in_sync s"
  shows "in_sync t"
  using assms(2,3) by induction (auto intro: replicated_step_in_sync [OF assms(1)])

section \<open>On the kernel in memory\<close>

definition mem_pair :: "mem \<Rightarrow> (mem \<times> mem process) process" where
  "mem_pair m = \<lparr>world = (m, mem_start), errno = 0\<rparr>"

definition master_info :: identity where
  "master_info = \<lparr>is_master = 1, is_degraded = 0\<rparr>"

definition mem_alone :: "mem process" where
  "mem_alone = \<lparr>world = mem_tree, errno = 0\<rparr>"

lemma peer_only_secondary: "peer_only (secondary_rpc E G)"
  by (auto simp: peer_only_def secondary_rpc_def split: prod.split)

lemma replication_is_transparent_witness:
  "\<exists>t. bb_mkdir_6_svc (primary_env mem_env mem_garbage) \<lparr>mkdir_ret_ret = 0\<rparr>
      (mem_mkdir\<lparr>mkdir_arg_server_info := master_info\<rparr>) \<lparr>mkdir_ret_ret = 5\<rparr> (mem_pair mem_tree)
    = Inr (\<lparr>mkdir_ret_ret = 0\<rparr>, t) \<and> m_lookup (fst (world t)) ''/DFS/d/x'' \<noteq> None"
proof -
  have "rel_prog same_files (bb_mkdir_6_svc (peer_env (e_os mem_env) (secondary_rpc mem_env mem_garbage) (e_xdr mem_env))
        \<lparr>mkdir_ret_ret = 0\<rparr> (mem_mkdir\<lparr>mkdir_arg_server_info := master_info\<rparr>) \<lparr>mkdir_ret_ret = 5\<rparr>)
      (bb_mkdir_6_svc mem_env (g_mkdir_ret mem_garbage)
        (mem_mkdir\<lparr>mkdir_arg_server_info := master_info, mkdir_arg_server_info := degraded_info\<rparr>) (g_mkdir_ret mem_garbage))"
    by (rule conjunct1 [OF conjunct2 [OF replication_is_transparent [OF peer_only_secondary refl degraded_info_local]]])
  moreover have "mem_mkdir\<lparr>mkdir_arg_server_info := master_info, mkdir_arg_server_info := degraded_info\<rparr> = mem_mkdir"
    by (simp add: mem_mkdir_def degraded_info_def)
  moreover have "same_files (mem_pair mem_tree) mem_start" by (simp add: same_files_def mem_pair_def mem_start_def)
  moreover obtain s' where "bb_mkdir_6_svc mem_env (g_mkdir_ret mem_garbage) mem_mkdir (g_mkdir_ret mem_garbage) mem_start
    = Inr (\<lparr>mkdir_ret_ret = 0\<rparr>, s')" and "m_lookup (world s') ''/DFS/d/x'' \<noteq> None" by (rule mem_mkdir_runs)
  ultimately show ?thesis
    by (elim rel_progD_Inr) (auto simp: primary_env_def same_files_def)
qed

lemma mem_mkdir_sent:
  "fits_datagram xdr_mkdir_arg (mem_mkdir\<lparr>mkdir_arg_server_info := i\<rparr>)"
proof -
  have "\<exists>bs. enc_ok xdr_mkdir_arg (mem_mkdir\<lparr>mkdir_arg_server_info := i\<rparr>) bs \<and> length bs \<le> 8800"
    unfolding xdr_mkdir_arg_def
    by - (rule exI conjI enc_rules enc_prims enc_ok_identity
      | simp add: mem_mkdir_def sendable_def string_bytes_def padding_def encoding_identity)+
  then show ?thesis by (auto simp: fits_datagram_def dest: encoding_eq)
qed

lemma mem_mkdir_steps:
  obtains t where "replicated_step mem_env mem_garbage (mem_pair mem_tree) t"
    and "m_lookup (fst (world t)) ''/DFS/d/x'' \<noteq> None"
proof -
  have "rel_prog same_files (bb_mkdir_6_svc (primary_env mem_env mem_garbage)
        \<lparr>mkdir_ret_ret = 0\<rparr> (mem_mkdir\<lparr>mkdir_arg_server_info := master_info\<rparr>) \<lparr>mkdir_ret_ret = 5\<rparr>)
      (bb_mkdir_6_svc mem_env (g_mkdir_ret mem_garbage)
        (mem_mkdir\<lparr>mkdir_arg_server_info := master_info, mkdir_arg_server_info := degraded_info\<rparr>) (g_mkdir_ret mem_garbage))"
    unfolding primary_env_def by (rule transparent_mkdir [OF peer_only_secondary refl degraded_info_local])
  moreover have "mem_mkdir\<lparr>mkdir_arg_server_info := master_info, mkdir_arg_server_info := degraded_info\<rparr> = mem_mkdir"
    by (simp add: mem_mkdir_def degraded_info_def)
  moreover have "same_files (mem_pair mem_tree) mem_start" by (simp add: same_files_def mem_pair_def mem_start_def)
  moreover obtain s' where "bb_mkdir_6_svc mem_env (g_mkdir_ret mem_garbage) mem_mkdir (g_mkdir_ret mem_garbage) mem_start
    = Inr (\<lparr>mkdir_ret_ret = 0\<rparr>, s')" and "m_lookup (world s') ''/DFS/d/x'' \<noteq> None" by (rule mem_mkdir_runs)
  ultimately obtain t where run: "bb_mkdir_6_svc (primary_env mem_env mem_garbage) \<lparr>mkdir_ret_ret = 0\<rparr>
      (mem_mkdir\<lparr>mkdir_arg_server_info := master_info\<rparr>) \<lparr>mkdir_ret_ret = 5\<rparr> (mem_pair mem_tree)
    = Inr (\<lparr>mkdir_ret_ret = 0\<rparr>, t)" and t: "m_lookup (fst (world t)) ''/DFS/d/x'' \<noteq> None"
    by (elim rel_progD_Inr) (auto simp: same_files_def)
  have "replicated_step mem_env mem_garbage (mem_pair mem_tree) t"
    by (rule replicated_step.mkdir [OF _ _ _ run])
      (simp_all add: mem_mkdir_sent, simp_all add: mem_mkdir_def ok_mkdir_arg_def sendable_def master_info_def transmits_def)
  with t that show thesis by blast
qed

lemma replicas_stay_equal_witness:
  "\<exists>t. replicated_step mem_env mem_garbage (mem_pair mem_tree) t \<and>
     m_lookup (world (snd (world t))) ''/DFS/d/x'' \<noteq> None"
proof -
  obtain t where step: "replicated_step mem_env mem_garbage (mem_pair mem_tree) t"
    and t: "m_lookup (fst (world t)) ''/DFS/d/x'' \<noteq> None" by (rule mem_mkdir_steps)
  have "in_sync (mem_pair mem_tree)" by (simp add: in_sync_def mem_pair_def mem_start_def)
  with step have "in_sync t" by (intro replicas_stay_equal [OF mem_env_longs, of mem_garbage "mem_pair mem_tree" t]) auto
  with step t show ?thesis by (auto simp: in_sync_def)
qed

section \<open>Where replication fails\<close>

interpretation sent_write: transmitted_op E G BB_WRITE xdr_write_arg ok_write_arg xdr_write_ret
    "\<lambda>a. bb_write_6_svc E (g_write_ret G) a (g_write_ret G)" zero_write_arg "g_write_ret G" "bb_write_6_svc E (g_write_ret G)"
    bb_write_6 write_arg_server_info write_arg_server_info_update
  for E :: "'w env" and G
  by (intro transmitted_op.intro transmitted_op_axioms.intro call_write.rpc_procedure_axioms)
    (simp_all add: bb_write_6_def fun_eq_iff ok_write_arg_def)

text \<open>A file \<^verbatim>\<open>g\<close> open for reading and writing at the primary, and a request that writes at its start.\<close>

definition mem_open_g :: mem where
  "mem_open_g = mem_tree\<lparr>m_fds := [(3, 4, 2)]\<rparr>"

definition mem_write_arg :: write_arg where
  "mem_write_arg = \<lparr>write_arg_ip = ''8'', write_arg_server_info = master_info, write_arg_fd = 3,
     write_arg_path = ''/g'', write_arg_size = 2, write_arg_offset = 0, write_arg_buffer = ''XX'' @ zeros 4094\<rparr>"

definition m_content :: "mem \<Rightarrow> string \<Rightarrow> char list" where
  "m_content m p = (case m_lookup m p of None \<Rightarrow> [] | Some (i, nd) \<Rightarrow> n_data nd)"

lemma mem_write_ok: "ok_write_arg mem_write_arg"
  by (simp add: ok_write_arg_def mem_write_arg_def sendable_def MAX_SIZE_def)

lemma mem_write_sent: "fits_datagram xdr_write_arg (mem_write_arg\<lparr>write_arg_server_info := i\<rparr>)"
proof -
  have "\<exists>bs. enc_ok xdr_write_arg (mem_write_arg\<lparr>write_arg_server_info := i\<rparr>) bs \<and> length bs \<le> 8800"
    unfolding xdr_write_arg_def
    by - (rule exI conjI enc_rules enc_prims enc_ok_identity
      | simp add: mem_write_arg_def sendable_def string_bytes_def padding_def encoding_identity MAX_SIZE_def)+
  then show ?thesis by (auto simp: fits_datagram_def dest: encoding_eq)
qed

lemma split_write:
  assumes "\<not> transmits i" and "is_master i \<noteq> 0" and "is_master (write_arg_server_info a) \<noteq> 0"
  shows "bb_write_6_svc E u a r = bnd (TRANSMIT_TO_SECONDATY E bb_write_6 write_arg_server_info write_arg_server_info_update u a)
    (\<lambda>_. bb_write_6_svc E u (a\<lparr>write_arg_server_info := i\<rparr>) r)"
  using assms by (simp add: bb_write_6_svc_def TRANSMIT_local Let_def cong: if_cong option.case_cong)

text \<open>
  The documented behaviour of the kernel on the contents of files, in any model of a kernel: \<open>content w p\<close> is the
  content of the file at the path \<open>p\<close>, \<open>on_file w fd p app\<close> says that the descriptor \<open>fd\<close> is open on it, with
  \<^verbatim>\<open>O_APPEND\<close> or not. \<^verbatim>\<open>open(2)\<close> without \<^verbatim>\<open>O_CREAT\<close> and \<^verbatim>\<open>O_TRUNC\<close>, \<^verbatim>\<open>flock(2)\<close> and \<^verbatim>\<open>close(2)\<close> change no content,
  and, as \<^verbatim>\<open>pwrite(2)\<close> says of Linux, data written to a file that was opened with \<^verbatim>\<open>O_APPEND\<close> is appended
  whatever the offset. The flags \<open>33793\<close> are \<^verbatim>\<open>O_WRONLY | O_APPEND | O_LARGEFILE\<close>.
\<close>

definition content_kernel :: "'w os \<Rightarrow> ('w \<Rightarrow> string \<Rightarrow> char list) \<Rightarrow> ('w \<Rightarrow> c_int \<Rightarrow> string \<Rightarrow> bool \<Rightarrow> bool) \<Rightarrow> bool" where
  "content_kernel os content on_file \<longleftrightarrow>
     (\<forall>p w fd w'. sys_open os p 33793 0 w = (Inr fd, w') \<longrightarrow> content w' = content w \<and> on_file w' fd p True) \<and>
     (\<forall>fd op w r w'. sys_flock os fd op w = Some (r, w') \<longrightarrow> content w' = content w \<and> on_file w' = on_file w) \<and>
     (\<forall>fd w. content (snd (sys_close os fd w)) = content w) \<and>
     (\<forall>fd data off w n w' p app. sys_pwrite os fd data off w = (Inr n, w') \<longrightarrow> on_file w fd p app \<longrightarrow>
        content w' p = m_splice (content w p) (if app then length (content w p) else off) (take n data))"

text \<open>A write that the kernel takes whole, under the lock.\<close>

definition full_write :: "'w os \<Rightarrow> c_int \<Rightarrow> char list \<Rightarrow> nat \<Rightarrow> 'w \<Rightarrow> 'w \<Rightarrow> bool" where
  "full_write os fd data off w w' \<longleftrightarrow> (\<exists>w1 w2. sys_flock os fd LOCK_EX w = Some (Inr (), w1) \<and>
     sys_pwrite os fd data off w1 = (Inr (length data), w2) \<and> sys_flock os fd LOCK_UN w2 = Some (Inr (), w'))"

lemma full_write_content:
  assumes "content_kernel os content on_file" and "full_write os fd data off w w'" and "on_file w fd p app"
  shows "content w' p = m_splice (content w p) (if app then length (content w p) else off) data"
proof -
  obtain w1 w2 where run: "sys_flock os fd LOCK_EX w = Some (Inr (), w1)"
    "sys_pwrite os fd data off w1 = (Inr (length data), w2)" "sys_flock os fd LOCK_UN w2 = Some (Inr (), w')"
    using assms(2) by (auto simp: full_write_def)
  have lock: "content w1 = content w" "on_file w1 = on_file w" and unlock: "content w' = content w2"
    using run(1,3) assms(1) unfolding content_kernel_def by blast+
  from run(2) assms(1,3) lock(2) have "content w2 p
      = m_splice (content w1 p) (if app then length (content w1 p) else off) (take (length data) data)"
    unfolding content_kernel_def by metis
  with lock unlock show ?thesis by simp
qed

lemma full_write_primary: "full_write os fd data off w w' \<Longrightarrow> full_write (primary_os os) fd data off (w, v) (w', v)"
  by (fastforce simp: full_write_def primary_os_def on_files_def)

lemma write_kept:
  assumes "is_master (write_arg_server_info a) \<noteq> 0" and "\<not> transmits (write_arg_server_info a)"
    and "full_write (e_os E) (write_arg_fd a) (take (unat (write_arg_size a)) (write_arg_buffer a))
      (unat (write_arg_offset a)) (world s) w"
    and "unat (write_arg_size a) \<le> length (write_arg_buffer a)"
  shows "bb_write_6_svc E u a r s = Inr (\<lparr>write_ret_len = write_arg_size a, write_ret_ret = 0\<rparr>, s\<lparr>world := w\<rparr>)"
  using assms by (cases r) (auto simp: full_write_def bb_write_6_svc_def TRANSMIT_local Let_def bnd_def flock_def
    sys_int_def sys_call_def min_def)

lemma write_appends:
  assumes "is_master (write_arg_server_info a) = 0" and "is_degraded (write_arg_server_info a) = 0"
    and "translate_abspath (write_arg_path a) = Some fpath"
    and "sys_open (e_os E) fpath 33793 0 (world q) = (Inr fd, v)"
    and "full_write (e_os E) fd (take (unat (write_arg_size a)) (write_arg_buffer a)) (unat (write_arg_offset a)) v v'"
    and "unat (write_arg_size a) \<le> length (write_arg_buffer a)"
  shows "world (end_state (bb_write_6_svc E u a r q)) = snd (sys_close (e_os E) fd v')"
proof -
  have "\<not> transmits (write_arg_server_info a)" using assms(1) by (simp add: transmits_def)
  with assms show ?thesis
    by (auto simp: full_write_def bb_write_6_svc_def TRANSMIT_local Let_def bnd_def flock_def sys_int_def sys_call_def
      split: prod.split sum.split)
qed

lemma splice_append: "m_splice c (length c) data = c @ data"
  by (simp add: m_splice_def)

lemma splice_inside: "off < length c \<Longrightarrow> data \<noteq> [] \<Longrightarrow> m_splice c off data \<noteq> c @ data"
proof
  assume "off < length c" "data \<noteq> []" "m_splice c off data = c @ data"
  then have "length (m_splice c off data) = length c + length data" by simp
  moreover have "0 < length data" using \<open>data \<noteq> []\<close> by simp
  ultimately show False using \<open>off < length c\<close> by (simp add: m_splice_def del: length_greater_0_conv)
qed

text \<open>
  C27. The secondary opens the file of a \<^verbatim>\<open>write\<close> with \<^verbatim>\<open>O_APPEND\<close>, so that its \<^verbatim>\<open>pwrite\<close> appends whatever the
  offset. On every kernel with the documented contents, after a write to the primary, sent on in one
  datagram, of at least one character before the end of a file that both replicas have with the same
  content, and that both kernels take whole, the client is told that the write succeeded, the primary has the data at the offset, the secondary at the end, and
  the replicas of the file differ.
\<close>

theorem write_makes_replicas_differ:
  assumes "content_kernel (e_os E) content on_file"
    and "world s = (w, q)" and "content w fpath = c" and "content (world q) fpath = c"
    and "transmits (write_arg_server_info a)" and "ok_write_arg a"
    and "fits_datagram xdr_write_arg (write_arg_server_info_update (is_master_update (\<lambda>_. 0)) a)"
    and "translate_abspath (write_arg_path a) = Some fpath" and "on_file w (write_arg_fd a) fpath False"
    and "unat (write_arg_size a) \<le> MAX_SIZE" and "data = take (unat (write_arg_size a)) (write_arg_buffer a)"
    and "full_write (e_os E) (write_arg_fd a) data (unat (write_arg_offset a)) w w'"
    and "sys_open (e_os E) fpath 33793 0 (world q) = (Inr fd, v)"
    and "full_write (e_os E) fd data (unat (write_arg_offset a)) v v'"
    and "0 < write_arg_size a" and "unat (write_arg_offset a) < length c"
  shows "\<exists>t. bb_write_6_svc (primary_env E G) (g_write_ret G) a r s
        = Inr (\<lparr>write_ret_len = write_arg_size a, write_ret_ret = 0\<rparr>, t) \<and>
      content (fst (world t)) fpath = m_splice c (unat (write_arg_offset a)) data \<and>
      content (world (snd (world t))) fpath = c @ data \<and>
      content (fst (world t)) fpath \<noteq> content (world (snd (world t))) fpath"
proof -
  let ?b = "write_arg_server_info_update (is_master_update (\<lambda>_. 0)) a"
  let ?q = "end_state (bb_write_6_svc E (g_write_ret G) ?b (g_write_ret G) q)"
  let ?s = "s\<lparr>world := (w, ?q)\<rparr>"
  have len: "length (write_arg_buffer a) = MAX_SIZE" using assms(6) by (simp add: ok_write_arg_def)
  have sent: "TRANSMIT_TO_SECONDATY (primary_env E G) bb_write_6 write_arg_server_info write_arg_server_info_update
      (g_write_ret G) a s = Inr ((), ?s)"
    by (rule sent_write.transmission [OF assms(6,5,7,2)]) (simp_all add: primary_env_def)
  have "bb_write_6_svc (primary_env E G) (g_write_ret G) a r s
      = bb_write_6_svc (primary_env E G) (g_write_ret G) (a\<lparr>write_arg_server_info := degraded_info\<rparr>) r ?s"
    using assms(5) by (subst split_write [OF degraded_info_local])
      (simp_all add: bnd_def sent, simp_all add: degraded_info_def transmits_def)
  also have "\<dots> = Inr (\<lparr>write_ret_len = write_arg_size a, write_ret_ret = 0\<rparr>, ?s\<lparr>world := (w', ?q)\<rparr>)"
    using assms(10-12) len full_write_primary degraded_info_local
    by (subst write_kept [where w = "(w', ?q)"]) (simp_all add: primary_env_def degraded_info_def)
  finally have run: "bb_write_6_svc (primary_env E G) (g_write_ret G) a r s
      = Inr (\<lparr>write_ret_len = write_arg_size a, write_ret_ret = 0\<rparr>, ?s\<lparr>world := (w', ?q)\<rparr>)" .
  have q: "world ?q = snd (sys_close (e_os E) fd v')"
    using assms(5,8,10,11,13,14) len by (intro write_appends) (simp_all add: transmits_def)
  have "content v = content (world q)" and on: "on_file v fd fpath True"
    using assms(1,13) unfolding content_kernel_def by blast+
  with full_write_content [OF assms(1,14) on] assms(1,4) have second: "content (world ?q) fpath = c @ data"
    unfolding q content_kernel_def by (simp add: splice_append)
  have first: "content w' fpath = m_splice c (unat (write_arg_offset a)) data"
    using full_write_content [OF assms(1,12,9)] assms(3) by simp
  have "data \<noteq> []" using assms(10,11,15) len by (auto simp: word_less_nat_alt MAX_SIZE_def)
  with splice_inside [OF assms(16)] run first second show ?thesis by auto
qed

definition m_on_file :: "mem \<Rightarrow> c_int \<Rightarrow> string \<Rightarrow> bool \<Rightarrow> bool" where
  "m_on_file m fd p app \<longleftrightarrow> (\<exists>i flags nd. map_of (m_fds m) fd = Some (i, flags) \<and> map_of (m_paths m) p = Some i \<and>
     map_of (m_nodes m) i = Some nd \<and> (app \<longleftrightarrow> flags AND 1024 \<noteq> 0))"

lemma mem_content_kernel: "content_kernel mem_os m_content m_on_file"
proof -
  have "m_content w' = m_content w \<and> m_on_file w' fd p True" if "m_open p 33793 0 w = (Inr fd, w')" for p w fd w'
    using that by (auto simp: m_open_def m_open_node_def Let_def m_content_def m_lookup_def m_on_file_def fun_eq_iff
      split: option.splits if_splits)
  moreover have "m_content w' = m_content w \<and> m_on_file w' = m_on_file w" if "m_flock fd op w = Some (r, w')" for fd op w r w'
    using that by (auto simp: m_flock_def Let_def m_content_def m_lookup_def m_on_file_def fun_eq_iff
      split: option.splits if_splits lock_op.splits)
  moreover have "m_content (snd (m_close fd w)) = m_content w" for fd w
    by (auto simp: m_close_def m_content_def m_lookup_def fun_eq_iff split: option.splits)
  moreover have "m_content w' p = m_splice (m_content w p) (if app then length (m_content w p) else off) (take n data)"
    if "m_pwrite fd data off w = (Inr n, w')" "m_on_file w fd p app" for fd data off w n w' p app
    using that by (auto simp: m_pwrite_def m_content_def m_lookup_def m_on_file_def split: option.splits if_splits)
  ultimately show ?thesis by (simp add: content_kernel_def mem_os_def)
qed

lemma write_makes_replicas_differ_witness:
  "\<exists>t. bb_write_6_svc (primary_env mem_env mem_garbage) (g_write_ret mem_garbage) mem_write_arg
       (g_write_ret mem_garbage) (mem_pair mem_open_g) = Inr (\<lparr>write_ret_len = 2, write_ret_ret = 0\<rparr>, t) \<and>
     m_content (fst (world t)) ''/DFS/g'' = ''XXcret'' \<and>
     m_content (world (snd (world t))) ''/DFS/g'' = ''secretXX''"
proof -
  let ?put = "\<lambda>d w. w\<lparr>m_nodes := (4, mem_node 33152 8 d) # m_nodes w\<rparr>"
  have put: "full_write mem_os 3 ''XX'' 0 mem_open_g (?put ''XXcret'' mem_open_g)"
    "full_write mem_os 3 ''XX'' 0 (mem_tree\<lparr>m_fds := [(3, 4, 33793)]\<rparr>) (?put ''secretXX'' (mem_tree\<lparr>m_fds := [(3, 4, 33793)]\<rparr>))"
    by (simp_all add: full_write_def mem_os_def m_flock_def m_pwrite_def m_splice_def mem_open_g_def mem_tree_def mem_node_def)
  have "sys_open mem_os ''/DFS/g'' 33793 0 mem_tree = (Inr 3, mem_tree\<lparr>m_fds := [(3, 4, 33793)]\<rparr>)"
    and "translate_abspath ''/g'' = Some ''/DFS/g''" and "m_content mem_tree ''/DFS/g'' = ''secret''"
    and "m_content mem_open_g ''/DFS/g'' = ''secret''"
    by code_simp+
  moreover have "m_on_file mem_open_g 3 ''/DFS/g'' False"
    by (simp add: m_on_file_def mem_open_g_def mem_tree_def mem_node_def)
  ultimately have "\<exists>t. bb_write_6_svc (primary_env mem_env mem_garbage) (g_write_ret mem_garbage) mem_write_arg
       (g_write_ret mem_garbage) (mem_pair mem_open_g)
       = Inr (\<lparr>write_ret_len = write_arg_size mem_write_arg, write_ret_ret = 0\<rparr>, t) \<and>
     m_content (fst (world t)) ''/DFS/g'' = m_splice ''secret'' (unat (write_arg_offset mem_write_arg)) ''XX'' \<and>
     m_content (world (snd (world t))) ''/DFS/g'' = ''secret'' @ ''XX'' \<and>
     m_content (fst (world t)) ''/DFS/g'' \<noteq> m_content (world (snd (world t))) ''/DFS/g''"
    using put mem_write_sent mem_content_kernel mem_write_ok
    by (intro write_makes_replicas_differ [where w = mem_open_g and q = mem_start and on_file = m_on_file
        and v = "mem_tree\<lparr>m_fds := [(3, 4, 33793)]\<rparr>" and fd = 3])
      (simp_all add: mem_env_def mem_pair_def mem_start_def mem_write_arg_def transmits_def master_info_def MAX_SIZE_def)
  then show ?thesis by (auto simp: mem_write_arg_def m_splice_def)
qed

end
