(* ===== verification/Client_Identity.thy ===== *)
theory Client_Identity
  imports Rpc_Messages "HOL-Library.Monad_Syntax"
begin

text \<open>
  How the client of \<^verbatim>\<open>tweakfs.c\<close> names itself and its files to the server: the address of the host
  turned into a number and sent as decimal text (\<^verbatim>\<open>ip_to_int\<close>, \<^verbatim>\<open>get_ip\<close>, \<^verbatim>\<open>get_ip_addr\<close>), the
  \<^verbatim>\<open>server_info\<close> of a request (\<^verbatim>\<open>get_identity\<close>) and the path it sends (\<^verbatim>\<open>bb_fullpath\<close>). The server
  turns the text back into a user id with \<^verbatim>\<open>atoi\<close>.

  The lookup of the host's own address is not part of the program: its result, the text
  \<^verbatim>\<open>inet_ntoa\<close> returns or a failure, is an argument.
\<close>

definition IS_NOT_DEGRADED :: c_int where
  "IS_NOT_DEGRADED = 0"

definition IS_DEGRADED :: c_int where
  "IS_DEGRADED = 1"

fun ip_to_int_loop :: "string \<Rightarrow> 32 word \<Rightarrow> 32 word \<Rightarrow> 32 word" where
  "ip_to_int_loop [] cur_val res_val = res_val"
| "ip_to_int_loop (c # ptr) cur_val res_val =
     (if c = CHR ''.'' then ip_to_int_loop ptr 0 (res_val * 256 + cur_val)
      else ip_to_int_loop ptr (cur_val * 10 + word_of_int (char_digit c)) res_val)"

definition ip_to_int :: "string \<Rightarrow> 32 word" where
  "ip_to_int ip = ip_to_int_loop ip 0 0"

definition get_ip :: "string option \<Rightarrow> ('s, buffer) prog" where
  "get_ip IPbuffer = (case IPbuffer of
       None \<Rightarrow> halt Exited
     | Some text \<Rightarrow> checked (strncpy (zeros 20) text 20))"

definition get_ip_addr :: "string option \<Rightarrow> ('s, buffer) prog" where
  "get_ip_addr IPbuffer = bnd (get_ip IPbuffer) (\<lambda>ip.
     let val = ip_to_int (cstr ip) in checked (poke (zeros 20) 0 (sprintf_u val @ [NUL])))"

definition get_identity :: "c_int \<Rightarrow> identity" where
  "get_identity degraded = \<lparr>is_master = 1, is_degraded = degraded\<rparr>"

definition PATH_MAX :: nat where
  "PATH_MAX = 4096"

definition bb_fullpath :: "string \<Rightarrow> string option" where
  \<comment> \<open>the string left in \<^verbatim>\<open>fpath\<close>: none when it does not fit, or leaves no room for its end\<close>
  "bb_fullpath path = do {
     fpath \<leftarrow> strncpy (zeros PATH_MAX) path (length path);
     if NUL \<in> set fpath then Some (cstr fpath) else None }"

section \<open>The number of an address\<close>

definition dotted :: "nat \<Rightarrow> nat \<Rightarrow> nat \<Rightarrow> nat \<Rightarrow> string" where
  \<comment> \<open>the text of an address, as \<^verbatim>\<open>inet_ntoa\<close> writes it\<close>
  "dotted a b c d = show_nat a @ ''.'' @ show_nat b @ ''.'' @ show_nat c @ ''.'' @ show_nat d"

lemma ip_to_int_loop_digits:
  "CHR ''.'' \<notin> set xs \<Longrightarrow> ip_to_int_loop (xs @ r) (word_of_int v) res
     = ip_to_int_loop r (word_of_int (digits_value v xs)) res"
proof (induction xs arbitrary: v)
  case Nil
  then show ?case by simp
next
  case (Cons x xs)
  from Cons.prems have "x \<noteq> CHR ''.''" and xs: "CHR ''.'' \<notin> set xs" by auto
  then have "ip_to_int_loop ((x # xs) @ r) (word_of_int v) res
      = ip_to_int_loop (xs @ r) (word_of_int (v * 10 + char_digit x)) res" by simp
  also have "\<dots> = ip_to_int_loop r (word_of_int (digits_value (v * 10 + char_digit x) xs)) res"
    using xs by (rule Cons.IH)
  finally show ?case by simp
qed

lemma ip_to_int_loop_show_nat:
  "ip_to_int_loop (show_nat n @ r) 0 res = ip_to_int_loop r (of_nat n) res"
proof -
  have "CHR ''.'' \<notin> set (show_nat n)" using show_nat_all_digits [of n] by blast
  from ip_to_int_loop_digits [OF this, of r 0 res] show ?thesis
    by (simp add: digits_value_show_nat)
qed

lemma ip_to_int_dotted: "ip_to_int (dotted a b c d) = of_nat (a * 65536 + b * 256 + c)"
proof -
  have "ip_to_int (dotted a b c d) = ((of_nat a * 256 + of_nat b) * 256 + of_nat c)"
    using ip_to_int_loop_show_nat [of d "[]"]
    by (simp add: ip_to_int_def dotted_def ip_to_int_loop_show_nat)
  then show ?thesis by (simp add: algebra_simps)
qed

lemma length_show_nat: "n < 10 ^ Suc k \<Longrightarrow> length (show_nat n) \<le> Suc k"
proof (induction k arbitrary: n)
  case 0
  then show ?case by (subst show_nat.simps) simp
next
  case (Suc k)
  then have "length (show_nat (n div 10)) \<le> Suc k" by simp
  then show ?case by (subst show_nat.simps) simp
qed

lemma length_sprintf_u: "length (sprintf_u w) \<le> 10"
proof -
  have "unat w < 2 ^ 32" using unsigned_less [of w] by simp
  then have "unat w < 10 ^ Suc 9" by simp
  from length_show_nat [OF this] show ?thesis by (simp add: sprintf_u_def)
qed

lemma length_dotted:
  assumes "a < 256" "b < 256" "c < 256" "d < 256"
  shows "length (dotted a b c d) \<le> 15"
proof -
  have "length (show_nat n) \<le> 3" if "n < 256" for n
    using length_show_nat [of n 2] that by simp
  from this [OF assms(1)] this [OF assms(2)] this [OF assms(3)] this [OF assms(4)]
  show ?thesis by (simp add: dotted_def)
qed

lemma is_cstring_dotted: "is_cstring (dotted a b c d)"
  by (simp add: dotted_def)

lemma get_ip_addr_text:
  assumes "is_cstring t" and "length t \<le> 20"
  shows "get_ip_addr (Some t) s = Inr (sprintf_u (ip_to_int t) @ zeros (20 - length (sprintf_u (ip_to_int t))), s)"
proof -
  let ?u = "sprintf_u (ip_to_int t)"
  have u: "length ?u \<le> 10" by (rule length_sprintf_u)
  then have z: "zeros (20 - length ?u) = NUL # zeros (19 - length ?u)" by (simp add: zeros_pos)
  have "get_ip (Some t) s = Inr (t @ zeros (20 - length t), s)"
    using assms(2) by (simp add: get_ip_def strncpy_def poke_def)
  then show ?thesis
    using u assms(1) by (simp add: get_ip_addr_def bnd_def Let_def poke_def z)
qed

lemma of_nat_small:
  assumes "n < 2 ^ 24"
  shows "unat (of_nat n :: 32 word) = n" and "\<not> cneg (of_nat n)"
proof -
  from assms show "unat (of_nat n :: 32 word) = n" by (simp add: unat_of_nat)
  from assms have "sint (of_nat n :: 32 word) = int n"
    by (simp add: signed_of_nat signed_take_bit_int_eq_self)
  then show "\<not> cneg (of_nat n)" by (simp add: cneg_def)
qed

section \<open>Properties\<close>

text \<open>
  C24. The address of a client becomes the number of its first three octets: for every dotted
  address, \<^verbatim>\<open>get_ip_addr\<close> leaves in the 20 characters of \<^verbatim>\<open>ip\<close> a text that the server's \<^verbatim>\<open>atoi\<close> reads
  back as \<open>a * 65536 + b * 256 + c\<close>, a non-negative user id below \<open>2\<^sup>2\<^sup>4\<close>. The last octet has no
  influence, since the loop of \<^verbatim>\<open>ip_to_int\<close> adds a group only when it meets the dot after it.
\<close>

theorem client_id_is_first_three_octets:
  assumes "a < 256" "b < 256" "c < 256" "d < 256"
  shows "\<exists>ip. get_ip_addr (Some (dotted a b c d)) s = Inr (ip, s) \<and>
    length ip = 20 \<and> atoi (cstr ip) = of_nat (a * 65536 + b * 256 + c) \<and>
    unat (atoi (cstr ip)) = a * 65536 + b * 256 + c \<and> \<not> cneg (atoi (cstr ip))"
proof -
  let ?t = "dotted a b c d" and ?n = "a * 65536 + b * 256 + c"
  have "?n < 2 ^ 24" using assms by simp
  note small = of_nat_small [OF this]
  from get_ip_addr_text [OF is_cstring_dotted, of a b c d s] length_dotted [OF assms]
  have "get_ip_addr (Some ?t) s = Inr (sprintf_u (of_nat ?n) @ zeros (20 - length (sprintf_u (of_nat ?n))), s)"
    by (simp add: ip_to_int_dotted)
  moreover have "cstr (sprintf_u w @ zeros k) = sprintf_u w" for w k by (simp add: sprintf_u_def)
  moreover have "length (sprintf_u w @ zeros (20 - length (sprintf_u w))) = 20" for w
    using length_sprintf_u [of w] by simp
  ultimately show ?thesis using small by (auto simp: atoi_sprintf_u)
qed

theorem client_id_is_first_three_octets_witness:
  "\<exists>ip. get_ip_addr (Some (dotted 10 148 54 200)) () = Inr (ip, ()) \<and> atoi (cstr ip) = 693302"
  using client_id_is_first_three_octets [of 10 148 54 200 "()"] by auto

text \<open>A C string arrives at the server as it was given, if it is shorter than \<^verbatim>\<open>PATH_MAX\<close>.\<close>

lemma bb_fullpath_eq:
  assumes "is_cstring path"
  shows "bb_fullpath path = (if length path < PATH_MAX then Some path else None)"
proof -
  consider "length path < PATH_MAX" | "length path = PATH_MAX" | "PATH_MAX < length path" by linarith
  then show ?thesis
  proof cases
    case 1
    then have "NUL \<in> set (path @ zeros (PATH_MAX - length path))" by (simp add: zeros_pos)
    with 1 assms show ?thesis by (simp add: bb_fullpath_def strncpy_zeros)
  next
    case 2
    then have "strncpy (zeros PATH_MAX) path (length path) = Some path"
      using strncpy_zeros [of path PATH_MAX] by simp
    with 2 assms show ?thesis by (simp add: bb_fullpath_def is_cstring_def)
  next
    case 3
    then show ?thesis by (simp add: bb_fullpath_def strncpy_overflow)
  qed
qed

end
