(* ===== verification/Client_Ops.thy ===== *)
theory Client_Ops
  imports Clnt_Stubs Client_Identity
begin

text \<open>
  The file system operations of the client (\<^verbatim>\<open>tweakfs.c\<close>), which FUSE calls: each connects to a
  server, sends one request through its stub and returns what the reply says; \<^verbatim>\<open>bb_read\<close> and \<^verbatim>\<open>bb_write\<close>
  repeat it. The failure of a call is only logged, so the result object \<open>ret\<close>, a local that starts
  uninitialised, is a parameter: the object the operation reads when no reply arrived. A buffer of the
  caller is the list of its characters. Messages to the log are left out.
\<close>

section \<open>The client and its connection\<close>

text \<open>The globals that do not change after \<^verbatim>\<open>main\<close>, and the library.\<close>

record 'w client_env =
  c_rpc :: "'w rpc"
  c_xdr :: xdr_library
  c_ip :: string
  c_host1 :: string
  c_host2 :: string
  c_rootdir :: string

text \<open>The process, with the static variable of \<^verbatim>\<open>bb_getattr\<close>.\<close>

record 'w client = "'w process" +
  initialized :: bool

definition CONNECT_SERVER :: "'w client_env \<Rightarrow> (('w, 'z) process_scheme, clnt \<times> c_int) prog" where
  "CONNECT_SERVER C = bnd (on_world (rpc_clnt_create (c_rpc C) (c_host1 C) ''tcp'')) (\<lambda>clnt. case clnt of
       Some clnt \<Rightarrow> ret (clnt, IS_NOT_DEGRADED)
     | None \<Rightarrow> bnd (on_world (rpc_clnt_create (c_rpc C) (c_host2 C) ''tcp'')) (\<lambda>clnt. case clnt of
           None \<Rightarrow> halt Exited
         | Some clnt \<Rightarrow> ret (clnt, IS_DEGRADED)))"

definition rpc_call :: "'w client_env \<Rightarrow> ('w, 'a, 'r) stub \<Rightarrow> 'a \<Rightarrow> 'r \<Rightarrow> clnt \<Rightarrow> (('w, 'z) process_scheme, 'r) prog" where
  \<comment> \<open>\<^verbatim>\<open>retval = stub (&arg, &ret, clnt)\<close>: \<open>retval\<close> is only logged\<close>
  "rpc_call C stub arg ret0 clnt =
     on_world (\<lambda>w. case stub (c_xdr C) (c_rpc C) arg ret0 clnt w of ((retval, r), w') \<Rightarrow> (r, w'))"

definition clnt_destroy :: "'w client_env \<Rightarrow> clnt \<Rightarrow> (('w, 'z) process_scheme, unit) prog" where
  "clnt_destroy C clnt = on_world (\<lambda>w. ((), rpc_clnt_destroy (c_rpc C) clnt w))"

definition init_rootdir :: "'w client_env \<Rightarrow> init_ret \<Rightarrow> (('w, 'z) process_scheme, unit) prog" where
  "init_rootdir C ret0 =
     bnd (CONNECT_SERVER C) (\<lambda>(clnt, degraded).
     let arg = \<lparr>init_arg_server_info = get_identity degraded, init_arg_ip = c_ip C,
                init_arg_rootdir = c_rootdir C\<rparr> in
     bnd (rpc_call C init_rootdir_6 arg ret0 clnt) (\<lambda>r.
     bnd (clnt_destroy C clnt) (\<lambda>_.
     if cneg (init_ret_ret r) then halt Exited else ret ())))"

section \<open>Attributes\<close>

definition bb_getattr ::
  "'w client_env \<Rightarrow> init_ret \<Rightarrow> getattr_ret \<Rightarrow> string \<Rightarrow> stat_buf \<Rightarrow> ('w client, c_int \<times> stat_buf) prog" where
  "bb_getattr C init0 ret0 path statbuf =
     bnd (\<lambda>s. if \<not> initialized s
              then bnd (init_rootdir C init0) (\<lambda>_ s. Inr ((), s\<lparr>initialized := True\<rparr>)) s
              else ret () s) (\<lambda>_.
     bnd (CONNECT_SERVER C) (\<lambda>(clnt, degraded).
     bnd (checked (bb_fullpath path)) (\<lambda>fpath.
     let arg = \<lparr>getattr_arg_ip = c_ip C, getattr_arg_path = fpath\<rparr> in
     bnd (rpc_call C bb_getattr_6 arg ret0 clnt) (\<lambda>r.
     bnd (clnt_destroy C clnt) (\<lambda>_.
     if cneg (getattr_ret_ret r) then ret (getattr_ret_ret r, statbuf)
     else ret (0, \<lparr>
       st_dev = scast (getattr_ret_st_dev r),
       st_ino = scast (getattr_ret_st_ino r),
       st_mode = getattr_ret_st_mode r,
       st_nlink = scast (getattr_ret_st_nlink r),
       st_uid = getattr_ret_st_uid r,
       st_gid = getattr_ret_st_gid r,
       st_rdev = scast (getattr_ret_st_rdev r),
       st_size = getattr_ret_st_size r,
       st_blksize = getattr_ret_st_blksize r,
       st_blocks = getattr_ret_st_blocks r,
       st_atime = getattr_ret_st_acc_time r,
       st_mtime = getattr_ret_st_mod_time r,
       st_ctime = getattr_ret_st_chg_time r\<rparr>))))))"

definition bb_fgetattr ::
  "'w client_env \<Rightarrow> init_ret \<Rightarrow> getattr_ret \<Rightarrow> string \<Rightarrow> stat_buf \<Rightarrow> ('w client, c_int \<times> stat_buf) prog" where
  "bb_fgetattr C init0 ret0 path statbuf = bb_getattr C init0 ret0 path statbuf"

definition bb_access :: "'w client_env \<Rightarrow> access_ret \<Rightarrow> string \<Rightarrow> c_int \<Rightarrow> (('w, 'z) process_scheme, c_int) prog" where
  "bb_access C ret0 path amask =
     bnd (CONNECT_SERVER C) (\<lambda>(clnt, degraded).
     bnd (checked (bb_fullpath path)) (\<lambda>fpath.
     let arg = \<lparr>access_arg_ip = c_ip C, access_arg_path = fpath, access_arg_mask = amask\<rparr> in
     bnd (rpc_call C bb_access_6 arg ret0 clnt) (\<lambda>r.
     bnd (clnt_destroy C clnt) (\<lambda>_. ret (access_ret_ret r)))))"

definition bb_statfs ::
  "'w client_env \<Rightarrow> statfs_ret \<Rightarrow> string \<Rightarrow> statvfs_buf \<Rightarrow> (('w, 'z) process_scheme, c_int \<times> statvfs_buf) prog" where
  "bb_statfs C ret0 path statv =
     bnd (CONNECT_SERVER C) (\<lambda>(clnt, degraded).
     bnd (checked (bb_fullpath path)) (\<lambda>fpath.
     let arg = \<lparr>statfs_arg_path = fpath\<rparr> in
     bnd (rpc_call C bb_statfs_6 arg ret0 clnt) (\<lambda>r.
     if cneg (statfs_ret_ret r) then bnd (clnt_destroy C clnt) (\<lambda>_. ret (- 1, statv))
     else bnd (clnt_destroy C clnt) (\<lambda>_. ret (0, \<lparr>
       f_bsize = statfs_ret_f_bsize r,
       f_frsize = statfs_ret_f_frsize r,
       f_blocks = statfs_ret_f_blocks r,
       f_bfree = statfs_ret_f_bfree r,
       f_bavail = statfs_ret_f_bavail r,
       f_files = statfs_ret_f_files r,
       f_ffree = statfs_ret_f_ffree r,
       f_favail = statfs_ret_f_favail r,
       f_fsid = statfs_ret_f_fsid r,
       f_flag = statfs_ret_f_flag r,
       f_namemax = statfs_ret_f_namemax r\<rparr>)))))"

text \<open>
  \<open>buf\<close> is the caller's array, of at least \<open>sz\<close> characters. The text copied from the reply ends at
  its null character; without one, a copy of more than its array reads past it.
\<close>

definition bb_readlink ::
  "'w client_env \<Rightarrow> readlink_ret \<Rightarrow> string \<Rightarrow> buffer \<Rightarrow> c_long \<Rightarrow> (('w, 'z) process_scheme, c_int \<times> buffer) prog" where
  "bb_readlink C ret0 path buf sz =
     bnd (CONNECT_SERVER C) (\<lambda>(clnt, degraded).
     bnd (checked (bb_fullpath path)) (\<lambda>fpath.
     let arg = \<lparr>readlink_arg_ip = c_ip C, readlink_arg_path = fpath, readlink_arg_size = ucast (sz - 1)\<rparr> in
     bnd (rpc_call C bb_readlink_6 arg ret0 clnt) (\<lambda>r.
     bnd (clnt_destroy C clnt) (\<lambda>_.
     let text = readlink_ret_buffer r in
     bnd (checked (if NUL \<notin> set text \<and> length text < unat sz then None
                   else strncpy buf (cstr text) (unat sz))) (\<lambda>buf.
     if readlink_ret_ret r = - 1 then ret (readlink_ret_ret r, buf)
     else bnd (checked (if cneg (readlink_ret_len r) then None
                        else poke buf (unat (readlink_ret_len r)) [NUL])) (\<lambda>buf.
          ret (0, buf)))))))"

section \<open>Names\<close>

definition bb_mknod ::
  "'w client_env \<Rightarrow> mknod_ret \<Rightarrow> string \<Rightarrow> c_int \<Rightarrow> c_long \<Rightarrow> (('w, 'z) process_scheme, c_int) prog" where
  "bb_mknod C ret0 path mode dev =
     bnd (CONNECT_SERVER C) (\<lambda>(clnt, degraded).
     bnd (checked (bb_fullpath path)) (\<lambda>fpath.
     let arg = \<lparr>mknod_arg_ip = c_ip C, mknod_arg_server_info = get_identity degraded,
                mknod_arg_path = fpath, mknod_arg_mode = mode, mknod_arg_dev = ucast dev\<rparr> in
     bnd (rpc_call C bb_mknod_6 arg ret0 clnt) (\<lambda>r.
     bnd (clnt_destroy C clnt) (\<lambda>_. ret (mknod_ret_ret r)))))"

definition bb_mkdir ::
  "'w client_env \<Rightarrow> mkdir_ret \<Rightarrow> string \<Rightarrow> c_int \<Rightarrow> (('w, 'z) process_scheme, c_int) prog" where
  "bb_mkdir C ret0 path mode =
     bnd (CONNECT_SERVER C) (\<lambda>(clnt, degraded).
     bnd (checked (bb_fullpath path)) (\<lambda>fpath.
     let arg = \<lparr>mkdir_arg_ip = c_ip C, mkdir_arg_server_info = get_identity degraded,
                mkdir_arg_path = fpath, mkdir_arg_mode = mode\<rparr> in
     bnd (rpc_call C bb_mkdir_6 arg ret0 clnt) (\<lambda>r.
     bnd (clnt_destroy C clnt) (\<lambda>_. ret (mkdir_ret_ret r)))))"

definition bb_unlink :: "'w client_env \<Rightarrow> unlink_ret \<Rightarrow> string \<Rightarrow> (('w, 'z) process_scheme, c_int) prog" where
  "bb_unlink C ret0 path =
     bnd (CONNECT_SERVER C) (\<lambda>(clnt, degraded).
     bnd (checked (bb_fullpath path)) (\<lambda>fpath.
     let arg = \<lparr>unlink_arg_ip = c_ip C, unlink_arg_server_info = get_identity degraded,
                unlink_arg_path = fpath\<rparr> in
     bnd (rpc_call C bb_unlink_6 arg ret0 clnt) (\<lambda>r.
     bnd (clnt_destroy C clnt) (\<lambda>_. ret (unlink_ret_ret r)))))"

definition bb_rmdir :: "'w client_env \<Rightarrow> rmdir_ret \<Rightarrow> string \<Rightarrow> (('w, 'z) process_scheme, c_int) prog" where
  "bb_rmdir C ret0 path =
     bnd (CONNECT_SERVER C) (\<lambda>(clnt, degraded).
     bnd (checked (bb_fullpath path)) (\<lambda>fpath.
     let arg = \<lparr>rmdir_arg_ip = c_ip C, rmdir_arg_server_info = get_identity degraded,
                rmdir_arg_path = fpath\<rparr> in
     bnd (rpc_call C bb_rmdir_6 arg ret0 clnt) (\<lambda>r.
     bnd (clnt_destroy C clnt) (\<lambda>_. ret (rmdir_ret_ret r)))))"

definition bb_symlink ::
  "'w client_env \<Rightarrow> symlink_ret \<Rightarrow> string \<Rightarrow> string \<Rightarrow> (('w, 'z) process_scheme, c_int) prog" where
  "bb_symlink C ret0 path link =
     bnd (CONNECT_SERVER C) (\<lambda>(clnt, degraded).
     bnd (checked (bb_fullpath path)) (\<lambda>fpath.
     bnd (checked (bb_fullpath link)) (\<lambda>flink.
     let arg = \<lparr>symlink_arg_ip = c_ip C, symlink_arg_server_info = get_identity degraded,
                symlink_arg_path = fpath, symlink_arg_link = flink\<rparr> in
     bnd (rpc_call C bb_symlink_6 arg ret0 clnt) (\<lambda>r.
     bnd (clnt_destroy C clnt) (\<lambda>_. ret (symlink_ret_ret r))))))"

definition bb_rename ::
  "'w client_env \<Rightarrow> rename_ret \<Rightarrow> string \<Rightarrow> string \<Rightarrow> (('w, 'z) process_scheme, c_int) prog" where
  "bb_rename C ret0 path newpath =
     bnd (CONNECT_SERVER C) (\<lambda>(clnt, degraded).
     bnd (checked (bb_fullpath path)) (\<lambda>fpath.
     bnd (checked (bb_fullpath newpath)) (\<lambda>fnewpath.
     let arg = \<lparr>rename_arg_ip = c_ip C, rename_arg_server_info = get_identity degraded,
                rename_arg_path = fpath, rename_arg_newpath = fnewpath\<rparr> in
     bnd (rpc_call C bb_rename_6 arg ret0 clnt) (\<lambda>r.
     bnd (clnt_destroy C clnt) (\<lambda>_. ret (rename_ret_ret r))))))"

definition bb_link ::
  "'w client_env \<Rightarrow> link_ret \<Rightarrow> string \<Rightarrow> string \<Rightarrow> (('w, 'z) process_scheme, c_int) prog" where
  "bb_link C ret0 path newpath =
     bnd (CONNECT_SERVER C) (\<lambda>(clnt, degraded).
     bnd (checked (bb_fullpath path)) (\<lambda>fpath.
     bnd (checked (bb_fullpath newpath)) (\<lambda>fnewpath.
     let arg = \<lparr>link_arg_ip = c_ip C, link_arg_server_info = get_identity degraded,
                link_arg_path = fpath, link_arg_newpath = fnewpath\<rparr> in
     bnd (rpc_call C bb_link_6 arg ret0 clnt) (\<lambda>r.
     bnd (clnt_destroy C clnt) (\<lambda>_. ret (if cneg (link_ret_ret r) then - 1 else 0))))))"

section \<open>Changes of a file's status\<close>

definition bb_chmod ::
  "'w client_env \<Rightarrow> chmod_ret \<Rightarrow> string \<Rightarrow> c_int \<Rightarrow> (('w, 'z) process_scheme, c_int) prog" where
  "bb_chmod C ret0 path mode =
     bnd (CONNECT_SERVER C) (\<lambda>(clnt, degraded).
     bnd (checked (bb_fullpath path)) (\<lambda>fpath.
     let arg = \<lparr>chmod_arg_ip = c_ip C, chmod_arg_server_info = get_identity degraded,
                chmod_arg_path = fpath, chmod_arg_mode = mode\<rparr> in
     bnd (rpc_call C bb_chmod_6 arg ret0 clnt) (\<lambda>r.
     bnd (clnt_destroy C clnt) (\<lambda>_. ret (chmod_ret_ret r)))))"

definition bb_chown :: "string \<Rightarrow> c_int \<Rightarrow> c_int \<Rightarrow> (('w, 'z) process_scheme, c_int) prog" where
  "bb_chown path uid gid = (\<lambda>s. Inr (- 1, s\<lparr>errno := - EACCES\<rparr>))"

definition bb_truncate ::
  "'w client_env \<Rightarrow> truncate_ret \<Rightarrow> string \<Rightarrow> c_long \<Rightarrow> (('w, 'z) process_scheme, c_int) prog" where
  "bb_truncate C ret0 path newsize =
     bnd (CONNECT_SERVER C) (\<lambda>(clnt, degraded).
     bnd (checked (bb_fullpath path)) (\<lambda>fpath.
     let arg = \<lparr>truncate_arg_ip = c_ip C, truncate_arg_server_info = get_identity degraded,
                truncate_arg_path = fpath, truncate_arg_newsize = ucast newsize\<rparr> in
     bnd (rpc_call C bb_truncate_6 arg ret0 clnt) (\<lambda>r.
     bnd (clnt_destroy C clnt) (\<lambda>_. ret (truncate_ret_ret r)))))"

definition bb_utime ::
  "'w client_env \<Rightarrow> utime_ret \<Rightarrow> string \<Rightarrow> c_long \<times> c_long \<Rightarrow> (('w, 'z) process_scheme, c_int) prog" where
  \<comment> \<open>\<open>ubuf\<close>: the access time and the modification time\<close>
  "bb_utime C ret0 path ubuf =
     bnd (CONNECT_SERVER C) (\<lambda>(clnt, degraded).
     bnd (checked (bb_fullpath path)) (\<lambda>fpath.
     let arg = \<lparr>utime_arg_ip = c_ip C, utime_arg_server_info = get_identity degraded,
                utime_arg_path = fpath, utime_arg_actime = fst ubuf, utime_arg_modtime = snd ubuf\<rparr> in
     bnd (rpc_call C bb_utime_6 arg ret0 clnt) (\<lambda>r.
     bnd (clnt_destroy C clnt) (\<lambda>_. ret (utime_ret_ret r)))))"

section \<open>Open files\<close>

record fuse_file_info =
  fi_flags :: c_int
  fi_fh :: c_long

definition bb_open ::
  "'w client_env \<Rightarrow> open_ret \<Rightarrow> string \<Rightarrow> fuse_file_info \<Rightarrow> (('w, 'z) process_scheme, c_int \<times> fuse_file_info) prog" where
  "bb_open C ret0 path fi =
     bnd (CONNECT_SERVER C) (\<lambda>(clnt, degraded).
     bnd (checked (bb_fullpath path)) (\<lambda>fpath.
     let arg = \<lparr>open_arg_ip = c_ip C, open_arg_path = fpath, open_arg_flags = fi_flags fi\<rparr> in
     bnd (rpc_call C bb_open_6 arg ret0 clnt) (\<lambda>r.
     bnd (clnt_destroy C clnt) (\<lambda>_.
     if cneg (open_ret_ret r) then ret (- 1, fi)
     else ret (0, fi\<lparr>fi_fh := scast (open_ret_fd r)\<rparr>)))))"

definition bb_release ::
  "'w client_env \<Rightarrow> release_ret \<Rightarrow> string \<Rightarrow> fuse_file_info \<Rightarrow> (('w, 'z) process_scheme, c_int) prog" where
  "bb_release C ret0 path fi =
     bnd (CONNECT_SERVER C) (\<lambda>(clnt, degraded).
     let arg = \<lparr>release_arg_ip = c_ip C, release_arg_fd = ucast (fi_fh fi)\<rparr> in
     bnd (rpc_call C bb_release_6 arg ret0 clnt) (\<lambda>r.
     bnd (clnt_destroy C clnt) (\<lambda>_. ret (if cneg (release_ret_ret r) then - 1 else 0))))"

definition bb_flush :: "string \<Rightarrow> fuse_file_info \<Rightarrow> (('w, 'z) process_scheme, c_int) prog" where
  "bb_flush path fi = ret 0"

definition bb_fsyncdir :: "string \<Rightarrow> c_int \<Rightarrow> fuse_file_info \<Rightarrow> (('w, 'z) process_scheme, c_int) prog" where
  "bb_fsyncdir path datasync fi = ret 0"

text \<open>
  The loop of \<^verbatim>\<open>bb_read\<close>, with a number of rounds it may take. \<open>total_len\<close> is an \<^verbatim>\<open>int\<close>, extended with its
  sign where it meets the \<^verbatim>\<open>size_t\<close> of the request.
\<close>

fun bb_read_loop ::
  "nat \<Rightarrow> 'w client_env \<Rightarrow> clnt \<Rightarrow> c_long \<Rightarrow> read_arg \<Rightarrow> read_ret \<Rightarrow> buffer \<Rightarrow> c_int \<Rightarrow>
   (('w, 'z) process_scheme, c_int \<times> buffer) prog" where
  "bb_read_loop 0 C clnt sz arg r buf total_len = halt NoFuel"
| "bb_read_loop (Suc n) C clnt sz arg r buf total_len =
     (if \<not> scast total_len < sz
      then bnd (clnt_destroy C clnt) (\<lambda>_. ret (total_len, buf))
      else bnd (rpc_call C bb_read_6 arg r clnt) (\<lambda>r.
        if cneg (read_ret_ret r) then bnd (clnt_destroy C clnt) (\<lambda>_. ret (- 1, buf))
        else let len = read_ret_len r in
          if len = 0 then bnd (clnt_destroy C clnt) (\<lambda>_. ret (total_len, buf))
          else bnd (checked (if cneg total_len then None else poke buf (unat total_len) (read_ret_buffer r))) (\<lambda>buf.
            let total_len = total_len + len;
                left_size = ucast (sz - scast total_len);
                arg = arg\<lparr>read_arg_offset := read_arg_offset arg + len,
                          read_arg_size := (if sint left_size \<le> int MAX_SIZE then left_size else of_nat MAX_SIZE)\<rparr>
            in bb_read_loop n C clnt sz arg r buf total_len)))"

definition bb_read ::
  "nat \<Rightarrow> 'w client_env \<Rightarrow> read_ret \<Rightarrow> string \<Rightarrow> buffer \<Rightarrow> c_long \<Rightarrow> c_long \<Rightarrow> fuse_file_info \<Rightarrow>
   (('w, 'z) process_scheme, c_int \<times> buffer) prog" where
  "bb_read n C ret0 path buf sz offset fi =
     bnd (CONNECT_SERVER C) (\<lambda>(clnt, degraded).
     let arg = \<lparr>read_arg_ip = c_ip C, read_arg_fd = ucast (fi_fh fi),
                read_arg_size = (if sz \<le> of_nat MAX_SIZE then ucast sz else of_nat MAX_SIZE),
                read_arg_offset = ucast offset\<rparr> in
     bb_read_loop n C clnt sz arg ret0 buf 0)"

text \<open>\<^verbatim>\<open>memcpy(arg.buffer, buf + total_len, MAX_SIZE)\<close>.\<close>

definition copy_block :: "buffer \<Rightarrow> c_int \<Rightarrow> buffer option" where
  "copy_block buf total_len =
     (if \<not> cneg total_len \<and> unat total_len + MAX_SIZE \<le> length buf
      then Some (take MAX_SIZE (drop (unat total_len) buf)) else None)"

fun bb_write_loop ::
  "nat \<Rightarrow> 'w client_env \<Rightarrow> clnt \<Rightarrow> buffer \<Rightarrow> c_long \<Rightarrow> c_long \<Rightarrow> write_arg \<Rightarrow> write_ret \<Rightarrow> c_int \<Rightarrow>
   (('w, 'z) process_scheme, c_int) prog" where
  "bb_write_loop 0 C clnt buf sz offset arg r total_len = halt NoFuel"
| "bb_write_loop (Suc n) C clnt buf sz offset arg r total_len =
     bnd (rpc_call C bb_write_6 arg r clnt) (\<lambda>r.
       if cneg (write_ret_ret r) then bnd (clnt_destroy C clnt) (\<lambda>_. ret (- 1))
       else let len = write_ret_len r; total_len = total_len + len in
         if scast total_len = sz then ret total_len
         else bnd (checked (copy_block buf total_len)) (\<lambda>block.
           let arg = arg\<lparr>write_arg_size := ucast (sz - scast len),
                         write_arg_offset := ucast (offset + scast len),
                         write_arg_buffer := block\<rparr>
           in bb_write_loop n C clnt buf sz offset arg r total_len))"

definition bb_write ::
  "nat \<Rightarrow> 'w client_env \<Rightarrow> write_ret \<Rightarrow> string \<Rightarrow> buffer \<Rightarrow> c_long \<Rightarrow> c_long \<Rightarrow> fuse_file_info \<Rightarrow>
   (('w, 'z) process_scheme, c_int) prog" where
  "bb_write n C ret0 path buf sz offset fi =
     bnd (CONNECT_SERVER C) (\<lambda>(clnt, degraded).
     bnd (checked (bb_fullpath path)) (\<lambda>fpath.
     bnd (checked (copy_block buf 0)) (\<lambda>block.
     let arg = \<lparr>write_arg_ip = c_ip C, write_arg_server_info = get_identity degraded,
                write_arg_fd = ucast (fi_fh fi), write_arg_path = fpath, write_arg_size = ucast sz,
                write_arg_offset = ucast offset, write_arg_buffer = block\<rparr> in
     bb_write_loop n C clnt buf sz offset arg ret0 0)))"

section \<open>Directories\<close>

definition bb_opendir ::
  "'w client_env \<Rightarrow> opendir_ret \<Rightarrow> string \<Rightarrow> fuse_file_info \<Rightarrow> (('w, 'z) process_scheme, c_int \<times> fuse_file_info) prog" where
  "bb_opendir C ret0 path fi =
     bnd (CONNECT_SERVER C) (\<lambda>(clnt, degraded).
     bnd (checked (bb_fullpath path)) (\<lambda>fpath.
     let arg = \<lparr>opendir_arg_ip = c_ip C, opendir_arg_path = fpath\<rparr> in
     bnd (rpc_call C bb_opendir_6 arg ret0 clnt) (\<lambda>r.
     bnd (clnt_destroy C clnt) (\<lambda>_.
     if opendir_ret_ret r \<noteq> 0 then ret (- 1, fi)
     else ret (0, fi\<lparr>fi_fh := scast (opendir_ret_fd r)\<rparr>)))))"

text \<open>
  The entries of a reply, given one by one to the callback \<open>filler\<close> of FUSE, which takes a name into
  the buffer \<open>d\<close> and says with \<open>0\<close> that it did. \<open>None\<close>: a name that no null character ends.
\<close>

fun fill_names :: "('d \<Rightarrow> string \<Rightarrow> c_int \<times> 'd) \<Rightarrow> nat \<Rightarrow> buffer \<Rightarrow> 'd \<Rightarrow> (c_int \<times> 'd) option" where
  "fill_names filler 0 entries d = Some (0, d)"
| "fill_names filler (Suc n) entries d =
     (if NUL \<notin> set entries then None
      else case filler d (cstr entries) of (r, d') \<Rightarrow>
        if r \<noteq> 0 then Some (- ENOMEM, d')
        else fill_names filler n (drop (length (cstr entries) + 1) entries) d')"

definition bb_readdir ::
  "'w client_env \<Rightarrow> readdir_ret \<Rightarrow> string \<Rightarrow> 'd \<Rightarrow> ('d \<Rightarrow> string \<Rightarrow> c_int \<times> 'd) \<Rightarrow> fuse_file_info \<Rightarrow>
   (('w, 'z) process_scheme, c_int \<times> 'd) prog" where
  "bb_readdir C ret0 path buf filler fi =
     bnd (CONNECT_SERVER C) (\<lambda>(clnt, degraded).
     let arg = \<lparr>readdir_arg_fd = ucast (fi_fh fi)\<rparr> in
     bnd (rpc_call C bb_readdir_6 arg ret0 clnt) (\<lambda>r.
     bnd (clnt_destroy C clnt) (\<lambda>_.
     if readdir_ret_ret r \<noteq> 0 then ret (- 1, buf)
     else checked (fill_names filler (nat (sint (readdir_ret_count r))) (readdir_ret_entries r) buf))))"

definition bb_releasedir ::
  "'w client_env \<Rightarrow> releasedir_ret \<Rightarrow> string \<Rightarrow> fuse_file_info \<Rightarrow> (('w, 'z) process_scheme, c_int) prog" where
  "bb_releasedir C ret0 path fi =
     bnd (CONNECT_SERVER C) (\<lambda>(clnt, degraded).
     let arg = \<lparr>releasedir_arg_fd = ucast (fi_fh fi)\<rparr> in
     bnd (rpc_call C bb_releasedir_6 arg ret0 clnt) (\<lambda>r.
     bnd (clnt_destroy C clnt) (\<lambda>_. ret (if cneg (releasedir_ret_ret r) then - 1 else 0))))"

end
