(* ===== verification/Client_Server.thy ===== *)
theory Client_Server
  imports Client_Ops Replication
begin

text \<open>
  The client on top of a server: the world of the client process is the process of the server, and its
  transport hands requests to the dispatcher. The operations of the client are shown to run the handlers
  of the server on the requests they form, and to return what the reply says.
\<close>

section \<open>A client of a server\<close>

text \<open>
  \<open>up host\<close>: a connection to \<open>host\<close> can be made. A connection by \<^verbatim>\<open>tcp\<close> bounds no message; the
  number given is above the length of every request the client can form.
\<close>

definition client_rpc :: "(string \<Rightarrow> bool) \<Rightarrow> 'w env \<Rightarrow> stack_garbage \<Rightarrow> 'w process rpc" where
  "client_rpc up E G = \<lparr>rpc_clnt_create = (\<lambda>host proto q. (if up host then Some 0 else None, q)),
     rpc_send = (\<lambda>c proc request q. serve E G proc request q),
     rpc_clnt_destroy = (\<lambda>c q. q), rpc_limit = (\<lambda>c. 10000)\<rparr>"

definition client_of ::
  "(string \<Rightarrow> bool) \<Rightarrow> 'w env \<Rightarrow> stack_garbage \<Rightarrow> string \<Rightarrow> string \<Rightarrow> string \<Rightarrow> string \<Rightarrow> 'w process client_env" where
  "client_of up E G ip host1 host2 root = \<lparr>c_rpc = client_rpc up E G, c_xdr = e_xdr E, c_ip = ip,
     c_host1 = host1, c_host2 = host2, c_rootdir = root\<rparr>"

lemma client_of_simps [simp]:
  "c_rpc (client_of up E G ip h1 h2 root) = client_rpc up E G"
  "c_xdr (client_of up E G ip h1 h2 root) = e_xdr E"
  "c_ip (client_of up E G ip h1 h2 root) = ip"
  "c_host1 (client_of up E G ip h1 h2 root) = h1"
  "c_host2 (client_of up E G ip h1 h2 root) = h2"
  "c_rootdir (client_of up E G ip h1 h2 root) = root"
  by (simp_all add: client_of_def)

lemma client_rpc_simps [simp]:
  "rpc_clnt_create (client_rpc up E G) host proto q = (if up host then Some 0 else None, q)"
  "rpc_clnt_destroy (client_rpc up E G) c q = q"
  "rpc_send (client_rpc up E G) c proc request q = serve E G proc request q"
  "rpc_limit (client_rpc up E G) c = 10000"
  by (simp_all add: client_rpc_def)

text \<open>What a request says of the servers: degraded exactly when the primary cannot be reached.\<close>

definition server_state :: "(string \<Rightarrow> bool) \<Rightarrow> string \<Rightarrow> c_int" where
  "server_state up host1 = (if up host1 then IS_NOT_DEGRADED else IS_DEGRADED)"

text \<open>
  C20. The client connects to the primary if it can, else to the secondary, and then marks every request as
  degraded, so that the secondary does not transmit it; if neither answers, the client exits.
\<close>

theorem connection_fails_over:
  "CONNECT_SERVER (client_of up E G ip h1 h2 root) s
     = (if up h1 \<or> up h2 then Inr ((0, server_state up h1), s) else Inl (Exited, s)) \<and>
   transmits (get_identity (server_state up h1)) = up h1"
  by (simp add: CONNECT_SERVER_def bnd_def on_world_def server_state_def get_identity_def transmits_def
    IS_DEGRADED_def IS_NOT_DEGRADED_def)

lemma connect_run:
  "up h1 \<or> up h2 \<Longrightarrow> CONNECT_SERVER (client_of up E G ip h1 h2 root) s = Inr ((0, server_state up h1), s)"
  by (auto simp: CONNECT_SERVER_def bnd_def on_world_def server_state_def)

lemma destroy_run: "clnt_destroy (client_of up E G ip h1 h2 root) c s = Inr ((), s)"
  by (simp add: clnt_destroy_def on_world_def)

section \<open>A call of the client is a call of the handler\<close>

text \<open>
  The outcome of a call: the reply and the state of the server when the handler returned; when it did
  not, the object the client had and the state the server stopped in.
\<close>

definition replied :: "'r \<Rightarrow> (stop \<times> 'w process) + ('r \<times> 'w process) \<Rightarrow> 'r \<times> 'w process" where
  "replied r0 outcome = (case outcome of Inl (e, q) \<Rightarrow> (r0, q) | Inr (r, q) \<Rightarrow> (r, q))"

context rpc_procedure
begin

lemma client_call:
  assumes "ok_arg a" and "length (encoding xarg a) \<le> 10000"
    and "\<And>r q'. handler a q = Inr (r, q') \<Longrightarrow> ok_ret r"
  shows "\<exists>st. clnt_call (client_rpc up E G) c proc xarg a xret r0 q =
    ((st, fst (replied r0 (handler a q))), snd (replied r0 (handler a q)))"
proof (cases "handler a q")
  case (Inl x)
  then obtain e q' where x: "handler a q = Inl (e, q')" by (cases x) auto
  have "serve E G proc (encoding xarg a) q = (Inl 5, q')"
    using stopped [OF assms(1) x] by (simp add: serve_def)
  moreover have "xarg \<lparr>x_op = XDR_ENCODE, x_bytes = []\<rparr> a = (True, \<lparr>x_op = XDR_ENCODE, x_bytes = encoding xarg a\<rparr>, a)"
    using xdr_codec.encodes [OF arg_codec assms(1), of "\<lparr>x_op = XDR_ENCODE, x_bytes = []\<rparr>"]
    by (simp add: put_bytes_def)
  ultimately show ?thesis using assms(2) by (simp add: clnt_call_def x replied_def)
next
  case (Inr x)
  then obtain r q' where x: "handler a q = Inr (r, q')" by (cases x) auto
  have "clnt_call (client_rpc up E G) c proc xarg a xret r0 q = ((RPC_SUCCESS, r), q')"
    using assms(2) served [OF assms(1) x assms(3) [OF x]]
    by (intro called [OF assms(1) assms(3) [OF x]]) simp_all
  then show ?thesis by (simp add: x replied_def)
qed

end

text \<open>The call of an operation, with the connection made and closed around it.\<close>

lemma rpc_call_run:
  assumes "\<exists>st. stub (e_xdr E) (client_rpc up E G) a r0 c (world s) = ((st, r), q)"
  shows "rpc_call (client_of up E G ip h1 h2 root) stub a r0 c s = Inr (r, s\<lparr>world := q\<rparr>)"
  using assms by (auto simp: rpc_call_def on_world_def)

lemma length_string_bytes: "length (string_bytes s) \<le> length s + 7"
proof -
  have "padding n < 4" for n by (simp add: padding_def)
  then have "padding (length s) \<le> 3" by (simp add: less_Suc_eq_le [symmetric])
  then show ?thesis by (simp add: string_bytes_def)
qed

lemma length_identity: "length (encoding xdr_identity i) = 8"
  by (simp add: encoding_identity)

text \<open>A path and an address that the client sends.\<close>

definition is_path :: "string \<Rightarrow> bool" where
  "is_path path \<longleftrightarrow> is_cstring path \<and> length path < PATH_MAX"

definition is_ip :: "string \<Rightarrow> bool" where
  "is_ip ip \<longleftrightarrow> is_cstring ip \<and> length ip < 20"

lemma is_path_sendable: "is_path p \<Longrightarrow> sendable p"
  by (simp add: is_path_def sendable_def PATH_MAX_def)

lemma is_ip_sendable: "is_ip p \<Longrightarrow> sendable p"
  by (simp add: is_ip_def sendable_def)

lemma is_path_full: "is_path p \<Longrightarrow> bb_fullpath p = Some p"
  by (simp add: is_path_def bb_fullpath_eq)

lemma path_bytes: "is_path p \<Longrightarrow> length (string_bytes p) \<le> 4102"
  using length_string_bytes [of p] by (simp add: is_path_def PATH_MAX_def)

lemma ip_bytes: "is_ip p \<Longrightarrow> length (string_bytes p) \<le> 26"
  using length_string_bytes [of p] by (simp add: is_ip_def)

lemmas sent_simps = is_path_sendable is_ip_sendable length_identity

lemma sent_mkdir:
  assumes "is_ip (mkdir_arg_ip a)" and "is_path (mkdir_arg_path a)"
  shows "ok_mkdir_arg a \<and> length (encoding xdr_mkdir_arg a) \<le> 10000"
proof -
  have "\<exists>bs. enc_ok xdr_mkdir_arg a bs \<and> length bs \<le> 10000"
    unfolding xdr_mkdir_arg_def
    by - (rule exI conjI enc_rules enc_prims enc_ok_identity | simp add: sent_simps assms; fail
      | use ip_bytes [OF assms(1)] path_bytes [OF assms(2)] in \<open>simp add: length_identity\<close>)+
  then show ?thesis using assms by (auto simp: ok_mkdir_arg_def sent_simps dest: encoding_eq)
qed

lemma run_mkdir:
  assumes "up h1 \<or> up h2" and "is_ip ip" and "is_path path"
  shows "bb_mkdir (client_of up E G ip h1 h2 root) r0 path mode s =
    (case replied r0 (bb_mkdir_6_svc E (g_mkdir_ret G) \<lparr>mkdir_arg_ip = ip, mkdir_arg_server_info = get_identity (server_state up h1), mkdir_arg_path = path, mkdir_arg_mode = mode\<rparr> (g_mkdir_ret G) (world s)) of
      (r, q) \<Rightarrow> Inr (mkdir_ret_ret r, s\<lparr>world := q\<rparr>))"
proof -
  let ?a = "\<lparr>mkdir_arg_ip = ip, mkdir_arg_server_info = get_identity (server_state up h1), mkdir_arg_path = path, mkdir_arg_mode = mode\<rparr>"
  have "\<exists>st. bb_mkdir_6 (e_xdr E) (client_rpc up E G) ?a r0 0 (world s) = ((st,
      fst (replied r0 (bb_mkdir_6_svc E (g_mkdir_ret G) ?a (g_mkdir_ret G) (world s)))), snd (replied r0 (bb_mkdir_6_svc E (g_mkdir_ret G) ?a (g_mkdir_ret G) (world s))))"
    unfolding bb_mkdir_6_def using sent_mkdir [of ?a] assms(2-)
    by (intro call_mkdir.client_call) simp_all
  then have call: "rpc_call (client_of up E G ip h1 h2 root) bb_mkdir_6 ?a r0 0 s = Inr (
      fst (replied r0 (bb_mkdir_6_svc E (g_mkdir_ret G) ?a (g_mkdir_ret G) (world s))),
      s\<lparr>world := snd (replied r0 (bb_mkdir_6_svc E (g_mkdir_ret G) ?a (g_mkdir_ret G) (world s)))\<rparr>)"
    by (rule rpc_call_run)
  show ?thesis
    using assms by (simp add: bb_mkdir_def bnd_def connect_run call destroy_run is_path_full split: prod.split)
qed

lemma sent_unlink:
  assumes "is_ip (unlink_arg_ip a)" and "is_path (unlink_arg_path a)"
  shows "ok_unlink_arg a \<and> length (encoding xdr_unlink_arg a) \<le> 10000"
proof -
  have "\<exists>bs. enc_ok xdr_unlink_arg a bs \<and> length bs \<le> 10000"
    unfolding xdr_unlink_arg_def
    by - (rule exI conjI enc_rules enc_prims enc_ok_identity | simp add: sent_simps assms; fail
      | use ip_bytes [OF assms(1)] path_bytes [OF assms(2)] in \<open>simp add: length_identity\<close>)+
  then show ?thesis using assms by (auto simp: ok_unlink_arg_def sent_simps dest: encoding_eq)
qed

lemma run_unlink:
  assumes "up h1 \<or> up h2" and "is_ip ip" and "is_path path"
  shows "bb_unlink (client_of up E G ip h1 h2 root) r0 path s =
    (case replied r0 (bb_unlink_6_svc E (g_unlink_ret G) \<lparr>unlink_arg_ip = ip, unlink_arg_server_info = get_identity (server_state up h1), unlink_arg_path = path\<rparr> (g_unlink_ret G) (world s)) of
      (r, q) \<Rightarrow> Inr (unlink_ret_ret r, s\<lparr>world := q\<rparr>))"
proof -
  let ?a = "\<lparr>unlink_arg_ip = ip, unlink_arg_server_info = get_identity (server_state up h1), unlink_arg_path = path\<rparr>"
  have "\<exists>st. bb_unlink_6 (e_xdr E) (client_rpc up E G) ?a r0 0 (world s) = ((st,
      fst (replied r0 (bb_unlink_6_svc E (g_unlink_ret G) ?a (g_unlink_ret G) (world s)))), snd (replied r0 (bb_unlink_6_svc E (g_unlink_ret G) ?a (g_unlink_ret G) (world s))))"
    unfolding bb_unlink_6_def using sent_unlink [of ?a] assms(2-)
    by (intro call_unlink.client_call) simp_all
  then have call: "rpc_call (client_of up E G ip h1 h2 root) bb_unlink_6 ?a r0 0 s = Inr (
      fst (replied r0 (bb_unlink_6_svc E (g_unlink_ret G) ?a (g_unlink_ret G) (world s))),
      s\<lparr>world := snd (replied r0 (bb_unlink_6_svc E (g_unlink_ret G) ?a (g_unlink_ret G) (world s)))\<rparr>)"
    by (rule rpc_call_run)
  show ?thesis
    using assms by (simp add: bb_unlink_def bnd_def connect_run call destroy_run is_path_full split: prod.split)
qed

lemma sent_rmdir:
  assumes "is_ip (rmdir_arg_ip a)" and "is_path (rmdir_arg_path a)"
  shows "ok_rmdir_arg a \<and> length (encoding xdr_rmdir_arg a) \<le> 10000"
proof -
  have "\<exists>bs. enc_ok xdr_rmdir_arg a bs \<and> length bs \<le> 10000"
    unfolding xdr_rmdir_arg_def
    by - (rule exI conjI enc_rules enc_prims enc_ok_identity | simp add: sent_simps assms; fail
      | use ip_bytes [OF assms(1)] path_bytes [OF assms(2)] in \<open>simp add: length_identity\<close>)+
  then show ?thesis using assms by (auto simp: ok_rmdir_arg_def sent_simps dest: encoding_eq)
qed

lemma run_rmdir:
  assumes "up h1 \<or> up h2" and "is_ip ip" and "is_path path"
  shows "bb_rmdir (client_of up E G ip h1 h2 root) r0 path s =
    (case replied r0 (bb_rmdir_6_svc E (g_rmdir_ret G) \<lparr>rmdir_arg_ip = ip, rmdir_arg_server_info = get_identity (server_state up h1), rmdir_arg_path = path\<rparr> (g_rmdir_ret G) (world s)) of
      (r, q) \<Rightarrow> Inr (rmdir_ret_ret r, s\<lparr>world := q\<rparr>))"
proof -
  let ?a = "\<lparr>rmdir_arg_ip = ip, rmdir_arg_server_info = get_identity (server_state up h1), rmdir_arg_path = path\<rparr>"
  have "\<exists>st. bb_rmdir_6 (e_xdr E) (client_rpc up E G) ?a r0 0 (world s) = ((st,
      fst (replied r0 (bb_rmdir_6_svc E (g_rmdir_ret G) ?a (g_rmdir_ret G) (world s)))), snd (replied r0 (bb_rmdir_6_svc E (g_rmdir_ret G) ?a (g_rmdir_ret G) (world s))))"
    unfolding bb_rmdir_6_def using sent_rmdir [of ?a] assms(2-)
    by (intro call_rmdir.client_call) simp_all
  then have call: "rpc_call (client_of up E G ip h1 h2 root) bb_rmdir_6 ?a r0 0 s = Inr (
      fst (replied r0 (bb_rmdir_6_svc E (g_rmdir_ret G) ?a (g_rmdir_ret G) (world s))),
      s\<lparr>world := snd (replied r0 (bb_rmdir_6_svc E (g_rmdir_ret G) ?a (g_rmdir_ret G) (world s)))\<rparr>)"
    by (rule rpc_call_run)
  show ?thesis
    using assms by (simp add: bb_rmdir_def bnd_def connect_run call destroy_run is_path_full split: prod.split)
qed

lemma sent_mknod:
  assumes "is_ip (mknod_arg_ip a)" and "is_path (mknod_arg_path a)"
  shows "ok_mknod_arg a \<and> length (encoding xdr_mknod_arg a) \<le> 10000"
proof -
  have "\<exists>bs. enc_ok xdr_mknod_arg a bs \<and> length bs \<le> 10000"
    unfolding xdr_mknod_arg_def
    by - (rule exI conjI enc_rules enc_prims enc_ok_identity | simp add: sent_simps assms; fail
      | use ip_bytes [OF assms(1)] path_bytes [OF assms(2)] in \<open>simp add: length_identity\<close>)+
  then show ?thesis using assms by (auto simp: ok_mknod_arg_def sent_simps dest: encoding_eq)
qed

lemma run_mknod:
  assumes "up h1 \<or> up h2" and "is_ip ip" and "is_path path"
  shows "bb_mknod (client_of up E G ip h1 h2 root) r0 path mode dev s =
    (case replied r0 (bb_mknod_6_svc E (g_mknod_ret G) \<lparr>mknod_arg_ip = ip, mknod_arg_server_info = get_identity (server_state up h1), mknod_arg_path = path, mknod_arg_mode = mode, mknod_arg_dev = ucast dev\<rparr> (g_mknod_ret G) (world s)) of
      (r, q) \<Rightarrow> Inr (mknod_ret_ret r, s\<lparr>world := q\<rparr>))"
proof -
  let ?a = "\<lparr>mknod_arg_ip = ip, mknod_arg_server_info = get_identity (server_state up h1), mknod_arg_path = path, mknod_arg_mode = mode, mknod_arg_dev = ucast dev\<rparr>"
  have "\<exists>st. bb_mknod_6 (e_xdr E) (client_rpc up E G) ?a r0 0 (world s) = ((st,
      fst (replied r0 (bb_mknod_6_svc E (g_mknod_ret G) ?a (g_mknod_ret G) (world s)))), snd (replied r0 (bb_mknod_6_svc E (g_mknod_ret G) ?a (g_mknod_ret G) (world s))))"
    unfolding bb_mknod_6_def using sent_mknod [of ?a] assms(2-)
    by (intro call_mknod.client_call) simp_all
  then have call: "rpc_call (client_of up E G ip h1 h2 root) bb_mknod_6 ?a r0 0 s = Inr (
      fst (replied r0 (bb_mknod_6_svc E (g_mknod_ret G) ?a (g_mknod_ret G) (world s))),
      s\<lparr>world := snd (replied r0 (bb_mknod_6_svc E (g_mknod_ret G) ?a (g_mknod_ret G) (world s)))\<rparr>)"
    by (rule rpc_call_run)
  show ?thesis
    using assms by (simp add: bb_mknod_def bnd_def connect_run call destroy_run is_path_full split: prod.split)
qed

lemma sent_symlink:
  assumes "is_ip (symlink_arg_ip a)" and "is_path (symlink_arg_path a)" and "is_path (symlink_arg_link a)"
  shows "ok_symlink_arg a \<and> length (encoding xdr_symlink_arg a) \<le> 10000"
proof -
  have "\<exists>bs. enc_ok xdr_symlink_arg a bs \<and> length bs \<le> 10000"
    unfolding xdr_symlink_arg_def
    by - (rule exI conjI enc_rules enc_prims enc_ok_identity | simp add: sent_simps assms; fail
      | use ip_bytes [OF assms(1)] path_bytes [OF assms(2)] path_bytes [OF assms(3)] in \<open>simp add: length_identity\<close>)+
  then show ?thesis using assms by (auto simp: ok_symlink_arg_def sent_simps dest: encoding_eq)
qed

lemma run_symlink:
  assumes "up h1 \<or> up h2" and "is_ip ip" and "is_path path" and "is_path newpath"
  shows "bb_symlink (client_of up E G ip h1 h2 root) r0 path newpath s =
    (case replied r0 (bb_symlink_6_svc E (g_symlink_ret G) \<lparr>symlink_arg_ip = ip, symlink_arg_server_info = get_identity (server_state up h1), symlink_arg_path = path, symlink_arg_link = newpath\<rparr> (g_symlink_ret G) (world s)) of
      (r, q) \<Rightarrow> Inr (symlink_ret_ret r, s\<lparr>world := q\<rparr>))"
proof -
  let ?a = "\<lparr>symlink_arg_ip = ip, symlink_arg_server_info = get_identity (server_state up h1), symlink_arg_path = path, symlink_arg_link = newpath\<rparr>"
  have "\<exists>st. bb_symlink_6 (e_xdr E) (client_rpc up E G) ?a r0 0 (world s) = ((st,
      fst (replied r0 (bb_symlink_6_svc E (g_symlink_ret G) ?a (g_symlink_ret G) (world s)))), snd (replied r0 (bb_symlink_6_svc E (g_symlink_ret G) ?a (g_symlink_ret G) (world s))))"
    unfolding bb_symlink_6_def using sent_symlink [of ?a] assms(2-)
    by (intro call_symlink.client_call) simp_all
  then have call: "rpc_call (client_of up E G ip h1 h2 root) bb_symlink_6 ?a r0 0 s = Inr (
      fst (replied r0 (bb_symlink_6_svc E (g_symlink_ret G) ?a (g_symlink_ret G) (world s))),
      s\<lparr>world := snd (replied r0 (bb_symlink_6_svc E (g_symlink_ret G) ?a (g_symlink_ret G) (world s)))\<rparr>)"
    by (rule rpc_call_run)
  show ?thesis
    using assms by (simp add: bb_symlink_def bnd_def connect_run call destroy_run is_path_full split: prod.split)
qed

lemma sent_rename:
  assumes "is_ip (rename_arg_ip a)" and "is_path (rename_arg_path a)" and "is_path (rename_arg_newpath a)"
  shows "ok_rename_arg a \<and> length (encoding xdr_rename_arg a) \<le> 10000"
proof -
  have "\<exists>bs. enc_ok xdr_rename_arg a bs \<and> length bs \<le> 10000"
    unfolding xdr_rename_arg_def
    by - (rule exI conjI enc_rules enc_prims enc_ok_identity | simp add: sent_simps assms; fail
      | use ip_bytes [OF assms(1)] path_bytes [OF assms(2)] path_bytes [OF assms(3)] in \<open>simp add: length_identity\<close>)+
  then show ?thesis using assms by (auto simp: ok_rename_arg_def sent_simps dest: encoding_eq)
qed

lemma run_rename:
  assumes "up h1 \<or> up h2" and "is_ip ip" and "is_path path" and "is_path newpath"
  shows "bb_rename (client_of up E G ip h1 h2 root) r0 path newpath s =
    (case replied r0 (bb_rename_6_svc E (g_rename_ret G) \<lparr>rename_arg_ip = ip, rename_arg_server_info = get_identity (server_state up h1), rename_arg_path = path, rename_arg_newpath = newpath\<rparr> (g_rename_ret G) (world s)) of
      (r, q) \<Rightarrow> Inr (rename_ret_ret r, s\<lparr>world := q\<rparr>))"
proof -
  let ?a = "\<lparr>rename_arg_ip = ip, rename_arg_server_info = get_identity (server_state up h1), rename_arg_path = path, rename_arg_newpath = newpath\<rparr>"
  have "\<exists>st. bb_rename_6 (e_xdr E) (client_rpc up E G) ?a r0 0 (world s) = ((st,
      fst (replied r0 (bb_rename_6_svc E (g_rename_ret G) ?a (g_rename_ret G) (world s)))), snd (replied r0 (bb_rename_6_svc E (g_rename_ret G) ?a (g_rename_ret G) (world s))))"
    unfolding bb_rename_6_def using sent_rename [of ?a] assms(2-)
    by (intro call_rename.client_call) simp_all
  then have call: "rpc_call (client_of up E G ip h1 h2 root) bb_rename_6 ?a r0 0 s = Inr (
      fst (replied r0 (bb_rename_6_svc E (g_rename_ret G) ?a (g_rename_ret G) (world s))),
      s\<lparr>world := snd (replied r0 (bb_rename_6_svc E (g_rename_ret G) ?a (g_rename_ret G) (world s)))\<rparr>)"
    by (rule rpc_call_run)
  show ?thesis
    using assms by (simp add: bb_rename_def bnd_def connect_run call destroy_run is_path_full split: prod.split)
qed

lemma sent_link:
  assumes "is_ip (link_arg_ip a)" and "is_path (link_arg_path a)" and "is_path (link_arg_newpath a)"
  shows "ok_link_arg a \<and> length (encoding xdr_link_arg a) \<le> 10000"
proof -
  have "\<exists>bs. enc_ok xdr_link_arg a bs \<and> length bs \<le> 10000"
    unfolding xdr_link_arg_def
    by - (rule exI conjI enc_rules enc_prims enc_ok_identity | simp add: sent_simps assms; fail
      | use ip_bytes [OF assms(1)] path_bytes [OF assms(2)] path_bytes [OF assms(3)] in \<open>simp add: length_identity\<close>)+
  then show ?thesis using assms by (auto simp: ok_link_arg_def sent_simps dest: encoding_eq)
qed

lemma run_link:
  assumes "up h1 \<or> up h2" and "is_ip ip" and "is_path path" and "is_path newpath"
  shows "bb_link (client_of up E G ip h1 h2 root) r0 path newpath s =
    (case replied r0 (bb_link_6_svc E (g_link_ret G) \<lparr>link_arg_ip = ip, link_arg_server_info = get_identity (server_state up h1), link_arg_path = path, link_arg_newpath = newpath\<rparr> (g_link_ret G) (world s)) of
      (r, q) \<Rightarrow> Inr (if cneg (link_ret_ret r) then - 1 else 0, s\<lparr>world := q\<rparr>))"
proof -
  let ?a = "\<lparr>link_arg_ip = ip, link_arg_server_info = get_identity (server_state up h1), link_arg_path = path, link_arg_newpath = newpath\<rparr>"
  have "\<exists>st. bb_link_6 (e_xdr E) (client_rpc up E G) ?a r0 0 (world s) = ((st,
      fst (replied r0 (bb_link_6_svc E (g_link_ret G) ?a (g_link_ret G) (world s)))), snd (replied r0 (bb_link_6_svc E (g_link_ret G) ?a (g_link_ret G) (world s))))"
    unfolding bb_link_6_def using sent_link [of ?a] assms(2-)
    by (intro call_link.client_call) simp_all
  then have call: "rpc_call (client_of up E G ip h1 h2 root) bb_link_6 ?a r0 0 s = Inr (
      fst (replied r0 (bb_link_6_svc E (g_link_ret G) ?a (g_link_ret G) (world s))),
      s\<lparr>world := snd (replied r0 (bb_link_6_svc E (g_link_ret G) ?a (g_link_ret G) (world s)))\<rparr>)"
    by (rule rpc_call_run)
  show ?thesis
    using assms by (simp add: bb_link_def bnd_def connect_run call destroy_run is_path_full split: prod.split)
qed

lemma sent_chmod:
  assumes "is_ip (chmod_arg_ip a)" and "is_path (chmod_arg_path a)"
  shows "ok_chmod_arg a \<and> length (encoding xdr_chmod_arg a) \<le> 10000"
proof -
  have "\<exists>bs. enc_ok xdr_chmod_arg a bs \<and> length bs \<le> 10000"
    unfolding xdr_chmod_arg_def
    by - (rule exI conjI enc_rules enc_prims enc_ok_identity | simp add: sent_simps assms; fail
      | use ip_bytes [OF assms(1)] path_bytes [OF assms(2)] in \<open>simp add: length_identity\<close>)+
  then show ?thesis using assms by (auto simp: ok_chmod_arg_def sent_simps dest: encoding_eq)
qed

lemma run_chmod:
  assumes "up h1 \<or> up h2" and "is_ip ip" and "is_path path"
  shows "bb_chmod (client_of up E G ip h1 h2 root) r0 path mode s =
    (case replied r0 (bb_chmod_6_svc E (g_chmod_ret G) \<lparr>chmod_arg_ip = ip, chmod_arg_server_info = get_identity (server_state up h1), chmod_arg_path = path, chmod_arg_mode = mode\<rparr> (g_chmod_ret G) (world s)) of
      (r, q) \<Rightarrow> Inr (chmod_ret_ret r, s\<lparr>world := q\<rparr>))"
proof -
  let ?a = "\<lparr>chmod_arg_ip = ip, chmod_arg_server_info = get_identity (server_state up h1), chmod_arg_path = path, chmod_arg_mode = mode\<rparr>"
  have "\<exists>st. bb_chmod_6 (e_xdr E) (client_rpc up E G) ?a r0 0 (world s) = ((st,
      fst (replied r0 (bb_chmod_6_svc E (g_chmod_ret G) ?a (g_chmod_ret G) (world s)))), snd (replied r0 (bb_chmod_6_svc E (g_chmod_ret G) ?a (g_chmod_ret G) (world s))))"
    unfolding bb_chmod_6_def using sent_chmod [of ?a] assms(2-)
    by (intro call_chmod.client_call) simp_all
  then have call: "rpc_call (client_of up E G ip h1 h2 root) bb_chmod_6 ?a r0 0 s = Inr (
      fst (replied r0 (bb_chmod_6_svc E (g_chmod_ret G) ?a (g_chmod_ret G) (world s))),
      s\<lparr>world := snd (replied r0 (bb_chmod_6_svc E (g_chmod_ret G) ?a (g_chmod_ret G) (world s)))\<rparr>)"
    by (rule rpc_call_run)
  show ?thesis
    using assms by (simp add: bb_chmod_def bnd_def connect_run call destroy_run is_path_full split: prod.split)
qed

lemma sent_truncate:
  assumes "is_ip (truncate_arg_ip a)" and "is_path (truncate_arg_path a)"
  shows "ok_truncate_arg a \<and> length (encoding xdr_truncate_arg a) \<le> 10000"
proof -
  have "\<exists>bs. enc_ok xdr_truncate_arg a bs \<and> length bs \<le> 10000"
    unfolding xdr_truncate_arg_def
    by - (rule exI conjI enc_rules enc_prims enc_ok_identity | simp add: sent_simps assms; fail
      | use ip_bytes [OF assms(1)] path_bytes [OF assms(2)] in \<open>simp add: length_identity\<close>)+
  then show ?thesis using assms by (auto simp: ok_truncate_arg_def sent_simps dest: encoding_eq)
qed

lemma run_truncate:
  assumes "up h1 \<or> up h2" and "is_ip ip" and "is_path path"
  shows "bb_truncate (client_of up E G ip h1 h2 root) r0 path newsize s =
    (case replied r0 (bb_truncate_6_svc E (g_truncate_ret G) \<lparr>truncate_arg_ip = ip, truncate_arg_server_info = get_identity (server_state up h1), truncate_arg_path = path, truncate_arg_newsize = ucast newsize\<rparr> (g_truncate_ret G) (world s)) of
      (r, q) \<Rightarrow> Inr (truncate_ret_ret r, s\<lparr>world := q\<rparr>))"
proof -
  let ?a = "\<lparr>truncate_arg_ip = ip, truncate_arg_server_info = get_identity (server_state up h1), truncate_arg_path = path, truncate_arg_newsize = ucast newsize\<rparr>"
  have "\<exists>st. bb_truncate_6 (e_xdr E) (client_rpc up E G) ?a r0 0 (world s) = ((st,
      fst (replied r0 (bb_truncate_6_svc E (g_truncate_ret G) ?a (g_truncate_ret G) (world s)))), snd (replied r0 (bb_truncate_6_svc E (g_truncate_ret G) ?a (g_truncate_ret G) (world s))))"
    unfolding bb_truncate_6_def using sent_truncate [of ?a] assms(2-)
    by (intro call_truncate.client_call) simp_all
  then have call: "rpc_call (client_of up E G ip h1 h2 root) bb_truncate_6 ?a r0 0 s = Inr (
      fst (replied r0 (bb_truncate_6_svc E (g_truncate_ret G) ?a (g_truncate_ret G) (world s))),
      s\<lparr>world := snd (replied r0 (bb_truncate_6_svc E (g_truncate_ret G) ?a (g_truncate_ret G) (world s)))\<rparr>)"
    by (rule rpc_call_run)
  show ?thesis
    using assms by (simp add: bb_truncate_def bnd_def connect_run call destroy_run is_path_full split: prod.split)
qed

text \<open>
  C1. The operations of the client that change names and modes run the handler of the server they reach on
  the request with the client's address, its path, and the state of the servers, through all the layers
  between, and return the member \<^verbatim>\<open>ret\<close> of its reply. When the server does not reply, because it
  stopped or hangs, they return what the uninitialised \<^verbatim>\<open>ret\<close> held: the failure of the call is ignored.
\<close>

theorem client_operations_run_handlers:
  assumes "up h1 \<or> up h2" and "is_ip ip" and "is_path path" and "is_path newpath"
  shows "(bb_mkdir (client_of up E G ip h1 h2 root) r_mkdir path mode s =
    (case replied r_mkdir (bb_mkdir_6_svc E (g_mkdir_ret G) \<lparr>mkdir_arg_ip = ip, mkdir_arg_server_info = get_identity (server_state up h1), mkdir_arg_path = path, mkdir_arg_mode = mode\<rparr> (g_mkdir_ret G) (world s)) of
      (r, q) \<Rightarrow> Inr (mkdir_ret_ret r, s\<lparr>world := q\<rparr>))) \<and>
   (bb_unlink (client_of up E G ip h1 h2 root) r_unlink path s =
    (case replied r_unlink (bb_unlink_6_svc E (g_unlink_ret G) \<lparr>unlink_arg_ip = ip, unlink_arg_server_info = get_identity (server_state up h1), unlink_arg_path = path\<rparr> (g_unlink_ret G) (world s)) of
      (r, q) \<Rightarrow> Inr (unlink_ret_ret r, s\<lparr>world := q\<rparr>))) \<and>
   (bb_rmdir (client_of up E G ip h1 h2 root) r_rmdir path s =
    (case replied r_rmdir (bb_rmdir_6_svc E (g_rmdir_ret G) \<lparr>rmdir_arg_ip = ip, rmdir_arg_server_info = get_identity (server_state up h1), rmdir_arg_path = path\<rparr> (g_rmdir_ret G) (world s)) of
      (r, q) \<Rightarrow> Inr (rmdir_ret_ret r, s\<lparr>world := q\<rparr>))) \<and>
   (bb_mknod (client_of up E G ip h1 h2 root) r_mknod path mode dev s =
    (case replied r_mknod (bb_mknod_6_svc E (g_mknod_ret G) \<lparr>mknod_arg_ip = ip, mknod_arg_server_info = get_identity (server_state up h1), mknod_arg_path = path, mknod_arg_mode = mode, mknod_arg_dev = ucast dev\<rparr> (g_mknod_ret G) (world s)) of
      (r, q) \<Rightarrow> Inr (mknod_ret_ret r, s\<lparr>world := q\<rparr>))) \<and>
   (bb_symlink (client_of up E G ip h1 h2 root) r_symlink path newpath s =
    (case replied r_symlink (bb_symlink_6_svc E (g_symlink_ret G) \<lparr>symlink_arg_ip = ip, symlink_arg_server_info = get_identity (server_state up h1), symlink_arg_path = path, symlink_arg_link = newpath\<rparr> (g_symlink_ret G) (world s)) of
      (r, q) \<Rightarrow> Inr (symlink_ret_ret r, s\<lparr>world := q\<rparr>))) \<and>
   (bb_rename (client_of up E G ip h1 h2 root) r_rename path newpath s =
    (case replied r_rename (bb_rename_6_svc E (g_rename_ret G) \<lparr>rename_arg_ip = ip, rename_arg_server_info = get_identity (server_state up h1), rename_arg_path = path, rename_arg_newpath = newpath\<rparr> (g_rename_ret G) (world s)) of
      (r, q) \<Rightarrow> Inr (rename_ret_ret r, s\<lparr>world := q\<rparr>))) \<and>
   (bb_link (client_of up E G ip h1 h2 root) r_link path newpath s =
    (case replied r_link (bb_link_6_svc E (g_link_ret G) \<lparr>link_arg_ip = ip, link_arg_server_info = get_identity (server_state up h1), link_arg_path = path, link_arg_newpath = newpath\<rparr> (g_link_ret G) (world s)) of
      (r, q) \<Rightarrow> Inr (if cneg (link_ret_ret r) then - 1 else 0, s\<lparr>world := q\<rparr>))) \<and>
   (bb_chmod (client_of up E G ip h1 h2 root) r_chmod path mode s =
    (case replied r_chmod (bb_chmod_6_svc E (g_chmod_ret G) \<lparr>chmod_arg_ip = ip, chmod_arg_server_info = get_identity (server_state up h1), chmod_arg_path = path, chmod_arg_mode = mode\<rparr> (g_chmod_ret G) (world s)) of
      (r, q) \<Rightarrow> Inr (chmod_ret_ret r, s\<lparr>world := q\<rparr>))) \<and>
   (bb_truncate (client_of up E G ip h1 h2 root) r_truncate path newsize s =
    (case replied r_truncate (bb_truncate_6_svc E (g_truncate_ret G) \<lparr>truncate_arg_ip = ip, truncate_arg_server_info = get_identity (server_state up h1), truncate_arg_path = path, truncate_arg_newsize = ucast newsize\<rparr> (g_truncate_ret G) (world s)) of
      (r, q) \<Rightarrow> Inr (truncate_ret_ret r, s\<lparr>world := q\<rparr>)))"
  by (intro conjI run_mkdir run_unlink run_rmdir run_mknod run_symlink run_rename run_link run_chmod run_truncate assms)

lemma client_operations_run_handlers_witness:
  "case bb_mkdir (client_of (\<lambda>h. h = ''b'') mem_env mem_garbage ''7'' ''a'' ''b'' ''/'') \<lparr>mkdir_ret_ret = 5\<rparr> ''/new'' 493
      \<lparr>world = mem_start, errno = 0\<rparr> of
     Inr (x, t) \<Rightarrow> x = 0 \<and> m_lookup (world (world t)) ''/DFS/new'' \<noteq> None | Inl _ \<Rightarrow> False"
proof -
  let ?m = "bb_mkdir_6_svc mem_env (g_mkdir_ret mem_garbage) \<lparr>mkdir_arg_ip = ''7'',
    mkdir_arg_server_info = get_identity (server_state (\<lambda>h. h = ''b'') ''a''), mkdir_arg_path = ''/new'', mkdir_arg_mode = 493\<rparr>
    (g_mkdir_ret mem_garbage) mem_start"
  have "case ?m of Inr (r, q) \<Rightarrow> mkdir_ret_ret r = 0 \<and> m_lookup (world q) ''/DFS/new'' \<noteq> None | Inl _ \<Rightarrow> False"
    by code_simp
  moreover have "(''b'' :: string) = ''a'' \<or> (\<lambda>h. h = ''b'') (''b'' :: string)" by simp
  ultimately show ?thesis
    using conjunct1 [OF client_operations_run_handlers [where up = "\<lambda>h. h = ''b''" and E = mem_env and G = mem_garbage
      and ip = "''7''" and path = "''/new''" and newpath = "''/x''" and ?h1.0 = "''a''" and ?h2.0 = "''b''" and root = "''/''"
      and r_mkdir = "\<lparr>mkdir_ret_ret = 5\<rparr>" and s = "\<lparr>world = mem_start, errno = 0\<rparr>" and mode = 493]]
    by (auto simp: replied_def is_ip_def is_path_def PATH_MAX_def split: sum.splits)
qed

end
