(* ===== verification/Client_Dirs.thy ===== *)
theory Client_Dirs
  imports Client_Server
begin

text \<open>
  Listing a directory, from the names the kernel gives the server to the names the client gives FUSE: the
  server packs them into the array of the reply, one after the other with their null characters, and the
  client takes them out again.
\<close>

section \<open>The array of names\<close>

definition packed :: "string list \<Rightarrow> char list" where
  "packed names = concat (List.map (\<lambda>n. n @ [NUL]) names)"

lemma packed_simps [simp]: "packed [] = []" "packed (n # names) = n @ NUL # packed names"
  by (simp_all add: packed_def)

lemma fill_entries_packed:
  assumes "length (packed names) \<le> k"
  shows "fill_entries names (pre @ zeros k) (length pre) c
    = Some (pre @ packed names @ zeros (k - length (packed names)), c + of_nat (length names))"
  using assms
proof (induction names arbitrary: pre k c)
  case (Cons n names)
  let ?k = "k - length n - 1"
  have k: "length n < k" "length (packed names) \<le> ?k" using Cons.prems by auto
  then have z: "zeros (k - length n) = NUL # zeros ?k"
    by (simp add: zeros_def replicate_Suc [symmetric] del: replicate_Suc)
  have "poke (pre @ zeros k) (length pre) n = Some ((pre @ n @ [NUL]) @ zeros ?k)"
    using k(1) z by (simp add: poke_def)
  moreover have "fill_entries names ((pre @ n @ [NUL]) @ zeros ?k) (length (pre @ n @ [NUL])) (c + 1)
      = Some ((pre @ n @ [NUL]) @ packed names @ zeros (?k - length (packed names)), c + 1 + of_nat (length names))"
    by (rule Cons.IH [OF k(2)])
  ultimately show ?case by (simp add: Let_def add.assoc)
qed simp

text \<open>What FUSE's callback is given: the names in order, until it refuses one.\<close>

fun feed :: "('d \<Rightarrow> string \<Rightarrow> c_int \<times> 'd) \<Rightarrow> string list \<Rightarrow> 'd \<Rightarrow> c_int \<times> 'd" where
  "feed filler [] d = (0, d)"
| "feed filler (n # names) d = (case filler d n of (r, d') \<Rightarrow>
     if r \<noteq> 0 then (- ENOMEM, d') else feed filler names d')"

lemma fill_names_packed:
  assumes "\<forall>n \<in> set names. is_cstring n"
  shows "fill_names filler (length names) (packed names @ rest) d = Some (feed filler names d)"
  using assms by (induction names arbitrary: d) (auto split: prod.split)

text \<open>
  C16. The names the client hands to FUSE are those the server packed, all of them and in order, provided
  they and their null characters fit the array; and the server's packing stays inside it exactly then,
  but for a last name that leaves no room for its null character.
\<close>

theorem names_round_trip:
  assumes "\<forall>n \<in> set names. is_cstring n" and "length (packed names) \<le> MAX_SIZE"
  shows "\<exists>entries. fill_entries names (zeros MAX_SIZE) 0 0 = Some (entries, of_nat (length names)) \<and>
    length entries = MAX_SIZE \<and>
    fill_names filler (length names) entries d = Some (feed filler names d)"
  using fill_entries_packed [of names MAX_SIZE "[]" 0] fill_names_packed [OF assms(1)] assms(2) by auto

lemma names_round_trip_witness:
  "\<exists>entries. fill_entries [''.'', ''..'', ''f''] (zeros MAX_SIZE) 0 0 = Some (entries, 3) \<and>
    fill_names (\<lambda>d n. (0, d @ [n])) 3 entries [] = Some (0, [''.'', ''..'', ''f''])"
  using names_round_trip [of "[''.'', ''..'', ''f'']" "\<lambda>d n. (0, d @ [n])" "[]"]
  by (auto simp: MAX_SIZE_def numeral_3_eq_3 simp del: fill_entries.simps fill_names.simps)

section \<open>The array is too small for a large directory\<close>

lemma fill_entries_overflow:
  assumes "offset + length (packed names) > Suc (length b)" and "offset \<le> Suc (length b)"
  shows "fill_entries names b offset c = None"
  using assms
proof (induction names arbitrary: b offset c)
  case (Cons n names)
  show ?case
  proof (cases "poke b offset n")
    case (Some b')
    then have "length b' = length b" and "offset + length n \<le> length b"
      by (auto simp: poke_def split: if_splits)
    then have "fill_entries names b' (offset + length n + 1) (c + 1) = None"
      using Cons.prems by (intro Cons.IH) simp_all
    with Some show ?thesis by (simp add: Let_def)
  qed (simp add: Let_def)
qed (auto simp: poke_def)

text \<open>
  C33. A directory whose names do not fit the array makes the server write past its end: the handler checks
  no bound, and any client that may create files may cause it.
\<close>

theorem large_directory_overflows_server:
  assumes "sys_flock (e_os E) (readdir_arg_fd a) LOCK_SH (world s) = Some (x, w1)"
    and "sys_fdopendir (e_os E) (readdir_arg_fd a) w1 = (Inr dp, w2)"
    and "sys_readdir (e_os E) dp w2 = (names, w3)" and "length (packed names) > Suc MAX_SIZE"
  shows "\<exists>t. bb_readdir_6_svc E a r s = Inl (OutOfBounds, t)"
proof -
  obtain v s1 where lock: "flock (e_os E) (readdir_arg_fd a) LOCK_SH s = Inr (v, s1)" and s1: "world s1 = w1"
    using assms(1) by (cases "fst (x, w1)") (auto simp: flock_def sys_int_def sys_call_def bnd_def)
  have "fill_entries names (zeros MAX_SIZE) 0 0 = None" using assms(4) by (intro fill_entries_overflow) simp_all
  then show ?thesis
    using assms(2,3) s1 lock by (simp add: bb_readdir_6_svc_def Let_def bnd_def sys_run)
qed

lemma large_directory_overflows_server_witness:
  "\<exists>t. bb_readdir_6_svc (mem_env\<lparr>e_os := mem_os\<lparr>sys_readdir := \<lambda>dp m. (replicate 1000 ''abcdef'', m)\<rparr>\<rparr>)
      \<lparr>readdir_arg_fd = 3\<rparr> (g_readdir_ret mem_garbage)
      \<lparr>world = mem_tree\<lparr>m_fds := [(3, 1, 0)]\<rparr>, errno = 0\<rparr> = Inl (OutOfBounds, t)"
proof -
  let ?m = "mem_tree\<lparr>m_fds := [(3, 1, 0)]\<rparr>"
  have l: "sys_flock mem_os 3 LOCK_SH ?m = Some (Inr (), ?m\<lparr>m_locks := [(3, 1, False)]\<rparr>)"
    and o: "sys_fdopendir mem_os 3 (?m\<lparr>m_locks := [(3, 1, False)]\<rparr>) = (Inr 3, ?m\<lparr>m_locks := [(3, 1, False)]\<rparr>)"
    by code_simp+
  have "length (packed (replicate 1000 ''abcdef'')) = 7000"
    by (simp add: packed_def length_concat sum_list_replicate)
  with l o show ?thesis
    by (intro large_directory_overflows_server [where names = "replicate 1000 ''abcdef''" and dp = 3])
      (simp_all add: mem_env_def MAX_SIZE_def)
qed

section \<open>The listing, end to end\<close>

lemma flock_run:
  assumes "sys_flock os fd c (world s) = Some (x, w)"
  shows "\<exists>v t. flock os fd c s = Inr (v, t) \<and> world t = w"
  using assms by (cases x) (simp_all add: flock_def sys_int_def sys_call_def bnd_def)

lemma readdir_handler:
  assumes "sys_flock (e_os E) (readdir_arg_fd a) LOCK_SH (world s) = Some (x, w1)"
    and "sys_fdopendir (e_os E) (readdir_arg_fd a) w1 = (Inr dp, w2)"
    and "sys_readdir (e_os E) dp w2 = (names, w3)"
    and "sys_flock (e_os E) (readdir_arg_fd a) LOCK_UN w3 = Some (y, w4)"
    and "length (packed names) \<le> MAX_SIZE"
  shows "\<exists>t. bb_readdir_6_svc E a r s = Inr (\<lparr>readdir_ret_count = of_nat (length names),
      readdir_ret_entries = packed names @ zeros (MAX_SIZE - length (packed names)), readdir_ret_ret = 0\<rparr>, t) \<and>
    world t = w4"
proof -
  obtain v s1 where lock: "flock (e_os E) (readdir_arg_fd a) LOCK_SH s = Inr (v, s1)" and s1: "world s1 = w1"
    using flock_run [OF assms(1)] by blast
  have "world (s1\<lparr>world := w3\<rparr>) = w3" by simp
  then obtain v' s4 where unlock: "flock (e_os E) (readdir_arg_fd a) LOCK_UN (s1\<lparr>world := w3\<rparr>) = Inr (v', s4)"
    and s4: "world s4 = w4"
    using flock_run [where s = "s1\<lparr>world := w3\<rparr>"] assms(4) by (metis (no_types, lifting))
  have fill: "fill_entries names (zeros MAX_SIZE) 0 0 =
      Some (packed names @ zeros (MAX_SIZE - length (packed names)), of_nat (length names))"
    using fill_entries_packed [of names MAX_SIZE "[]" 0] assms(5) by simp
  show ?thesis
    using assms(2,3) s1 s4 lock unlock fill by (cases r) (simp add: bb_readdir_6_svc_def Let_def bnd_def sys_run)
qed

lemma count_of_names: "n \<le> 4096 \<Longrightarrow> nat (sint (of_nat n :: c_int)) = n"
  by (simp add: signed_of_nat signed_take_bit_int_eq_self)

lemma length_names: "length names \<le> length (packed names)"
  by (induction names) auto

text \<open>
  C15. A client that lists a directory it has opened gives FUSE every name the kernel lists, in order, if they
  fit the array of the reply: through the lock, the packing, the encoding, the transport and the
  unpacking. The server ends as the kernel leaves it.
\<close>

theorem client_lists_directory:
  assumes "up h1 \<or> up h2"
    and "sys_flock (e_os E) (ucast (fi_fh fi)) LOCK_SH (world (world s)) = Some (x, w1)"
    and "sys_fdopendir (e_os E) (ucast (fi_fh fi)) w1 = (Inr dp, w2)"
    and "sys_readdir (e_os E) dp w2 = (names, w3)"
    and "sys_flock (e_os E) (ucast (fi_fh fi)) LOCK_UN w3 = Some (y, w4)"
    and "\<forall>n \<in> set names. is_cstring n" and "length (packed names) \<le> MAX_SIZE"
  shows "\<exists>q. bb_readdir (client_of up E G ip h1 h2 root) r0 path buf filler fi s
      = Inr (feed filler names buf, s\<lparr>world := q\<rparr>) \<and> world q = w4"
proof -
  let ?a = "\<lparr>readdir_arg_fd = ucast (fi_fh fi)\<rparr>"
  let ?r = "\<lparr>readdir_ret_count = of_nat (length names),
      readdir_ret_entries = packed names @ zeros (MAX_SIZE - length (packed names)), readdir_ret_ret = 0\<rparr>"
  obtain q where run: "bb_readdir_6_svc E ?a (g_readdir_ret G) (world s) = Inr (?r, q)" and q: "world q = w4"
    using readdir_handler [of E ?a "world s"] assms(2-5,7) by fastforce
  have ok: "ok_readdir_ret ?r" using assms(7) by (simp add: ok_readdir_ret_def)
  have "encoding xdr_readdir_arg ?a = unit_bytes (ucast (fi_fh fi)) @ []"
    unfolding xdr_readdir_arg_def by (rule encoding_eq) (rule enc_rules enc_prims | simp)+
  then have "length (encoding xdr_readdir_arg ?a) \<le> 10000" by simp
  then have "\<exists>st. bb_readdir_6 (e_xdr E) (client_rpc up E G) ?a r0 0 (world s) = ((st, ?r), q)"
    using call_readdir.client_call [of ?a E G "world s" up 0 r0] run ok
    unfolding bb_readdir_6_def by (auto simp: replied_def)
  then have call: "rpc_call (client_of up E G ip h1 h2 root) bb_readdir_6 ?a r0 0 s = Inr (?r, s\<lparr>world := q\<rparr>)"
    by (rule rpc_call_run)
  have "length names \<le> 4096" using length_names [of names] assms(7) by (simp add: MAX_SIZE_def)
  then show ?thesis
    using assms(1) call q
    by (intro exI [of _ q]) (simp add: bb_readdir_def bnd_def connect_run destroy_run count_of_names fill_names_packed [OF assms(6)])
qed

lemma client_lists_directory_witness:
  "\<exists>s'. bb_readdir (client_of (\<lambda>_. True) mem_env mem_garbage ''7'' ''a'' ''b'' ''/'') (g_readdir_ret mem_garbage)
      ''/'' [] (\<lambda>d n. (0, d @ [n])) \<lparr>fi_flags = 0, fi_fh = 3\<rparr>
      \<lparr>world = \<lparr>world = mem_tree\<lparr>m_fds := [(3, 1, 0)]\<rparr>, errno = 0\<rparr>, errno = 0\<rparr>
    = Inr ((0, [''.'', ''..'', ''d'', ''g'']), s')"
proof -
  let ?m = "mem_tree\<lparr>m_fds := [(3, 1, 0)]\<rparr>"
  let ?l = "?m\<lparr>m_locks := [(3, 1, False)]\<rparr>"
  have "sys_flock (e_os mem_env) 3 LOCK_SH ?m = Some (Inr (), ?l)"
    and "sys_fdopendir (e_os mem_env) 3 ?l = (Inr 3, ?l)"
    and "sys_readdir (e_os mem_env) 3 ?l = ([''.'', ''..'', ''d'', ''g''], ?l)"
    and "sys_flock (e_os mem_env) 3 LOCK_UN ?l = Some (Inr (), ?m\<lparr>m_locks := []\<rparr>)"
    by code_simp+
  then show ?thesis
    using client_lists_directory [where up = "\<lambda>_. True" and E = mem_env and G = mem_garbage
      and fi = "\<lparr>fi_flags = 0, fi_fh = 3\<rparr>" and filler = "\<lambda>d n. (0, d @ [n])" and buf = "[]"
      and s = "\<lparr>world = \<lparr>world = ?m, errno = 0\<rparr>, errno = 0\<rparr>" and names = "[''.'', ''..'', ''d'', ''g'']"]
    by (fastforce simp: MAX_SIZE_def)
qed

end
