(* ===== verification/Client_Files.thy ===== *)
theory Client_Files
  imports Client_Server
begin

text \<open>
  Attributes, links and contents of files as the client sees them, through all layers: what it reads of a
  file's status is what the server's kernel says, a read of whole blocks returns the contents of the
  file, and where errors and short transfers go wrong.
\<close>

section \<open>Status\<close>

definition status_reply :: "stat_buf \<Rightarrow> getattr_ret" where
  "status_reply st = \<lparr>
     getattr_ret_st_dev = ucast (st_dev st), getattr_ret_st_ino = ucast (st_ino st),
     getattr_ret_st_mode = st_mode st, getattr_ret_st_nlink = ucast (st_nlink st),
     getattr_ret_st_uid = st_uid st, getattr_ret_st_gid = st_gid st,
     getattr_ret_st_rdev = ucast (st_rdev st), getattr_ret_st_size = st_size st,
     getattr_ret_st_blksize = st_blksize st, getattr_ret_st_blocks = st_blocks st,
     getattr_ret_st_acc_time = st_atime st, getattr_ret_st_mod_time = st_mtime st,
     getattr_ret_st_chg_time = st_ctime st, getattr_ret_ret = 0\<rparr>"

definition small_status :: "stat_buf \<Rightarrow> bool" where
  "small_status st \<longleftrightarrow> fits31 (st_dev st) \<and> fits31 (st_ino st) \<and> fits31 (st_nlink st) \<and>
     fits31 (st_rdev st) \<and> fits31 (st_size st) \<and> fits31 (st_blksize st) \<and> fits31 (st_blocks st) \<and>
     fits31 (st_atime st) \<and> fits31 (st_mtime st) \<and> fits31 (st_ctime st)"

lemma getattr_handler:
  assumes "translate_abspath (getattr_arg_path a) = Some fpath" and "sys_lstat (e_os E) fpath (world q) = Inr st"
  shows "bb_getattr_6_svc E a r q = Inr (status_reply st, q)"
  using assms by (cases r) (simp add: bb_getattr_6_svc_def bnd_def sys_run status_reply_def)

lemma sent_getattr:
  assumes "is_ip (getattr_arg_ip a)" and "is_path (getattr_arg_path a)"
  shows "ok_getattr_arg a \<and> length (encoding xdr_getattr_arg a) \<le> 10000"
proof -
  have "\<exists>bs. enc_ok xdr_getattr_arg a bs \<and> length bs \<le> 10000"
    unfolding xdr_getattr_arg_def
    by - (rule exI conjI enc_rules enc_prims | simp add: sent_simps assms; fail
      | use ip_bytes [OF assms(1)] path_bytes [OF assms(2)] in simp)+
  then show ?thesis using assms by (auto simp: ok_getattr_arg_def sent_simps dest: encoding_eq)
qed

text \<open>
  C17. Once the root directory is initialised, the client's \<^verbatim>\<open>getattr\<close> of a file returns exactly the status
  the server's \<^verbatim>\<open>lstat\<close> of the translated path gives, when its numbers are below \<open>2\<^sup>3\<^sup>1\<close>, and no server
  changes.
\<close>

theorem client_shows_status:
  assumes "up h1 \<or> up h2" and "xdr_longs (e_xdr E)" and "is_ip ip" and "is_path path"
    and "translate_abspath path = Some fpath" and "sys_lstat (e_os E) fpath (world (world s)) = Inr st"
    and "small_status st" and "initialized s"
  shows "bb_getattr (client_of up E G ip h1 h2 root) i0 r0 path b s = Inr ((0, st), s)"
proof -
  let ?a = "\<lparr>getattr_arg_ip = ip, getattr_arg_path = path\<rparr>"
  have run: "bb_getattr_6_svc E ?a (g_getattr_ret G) (world s) = Inr (status_reply st, world s)"
    using assms(5,6) by (intro getattr_handler) simp_all
  have "ok_getattr_ret (status_reply st)"
    using assms(7) by (simp add: ok_getattr_ret_def status_reply_def small_status_def)
  then have "\<exists>st'. bb_getattr_6 (e_xdr E) (client_rpc up E G) ?a r0 0 (world s) = ((st', status_reply st), world s)"
    using rpc_procedure.client_call [OF rpc_procedure_getattr [OF assms(2)], of ?a G "world s" up 0 r0]
      sent_getattr [of ?a] assms(3,4) run
    unfolding bb_getattr_6_def by (auto simp: replied_def)
  then have call: "rpc_call (client_of up E G ip h1 h2 root) bb_getattr_6 ?a r0 0 s
      = Inr (status_reply st, s\<lparr>world := world s\<rparr>)" by (rule rpc_call_run)
  then show ?thesis
    using assms(1,4,7,8)
    by (cases st) (simp add: bb_getattr_def bnd_def connect_run destroy_run is_path_full status_reply_def
      small_status_def fits31_scast)
qed

section \<open>Links\<close>

lemma strncpy_fits:
  assumes "n \<le> length b"
  shows "\<exists>b'. strncpy b src n = Some b'"
proof -
  have "length (take n src @ zeros (n - length src)) = n" by simp
  then show ?thesis using assms by (auto simp: strncpy_def poke_def simp del: length_append)
qed

lemma sent_readlink:
  assumes "is_ip (readlink_arg_ip a)" and "is_path (readlink_arg_path a)"
  shows "ok_readlink_arg a \<and> length (encoding xdr_readlink_arg a) \<le> 10000"
proof -
  have "\<exists>bs. enc_ok xdr_readlink_arg a bs \<and> length bs \<le> 10000"
    unfolding xdr_readlink_arg_def
    by - (rule exI conjI enc_rules enc_prims | simp add: sent_simps assms; fail
      | use ip_bytes [OF assms(1)] path_bytes [OF assms(2)] in simp)+
  then show ?thesis using assms by (auto simp: ok_readlink_arg_def sent_simps dest: encoding_eq)
qed

text \<open>
  C34. The server reports an error of \<^verbatim>\<open>readlink\<close> as \<open>-errno\<close>, but the client takes only \<open>-1\<close> for an error:
  for every other error number it returns \<open>0\<close>, success, with the text and the length that the server's
  uninitialised result object happened to hold.
\<close>

theorem client_hides_readlink_errors:
  assumes "up h1 \<or> up h2" and "is_ip ip" and "is_path path" and "translate_abspath path = Some fpath"
    and "sys_readlink (e_os E) fpath (unat (ucast (sz - 1) :: c_int)) (world (world s)) = Inl e" and "e \<noteq> 1"
    and "length (readlink_ret_buffer (g_readlink_ret G)) = MAX_SIZE"
    and "NUL \<in> set (readlink_ret_buffer (g_readlink_ret G))"
    and "unat sz \<le> length buf" and "\<not> cneg (readlink_ret_len (g_readlink_ret G))"
    and "unat (readlink_ret_len (g_readlink_ret G)) < unat sz"
  shows "\<exists>buf' t. bb_readlink (client_of up E G ip h1 h2 root) r0 path buf sz s = Inr ((0, buf'), t)"
proof -
  let ?g = "g_readlink_ret G"
  let ?a = "\<lparr>readlink_arg_ip = ip, readlink_arg_path = path, readlink_arg_size = ucast (sz - 1)\<rparr>"
  let ?r = "?g\<lparr>readlink_ret_ret := - e\<rparr>"
  obtain q where run: "bb_readlink_6_svc E ?a ?g (world s) = Inr (?r, q)"
    using assms(4,5) by (simp add: bb_readlink_6_svc_def Let_def bnd_def sys_run set_errno_ret_def)
  have "ok_readlink_ret ?r" using assms(7) by (simp add: ok_readlink_ret_def)
  then have "\<exists>st. bb_readlink_6 (e_xdr E) (client_rpc up E G) ?a r0 0 (world s) = ((st, ?r), q)"
    using call_readlink.client_call [of ?a E G "world s" up 0 r0] sent_readlink [of ?a] assms(2,3) run
    unfolding bb_readlink_6_def by (auto simp: replied_def)
  then have call: "rpc_call (client_of up E G ip h1 h2 root) bb_readlink_6 ?a r0 0 s = Inr (?r, s\<lparr>world := q\<rparr>)"
    by (rule rpc_call_run)
  obtain b where b: "strncpy buf (cstr (readlink_ret_buffer ?g)) (unat sz) = Some b"
    using strncpy_fits [OF assms(9)] by blast
  have "length b = length buf" using b unfolding strncpy_def by (rule poke_length)
  then obtain b' where b': "poke b (unat (readlink_ret_len ?g)) [NUL] = Some b'"
    using assms(9,11) by (auto simp: poke_def)
  have "- e \<noteq> (- 1 :: c_int)" using assms(6) by simp
  then show ?thesis
    using assms(1,3,8,10) call b b'
    by (simp add: bb_readlink_def bnd_def connect_run destroy_run is_path_full Let_def)
qed

lemma mem_status: "translate_abspath ''/g'' = Some ''/DFS/g''"
  "sys_lstat (e_os mem_env) ''/DFS/g'' mem_tree = Inr (m_stat 4 (mem_node 33152 8 ''secret''))"
  "small_status (m_stat 4 (mem_node 33152 8 ''secret''))" "is_path ''/g''" "is_ip ''7''"
  by (code_simp, code_simp, simp add: small_status_def m_stat_def mem_node_def fits31_def,
    simp_all add: is_path_def is_ip_def PATH_MAX_def)

lemma client_shows_status_witness:
  "bb_getattr (client_of (\<lambda>_. True) mem_env mem_garbage ''7'' ''a'' ''b'' ''/'') (g_init_ret mem_garbage)
      (g_getattr_ret mem_garbage) ''/g'' (m_stat 0 (mem_node 0 0 []))
      \<lparr>world = mem_start, errno = 0, initialized = True\<rparr>
   = Inr ((0, m_stat 4 (mem_node 33152 8 ''secret'')), \<lparr>world = mem_start, errno = 0, initialized = True\<rparr>)"
  using mem_status by (intro client_shows_status [OF _ mem_env_longs]) (simp_all add: mem_start_def)

lemma client_hides_readlink_errors_witness:
  "\<exists>buf' t. bb_readlink (client_of (\<lambda>_. True) mem_env mem_garbage ''7'' ''a'' ''b'' ''/'') (g_readlink_ret mem_garbage)
      ''/no'' (zeros 32) 32 \<lparr>world = mem_start, errno = 0\<rparr> = Inr ((0, buf'), t)"
proof -
  have "translate_abspath ''/no'' = Some ''/DFS/no''" by code_simp
  moreover have "sys_readlink (e_os mem_env) ''/DFS/no'' n mem_tree = Inl 2" for n
    by (simp add: mem_env_def mem_os_def mem_tree_def m_lookup_def)
  ultimately show ?thesis
    by (intro client_hides_readlink_errors [where fpath = "''/DFS/no''" and e = 2])
      (simp_all add: mem_start_def mem_garbage_def is_path_def is_ip_def PATH_MAX_def MAX_SIZE_def cneg_def
        zeros_def)
qed

section \<open>Reading\<close>

text \<open>
  A descriptor of the server from which \<open>content\<close> can be read: it can be locked for reading, then every
  \<^verbatim>\<open>pread\<close> gives what there is of the piece asked for, and the lock can be released.
\<close>

definition reads_as :: "'w os \<Rightarrow> c_int \<Rightarrow> char list \<Rightarrow> 'w \<Rightarrow> bool" where
  "reads_as os fd content w \<longleftrightarrow> (\<exists>wl. sys_flock os fd LOCK_SH w = Some (Inr (), wl) \<and>
     (\<forall>n off. sys_pread os fd n off wl = (Inr (take n (drop off content)), wl)) \<and>
     sys_flock os fd LOCK_UN wl = Some (Inr (), w))"

definition read_reply :: "char list \<Rightarrow> read_ret" where
  "read_reply data = \<lparr>read_ret_buffer = data @ zeros (MAX_SIZE - length data),
     read_ret_len = of_nat (length data), read_ret_ret = 0\<rparr>"

lemma read_handler:
  assumes "reads_as (e_os E) (read_arg_fd a) content (world q)" and "unat (read_arg_size a) \<le> MAX_SIZE"
  shows "bb_read_6_svc E a r q
    = Inr (read_reply (take (unat (read_arg_size a)) (drop (unat (read_arg_offset a)) content)), q)"
proof -
  obtain wl where "sys_flock (e_os E) (read_arg_fd a) LOCK_SH (world q) = Some (Inr (), wl)"
    and pread: "\<And>n off. sys_pread (e_os E) (read_arg_fd a) n off wl = (Inr (take n (drop off content)), wl)"
    and "sys_flock (e_os E) (read_arg_fd a) LOCK_UN wl = Some (Inr (), world q)"
    using assms(1) by (auto simp: reads_as_def)
  then have lock: "flock (e_os E) (read_arg_fd a) LOCK_SH q = Inr (0, q\<lparr>world := wl\<rparr>)"
    and unlock: "flock (e_os E) (read_arg_fd a) LOCK_UN (q\<lparr>world := wl\<rparr>) = Inr (0, q)"
    by (simp_all add: flock_def sys_int_def sys_call_def bnd_def)
  let ?data = "take (unat (read_arg_size a)) (drop (unat (read_arg_offset a)) content)"
  have "length ?data \<le> MAX_SIZE" using assms(2) by simp
  then have "poke (zeros MAX_SIZE) 0 ?data = Some (?data @ zeros (MAX_SIZE - length ?data))"
    by (simp add: poke_def del: length_take)
  then show ?thesis
    using lock unlock by (cases r)
      (simp add: bb_read_6_svc_def Let_def bnd_def sys_call_def pread read_reply_def del: length_take)
qed

lemma sent_read:
  assumes "is_ip (read_arg_ip a)"
  shows "ok_read_arg a \<and> length (encoding xdr_read_arg a) \<le> 10000"
proof -
  have "\<exists>bs. enc_ok xdr_read_arg a bs \<and> length bs \<le> 10000"
    unfolding xdr_read_arg_def
    by - (rule exI conjI enc_rules enc_prims | simp add: sent_simps assms; fail | use ip_bytes [OF assms(1)] in simp)+
  then show ?thesis using assms by (auto simp: ok_read_arg_def sent_simps dest: encoding_eq)
qed

lemma read_call:
  assumes "reads_as (e_os E) (read_arg_fd a) content (world (world s))" and "unat (read_arg_size a) \<le> MAX_SIZE"
    and "is_ip (read_arg_ip a)"
  shows "rpc_call (client_of up E G ip h1 h2 root) bb_read_6 a r0 0 s
    = Inr (read_reply (take (unat (read_arg_size a)) (drop (unat (read_arg_offset a)) content)), s)"
proof -
  let ?r = "read_reply (take (unat (read_arg_size a)) (drop (unat (read_arg_offset a)) content))"
  have run: "bb_read_6_svc E a (g_read_ret G) (world s) = Inr (?r, world s)"
    by (rule read_handler [OF assms(1,2)])
  have "ok_read_ret ?r" using assms(2) by (simp add: ok_read_ret_def read_reply_def)
  then have "\<exists>st. bb_read_6 (e_xdr E) (client_rpc up E G) a r0 0 (world s) = ((st, ?r), world s)"
    using call_read.client_call [of a E G "world s" up 0 r0] sent_read [OF assms(3)] run
    unfolding bb_read_6_def by (auto simp: replied_def)
  then have "rpc_call (client_of up E G ip h1 h2 root) bb_read_6 a r0 0 s = Inr (?r, s\<lparr>world := world s\<rparr>)"
    by (rule rpc_call_run)
  then show ?thesis by simp
qed

subsection \<open>The arithmetic of the loop\<close>

lemma scast_count: "k < 2 ^ 31 \<Longrightarrow> (scast (of_nat k :: c_int) :: c_long) = of_nat k"
  by (simp add: scast_eq signed_of_nat signed_take_bit_int_eq_self)

lemma unat_count: "k < 2 ^ 32 \<Longrightarrow> unat (of_nat k :: c_int) = k"
  by (simp add: unat_of_nat)

lemma not_cneg_count: "k < 2 ^ 31 \<Longrightarrow> \<not> cneg (of_nat k)"
  by (simp add: cneg_def signed_of_nat signed_take_bit_int_eq_self)

lemma sint_count: "k < 2 ^ 31 \<Longrightarrow> sint (of_nat k :: c_int) = int k"
  by (simp add: signed_of_nat signed_take_bit_int_eq_self)

lemma left_count:
  assumes "k \<le> N" and "N < 2 ^ 31"
  shows "(ucast ((of_nat N :: c_long) - of_nat k) :: c_int) = of_nat (N - k)"
proof -
  have eq: "(of_nat N :: c_long) - of_nat k = of_nat (N - k)" using assms(1) by (simp add: of_nat_diff)
  have "N - k < 2 ^ 64" using assms by simp
  then show ?thesis unfolding eq by (simp add: unsigned_of_nat take_bit_nat_eq_self del: of_nat_diff)
qed

lemma less_count: "k < 2 ^ 31 \<Longrightarrow> N < 2 ^ 31 \<Longrightarrow> (of_nat k :: c_long) < of_nat N \<longleftrightarrow> k < N"
  by (simp add: word_less_nat_alt unat_of_nat)

subsection \<open>The loop\<close>

text \<open>
  Where the loop stands when \<open>k\<close> characters of \<open>data\<close> have arrived: the request asks for the next
  block, the caller's buffer begins with what arrived.
\<close>

definition read_at :: "read_arg \<Rightarrow> nat \<Rightarrow> nat \<Rightarrow> nat \<Rightarrow> read_arg" where
  "read_at a off N k = a\<lparr>read_arg_size := of_nat (min (N - k) MAX_SIZE), read_arg_offset := of_nat (off + k)\<rparr>"

lemma read_at_simps [simp]:
  "read_arg_ip (read_at a off N k) = read_arg_ip a" "read_arg_fd (read_at a off N k) = read_arg_fd a"
  by (simp_all add: read_at_def)

lemma next_block:
  assumes "N - k = n"
  shows "take (min n m) (drop (off + k) content) = take m (drop k (take N (drop off content)))"
  using assms by (simp add: drop_take min.commute add.commute)

lemma read_next:
  assumes "reads_as (e_os E) (read_arg_fd a) content (world (world s))" and "is_ip (read_arg_ip a)"
    and "N < 2 ^ 31" and "off + N < 2 ^ 32" and "k \<le> N"
  shows "rpc_call (client_of up E G ip h1 h2 root) bb_read_6 (read_at a off N k) r0 0 s
    = Inr (read_reply (take MAX_SIZE (drop k (take N (drop off content)))), s)"
proof -
  have "unat (of_nat (min (N - k) MAX_SIZE) :: c_int) = min (N - k) MAX_SIZE"
    by (rule unat_count) (simp add: MAX_SIZE_def)
  moreover have "unat (of_nat (off + k) :: c_int) = off + k"
    using assms(4,5) by (intro unat_count) simp
  ultimately show ?thesis
    using read_call [of E "read_at a off N k" content s up G ip h1 h2 root r0] assms(1,2)
    by (simp add: read_at_def next_block del: of_nat_add)
qed

lemma read_next_arg:
  assumes "N < 2 ^ 31" and "k + l \<le> N"
  shows "(read_at a off N k)\<lparr>read_arg_offset := read_arg_offset (read_at a off N k) + of_nat l,
      read_arg_size := (if sint (of_nat (N - (k + l)) :: c_int) \<le> int MAX_SIZE then of_nat (N - (k + l)) else of_nat MAX_SIZE)\<rparr>
    = read_at a off N (k + l)"
proof -
  have "sint (of_nat (N - (k + l)) :: c_int) = int (N - (k + l))" using assms(1) by (intro sint_count) simp
  then show ?thesis by (auto simp: read_at_def min_def add.assoc)
qed

lemma take_two: "length xs = k \<Longrightarrow> length ys = l \<Longrightarrow> take (k + l) (xs @ ys @ zs) = xs @ ys"
  by simp

lemma next_block_fits:
  assumes "MAX_SIZE dvd k" and "MAX_SIZE dvd N" and "k < N"
  shows "k + MAX_SIZE \<le> N"
proof -
  obtain i j where ij: "k = MAX_SIZE * i" "N = MAX_SIZE * j" using assms(1,2) by (elim dvdE) metis
  then have "i < j" using assms(3) unfolding ij by (rule_tac mult_less_cancel1 [THEN iffD1, THEN conjunct2])
  then have "MAX_SIZE * Suc i \<le> MAX_SIZE * j" by (intro mult_le_mono2) simp
  then show ?thesis using ij by simp
qed

text \<open>The buffer after the next piece of \<open>data\<close>, which the reply holds with null characters behind it.\<close>

lemma block_arrives:
  assumes "take k buf = take k data" and "k + MAX_SIZE \<le> length buf" and "l = min MAX_SIZE (length data - k)"
  defines "reply \<equiv> read_ret_buffer (read_reply (take MAX_SIZE (drop k data)))"
  shows "poke buf k reply = Some (take k buf @ reply @ drop (k + MAX_SIZE) buf)"
    and "length (take k buf @ reply @ drop (k + MAX_SIZE) buf) = length buf"
    and "take (k + l) (take k buf @ reply @ drop (k + MAX_SIZE) buf) = take (k + l) data"
proof -
  let ?piece = "take MAX_SIZE (drop k data)"
  have l: "length ?piece = l" "l \<le> MAX_SIZE" using assms(3) by simp_all
  then have r: "length reply = MAX_SIZE" by (simp add: reply_def read_reply_def)
  then show "poke buf k reply = Some (take k buf @ reply @ drop (k + MAX_SIZE) buf)"
    "length (take k buf @ reply @ drop (k + MAX_SIZE) buf) = length buf"
    using assms(2) by (simp_all add: poke_def)
  have "take (k + l) (take k buf @ ?piece @ zeros (MAX_SIZE - length ?piece) @ drop (k + MAX_SIZE) buf)
      = take k buf @ ?piece"
    by (rule take_two) (use assms(2) in simp, rule l(1))
  then have "take (k + l) (take k buf @ reply @ drop (k + MAX_SIZE) buf) = take k data @ ?piece"
    using assms(1) by (simp only: reply_def read_reply_def read_ret.simps append_assoc)
  also have "\<dots> = take (k + l) data"
    using assms(3) by (simp add: take_add) (simp add: min_def)
  finally show "take (k + l) (take k buf @ reply @ drop (k + MAX_SIZE) buf) = take (k + l) data" .
qed

lemma bb_read_loop_reads:
  assumes reads: "reads_as (e_os E) (read_arg_fd a) content (world (world s))" and ip: "is_ip (read_arg_ip a)"
    and N: "N < 2 ^ 31" "MAX_SIZE dvd N" "off + N < 2 ^ 32" "N \<le> length buf"
    and data: "data = take N (drop off content)"
    and k: "k \<le> length data" "k = length data \<or> MAX_SIZE dvd k" "take k buf = take k data"
    and fuel: "length data - k + MAX_SIZE \<le> n * MAX_SIZE"
  shows "\<exists>buf'. bb_read_loop n (client_of up E G ip h1 h2 root) 0 (of_nat N) (read_at a off N k) r0 buf (of_nat k) s
      = Inr ((of_nat (length data), buf'), s) \<and> take (length data) buf' = data \<and> length buf' = length buf"
  using N(4) k fuel
proof (induction n arbitrary: k buf r0)
  case 0
  then show ?case by (simp add: MAX_SIZE_def)
next
  case (Suc n)
  let ?C = "client_of up E G ip h1 h2 root"
  have dN: "length data \<le> N" by (simp add: data)
  have k31: "k < 2 ^ 31" using Suc.prems(2) dN N(1) by simp
  have less: "(scast (of_nat k :: c_int) :: c_long) < of_nat N \<longleftrightarrow> k < N"
    using k31 N(1) by (simp add: scast_count less_count)
  show ?case
  proof (cases "k < length data")
    case False
    then have kd: "k = length data" using Suc.prems(2) by simp
    have "rpc_call ?C bb_read_6 (read_at a off N k) r0 0 s = Inr (read_reply [], s)"
      using read_next [OF reads ip N(1,3), of k] kd dN by (simp add: data)
    then show ?thesis
      using kd less Suc.prems(4) by (simp add: bnd_def destroy_run read_reply_def)
  next
    case True
    let ?piece = "take MAX_SIZE (drop k data)"
    define l where "l = length ?piece"
    have l: "l = min MAX_SIZE (length data - k)" "0 < l" "l \<le> MAX_SIZE" "k + l \<le> length data"
      using True by (auto simp: l_def MAX_SIZE_def)
    have call: "rpc_call ?C bb_read_6 (read_at a off N k) r0 0 s = Inr (read_reply ?piece, s)"
      using read_next [OF reads ip N(1,3), of k] True dN by (simp add: data)
    have "MAX_SIZE dvd k" using True Suc.prems(3) by simp
    then have room: "k + MAX_SIZE \<le> length buf"
      using next_block_fits [OF _ N(2), of k] True dN Suc.prems(1) by simp
    let ?b = "take k buf @ read_ret_buffer (read_reply ?piece) @ drop (k + MAX_SIZE) buf"
    note arrives = block_arrives [OF Suc.prems(4) room l(1)]
    have stage: "k + l = length data \<or> MAX_SIZE dvd k + l"
      using \<open>MAX_SIZE dvd k\<close> l(1,4) by (auto simp: min_def split: if_splits)
    have fuel: "length data - (k + l) + MAX_SIZE \<le> n * MAX_SIZE"
      using Suc.prems(5) l(1) True by (cases n) (auto simp: min_def split: if_splits)
    have l31: "k + l < 2 ^ 31" using l(4) dN N(1) by simp
    have nz: "(of_nat l :: c_int) \<noteq> 0"
      using unat_count [of l] l(2,3) by (auto simp: MAX_SIZE_def)
    have cnt: "(of_nat k :: c_int) + of_nat l = of_nat (k + l)" by simp
    have len_l: "read_ret_len (read_reply ?piece) = of_nat l" "read_ret_ret (read_reply ?piece) = 0"
      by (simp_all add: read_reply_def l_def)
    have "bb_read_loop (Suc n) ?C 0 (of_nat N) (read_at a off N k) r0 buf (of_nat k) s
        = bb_read_loop n ?C 0 (of_nat N) (read_at a off N (k + l)) (read_reply ?piece) ?b (of_nat (k + l)) s"
      using call arrives(1) less True dN nz not_cneg_count [OF k31] unat_count [of k] k31 l31 l(4) N(1)
      by (simp add: bnd_def len_l Let_def cnt scast_count left_count read_next_arg
        del: of_nat_add of_nat_diff cong: if_cong split del: if_split)
    then show ?thesis
      using Suc.IH [of ?b "k + l" "read_reply ?piece"] arrives(2,3) stage fuel l(4) Suc.prems(1) by simp
  qed
qed

text \<open>
  C11. A read of whole blocks into a buffer that has room for them returns the number of characters the file
  has there and puts exactly them at the start of the buffer, changing nothing at the server: one round
  per block, and one more at the end of the file, are enough.
\<close>

theorem client_reads_file:
  assumes "up h1 \<or> up h2" and "is_ip ip" and "reads_as (e_os E) (ucast (fi_fh fi)) content (world (world s))"
    and "N < 2 ^ 31" and "MAX_SIZE dvd N" and "off + N < 2 ^ 32" and "N \<le> length buf"
    and "N + MAX_SIZE \<le> n * MAX_SIZE"
  defines "data \<equiv> take N (drop off content)"
  shows "\<exists>buf'. bb_read n (client_of up E G ip h1 h2 root) r0 path buf (of_nat N) (of_nat off) fi s
      = Inr ((of_nat (length data), buf'), s) \<and> take (length data) buf' = data \<and> length buf' = length buf"
proof -
  let ?a = "\<lparr>read_arg_ip = ip, read_arg_fd = ucast (fi_fh fi), read_arg_size = 0, read_arg_offset = 0\<rparr>"
  have "(of_nat N :: c_long) \<le> of_nat MAX_SIZE \<longleftrightarrow> N \<le> MAX_SIZE"
    using assms(4) by (simp add: word_le_nat_alt unat_of_nat MAX_SIZE_def)
  moreover have "(ucast (of_nat N :: c_long) :: c_int) = of_nat N"
    using left_count [of 0 N] assms(4) by simp
  moreover have "(ucast (of_nat off :: c_long) :: c_int) = of_nat off"
    using assms(6) by (simp add: unsigned_of_nat take_bit_nat_eq_self)
  ultimately have start: "\<lparr>read_arg_ip = ip, read_arg_fd = ucast (fi_fh fi),
      read_arg_size = (if of_nat N \<le> (of_nat MAX_SIZE :: c_long) then ucast (of_nat N :: c_long) else of_nat MAX_SIZE),
      read_arg_offset = ucast (of_nat off :: c_long)\<rparr> = read_at ?a off N 0"
    by (simp add: read_at_def min_def)
  have "length data \<le> N" by (simp add: data_def)
  then have "\<exists>buf'. bb_read_loop n (client_of up E G ip h1 h2 root) 0 (of_nat N) (read_at ?a off N 0) r0 buf (of_nat 0) s
      = Inr ((of_nat (length data), buf'), s) \<and> take (length data) buf' = data \<and> length buf' = length buf"
    using assms(2-8) by (intro bb_read_loop_reads) (simp_all add: data_def)
  then show ?thesis
    using assms(1) by (simp add: bb_read_def bnd_def connect_run start)
qed

lemma mem_reads_as: "reads_as (e_os mem_env) 3 ''secret'' (mem_tree\<lparr>m_fds := [(3, 4, 2)]\<rparr>)"
proof -
  let ?m = "mem_tree\<lparr>m_fds := [(3, 4, 2)]\<rparr>"
  let ?l = "?m\<lparr>m_locks := [(3, 4, False)]\<rparr>"
  have "sys_flock (e_os mem_env) 3 LOCK_SH ?m = Some (Inr (), ?l)"
    and "sys_flock (e_os mem_env) 3 LOCK_UN ?l = Some (Inr (), ?m)"
    by code_simp+
  moreover have "sys_pread (e_os mem_env) 3 n off ?l = (Inr (take n (drop off ''secret'')), ?l)" for n off
    by (simp add: mem_env_def mem_os_def m_pread_def mem_tree_def mem_node_def)
  ultimately show ?thesis by (auto simp: reads_as_def)
qed

lemma client_reads_file_witness:
  "\<exists>buf'. bb_read 2 (client_of (\<lambda>_. True) mem_env mem_garbage ''7'' ''a'' ''b'' ''/'') (g_read_ret mem_garbage)
      ''/g'' (zeros 4096) 4096 2 \<lparr>fi_flags = 0, fi_fh = 3\<rparr>
      \<lparr>world = \<lparr>world = mem_tree\<lparr>m_fds := [(3, 4, 2)]\<rparr>, errno = 0\<rparr>, errno = 0\<rparr>
    = Inr ((4, buf'), \<lparr>world = \<lparr>world = mem_tree\<lparr>m_fds := [(3, 4, 2)]\<rparr>, errno = 0\<rparr>, errno = 0\<rparr>) \<and>
      take (length ''cret'') buf' = ''cret''"
  using client_reads_file [where N = 4096 and off = 2 and n = 2 and up = "\<lambda>_. True" and E = mem_env
      and G = mem_garbage and content = "''secret''" and buf = "zeros 4096" and ip = "''7''"
      and fi = "\<lparr>fi_flags = 0, fi_fh = 3\<rparr>" and ?r0.0 = "g_read_ret mem_garbage" and path = "''/g''"
      and s = "\<lparr>world = \<lparr>world = mem_tree\<lparr>m_fds := [(3, 4, 2)]\<rparr>, errno = 0\<rparr>, errno = 0\<rparr>"
      and ?h1.0 = "''a''" and ?h2.0 = "''b''" and root = "''/''"] mem_reads_as
  by (auto simp: MAX_SIZE_def is_ip_def)

text \<open>
  C32. Each reply is copied whole: a read of fewer characters than a block, into a buffer of that length,
  writes past its end as soon as the file has a character there.
\<close>

theorem short_read_overflows_buffer:
  assumes "up h1 \<or> up h2" and "is_ip ip" and "reads_as (e_os E) (ucast (fi_fh fi)) content (world (world s))"
    and "0 < N" and "N < MAX_SIZE" and "off + N < 2 ^ 32" and "length buf = N" and "off < length content"
  shows "bb_read (Suc n) (client_of up E G ip h1 h2 root) r0 path buf (of_nat N) (of_nat off) fi s
    = Inl (OutOfBounds, s)"
proof -
  let ?a = "\<lparr>read_arg_ip = ip, read_arg_fd = ucast (fi_fh fi), read_arg_size = 0, read_arg_offset = 0\<rparr>"
  let ?piece = "take MAX_SIZE (drop 0 (take N (drop off content)))"
  have N31: "N < 2 ^ 31" using assms(5) by (simp add: MAX_SIZE_def)
  have "(of_nat N :: c_long) \<le> of_nat MAX_SIZE"
    using assms(5) by (simp add: word_le_nat_alt unat_of_nat MAX_SIZE_def)
  moreover have "(ucast (of_nat N :: c_long) :: c_int) = of_nat N"
    using left_count [of 0 N] N31 by simp
  moreover have "(ucast (of_nat off :: c_long) :: c_int) = of_nat off"
    using assms(6) by (simp add: unsigned_of_nat take_bit_nat_eq_self)
  ultimately have start: "\<lparr>read_arg_ip = ip, read_arg_fd = ucast (fi_fh fi),
      read_arg_size = (if of_nat N \<le> (of_nat MAX_SIZE :: c_long) then ucast (of_nat N :: c_long) else of_nat MAX_SIZE),
      read_arg_offset = ucast (of_nat off :: c_long)\<rparr> = read_at ?a off N 0"
    using assms(5) by (simp add: read_at_def min_def)
  have call: "rpc_call (client_of up E G ip h1 h2 root) bb_read_6 (read_at ?a off N 0) r0 0 s
      = Inr (read_reply ?piece, s)"
    using assms(2,3,6) by (intro read_next [OF _ _ N31]) simp_all
  have len: "length ?piece = min N (length content - off)" using assms(5) by simp
  then have "unat (of_nat (length ?piece) :: c_int) \<noteq> 0"
    using assms(4,5,8) by (subst unat_count) (simp_all add: MAX_SIZE_def)
  then have nz: "read_ret_len (read_reply ?piece) \<noteq> 0" by (auto simp: read_reply_def)
  have "(0 :: c_long) < of_nat N" using less_count [of 0 N] N31 assms(4) by simp
  moreover have "poke buf 0 (read_ret_buffer (read_reply ?piece)) = None"
    using assms(5,7) len by (simp add: poke_def read_reply_def)
  ultimately show ?thesis
    using assms(1) call nz by (simp add: bb_read_def bnd_def connect_run start Let_def read_reply_def)
qed

lemma short_read_overflows_buffer_witness:
  "bb_read 1 (client_of (\<lambda>_. True) mem_env mem_garbage ''7'' ''a'' ''b'' ''/'') (g_read_ret mem_garbage)
      ''/g'' (zeros 10) 10 2 \<lparr>fi_flags = 0, fi_fh = 3\<rparr>
      \<lparr>world = \<lparr>world = mem_tree\<lparr>m_fds := [(3, 4, 2)]\<rparr>, errno = 0\<rparr>, errno = 0\<rparr>
    = Inl (OutOfBounds, \<lparr>world = \<lparr>world = mem_tree\<lparr>m_fds := [(3, 4, 2)]\<rparr>, errno = 0\<rparr>, errno = 0\<rparr>)"
  using short_read_overflows_buffer [where N = 10 and off = 2 and n = 0 and up = "\<lambda>_. True" and E = mem_env
      and G = mem_garbage and content = "''secret''" and buf = "zeros 10" and ip = "''7''"
      and fi = "\<lparr>fi_flags = 0, fi_fh = 3\<rparr>" and ?r0.0 = "g_read_ret mem_garbage" and path = "''/g''"
      and s = "\<lparr>world = \<lparr>world = mem_tree\<lparr>m_fds := [(3, 4, 2)]\<rparr>, errno = 0\<rparr>, errno = 0\<rparr>"
      and ?h1.0 = "''a''" and ?h2.0 = "''b''" and root = "''/''"] mem_reads_as
  by (simp add: MAX_SIZE_def is_ip_def)

section \<open>Writing\<close>

lemma sent_write:
  assumes "is_ip (write_arg_ip a)" and "is_path (write_arg_path a)" and "length (write_arg_buffer a) = MAX_SIZE"
  shows "ok_write_arg a \<and> length (encoding xdr_write_arg a) \<le> 10000"
proof -
  have "padding MAX_SIZE = 0" by (simp add: padding_def MAX_SIZE_def)
  then have "\<exists>bs. enc_ok xdr_write_arg a bs \<and> length bs \<le> 10000"
    unfolding xdr_write_arg_def
    by - (rule exI conjI enc_rules enc_prims enc_ok_identity | simp add: sent_simps assms; fail
      | use ip_bytes [OF assms(1)] path_bytes [OF assms(2)] assms(3) in \<open>simp add: length_identity MAX_SIZE_def\<close>)+
  then show ?thesis using assms by (auto simp: ok_write_arg_def sent_simps dest: encoding_eq)
qed

lemma write_call:
  assumes "is_ip (write_arg_ip a)" and "is_path (write_arg_path a)" and "length (write_arg_buffer a) = MAX_SIZE"
    and "bb_write_6_svc E (g_write_ret G) a (g_write_ret G) (world s) = Inr (r, q)"
  shows "rpc_call (client_of up E G ip h1 h2 root) bb_write_6 a r0 0 s = Inr (r, s\<lparr>world := q\<rparr>)"
proof -
  have "\<exists>st. bb_write_6 (e_xdr E) (client_rpc up E G) a r0 0 (world s) = ((st, r), q)"
    using call_write.client_call [of a E G "world s" up 0 r0] sent_write [OF assms(1-3)] assms(4)
    unfolding bb_write_6_def by (auto simp: replied_def)
  then show ?thesis by (rule rpc_call_run)
qed

text \<open>
  The request of the client, and the state in which the server that gets it calls the kernel: the primary has
  sent the request on to its peer, the secondary is where it was.
\<close>

definition write_request ::
  "(string \<Rightarrow> bool) \<Rightarrow> string \<Rightarrow> string \<Rightarrow> fuse_file_info \<Rightarrow> string \<Rightarrow> nat \<Rightarrow> nat \<Rightarrow> buffer \<Rightarrow> write_arg" where
  "write_request up h1 ip fi path sz offset block = \<lparr>write_arg_ip = ip,
     write_arg_server_info = get_identity (server_state up h1), write_arg_fd = ucast (fi_fh fi), write_arg_path = path,
     write_arg_size = of_nat sz, write_arg_offset = of_nat offset, write_arg_buffer = block\<rparr>"

lemma write_request_simps [simp]:
  "write_arg_ip (write_request up h1 ip fi path sz off block) = ip"
  "write_arg_server_info (write_request up h1 ip fi path sz off block) = get_identity (server_state up h1)"
  "write_arg_fd (write_request up h1 ip fi path sz off block) = ucast (fi_fh fi)"
  "write_arg_path (write_request up h1 ip fi path sz off block) = path"
  "write_arg_size (write_request up h1 ip fi path sz off block) = of_nat sz"
  "write_arg_offset (write_request up h1 ip fi path sz off block) = of_nat off"
  "write_arg_buffer (write_request up h1 ip fi path sz off block) = block"
  by (simp_all add: write_request_def)

definition write_sent :: "'w env \<Rightarrow> write_ret \<Rightarrow> write_arg \<Rightarrow> 'w process \<Rightarrow> 'w process" where
  "write_sent E u a q = forwards E bb_write_6 write_arg_server_info write_arg_server_info_update u a q"

lemma get_identity_master [simp]: "is_master (get_identity d) = 1"
  by (simp add: get_identity_def)

lemma write_handler:
  assumes "is_master (write_arg_server_info a) = 1" and "write_sent E u a q = t"
    and "sys_flock (e_os E) (write_arg_fd a) LOCK_EX (world t) = Some (Inr (), w1)"
    and "unat (write_arg_size a) \<le> length (write_arg_buffer a)"
    and "sys_pwrite (e_os E) (write_arg_fd a) (take (unat (write_arg_size a)) (write_arg_buffer a))
      (unat (write_arg_offset a)) w1 = (Inr n, w2)"
    and "sys_flock (e_os E) (write_arg_fd a) LOCK_UN w2 = Some (Inr (), w3)"
  shows "bb_write_6_svc E u a r q = Inr (\<lparr>write_ret_len = of_nat n, write_ret_ret = 0\<rparr>, t\<lparr>world := w3\<rparr>)"
  using assms unfolding bb_write_6_svc_def bnd_TRANSMIT write_sent_def
  by (cases r) (simp add: Let_def bnd_def flock_def sys_int_def sys_call_def)

text \<open>\<open>takes\<close>: for the request \<open>a\<close> the kernel of the server gives the lock, takes the first \<open>n\<close> characters, and
  gives the lock back.\<close>

definition takes :: "'w env \<Rightarrow> write_ret \<Rightarrow> nat \<Rightarrow> write_arg \<Rightarrow> 'w process \<Rightarrow> 'w process \<Rightarrow> bool" where
  "takes E u n a q q' \<longleftrightarrow> (\<exists>w1 w2 w3.
     sys_flock (e_os E) (write_arg_fd a) LOCK_EX (world (write_sent E u a q)) = Some (Inr (), w1) \<and>
     sys_pwrite (e_os E) (write_arg_fd a) (take (unat (write_arg_size a)) (write_arg_buffer a))
       (unat (write_arg_offset a)) w1 = (Inr n, w2) \<and>
     sys_flock (e_os E) (write_arg_fd a) LOCK_UN w2 = Some (Inr (), w3) \<and> q' = (write_sent E u a q)\<lparr>world := w3\<rparr>)"

lemma takes_call:
  assumes "takes E (g_write_ret G) n (write_request up h1 ip fi path sz off block) (world s) q"
    and "is_ip ip" and "is_path path" and "length block = MAX_SIZE" and "sz \<le> MAX_SIZE"
  shows "rpc_call (client_of up E G ip h1 h2 root) bb_write_6 (write_request up h1 ip fi path sz off block) r0 0 s
    = Inr (\<lparr>write_ret_len = of_nat n, write_ret_ret = 0\<rparr>, s\<lparr>world := q\<rparr>)"
proof -
  have "unat (of_nat sz :: c_int) = sz" using assms(5) by (intro unat_count) (simp add: MAX_SIZE_def)
  then have "bb_write_6_svc E (g_write_ret G) (write_request up h1 ip fi path sz off block) (g_write_ret G) (world s)
      = Inr (\<lparr>write_ret_len = of_nat n, write_ret_ret = 0\<rparr>, q)"
    using assms(1,4,5) unfolding takes_def
    by (elim exE conjE) (simp add: write_handler [OF _ refl])
  then show ?thesis using assms(2-4) by (intro write_call) simp_all
qed

lemma bb_write_start:
  assumes "up h1 \<or> up h2" and "is_path path" and "MAX_SIZE \<le> length buf" and "N < 2 ^ 31" and "off < 2 ^ 32"
  shows "bb_write n (client_of up E G ip h1 h2 root) r0 path buf (of_nat N) (of_nat off) fi s
    = bb_write_loop n (client_of up E G ip h1 h2 root) 0 buf (of_nat N) (of_nat off)
        (write_request up h1 ip fi path N off (take MAX_SIZE buf)) r0 0 s"
proof -
  have "(ucast (of_nat N :: c_long) :: c_int) = of_nat N" "(ucast (of_nat off :: c_long) :: c_int) = of_nat off"
    using left_count [of 0 N] assms(4,5) by (simp_all add: unsigned_of_nat take_bit_nat_eq_self)
  moreover have "copy_block buf 0 = Some (take MAX_SIZE buf)" using assms(3) by (simp add: copy_block_def)
  ultimately show ?thesis
    using assms(1,2) by (simp add: bb_write_def bnd_def connect_run is_path_full write_request_def Let_def)
qed

lemma bb_write_step:
  assumes "takes E (g_write_ret G) l (write_request up h1 ip fi path sz o' block) (world s) q" and "k + l < N"
    and "is_ip ip" and "is_path path" and "length block = MAX_SIZE" and "sz \<le> MAX_SIZE" and "N \<le> MAX_SIZE"
    and "off + N < 2 ^ 32" and "N + MAX_SIZE \<le> length buf"
  shows "bb_write_loop (Suc n) (client_of up E G ip h1 h2 root) 0 buf (of_nat N) (of_nat off)
      (write_request up h1 ip fi path sz o' block) r (of_nat k) s
    = bb_write_loop n (client_of up E G ip h1 h2 root) 0 buf (of_nat N) (of_nat off)
        (write_request up h1 ip fi path (N - l) (off + l) (take MAX_SIZE (drop (k + l) buf)))
        \<lparr>write_ret_len = of_nat l, write_ret_ret = 0\<rparr> (of_nat (k + l)) (s\<lparr>world := q\<rparr>)"
proof -
  have N31: "N < 2 ^ 31" using assms(7) by (simp add: MAX_SIZE_def)
  have "(scast (of_nat k + of_nat l :: c_int) :: c_long) = of_nat (k + l)"
    using scast_count [of "k + l"] assms(2) N31 by simp
  moreover have "(of_nat (k + l) :: c_long) \<noteq> of_nat N"
    using less_count [of "k + l" N] assms(2) N31 by auto
  moreover have "copy_block buf (of_nat k + of_nat l) = Some (take MAX_SIZE (drop (k + l) buf))"
    using not_cneg_count [of "k + l"] unat_count [of "k + l"] assms(2,9) N31 by (simp add: copy_block_def)
  moreover have "(ucast ((of_nat N :: c_long) - scast (of_nat l :: c_int)) :: c_int) = of_nat (N - l)"
    using left_count [of l N] scast_count [of l] assms(2) N31 by simp
  moreover have "(ucast ((of_nat off :: c_long) + scast (of_nat l :: c_int)) :: c_int) = of_nat (off + l)"
    using scast_count [of l] left_count [of 0 "off + l"] assms(2,8) N31
    by (simp add: unsigned_of_nat take_bit_nat_eq_self flip: of_nat_add)
  ultimately show ?thesis
    using takes_call [OF assms(1,3-6)] by (simp add: bnd_def write_request_def Let_def)
qed

lemma bb_write_last:
  assumes "takes E (g_write_ret G) l (write_request up h1 ip fi path sz o' block) (world s) q" and "k + l = N"
    and "is_ip ip" and "is_path path" and "length block = MAX_SIZE" and "sz \<le> MAX_SIZE" and "N < 2 ^ 31"
  shows "bb_write_loop (Suc n) (client_of up E G ip h1 h2 root) 0 buf (of_nat N) (of_nat off)
      (write_request up h1 ip fi path sz o' block) r (of_nat k) s = Inr (of_nat N, s\<lparr>world := q\<rparr>)"
  using takes_call [OF assms(1,3-6)] scast_count [OF assms(7)] assms(2)
  by (simp add: bnd_def flip: of_nat_add)

text \<open>
  C12. A write of at most a block that the server's kernel takes whole returns its length, whichever server
  answers, and leaves that server where the descriptor of the request has been locked, written with the
  characters of the buffer at the offset, and unlocked: from the state after the request was sent on by the
  primary, from the one the call found when the primary is down. The buffer holds at least one block,
  which the client copies whole.
\<close>

theorem client_writes_block:
  assumes "up h1 \<or> up h2" and "is_ip ip" and "is_path path" and "N \<le> MAX_SIZE" and "off < 2 ^ 32"
    and "MAX_SIZE \<le> length buf"
    and "q = write_sent E (g_write_ret G) (write_request up h1 ip fi path N off (take MAX_SIZE buf)) (world s)"
    and "sys_flock (e_os E) (ucast (fi_fh fi)) LOCK_EX (world q) = Some (Inr (), w1)"
    and "sys_pwrite (e_os E) (ucast (fi_fh fi)) (take N buf) off w1 = (Inr N, w2)"
    and "sys_flock (e_os E) (ucast (fi_fh fi)) LOCK_UN w2 = Some (Inr (), w3)"
  shows "bb_write (Suc n) (client_of up E G ip h1 h2 root) r0 path buf (of_nat N) (of_nat off) fi s
    = Inr (of_nat N, s\<lparr>world := q\<lparr>world := w3\<rparr>\<rparr>) \<and> (\<not> up h1 \<longrightarrow> q = world s)"
proof -
  let ?a = "write_request up h1 ip fi path N off (take MAX_SIZE buf)"
  have N31: "N < 2 ^ 31" using assms(4) by (simp add: MAX_SIZE_def)
  have u: "unat (of_nat N :: c_int) = N" "unat (of_nat off :: c_int) = off"
    using N31 assms(5) by (simp_all add: unat_count)
  have "takes E (g_write_ret G) N ?a (world s) (q\<lparr>world := w3\<rparr>)"
    using assms(4,8-10) u unfolding takes_def assms(7) by (auto simp: min_def)
  then have call: "rpc_call (client_of up E G ip h1 h2 root) bb_write_6 ?a r0 0 s
      = Inr (\<lparr>write_ret_len = of_nat N, write_ret_ret = 0\<rparr>, s\<lparr>world := q\<lparr>world := w3\<rparr>\<rparr>)"
    using assms(2-4,6) by (intro takes_call) simp_all
  have "q = world s" if "\<not> up h1"
    using that unfolding assms(7) write_sent_def
    by (intro forwards_local) (simp add: transmits_def get_identity_def server_state_def IS_DEGRADED_def)
  then show ?thesis
    unfolding bb_write_start [OF assms(1,3,6) N31 assms(5)] using call scast_count [OF N31] by (simp add: bnd_def)
qed

lemma client_writes_block_witness:
  "\<exists>t. bb_write 1 (client_of (\<lambda>_. True) mem_env mem_garbage ''8'' ''a'' ''b'' ''/'') (g_write_ret mem_garbage)
      ''/g'' (''XX'' @ zeros 4094) 2 0 \<lparr>fi_flags = 2, fi_fh = 3\<rparr>
      \<lparr>world = \<lparr>world = mem_open_g, errno = 0\<rparr>, errno = 0\<rparr> = Inr (2, t) \<and>
    m_content (world (world t)) ''/DFS/g'' = ''XXcret''"
proof -
  let ?l = "mem_open_g\<lparr>m_locks := [(3, 4, True)]\<rparr>"
  let ?w2 = "snd (m_pwrite 3 ''XX'' 0 ?l)"
  let ?w3 = "?w2\<lparr>m_locks := []\<rparr>"
  have "sys_flock (e_os mem_env) 3 LOCK_EX mem_open_g = Some (Inr (), ?l)"
    and "sys_pwrite (e_os mem_env) 3 ''XX'' 0 ?l = (Inr 2, ?w2)"
    and "sys_flock (e_os mem_env) 3 LOCK_UN ?w2 = Some (Inr (), ?w3)"
    and "m_content ?w3 ''/DFS/g'' = ''XXcret''"
    by code_simp+
  then show ?thesis
    using client_writes_block [where N = 2 and off = 0 and n = 0 and up = "\<lambda>_. True" and E = mem_env
      and G = mem_garbage and buf = "''XX'' @ zeros 4094" and ip = "''8''" and path = "''/g''"
      and fi = "\<lparr>fi_flags = 2, fi_fh = 3\<rparr>" and ?r0.0 = "g_write_ret mem_garbage"
      and s = "\<lparr>world = \<lparr>world = mem_open_g, errno = 0\<rparr>, errno = 0\<rparr>"
      and ?h1.0 = "''a''" and ?h2.0 = "''b''" and root = "''/''" and ?w3.0 = ?w3]
    by (auto simp: MAX_SIZE_def is_ip_def is_path_def PATH_MAX_def write_sent_def mem_forwards)
qed

text \<open>A request of which the kernel writes the first \<open>n\<close> characters in place.\<close>

definition puts :: "'w env \<Rightarrow> write_ret \<Rightarrow> ('w process \<Rightarrow> char list) \<Rightarrow> nat \<Rightarrow> write_arg \<Rightarrow> 'w process \<Rightarrow> 'w process \<Rightarrow> bool" where
  "puts E u content n a q q' \<longleftrightarrow> takes E u n a q q' \<and>
     content q' = m_splice (content q) (unat (write_arg_offset a)) (take n (write_arg_buffer a))"

text \<open>
  C31. A write of at most a block that the server's kernel takes in three pieces lands at the wrong offsets, for every length of
  the pieces: the loop of \<^verbatim>\<open>bb_write\<close> resumes at \<^verbatim>\<open>offset + len\<close> with the length of the last piece instead of
  the total, so that the third piece goes over the second or its neighbours, at \<open>off + l2\<close> where
  \<open>off + l1 + l2\<close> is its place, and yet the call reports that all has been written.
\<close>

theorem short_writes_misplaced:
  assumes "up h1 \<or> up h2" and "is_ip ip" and "is_path path" and "N \<le> MAX_SIZE" and "off + N < 2 ^ 32"
    and "N + MAX_SIZE \<le> length buf" and "l1 + l2 + l3 = N" and "0 < l3"
    and "puts E (g_write_ret G) content l1 (write_request up h1 ip fi path N off (take MAX_SIZE buf)) (world s) q1"
    and "puts E (g_write_ret G) content l2
      (write_request up h1 ip fi path (N - l1) (off + l1) (take MAX_SIZE (drop l1 buf))) q1 q2"
    and "puts E (g_write_ret G) content l3
      (write_request up h1 ip fi path (N - l2) (off + l2) (take MAX_SIZE (drop (l1 + l2) buf))) q2 q3"
  shows "bb_write (Suc (Suc (Suc n))) (client_of up E G ip h1 h2 root) r0 path buf (of_nat N) (of_nat off) fi s
      = Inr (of_nat N, s\<lparr>world := q3\<rparr>) \<and>
    content q3 = m_splice (m_splice (m_splice (content (world s)) off (take l1 buf))
      (off + l1) (take l2 (drop l1 buf))) (off + l2) (take l3 (drop (l1 + l2) buf))"
proof
  have N31: "N < 2 ^ 31" using assms(4) by (simp add: MAX_SIZE_def)
  note p = assms(9-11) [unfolded puts_def, THEN conjunct1]
  have len: "length (take MAX_SIZE (drop k buf)) = MAX_SIZE" if "k \<le> N" for k using that assms(6) by simp
  note step = bb_write_step [OF _ _ assms(2,3) _ _ assms(4,5,6)]
  let ?C = "client_of up E G ip h1 h2 root" and ?loop = "\<lambda>n. bb_write_loop n (client_of up E G ip h1 h2 root) 0 buf (of_nat N) (of_nat off)"
  have "bb_write (Suc (Suc (Suc n))) ?C r0 path buf (of_nat N) (of_nat off) fi s
      = ?loop (Suc (Suc (Suc n))) (write_request up h1 ip fi path N off (take MAX_SIZE buf)) r0 (of_nat 0) s"
    using assms(5,6) unfolding semiring_1_class.of_nat_0 by (intro bb_write_start assms N31) simp_all
  also have "\<dots> = ?loop (Suc (Suc n)) (write_request up h1 ip fi path (N - l1) (off + l1) (take MAX_SIZE (drop (0 + l1) buf)))
      \<lparr>write_ret_len = of_nat l1, write_ret_ret = 0\<rparr> (of_nat (0 + l1)) (s\<lparr>world := q1\<rparr>)"
    using len [of 0] assms(4,7,8) by (intro step p) simp_all
  also have "\<dots> = ?loop (Suc n) (write_request up h1 ip fi path (N - l2) (off + l2) (take MAX_SIZE (drop (0 + l1 + l2) buf)))
      \<lparr>write_ret_len = of_nat l2, write_ret_ret = 0\<rparr> (of_nat (0 + l1 + l2)) (s\<lparr>world := q1\<rparr>\<lparr>world := q2\<rparr>)"
    using p(2) len [of l1] assms(4,7,8) by (intro step) simp_all
  also have "\<dots> = Inr (of_nat N, s\<lparr>world := q1\<rparr>\<lparr>world := q2\<rparr>\<lparr>world := q3\<rparr>)"
    using p(3) len [of "l1 + l2"] assms(4,7) N31 by (intro bb_write_last assms(2,3)) simp_all
  finally show "bb_write (Suc (Suc (Suc n))) ?C r0 path buf (of_nat N) (of_nat off) fi s = Inr (of_nat N, s\<lparr>world := q3\<rparr>)"
    by simp
next
  have "unat (of_nat (off + k) :: c_int) = off + k" if "k \<le> N" for k
    using assms(5) that by (intro unat_count) simp
  from this [of 0] this [of l1] this [of l2]
  have u: "unat (of_nat off :: c_int) = off" "unat (of_nat (off + l1) :: c_int) = off + l1"
    "unat (of_nat (off + l2) :: c_int) = off + l2" using assms(7) by simp_all
  have "l1 \<le> MAX_SIZE" "l2 \<le> MAX_SIZE" "l3 \<le> MAX_SIZE" using assms(4,7) by simp_all
  then show "content q3 = m_splice (m_splice (m_splice (content (world s)) off (take l1 buf))
      (off + l1) (take l2 (drop l1 buf))) (off + l2) (take l3 (drop (l1 + l2) buf))"
    using assms(9-11) unfolding puts_def write_request_simps u by (simp add: min_def)
qed

text \<open>A kernel that writes one character at a time, on the file \<^verbatim>\<open>/DFS/g\<close>, open for writing.\<close>

definition one_by_one :: "mem env" where
  "one_by_one = mem_env\<lparr>e_os := mem_os\<lparr>sys_pwrite := \<lambda>fd data off. m_pwrite fd (take 1 data) off\<rparr>\<rparr>"

lemma one_by_one_sent: "write_sent one_by_one u a q = q"
  by (simp add: write_sent_def forwards_def TRANSMIT_TO_SECONDATY_def connect_server_def on_world_def bnd_def
    one_by_one_def mem_env_def no_rpc_def)

definition g_open :: "char list \<Rightarrow> mem process \<Rightarrow> bool" where
  "g_open d q \<longleftrightarrow> map_of (m_fds (world q)) 3 = Some (4, 2) \<and> m_locks (world q) = [] \<and>
     map_of (m_nodes (world q)) 4 = Some (mem_node 33152 8 d) \<and> map_of (m_paths (world q)) ''/DFS/g'' = Some 4"

definition g_put :: "char list \<Rightarrow> mem process \<Rightarrow> mem process" where
  "g_put d q = q\<lparr>world := (world q)\<lparr>m_nodes := (4, mem_node 33152 8 d) # m_nodes (world q)\<rparr>\<rparr>"

lemma g_put_simps: "g_open d q \<Longrightarrow> g_open d' (g_put d' q)" "g_open d q \<Longrightarrow> m_content (world q) ''/DFS/g'' = d"
  by (simp_all add: g_open_def g_put_def m_content_def m_lookup_def mem_node_def)

lemma one_by_one_puts:
  assumes "g_open d q" and "write_arg_fd a = 3" and "0 < unat (write_arg_size a)" and "write_arg_buffer a = x # xs"
    and "m_splice d (unat (write_arg_offset a)) [x] = d'"
  shows "puts one_by_one u (\<lambda>q. m_content (world q) ''/DFS/g'') 1 a q (g_put d' q)"
proof -
  have "takes one_by_one u 1 a q (g_put d' q)"
    using assms by (simp add: takes_def one_by_one_sent g_open_def g_put_def)
      (simp add: one_by_one_def mem_os_def m_flock_def m_pwrite_def mem_node_def take_Cons')
  then show ?thesis using assms g_put_simps [OF assms(1)] g_put_simps [OF g_put_simps(1) [OF assms(1)]]
    by (simp add: puts_def)
qed

lemma short_writes_misplaced_witness:
  "\<exists>t. bb_write (Suc (Suc (Suc 0))) (client_of (\<lambda>_. True) one_by_one mem_garbage ''8'' ''a'' ''b'' ''/'') (g_write_ret mem_garbage)
      ''/g'' (''abc'' @ zeros 4096) 3 0 \<lparr>fi_flags = 2, fi_fh = 3\<rparr>
      \<lparr>world = \<lparr>world = mem_open_g, errno = 0\<rparr>, errno = 0\<rparr> = Inr (3, t) \<and>
    m_content (world (world t)) ''/DFS/g'' = ''accret''"
proof -
  let ?q = "\<lparr>world = mem_open_g, errno = 0\<rparr>"
  let ?req = "\<lambda>sz off k. write_request (\<lambda>_. True) ''a'' ''8'' \<lparr>fi_flags = 2, fi_fh = 3\<rparr> ''/g'' sz off
      (take MAX_SIZE (drop k (''abc'' @ zeros 4096)))"
  let ?puts = "puts one_by_one (g_write_ret mem_garbage) (\<lambda>q. m_content (world q) ''/DFS/g'') 1"
  let ?q1 = "g_put ''aecret'' ?q" let ?q2 = "g_put ''abcret'' ?q1" let ?q3 = "g_put ''accret'' ?q2"
  have open_g: "g_open ''secret'' ?q" "g_open ''aecret'' ?q1" "g_open ''abcret'' ?q2" "g_open ''accret'' ?q3"
    by (simp_all add: g_open_def g_put_def mem_open_g_def mem_tree_def)
  have "?puts (?req 3 0 0) ?q ?q1"
    by (rule one_by_one_puts [OF open_g(1), where x = "CHR ''a''" and xs = "''bc'' @ zeros 4093"])
      (simp_all add: m_splice_def MAX_SIZE_def)
  moreover have "?puts (?req 2 1 1) ?q1 ?q2"
    by (rule one_by_one_puts [OF open_g(2), where x = "CHR ''b''" and xs = "''c'' @ zeros 4094"])
      (simp_all add: m_splice_def MAX_SIZE_def)
  moreover have "?puts (?req 2 1 2) ?q2 ?q3"
    by (rule one_by_one_puts [OF open_g(3), where x = "CHR ''c''" and xs = "zeros 4095"])
      (simp_all add: m_splice_def MAX_SIZE_def)
  ultimately show ?thesis
    using short_writes_misplaced [where N = 3 and off = 0 and n = 0 and up = "\<lambda>_. True" and E = one_by_one
      and G = mem_garbage and buf = "''abc'' @ zeros 4096" and ip = "''8''" and path = "''/g''" and ?l1.0 = 1 and ?l2.0 = 1
      and ?l3.0 = 1 and fi = "\<lparr>fi_flags = 2, fi_fh = 3\<rparr>" and ?r0.0 = "g_write_ret mem_garbage"
      and content = "\<lambda>q. m_content (world q) ''/DFS/g''" and ?q1.0 = ?q1 and ?q2.0 = ?q2 and ?q3.0 = ?q3
      and s = "\<lparr>world = ?q, errno = 0\<rparr>" and ?h1.0 = "''a''" and ?h2.0 = "''b''" and root = "''/''"]
      g_put_simps(2) [OF open_g(4)]
    by (simp add: MAX_SIZE_def is_ip_def is_path_def PATH_MAX_def)
qed

end
