(* ===== verification/Client_Loops.thy ===== *)
theory Client_Loops
  imports Client_Files
begin

text \<open>
  Whether the two loops of the client end: the loop of \<^verbatim>\<open>bb_read\<close> always does against a server of this
  program, the loop of \<^verbatim>\<open>bb_write\<close> does not when the server is gone.
\<close>

section \<open>Reading\<close>

definition counts :: "read_ret \<Rightarrow> bool" where
  \<comment> \<open>the length of a reply is not negative\<close>
  "counts r \<longleftrightarrow> \<not> cneg (read_ret_len r)"

lemma rpc_call_returns: "\<exists>r' t. rpc_call C stub arg r clnt s = Inr (r', t)"
  by (simp add: rpc_call_def on_world_def split: prod.split)

lemma clnt_destroy_returns: "\<exists>t. clnt_destroy C clnt s = Inr ((), t)"
  by (simp add: clnt_destroy_def on_world_def)

lemma destroy_then: "bnd (clnt_destroy C clnt) (\<lambda>_. ret x) s \<noteq> Inl (NoFuel, t)"
  using clnt_destroy_returns [of C clnt s] by (auto simp: bnd_def)

lemma not_cneg_unat: "\<not> cneg x \<Longrightarrow> unat x < 2 ^ 31"
  using uint_sint [of x] sint_less [of x]
  by (simp add: cneg_def take_bit_int_eq_self unat_eq_nat_uint nat_less_iff)

lemma count_of_nat: "\<not> cneg x \<Longrightarrow> \<exists>k < 2 ^ 31. x = of_nat k"
  using not_cneg_unat [of x] by (intro exI [of _ "unat x"]) simp

lemma scast_nonneg:
  assumes "\<not> cneg x"
  shows "unat (scast x :: c_long) = unat x"
proof -
  obtain k where k: "k < 2 ^ 31" and x: "x = of_nat k" using count_of_nat [OF assms] by blast
  have "unat (of_nat k :: c_long) = k" "unat (of_nat k :: c_int) = k" using k by (simp_all add: unat_of_nat)
  then show ?thesis unfolding x scast_count [OF k] by simp
qed

lemma scast_neg:
  assumes "cneg x"
  shows "2 ^ 31 \<le> unat (scast x :: c_long)"
proof (rule ccontr)
  define k where "k = unat (scast x :: c_long)"
  assume "\<not> 2 ^ 31 \<le> unat (scast x :: c_long)"
  then have k: "k < 2 ^ 31" by (simp add: k_def)
  have "x = ucast (scast x :: c_long)"
  proof (rule bit_word_eqI)
    fix n assume "n < LENGTH(32)"
    then have "n < 31 \<or> n = 31" by auto
    then show "bit x n = bit (ucast (scast x :: c_long) :: c_int) n" by (auto simp: bit_simps)
  qed
  also have "scast x = (of_nat k :: c_long)" by (simp add: k_def)
  finally have "x = of_nat k" using k by (simp add: unsigned_of_nat take_bit_nat_eq_self)
  with not_cneg_count [OF k] assms show False by simp
qed

lemma add_nonneg:
  assumes "\<not> cneg x" and "\<not> cneg y" and "y \<noteq> 0"
  shows "unat x < unat (x + y)"
proof -
  have "unat x < 2 ^ 31" "unat y < 2 ^ 31" using not_cneg_unat assms by blast+
  then have "unat (x + y) = unat x + unat y" by (subst unat_add_lem [THEN iffD1]) simp_all
  moreover have "0 < unat y" using assms(3) by (simp add: unat_gt_0)
  ultimately show ?thesis by simp
qed

lemma read_loop_ends:
  fixes s :: "('w, 'z) process_scheme"
  assumes "\<And>arg r (s :: ('w, 'z) process_scheme) r' t. read_arg_ip arg = ip \<Longrightarrow> counts r \<Longrightarrow> rpc_call C bb_read_6 arg r clnt s = Inr (r', t) \<Longrightarrow> counts r'"
    and "unat sz < 2 ^ 31" and "read_arg_ip arg = ip" and "counts r"
    and "cneg total_len \<or> unat sz - unat total_len < n" and "0 < n"
  shows "bb_read_loop n C clnt sz arg r buf total_len s \<noteq> Inl (NoFuel, t)"
  using assms(3-)
proof (induction n arbitrary: arg r buf total_len s)
  case (Suc n)
  show ?case
  proof (cases "scast total_len < sz")
    case True
    then have less: "unat (scast total_len :: c_long) < unat sz" by (simp add: word_less_nat_alt)
    then have tot: "\<not> cneg total_len" using scast_neg [of total_len] assms(2) by auto
    then have room: "unat total_len < unat sz" using less scast_nonneg [of total_len] by simp
    obtain r' u where call: "rpc_call C bb_read_6 arg r clnt s = Inr (r', u)" using rpc_call_returns [of C bb_read_6 arg r clnt s] by blast
    then have r': "counts r'" using assms(1) Suc.prems(1,2) by blast
    have eq: "bnd (rpc_call C bb_read_6 arg r clnt) k s = k r' u" for k :: "_ \<Rightarrow> (_, c_int \<times> buffer) prog"
      using call by (simp add: bnd_def)
    show ?thesis
    proof (cases "cneg (read_ret_ret r') \<or> read_ret_len r' = 0")
      case True
      then show ?thesis
        using \<open>scast total_len < sz\<close>
        by (cases "cneg (read_ret_ret r')") (simp_all add: eq destroy_then Let_def)
    next
      case False
      let ?total = "total_len + read_ret_len r'"
      have "cneg ?total \<or> unat sz - unat ?total < n" and "0 < n"
        using add_nonneg [OF tot, of "read_ret_len r'"] r' False Suc.prems(3) tot room by (auto simp: counts_def)
      then have IH: "bb_read_loop n C clnt sz arg' r' buf' ?total u \<noteq> Inl (NoFuel, t)"
        if "read_arg_ip arg' = ip" for arg' buf'
        using Suc.IH [of arg' r' ?total buf' u] r' that by blast
      show ?thesis
        using True False tot Suc.prems(1)
        by (cases "poke buf (unat total_len) (read_ret_buffer r')") (simp_all add: eq Let_def IH)
    qed
  next
    case False
    then show ?thesis by (simp add: destroy_then)
  qed
qed simp

text \<open>The server of this program never answers with a negative length.\<close>

lemma read_handler_counts:
  assumes "counts g" and "bb_read_6_svc E a g q = Inr (r, q')"
  shows "counts r"
proof -
  have len: "counts (g\<lparr>read_ret_len := of_nat (length data), read_ret_ret := 0, read_ret_buffer := buf\<rparr>)"
    if "poke (zeros MAX_SIZE) 0 data = Some buf" for data buf
    using that by (auto simp: counts_def poke_def MAX_SIZE_def intro!: not_cneg_count split: if_splits)
  show ?thesis
    using assms len
    by (auto simp: bb_read_6_svc_def Let_def bnd_def checked_def set_errno_ret_def get_errno_apply counts_def
      split: sum.splits prod.splits option.splits)
qed

lemma read_handler_ok:
  assumes "ok_read_ret g" and "bb_read_6_svc E a g q = Inr (r, q')"
  shows "ok_read_ret r"
proof -
  have "length buf = MAX_SIZE" if "poke (zeros MAX_SIZE) 0 data = Some buf" for data buf
    using that by (auto simp: poke_def split: if_splits)
  then show ?thesis
    using assms
    by (auto simp: bb_read_6_svc_def Let_def bnd_def checked_def set_errno_ret_def get_errno_apply ok_read_ret_def
      split: sum.splits prod.splits option.splits)
qed

lemma read_call_counts:
  assumes "is_ip (read_arg_ip a)" and "counts (g_read_ret G)" and "ok_read_ret (g_read_ret G)" and "counts r"
    and "rpc_call (client_of up E G ip h1 h2 root) bb_read_6 a r 0 s = Inr (r', t)"
  shows "counts r'"
proof -
  let ?h = "bb_read_6_svc E a (g_read_ret G) (world s)"
  have "\<exists>st. bb_read_6 (e_xdr E) (client_rpc up E G) a r 0 (world s) = ((st, fst (replied r ?h)), snd (replied r ?h))"
    unfolding bb_read_6_def using sent_read [OF assms(1)] read_handler_ok [OF assms(3)]
    by (intro call_read.client_call) auto
  then have "r' = fst (replied r ?h)"
    using rpc_call_run [of bb_read_6 E up G a r 0 s "fst (replied r ?h)" "snd (replied r ?h)" ip h1 h2 root] assms(5)
    by simp
  then show ?thesis
    using assms(2,4) read_handler_counts [OF assms(2), of E a "world s"] by (auto simp: replied_def split: sum.splits)
qed

text \<open>
  C13. A read ends: against a server of this program on any kernel, whether it answers or not, \<^verbatim>\<open>bb_read\<close> of \<open>n\<close>
  characters takes at most \<open>n + 1\<close> rounds, since every round but the last reads at least one character.
  What the two uninitialised replies hold must not be a negative length.
\<close>

theorem read_terminates:
  assumes "is_ip ip" and "counts r0" and "counts (g_read_ret G)" and "length (read_ret_buffer (g_read_ret G)) = MAX_SIZE"
    and "unat sz < 2 ^ 31"
  shows "bb_read (Suc (unat sz)) (client_of up E G ip h1 h2 root) r0 path buf sz offset fi s \<noteq> Inl (NoFuel, t)"
proof (cases "up h1 \<or> up h2")
  case True
  let ?C = "client_of up E G ip h1 h2 root"
  have ok: "ok_read_ret (g_read_ret G)" using assms(4) by (simp add: ok_read_ret_def)
  have loop: "bb_read_loop (Suc (unat sz)) ?C 0 sz arg r0 buf 0 s \<noteq> Inl (NoFuel, t)" if "read_arg_ip arg = ip" for arg
    by (rule read_loop_ends [where ip = ip]) (use read_call_counts assms ok that in auto)
  show ?thesis
    using True by (simp add: bb_read_def bnd_def connect_run Let_def loop del: bb_read_loop.simps)
next
  case False
  then show ?thesis
    by (simp add: bb_read_def bnd_def CONNECT_SERVER_def on_world_def)
qed

lemma read_terminates_witness:
  "\<forall>t. bb_read (Suc 10) (client_of (\<lambda>_. True) mem_env mem_garbage ''7'' ''a'' ''b'' ''/'') (g_read_ret mem_garbage)
      ''/g'' (zeros 10) 10 0 \<lparr>fi_flags = 0, fi_fh = 3\<rparr> \<lparr>world = mem_start, errno = 0\<rparr> \<noteq> Inl (NoFuel, t)"
proof -
  have "counts (g_read_ret mem_garbage)" "length (read_ret_buffer (g_read_ret mem_garbage)) = MAX_SIZE" "is_ip ''7''"
    by (simp_all add: counts_def mem_garbage_def is_ip_def cneg_def zeros_def)
  then show ?thesis
    using read_terminates [of "''7''" "g_read_ret mem_garbage" mem_garbage 10 "\<lambda>_. True"
      mem_env "''a''" "''b''" "''/''" "''/g''" "zeros 10" 0 "\<lparr>fi_flags = 0, fi_fh = 3\<rparr>" "\<lparr>world = mem_start, errno = 0\<rparr>"]
    by simp
qed

section \<open>Writing\<close>

text \<open>
  C30. A write to a server that is gone never ends: when no call is answered, and the reply that was never
  filled in says that nothing was written and nothing failed, \<^verbatim>\<open>bb_write\<close> sends its request for ever.
\<close>

theorem write_to_dead_server_never_returns:
  assumes "CONNECT_SERVER C s = Inr ((clnt, degraded), s')" and "is_path path" and "MAX_SIZE \<le> length buf" and "sz \<noteq> 0"
    and "\<And>c proc bs w. \<exists>e w'. rpc_send (c_rpc C) c proc bs w = (Inl e, w')"
    and "write_ret_len r0 = 0" and "\<not> cneg (write_ret_ret r0)"
  shows "\<exists>t. bb_write n C r0 path buf sz offset fi s = Inl (NoFuel, t)"
proof -
  have gone: "\<exists>t. rpc_call C bb_write_6 arg r0 clnt u = Inr (r0, t)" for arg and u :: "('a, 'b) process_scheme"
  proof -
    obtain ok x a where "xdr_write_arg \<lparr>x_op = XDR_ENCODE, x_bytes = []\<rparr> arg = (ok, x, a)"
      by (metis prod_cases3)
    moreover obtain e w' where "rpc_send (c_rpc C) clnt BB_WRITE (x_bytes x) (world u) = (Inl e, w')"
      using assms(5) by blast
    ultimately show ?thesis by (simp add: rpc_call_def on_world_def bb_write_6_def clnt_call_def)
  qed
  have copy: "copy_block buf 0 = Some (take MAX_SIZE buf)" using assms(3) by (simp add: copy_block_def)
  have loop: "\<exists>t. bb_write_loop n C clnt buf sz offset arg r0 0 u = Inl (NoFuel, t)" for n arg and u :: "('a, 'b) process_scheme"
  proof (induction n arbitrary: arg u)
    case (Suc n)
    obtain t where "rpc_call C bb_write_6 arg r0 clnt u = Inr (r0, t)" using gone by blast
    then show ?case
      using Suc.IH assms(4,6,7) copy by (simp add: bnd_def Let_def)
  qed simp
  show ?thesis
    using assms(1) is_path_full [OF assms(2)] copy loop by (simp add: bb_write_def bnd_def Let_def)
qed

lemma write_to_dead_server_never_returns_witness:
  "\<exists>t. bb_write 100 \<lparr>c_rpc = no_rpc\<lparr>rpc_clnt_create := \<lambda>h p w. (Some 0, w)\<rparr>, c_xdr = strict_library, c_ip = ''7'',
      c_host1 = ''a'', c_host2 = ''b'', c_rootdir = ''/''\<rparr> \<lparr>write_ret_len = 0, write_ret_ret = 0\<rparr> ''/g''
      (zeros 4096) 5 0 \<lparr>fi_flags = 0, fi_fh = 3\<rparr> \<lparr>world = mem_tree, errno = 0\<rparr> = Inl (NoFuel, t)"
proof (rule write_to_dead_server_never_returns)
  show "CONNECT_SERVER \<lparr>c_rpc = no_rpc\<lparr>rpc_clnt_create := \<lambda>h p w. (Some 0, w)\<rparr>, c_xdr = strict_library, c_ip = ''7'',
      c_host1 = ''a'', c_host2 = ''b'', c_rootdir = ''/''\<rparr> \<lparr>world = mem_tree, errno = 0\<rparr>
    = Inr ((0, IS_NOT_DEGRADED), \<lparr>world = mem_tree, errno = 0\<rparr>)"
    by (simp add: CONNECT_SERVER_def on_world_def bnd_def)
qed (simp_all add: is_path_def PATH_MAX_def MAX_SIZE_def no_rpc_def)

end
