(* ===== verification/Client_Main.thy ===== *)
theory Client_Main
  imports Client_Server
begin

text \<open>
  The start of the client, \<^verbatim>\<open>main\<close> of \<^verbatim>\<open>tweakfs.c\<close>: what it takes from its address, its user and its
  arguments before it gives control to FUSE. The calls it makes are parameters: the text \<open>IPbuffer\<close> of
  the host's address (none on failure), the user ids, whether \<^verbatim>\<open>malloc\<close> and the opening of the log
  succeed, \<^verbatim>\<open>realpath\<close> (\<open>None\<close>: a null pointer, which \<^verbatim>\<open>strlen\<close> then reads), the library of the calls,
  and \<^verbatim>\<open>fuse_main\<close> on the arguments left and the globals set.
\<close>

definition client_main ::
  "string option \<Rightarrow> c_int \<Rightarrow> c_int \<Rightarrow> bool \<Rightarrow> (string \<Rightarrow> string option) \<Rightarrow> bool \<Rightarrow> 'w rpc \<Rightarrow> xdr_library \<Rightarrow>
   (string list \<Rightarrow> 'w client_env \<Rightarrow> ('s, c_int) prog) \<Rightarrow> string list \<Rightarrow> ('s, c_int) prog" where
  "client_main IPbuffer uid euid allocated realpath log_open rpc xdr fuse_main argv =
     bnd (get_ip_addr IPbuffer) (\<lambda>ip.
     if uid = 0 \<or> euid = 0 then ret 1
     else let argc = length argv in
       bnd (checked (if argc < 2 then None else Some (argv ! (argc - 2), argv ! (argc - 1)))) (\<lambda>(host1, host2).
       let argc = argc - 2 in
       if \<not> allocated then halt Exited
       else bnd (checked (if argc < 2 then None else realpath (argv ! (argc - 2)))) (\<lambda>rootdir.
         let argv = argv[argc - 2 := argv ! (argc - 1)]; argc = argc - 1 in
         if \<not> log_open then halt Exited
         else fuse_main (take argc argv) \<lparr>c_rpc = rpc, c_xdr = xdr, c_ip = cstr ip, c_host1 = host1,
                c_host2 = host2, c_rootdir = rootdir\<rparr>)))"

text \<open>
  C21. A mount \<open>prog opts root mountpoint host1 host2\<close> by an ordinary user reaches FUSE with the arguments
  \<open>prog opts mountpoint\<close>, the real path of \<open>root\<close>, the two servers in their order, and an identity that
  every request can carry and that the server reads as the number of the first three octets of the
  client's address. A mount by root is refused before anything else.
\<close>

theorem mount_arguments:
  assumes "a < 256" "b < 256" "c < 256" "d < 256" and "realpath root = Some dir"
  shows "\<exists>ip. is_ip ip \<and> atoi ip = of_nat (a * 65536 + b * 256 + c) \<and>
    client_main (Some (dotted a b c d)) uid euid True realpath True rpc xdr fuse_main
      (prog # opts @ [root, mountpoint, h1, h2]) s =
    (if uid = 0 \<or> euid = 0 then Inr (1, s)
     else fuse_main (prog # opts @ [mountpoint]) \<lparr>c_rpc = rpc, c_xdr = xdr, c_ip = ip, c_host1 = h1,
       c_host2 = h2, c_rootdir = dir\<rparr> s)"
proof -
  let ?u = "sprintf_u (of_nat (a * 65536 + b * 256 + c))"
  have ip: "get_ip_addr (Some (dotted a b c d)) s = Inr (?u @ zeros (20 - length ?u), s)"
    using get_ip_addr_text [OF is_cstring_dotted, of a b c d s] length_dotted [OF assms(1-4)]
    by (simp add: ip_to_int_dotted)
  have c: "is_cstring ?u" "cstr (?u @ zeros k) = ?u" for k by (simp_all add: sprintf_u_def)
  moreover have "is_ip ?u" using c(1) length_sprintf_u [of "of_nat (a * 65536 + b * 256 + c)"] by (simp add: is_ip_def)
  moreover have "client_main (Some (dotted a b c d)) uid euid True realpath True rpc xdr fuse_main
      (prog # opts @ [root, mountpoint, h1, h2]) s =
    (if uid = 0 \<or> euid = 0 then Inr (1, s)
     else fuse_main (prog # opts @ [mountpoint]) \<lparr>c_rpc = rpc, c_xdr = xdr, c_ip = ?u, c_host1 = h1,
       c_host2 = h2, c_rootdir = dir\<rparr> s)"
    using assms(5) c by (simp add: client_main_def bnd_def ip Let_def nth_append nth_Cons' list_update_append)
  ultimately show ?thesis by (auto simp: atoi_sprintf_u)
qed

lemma mount_arguments_witness:
  "\<exists>ip. atoi ip = 693302 \<and>
    client_main (Some (dotted 10 148 54 200)) 1000 1000 True Some True (no_rpc :: mem rpc) strict_library
      (\<lambda>args C s. Inr (0, Some (args, C))) [''fs'', ''-d'', ''/r'', ''/mnt'', ''a'', ''b''] None
    = Inr (0, Some ([''fs'', ''-d'', ''/mnt''], \<lparr>c_rpc = no_rpc, c_xdr = strict_library, c_ip = ip, c_host1 = ''a'',
       c_host2 = ''b'', c_rootdir = ''/r''\<rparr>))"
  using mount_arguments [of 10 148 54 200 Some "''/r''" "''/r''" 1000 1000 "no_rpc :: mem rpc" strict_library
    "\<lambda>args C s. Inr (0, Some (args, C))" "''fs''" "[''-d'']" "''/mnt''" "''a''" "''b''" None]
  by auto

end
