(* ===== verification/Client_Log.thy ===== *)
theory Client_Log
  imports Client_Ops
begin

text \<open>
  The log of the client (\<^verbatim>\<open>log.c\<close>, \<^verbatim>\<open>log.h\<close>) and the functions of \<^verbatim>\<open>tweakfs.c\<close> that do no more than
  log, or that call the kernel and log its answer. The output itself, \<^verbatim>\<open>vfprintf\<close> to the log file, is an
  operation of the library, which acts on the world and may change \<^verbatim>\<open>errno\<close>; a line is its format and
  the values of its arguments, at their widths.
\<close>

section \<open>Lines\<close>

datatype log_value = LInt c_int | LLong c_long | LPtr c_long | LStr string

type_synonym log_field = "string \<times> string \<times> log_value" \<comment> \<open>name, conversion, value\<close>

record 'w log_lib =
  l_vfprintf :: "string \<Rightarrow> log_value list \<Rightarrow> 'w \<times> c_int \<Rightarrow> 'w \<times> c_int"
  l_strerror :: "c_int \<Rightarrow> string"
  l_fopen :: "string \<Rightarrow> string \<Rightarrow> 'w \<Rightarrow> c_long option \<times> 'w" \<comment> \<open>the stream, line-buffered by the caller\<close>

definition newline :: string where
  "newline = [CHR 0x0A]"

definition log_open :: "'w log_lib \<Rightarrow> (('w, 'z) process_scheme, c_long) prog" where
  "log_open L = bnd (on_world (l_fopen L ''bbfs.log'' ''w'')) (\<lambda>logfile. case logfile of
       None \<Rightarrow> halt Exited
     | Some logfile \<Rightarrow> ret logfile)"

definition log_msg :: "'w log_lib \<Rightarrow> string \<Rightarrow> log_value list \<Rightarrow> (('w, 'z) process_scheme, unit) prog" where
  "log_msg L format ap = (\<lambda>s. case l_vfprintf L format ap (world s, errno s) of
       (w, e) \<Rightarrow> Inr ((), s\<lparr>world := w, errno := e\<rparr>))"

definition log_struct :: "'w log_lib \<Rightarrow> log_field \<Rightarrow> (('w, 'z) process_scheme, unit) prog" where
  \<comment> \<open>the macro: a line with the name of the member, \<open>=\<close> and its value\<close>
  "log_struct L fld = (case fld of (field, format, v) \<Rightarrow>
     log_msg L (''    '' @ field @ '' = '' @ format @ newline) [v])"

fun log_structs :: "'w log_lib \<Rightarrow> log_field list \<Rightarrow> (('w, 'z) process_scheme, unit) prog" where
  "log_structs L [] = ret ()"
| "log_structs L (f # fs) = bnd (log_struct L f) (\<lambda>_. log_structs L fs)"

section \<open>Errors\<close>

definition log_error :: "'w log_lib \<Rightarrow> string \<Rightarrow> (('w, 'z) process_scheme, c_int) prog" where
  "log_error L func = bnd get_errno (\<lambda>e. let r = - e in
     bnd (log_msg L (''    ERROR %s: %s'' @ newline) [LStr func, LStr (l_strerror L e)]) (\<lambda>_. ret r))"

definition set_errno :: "c_int \<Rightarrow> (('w, 'z) process_scheme, unit) prog" where
  "set_errno e = (\<lambda>s. Inr ((), s\<lparr>errno := e\<rparr>))"

definition log_retstat :: "'w log_lib \<Rightarrow> string \<Rightarrow> c_int \<Rightarrow> (('w, 'z) process_scheme, unit) prog" where
  "log_retstat L func retstat = bnd get_errno (\<lambda>errsave.
     bnd (log_msg L (''    %s returned %d'' @ newline) [LStr func, LInt retstat]) (\<lambda>_. set_errno errsave))"

definition log_syscall :: "'w log_lib \<Rightarrow> string \<Rightarrow> c_int \<Rightarrow> c_int \<Rightarrow> (('w, 'z) process_scheme, c_int) prog" where
  "log_syscall L func retstat min_ret = bnd (log_retstat L func retstat) (\<lambda>_.
     if sint retstat < sint min_ret
     then bnd (log_error L func) (\<lambda>_. bnd get_errno (\<lambda>e. ret (- e)))
     else ret retstat)"

section \<open>Structures of FUSE and of the kernel\<close>

text \<open>The members of the structures of FUSE that the log shows, at their widths on a 64-bit machine.\<close>

record fuse_context =
  cx_fuse :: c_long
  cx_uid :: c_int
  cx_gid :: c_int
  cx_pid :: c_int
  cx_private_data :: c_long
  cx_logfile :: c_long
  cx_rootdir :: string
  cx_umask :: c_int

record fuse_conn_info =
  cn_proto_major :: c_int
  cn_proto_minor :: c_int
  cn_async_read :: c_int
  cn_max_write :: c_int
  cn_max_readahead :: c_int
  cn_capable :: c_int
  cn_want :: c_int
  cn_max_background :: c_int
  cn_congestion_threshold :: c_int

record fuse_fi = fuse_file_info +
  lf_fh_old :: c_long
  lf_writepage :: c_int
  lf_direct_io :: c_int
  lf_keep_cache :: c_int
  lf_lock_owner :: c_long

definition fuse_context_fields :: "fuse_context \<Rightarrow> log_field list" where
  "fuse_context_fields context = [
     (''fuse'', ''%08x'', LPtr (cx_fuse context)),
     (''uid'', ''%d'', LInt (cx_uid context)),
     (''gid'', ''%d'', LInt (cx_gid context)),
     (''pid'', ''%d'', LInt (cx_pid context)),
     (''private_data'', ''%08x'', LPtr (cx_private_data context)),
     (''logfile'', ''%08x'', LPtr (cx_logfile context)),
     (''rootdir'', ''%s'', LStr (cx_rootdir context)),
     (''umask'', ''%05o'', LInt (cx_umask context))]"

definition log_fuse_context :: "'w log_lib \<Rightarrow> fuse_context \<Rightarrow> (('w, 'z) process_scheme, unit) prog" where
  "log_fuse_context L context = bnd (log_msg L (''    context:'' @ newline) []) (\<lambda>_. log_structs L (fuse_context_fields context))"

definition conn_fields :: "fuse_conn_info \<Rightarrow> log_field list" where
  "conn_fields conn = [
     (''proto_major'', ''%d'', LInt (cn_proto_major conn)),
     (''proto_minor'', ''%d'', LInt (cn_proto_minor conn)),
     (''async_read'', ''%d'', LInt (cn_async_read conn)),
     (''max_write'', ''%d'', LInt (cn_max_write conn)),
     (''max_readahead'', ''%d'', LInt (cn_max_readahead conn)),
     (''capable'', ''%08x'', LInt (cn_capable conn)),
     (''want'', ''%08x'', LInt (cn_want conn)),
     (''max_background'', ''%d'', LInt (cn_max_background conn)),
     (''congestion_threshold'', ''%d'', LInt (cn_congestion_threshold conn))]"

definition log_conn :: "'w log_lib \<Rightarrow> fuse_conn_info \<Rightarrow> (('w, 'z) process_scheme, unit) prog" where
  "log_conn L conn = bnd (log_msg L (''    conn:'' @ newline) []) (\<lambda>_. log_structs L (conn_fields conn))"

definition fi_fields :: "fuse_fi \<Rightarrow> log_field list" where
  "fi_fields fi = [
     (''flags'', ''0x%08x'', LInt (fi_flags fi)),
     (''fh_old'', ''0x%08lx'', LLong (lf_fh_old fi)),
     (''writepage'', ''%d'', LInt (lf_writepage fi)),
     (''direct_io'', ''%d'', LInt (lf_direct_io fi)),
     (''keep_cache'', ''%d'', LInt (lf_keep_cache fi)),
     (''fh'', ''0x%016llx'', LLong (fi_fh fi)),
     (''lock_owner'', ''0x%016llx'', LLong (lf_lock_owner fi))]"

definition log_fi :: "'w log_lib \<Rightarrow> fuse_fi \<Rightarrow> (('w, 'z) process_scheme, unit) prog" where
  "log_fi L fi = bnd (log_msg L (''    fi:'' @ newline) []) (\<lambda>_. log_structs L (fi_fields fi))"

definition stat_fields :: "stat_buf \<Rightarrow> log_field list" where
  "stat_fields si = [
     (''st_dev'', ''%lld'', LLong (st_dev si)),
     (''st_ino'', ''%lld'', LLong (st_ino si)),
     (''st_mode'', ''0%o'', LInt (st_mode si)),
     (''st_nlink'', ''%d'', LLong (st_nlink si)),
     (''st_uid'', ''%d'', LInt (st_uid si)),
     (''st_gid'', ''%d'', LInt (st_gid si)),
     (''st_rdev'', ''%lld'', LLong (st_rdev si)),
     (''st_size'', ''%lld'', LLong (st_size si)),
     (''st_blksize'', ''%ld'', LLong (st_blksize si)),
     (''st_blocks'', ''%lld'', LLong (st_blocks si)),
     (''st_atime'', ''0x%08lx'', LLong (st_atime si)),
     (''st_mtime'', ''0x%08lx'', LLong (st_mtime si)),
     (''st_ctime'', ''0x%08lx'', LLong (st_ctime si))]"

definition log_stat :: "'w log_lib \<Rightarrow> stat_buf \<Rightarrow> (('w, 'z) process_scheme, unit) prog" where
  "log_stat L si = bnd (log_msg L (''    si:'' @ newline) []) (\<lambda>_. log_structs L (stat_fields si))"

definition statvfs_fields :: "statvfs_buf \<Rightarrow> log_field list" where
  "statvfs_fields sv = [
     (''f_bsize'', ''%ld'', LLong (f_bsize sv)),
     (''f_frsize'', ''%ld'', LLong (f_frsize sv)),
     (''f_blocks'', ''%lld'', LLong (f_blocks sv)),
     (''f_bfree'', ''%lld'', LLong (f_bfree sv)),
     (''f_bavail'', ''%lld'', LLong (f_bavail sv)),
     (''f_files'', ''%lld'', LLong (f_files sv)),
     (''f_ffree'', ''%lld'', LLong (f_ffree sv)),
     (''f_favail'', ''%lld'', LLong (f_favail sv)),
     (''f_fsid'', ''%ld'', LLong (f_fsid sv)),
     (''f_flag'', ''0x%08lx'', LLong (f_flag sv)),
     (''f_namemax'', ''%ld'', LLong (f_namemax sv))]"

definition log_statvfs :: "'w log_lib \<Rightarrow> statvfs_buf \<Rightarrow> (('w, 'z) process_scheme, unit) prog" where
  "log_statvfs L sv = bnd (log_msg L (''    sv:'' @ newline) []) (\<lambda>_. log_structs L (statvfs_fields sv))"

definition utime_fields :: "c_long \<Rightarrow> c_long \<Rightarrow> log_field list" where
  "utime_fields actime modtime = [
     (''actime'', ''0x%08lx'', LLong actime),
     (''modtime'', ''0x%08lx'', LLong modtime)]"

definition log_utime :: "'w log_lib \<Rightarrow> c_long \<Rightarrow> c_long \<Rightarrow> (('w, 'z) process_scheme, unit) prog" where
  "log_utime L actime modtime = bnd (log_msg L (''    buf:'' @ newline) []) (\<lambda>_. log_structs L (utime_fields actime modtime))"

section \<open>Operations that only log\<close>

text \<open>\<open>private\<close> is what \<^verbatim>\<open>BB_DATA\<close> points to, which \<^verbatim>\<open>main\<close> gave to FUSE.\<close>

definition bb_init ::
  "'w log_lib \<Rightarrow> fuse_context \<Rightarrow> fuse_conn_info \<Rightarrow> (('w, 'z) process_scheme, c_long) prog" where
  "bb_init L context conn =
     bnd (log_msg L (newline @ ''bb_init()'' @ newline) []) (\<lambda>_.
     bnd (log_conn L conn) (\<lambda>_.
     bnd (log_fuse_context L context) (\<lambda>_. ret (cx_private_data context))))"

definition bb_destroy :: "'w log_lib \<Rightarrow> c_long \<Rightarrow> (('w, 'z) process_scheme, unit) prog" where
  "bb_destroy L userdata = log_msg L (newline @ ''bb_destroy(userdata=0x%08x)'' @ newline) [LPtr userdata]"

text \<open>
  Two operations that the table given to FUSE leaves out. They act on the kernel of the client, with a
  number that \<^verbatim>\<open>bb_open\<close> took from the server: \<open>sync\<close> and \<open>datasync_call\<close> are \<^verbatim>\<open>fsync\<close> and \<^verbatim>\<open>fdatasync\<close>,
  the second only on a system that has it.
\<close>

definition bb_fsync ::
  "'w log_lib \<Rightarrow> bool \<Rightarrow> (c_int \<Rightarrow> ('w, unit) sysfun) \<Rightarrow> (c_int \<Rightarrow> ('w, unit) sysfun) \<Rightarrow> string \<Rightarrow> c_int \<Rightarrow>
   fuse_fi \<Rightarrow> c_long \<Rightarrow> (('w, 'z) process_scheme, c_int) prog" where
  "bb_fsync L have_fdatasync sync datasync_call path datasync fi fi_address =
     bnd (log_msg L (newline @ ''bb_fsync(path=%s, datasync=%d, fi=0x%08x)'' @ newline)
       [LStr path, LInt datasync, LPtr fi_address]) (\<lambda>_.
     bnd (log_fi L fi) (\<lambda>_.
     if have_fdatasync \<and> datasync \<noteq> 0
     then bnd (sys_int (datasync_call (ucast (fi_fh fi)))) (\<lambda>r. log_syscall L ''fdatasync'' r 0)
     else bnd (sys_int (sync (ucast (fi_fh fi)))) (\<lambda>r. log_syscall L ''fsync'' r 0)))"

definition bb_ftruncate ::
  "'w log_lib \<Rightarrow> (c_int \<Rightarrow> c_long \<Rightarrow> ('w, unit) sysfun) \<Rightarrow> string \<Rightarrow> c_long \<Rightarrow> fuse_fi \<Rightarrow> c_long \<Rightarrow>
   (('w, 'z) process_scheme, c_int) prog" where
  "bb_ftruncate L ftruncate path offset fi fi_address =
     bnd (log_msg L (newline @ ''bb_ftruncate(path=%s, offset=%lld, fi=0x%08x)'' @ newline)
       [LStr path, LLong offset, LPtr fi_address]) (\<lambda>_.
     bnd (log_fi L fi) (\<lambda>_.
     bnd (sys_int (ftruncate (ucast (fi_fh fi)) offset)) (\<lambda>retstat.
     if cneg retstat then log_error L ''bb_ftruncate ftruncate'' else ret retstat)))"

section \<open>Errors of the output\<close>

definition quiet :: "'w log_lib \<Rightarrow> bool" where
  \<comment> \<open>the output leaves \<^verbatim>\<open>errno\<close> alone\<close>
  "quiet L \<longleftrightarrow> (\<forall>format ap w e. snd (l_vfprintf L format ap (w, e)) = e)"

lemma log_msg_run: "\<exists>t. log_msg L format ap s = Inr ((), t) \<and> (quiet L \<longrightarrow> errno t = errno s)"
proof -
  obtain w e where "l_vfprintf L format ap (world s, errno s) = (w, e)" by (cases "l_vfprintf L format ap (world s, errno s)")
  moreover from this have "quiet L \<Longrightarrow> e = errno s" unfolding quiet_def by (metis snd_conv)
  ultimately show ?thesis by (auto simp: log_msg_def)
qed

text \<open>
  C38. \<^verbatim>\<open>log_retstat\<close> and with it a successful \<^verbatim>\<open>log_syscall\<close> keep \<^verbatim>\<open>errno\<close> whatever the output does; a failed
  one returns the negative of what \<^verbatim>\<open>errno\<close> holds after the error has been printed, which is the error of
  the call only if the output leaves \<^verbatim>\<open>errno\<close> alone.
\<close>

theorem log_syscall_result:
  "\<exists>t. log_syscall L func retstat min_ret s =
      Inr (if sint retstat < sint min_ret then - errno t else retstat, t) \<and>
    (sint min_ret \<le> sint retstat \<longrightarrow> errno t = errno s) \<and>
    (quiet L \<longrightarrow> errno t = errno s)"
proof -
  obtain t1 where t1: "log_retstat L func retstat s = Inr ((), t1)" "errno t1 = errno s"
    using log_msg_run [of L "''    %s returned %d'' @ newline" "[LStr func, LInt retstat]" s]
    by (auto simp: log_retstat_def set_errno_def get_errno_apply bnd_def)
  obtain t2 where t2: "log_error L func t1 = Inr (- errno s, t2)" "quiet L \<longrightarrow> errno t2 = errno s"
    using log_msg_run [of L "''    ERROR %s: %s'' @ newline" "[LStr func, LStr (l_strerror L (errno s))]" t1] t1(2)
    by (auto simp: log_error_def get_errno_apply bnd_def Let_def)
  show ?thesis
    using t1 t2 by (simp add: log_syscall_def bnd_def get_errno_apply)
qed

definition silent_log :: "'w log_lib" where
  "silent_log = \<lparr>l_vfprintf = (\<lambda>format ap we. we), l_strerror = (\<lambda>e. ''error''), l_fopen = (\<lambda>name mode w. (Some 1, w))\<rparr>"

lemma log_syscall_result_witness:
  "\<exists>t. log_syscall silent_log ''fsync'' (- 1) 0 \<lparr>world = (), errno = 5\<rparr> = Inr (- 5, t)"
  using log_syscall_result [of silent_log "''fsync''" "- 1" 0 "\<lparr>world = (), errno = 5\<rparr>"]
  by (auto simp: quiet_def silent_log_def)

section \<open>Logging shows in nothing but the log\<close>

text \<open>
  A world in two parts, the files of the client's kernel and what has been printed: a log whose output changes
  only what was printed, and a call of the kernel.
\<close>

definition prints_only :: "('k \<times> 'o) log_lib \<Rightarrow> bool" where
  "prints_only L \<longleftrightarrow> (\<forall>format ap k out e. \<exists>out'. l_vfprintf L format ap ((k, out), e) = ((k, out'), e))"

definition on_kernel :: "('k, 'a) sysfun \<Rightarrow> ('k \<times> 'o, 'a) sysfun" where
  "on_kernel f = (\<lambda>(k, out). case f k of (x, k') \<Rightarrow> (x, (k', out)))"

definition prints :: "('k \<times> 'o) process \<Rightarrow> 'a \<Rightarrow> (('k \<times> 'o) process, 'a) prog \<Rightarrow> bool" where
  \<comment> \<open>from \<open>s\<close> the program returns \<open>a\<close>, having printed\<close>
  "prints s a m \<longleftrightarrow> (\<exists>t. m s = Inr (a, t) \<and> fst (world t) = fst (world s) \<and> errno t = errno s)"

lemma prints_msg: "prints_only L \<Longrightarrow> prints s () (log_msg L format ap)"
proof -
  assume L: "prints_only L"
  obtain k out where w: "world s = (k, out)" by (cases "world s")
  from L obtain out' where "l_vfprintf L format ap ((k, out), errno s) = ((k, out'), errno s)"
    unfolding prints_only_def by blast
  with w show ?thesis by (simp add: prints_def log_msg_def)
qed

lemma prints_then:
  assumes "prints s a m" and "\<And>t. fst (world t) = fst (world s) \<Longrightarrow> errno t = errno s \<Longrightarrow> prints t b (f a)"
  shows "prints s b (bnd m f)"
  using assms by (fastforce simp: prints_def bnd_def)

lemma prints_structs: "prints_only L \<Longrightarrow> prints s () (log_structs L fs)"
proof (induction fs arbitrary: s)
  case Nil
  then show ?case by (simp add: prints_def)
next
  case (Cons f fs)
  have "prints s () (log_struct L f)" by (cases f) (simp add: log_struct_def prints_msg [OF Cons.prems])
  then show ?case by (auto intro: prints_then Cons)
qed

lemma prints_header: "prints_only L \<Longrightarrow> prints s () (bnd (log_msg L format ap) (\<lambda>_. log_structs L fs))"
  by (rule prints_then [OF prints_msg prints_structs])

lemma prints_fails:
  assumes "prints_only L"
  shows "prints s (- errno s) (log_error L func)"
    and "prints s (if sint r < sint m then - errno s else r) (log_syscall L func r m)"
proof -
  have get: "prints t (errno t) get_errno" for t :: "('a \<times> 'b) process" by (simp add: prints_def get_errno_apply)
  have msg: "prints t () (log_msg L format ap)" for t :: "('a \<times> 'b) process" and format ap by (rule prints_msg [OF assms])
  have err: "prints t (- errno t) (log_error L func)" for t :: "('a \<times> 'b) process"
    unfolding log_error_def Let_def by (rule prints_then [OF get], rule prints_then [OF msg]) (simp add: prints_def)
  then show "prints s (- errno s) (log_error L func)" .
  have stat: "prints s () (log_retstat L func r)"
    unfolding log_retstat_def by (rule prints_then [OF get], rule prints_then [OF msg]) (simp add: prints_def set_errno_def)
  show "prints s (if sint r < sint m then - errno s else r) (log_syscall L func r m)"
    unfolding log_syscall_def
  proof (rule prints_then [OF stat])
    fix t :: "('a \<times> 'b) process" assume e: "fst (world t) = fst (world s)" "errno t = errno s"
    have "prints t (- errno t) (bnd (log_error L func) (\<lambda>_. bnd get_errno (\<lambda>e. ret (- e))))"
      by (rule prints_then [OF err], rule prints_then [OF get]) (simp add: prints_def)
    with e show "prints t (if sint r < sint m then - errno s else r) (if sint r < sint m
        then bnd (log_error L func) (\<lambda>_. bnd get_errno (\<lambda>e. ret (- e))) else ret r)"
      by (simp add: prints_def)
  qed
qed

text \<open>What a program returns, and what it leaves of the kernel.\<close>

definition ends :: "(('k \<times> 'o) process, 'a) prog \<Rightarrow> ('k \<times> 'o) process \<Rightarrow> 'a \<Rightarrow> 'k \<Rightarrow> bool" where
  "ends m s a k \<longleftrightarrow> (\<exists>t. m s = Inr (a, t) \<and> fst (world t) = k)"

lemma ends_prints: "prints s a m \<Longrightarrow> ends m s a (fst (world s))"
  by (auto simp: ends_def prints_def)

lemma ends_after:
  assumes "prints s () p" and "\<And>t. fst (world t) = fst (world s) \<Longrightarrow> ends m t b k"
  shows "ends (bnd p (\<lambda>_. m)) s b k"
  using assms by (fastforce simp: prints_def ends_def bnd_def)

lemma ends_call:
  assumes "f (fst (world s)) = (x, k')"
    and "\<And>e t. x = Inl e \<Longrightarrow> errno t = e \<Longrightarrow> prints t b (g (- 1))" and "\<And>t. x = Inr () \<Longrightarrow> prints t b (g 0)"
  shows "ends (bnd (sys_int (on_kernel f)) g) s b k'"
proof -
  obtain out where w: "on_kernel f (world s) = (x, (k', out))" using assms(1) by (cases "world s") (simp add: on_kernel_def)
  show ?thesis
  proof (cases x)
    case (Inl e)
    with w have "sys_int (on_kernel f) s = Inr (- 1, s\<lparr>world := (k', out), errno := e\<rparr>)"
      by (intro sys_int_Inl) simp
    with assms(2) [OF Inl, of "s\<lparr>world := (k', out), errno := e\<rparr>"] show ?thesis
      by (auto simp: ends_def bnd_def prints_def)
  next
    case (Inr u)
    with w have "sys_int (on_kernel f) s = Inr (0, s\<lparr>world := (k', out)\<rparr>)"
      by (intro sys_int_Inr) simp
    with assms(3) [of "s\<lparr>world := (k', out)\<rparr>"] Inr show ?thesis
      by (auto simp: ends_def bnd_def prints_def)
  qed
qed



end
