(* ===== verification/Rpc_Programs.thy ===== *)
theory Rpc_Programs
  imports Svc_Dispatch "HOL-Library.Sublist"
begin

text \<open>
  The two programs that \<^verbatim>\<open>rpcgen\<close> wrote around the protocol: \<^verbatim>\<open>main\<close> of the server (\<^verbatim>\<open>fuse_rpc_svc.c\<close>), which
  registers the dispatcher for both transports and serves, and the sample client
  (\<^verbatim>\<open>fuse_rpc_client.c\<close>), which calls the procedures one after the other with arguments that nothing
  initialises: here they are arbitrary values of their types, so that a crash in the encoding of a wild
  pointer is not an outcome. The messages to the terminal are left out.
\<close>

section \<open>The server\<close>

definition COMPUTE :: nat where "COMPUTE = 456123789"
definition COMPUTE_VERS :: nat where "COMPUTE_VERS = 6"

abbreviation (input) IPPROTO_TCP :: nat where "IPPROTO_TCP \<equiv> 6"
abbreviation (input) IPPROTO_UDP :: nat where "IPPROTO_UDP \<equiv> 17"

text \<open>
  The server side of the RPC library: \<open>'d\<close> is the type of the dispatcher it is given. \<open>svc_run\<close> serves until
  it fails, \<open>None\<close> when it never does.
\<close>

record ('w, 'd) svc_library =
  l_pmap_unset :: "nat \<Rightarrow> nat \<Rightarrow> 'w \<Rightarrow> 'w"
  l_svcudp_create :: "'w \<Rightarrow> nat option \<times> 'w"
  l_svctcp_create :: "'w \<Rightarrow> nat option \<times> 'w"
  l_svc_register :: "nat \<Rightarrow> nat \<Rightarrow> nat \<Rightarrow> 'd \<Rightarrow> nat \<Rightarrow> 'w \<Rightarrow> bool \<times> 'w"
  l_svc_run :: "'w process \<Rightarrow> 'w process option"

definition svc_main :: "('w, nat \<Rightarrow> char list \<Rightarrow> ('w process, svc_outcome) prog) svc_library \<Rightarrow> 'w env \<Rightarrow> stack_garbage \<Rightarrow>
   ('w process, unit) prog" where
  "svc_main L E G =
     bnd (on_world (\<lambda>w. ((), l_pmap_unset L COMPUTE COMPUTE_VERS w))) (\<lambda>_.
     bnd (on_world (l_svcudp_create L)) (\<lambda>udp. case udp of
       None \<Rightarrow> halt Exited
     | Some xprt \<Rightarrow>
         bnd (on_world (l_svc_register L xprt COMPUTE COMPUTE_VERS (compute_6 E G) IPPROTO_UDP)) (\<lambda>ok.
         if \<not> ok then halt Exited
         else bnd (on_world (l_svctcp_create L)) (\<lambda>tcp. case tcp of
           None \<Rightarrow> halt Exited
         | Some xprt \<Rightarrow>
             bnd (on_world (l_svc_register L xprt COMPUTE COMPUTE_VERS (compute_6 E G) IPPROTO_TCP)) (\<lambda>ok.
             if \<not> ok then halt Exited
             else (\<lambda>s. case l_svc_run L s of None \<Rightarrow> Inl (Blocked, s) | Some t \<Rightarrow> Inl (Exited, t)))))))"

section \<open>The sample client\<close>

text \<open>The locals of \<^verbatim>\<open>compute_6\<close>: what the arguments and the results hold when nothing initialised them.\<close>

record sample_locals =
  bb_getattr_6_arg :: getattr_arg
  bb_getattr_6_result :: getattr_ret
  bb_access_6_arg :: access_arg
  bb_access_6_result :: access_ret
  bb_mkdir_6_arg :: mkdir_arg
  bb_mkdir_6_result :: mkdir_ret
  bb_rmdir_6_arg :: rmdir_arg
  bb_rmdir_6_result :: rmdir_ret
  bb_opendir_6_arg :: opendir_arg
  bb_opendir_6_result :: opendir_ret
  bb_readdir_6_arg :: readdir_arg
  bb_readdir_6_result :: readdir_ret
  bb_releasedir_6_arg :: releasedir_arg
  bb_releasedir_6_result :: releasedir_ret
  bb_rename_6_arg :: rename_arg
  bb_rename_6_result :: rename_ret
  bb_symlink_6_arg :: symlink_arg
  bb_symlink_6_result :: symlink_ret
  bb_readlink_6_arg :: readlink_arg
  bb_readlink_6_result :: readlink_ret
  bb_mknod_6_arg :: mknod_arg
  bb_mknod_6_result :: mknod_ret
  bb_truncate_6_arg :: truncate_arg
  bb_truncate_6_result :: truncate_ret
  bb_unlink_6_arg :: unlink_arg
  bb_unlink_6_result :: unlink_ret
  bb_utime_6_arg :: utime_arg
  bb_utime_6_result :: utime_ret
  bb_chmod_6_arg :: chmod_arg
  bb_chmod_6_result :: chmod_ret
  bb_chown_6_arg :: chown_arg
  bb_chown_6_result :: chown_ret
  bb_open_6_arg :: open_arg
  bb_open_6_result :: open_ret
  bb_release_6_arg :: release_arg
  bb_release_6_result :: release_ret
  bb_read_6_arg :: read_arg
  bb_read_6_result :: read_ret
  bb_write_6_arg :: write_arg
  bb_write_6_result :: write_ret

definition sample_call :: "'w rpc \<Rightarrow> xdr_library \<Rightarrow> ('w, 'a, 'r) stub \<Rightarrow> 'a \<Rightarrow> 'r \<Rightarrow> clnt \<Rightarrow> (('w, 'z) process_scheme, unit) prog" where
  \<comment> \<open>the status is only printed, the result is not read\<close>
  "sample_call R L stub arg result clnt = on_world (\<lambda>w. case stub L R arg result clnt w of (_, w') \<Rightarrow> ((), w'))"

text \<open>The calls, and the end of the connection.\<close>

definition sample_calls :: "'w rpc \<Rightarrow> xdr_library \<Rightarrow> sample_locals \<Rightarrow> clnt \<Rightarrow> (('w, 'z) process_scheme, unit) prog" where
  "sample_calls R L v clnt =
     bnd (sample_call R L bb_getattr_6 (bb_getattr_6_arg v) (bb_getattr_6_result v) clnt) (\<lambda>_.
     bnd (sample_call R L bb_access_6 (bb_access_6_arg v) (bb_access_6_result v) clnt) (\<lambda>_.
     bnd (sample_call R L bb_mkdir_6 (bb_mkdir_6_arg v) (bb_mkdir_6_result v) clnt) (\<lambda>_.
     bnd (sample_call R L bb_rmdir_6 (bb_rmdir_6_arg v) (bb_rmdir_6_result v) clnt) (\<lambda>_.
     bnd (sample_call R L bb_opendir_6 (bb_opendir_6_arg v) (bb_opendir_6_result v) clnt) (\<lambda>_.
     bnd (sample_call R L bb_readdir_6 (bb_readdir_6_arg v) (bb_readdir_6_result v) clnt) (\<lambda>_.
     bnd (sample_call R L bb_releasedir_6 (bb_releasedir_6_arg v) (bb_releasedir_6_result v) clnt) (\<lambda>_.
     bnd (sample_call R L bb_rename_6 (bb_rename_6_arg v) (bb_rename_6_result v) clnt) (\<lambda>_.
     bnd (sample_call R L bb_symlink_6 (bb_symlink_6_arg v) (bb_symlink_6_result v) clnt) (\<lambda>_.
     bnd (sample_call R L bb_readlink_6 (bb_readlink_6_arg v) (bb_readlink_6_result v) clnt) (\<lambda>_.
     bnd (sample_call R L bb_mknod_6 (bb_mknod_6_arg v) (bb_mknod_6_result v) clnt) (\<lambda>_.
     bnd (sample_call R L bb_truncate_6 (bb_truncate_6_arg v) (bb_truncate_6_result v) clnt) (\<lambda>_.
     bnd (sample_call R L bb_unlink_6 (bb_unlink_6_arg v) (bb_unlink_6_result v) clnt) (\<lambda>_.
     bnd (sample_call R L bb_utime_6 (bb_utime_6_arg v) (bb_utime_6_result v) clnt) (\<lambda>_.
     bnd (sample_call R L bb_chmod_6 (bb_chmod_6_arg v) (bb_chmod_6_result v) clnt) (\<lambda>_.
     bnd (sample_call R L bb_chown_6 (bb_chown_6_arg v) (bb_chown_6_result v) clnt) (\<lambda>_.
     bnd (sample_call R L bb_open_6 (bb_open_6_arg v) (bb_open_6_result v) clnt) (\<lambda>_.
     bnd (sample_call R L bb_release_6 (bb_release_6_arg v) (bb_release_6_result v) clnt) (\<lambda>_.
     bnd (sample_call R L bb_read_6 (bb_read_6_arg v) (bb_read_6_result v) clnt) (\<lambda>_.
     bnd (sample_call R L bb_write_6 (bb_write_6_arg v) (bb_write_6_result v) clnt) (\<lambda>_.
     on_world (\<lambda>w. ((), rpc_clnt_destroy R clnt w))))))))))))))))))))))"

definition sample_compute_6 :: "'w rpc \<Rightarrow> xdr_library \<Rightarrow> sample_locals \<Rightarrow> string \<Rightarrow> (('w, 'z) process_scheme, unit) prog" where
  "sample_compute_6 R L v host =
     bnd (on_world (rpc_clnt_create R host ''udp'')) (\<lambda>clnt. case clnt of
       None \<Rightarrow> halt Exited
     | Some clnt \<Rightarrow> sample_calls R L v clnt)"

text \<open>\<^verbatim>\<open>main\<close>: the value is the exit code.\<close>

definition sample_main :: "'w rpc \<Rightarrow> xdr_library \<Rightarrow> sample_locals \<Rightarrow> string list \<Rightarrow> (('w, 'z) process_scheme, c_int) prog" where
  "sample_main R L v argv =
     (if length argv < 2 then ret 1
      else bnd (sample_compute_6 R L v (argv ! 1)) (\<lambda>_. ret 0))"

section \<open>What the sample client sends\<close>

text \<open>
  \<open>logs R sent\<close>: the transport records what it is given to send, \<open>sent w\<close> are the procedures and the encoded
  arguments so far, and nothing else adds to them.
\<close>

definition logs :: "'w rpc \<Rightarrow> ('w \<Rightarrow> (nat \<times> char list) list) \<Rightarrow> bool" where
  "logs R sent \<longleftrightarrow>
     (\<forall>host proto w. sent (snd (rpc_clnt_create R host proto w)) = sent w) \<and>
     (\<forall>c proc bs w. sent (snd (rpc_send R c proc bs w)) = sent w @ [(proc, bs)]) \<and>
     (\<forall>c w. sent (rpc_clnt_destroy R c w) = sent w)"

text \<open>What a call sends: its procedure and its arguments, unless they cannot be encoded or are too long.\<close>

definition call_out :: "'w rpc \<Rightarrow> clnt \<Rightarrow> nat \<Rightarrow> 'a xdrproc \<Rightarrow> 'a \<Rightarrow> (nat \<times> char list) list" where
  "call_out R clnt n xargs a = (case xargs \<lparr>x_op = XDR_ENCODE, x_bytes = []\<rparr> a of (ok, x, _) \<Rightarrow>
     if \<not> ok \<or> rpc_limit R clnt < length (x_bytes x) then [] else [(n, x_bytes x)])"

definition sample_sends :: "'w rpc \<Rightarrow> xdr_library \<Rightarrow> sample_locals \<Rightarrow> clnt \<Rightarrow> (nat \<times> char list) list list" where
  "sample_sends R L v clnt =
    [call_out R clnt BB_GETATTR xdr_getattr_arg (bb_getattr_6_arg v),
     call_out R clnt BB_ACCESS xdr_access_arg (bb_access_6_arg v),
     call_out R clnt BB_MKDIR xdr_mkdir_arg (bb_mkdir_6_arg v),
     call_out R clnt BB_RMDIR xdr_rmdir_arg (bb_rmdir_6_arg v),
     call_out R clnt BB_OPENDIR xdr_opendir_arg (bb_opendir_6_arg v),
     call_out R clnt BB_READDIR xdr_readdir_arg (bb_readdir_6_arg v),
     call_out R clnt BB_RELEASEDIR xdr_releasedir_arg (bb_releasedir_6_arg v),
     call_out R clnt BB_RENAME xdr_rename_arg (bb_rename_6_arg v),
     call_out R clnt BB_SYMLINK xdr_symlink_arg (bb_symlink_6_arg v),
     call_out R clnt BB_READLINK xdr_readlink_arg (bb_readlink_6_arg v),
     call_out R clnt BB_MKNOD xdr_mknod_arg (bb_mknod_6_arg v),
     call_out R clnt BB_TRUNCATE xdr_truncate_arg (bb_truncate_6_arg v),
     call_out R clnt BB_UNLINK xdr_unlink_arg (bb_unlink_6_arg v),
     call_out R clnt BB_UTIME (xdr_utime_arg L) (bb_utime_6_arg v),
     call_out R clnt BB_CHMOD xdr_chmod_arg (bb_chmod_6_arg v),
     call_out R clnt BB_CHOWN xdr_chown_arg (bb_chown_6_arg v),
     call_out R clnt BB_OPEN xdr_open_arg (bb_open_6_arg v),
     call_out R clnt BB_RELEASE xdr_release_arg (bb_release_6_arg v),
     call_out R clnt BB_READ xdr_read_arg (bb_read_6_arg v),
     call_out R clnt BB_WRITE xdr_write_arg (bb_write_6_arg v)]"

lemma clnt_call_logs:
  assumes "logs R sent"
  shows "sent (snd (clnt_call R c n xa a xr r w)) = sent w @ call_out R c n xa a"
proof -
  obtain ok t a' where x: "xa \<lparr>x_op = XDR_ENCODE, x_bytes = []\<rparr> a = (ok, t, a')" by (metis prod_cases3)
  have "sent (snd (rpc_send R c n (x_bytes t) w)) = sent w @ [(n, x_bytes t)]" using assms unfolding logs_def by blast
  then show ?thesis
    by (cases "rpc_send R c n (x_bytes t) w") (auto simp: clnt_call_def call_out_def x split: prod.split sum.split)
qed

lemma sample_step:
  assumes "logs R sent" and "stub L R a r c = clnt_call R c n xa a xr r" and "sent (world s) = concat xs"
    and "\<And>t. sent (world t) = concat (xs @ [call_out R c n xa a]) \<Longrightarrow> \<exists>u. k t = Inr ((), u) \<and> sent (world u) = ys"
  shows "\<exists>u. bnd (sample_call R L stub a r c) (\<lambda>_. k) s = Inr ((), u) \<and> sent (world u) = ys"
proof -
  obtain st w' where w: "stub L R a r c (world s) = (st, w')" by (cases "stub L R a r c (world s)")
  then have "sent w' = concat (xs @ [call_out R c n xa a])"
    using clnt_call_logs [OF assms(1), of c n xa a xr r "world s"] assms(2,3) by simp
  then show ?thesis using assms(4) [of "s\<lparr>world := w'\<rparr>"] by (simp add: sample_call_def on_world_def bnd_def w)
qed

lemmas sample_stubs = bb_getattr_6_def bb_access_6_def bb_mkdir_6_def bb_rmdir_6_def bb_opendir_6_def bb_readdir_6_def bb_releasedir_6_def bb_rename_6_def bb_symlink_6_def bb_readlink_6_def bb_mknod_6_def bb_truncate_6_def bb_unlink_6_def bb_utime_6_def bb_chmod_6_def bb_chown_6_def bb_open_6_def bb_release_6_def bb_read_6_def bb_write_6_def

lemma sample_calls_sent:
  fixes s :: "('w, 'z) process_scheme"
  assumes "logs R sent" and "sent (world s) = []"
  shows "\<exists>t. sample_calls R L v clnt s = Inr ((), t) \<and> sent (world t) = concat (sample_sends R L v clnt)"
proof -
  have destroy: "\<exists>u. on_world (\<lambda>w. ((), rpc_clnt_destroy R clnt w)) t = Inr ((), u) \<and> sent (world u) = ys"
    if "sent (world t) = concat xs" and "concat xs = ys" for xs ys and t :: "('w, 'z) process_scheme"
    using that assms(1) by (simp add: on_world_def logs_def)
  have start: "sent (world s) = concat []" using assms(2) by simp
  show ?thesis
    unfolding sample_calls_def using start
    by - ((rule sample_step [OF assms(1)], rule sample_stubs, assumption) |
      (rule destroy, assumption, simp add: sample_sends_def))+
qed

text \<open>
  C39. The sample client, started without an argument, returns \<open>1\<close> and does nothing; when the connection to the
  host it names fails, it exits and has sent nothing; otherwise it returns \<open>0\<close> and has sent exactly the
  twenty calls, each with its arguments, in the order of the procedures' numbers, less those whose
  arguments cannot be encoded or exceed the datagram: never \<^verbatim>\<open>init_rootdir\<close>, \<^verbatim>\<open>link\<close> or \<^verbatim>\<open>statfs\<close>.
\<close>

theorem sample_calls_in_order:
  assumes "logs R sent" and "sent (world s) = []"
  shows "if length argv < 2 then sample_main R L v argv s = Inr (1, s)
    else (case rpc_clnt_create R (argv ! 1) ''udp'' (world s) of
        (None, w) \<Rightarrow> sample_main R L v argv s = Inl (Exited, s\<lparr>world := w\<rparr>) \<and> sent w = []
      | (Some clnt, w) \<Rightarrow> (\<exists>t. sample_main R L v argv s = Inr (0, t) \<and>
          sent (world t) = concat (sample_sends R L v clnt)))"
proof (cases "rpc_clnt_create R (argv ! 1) ''udp'' (world s)")
  case (Pair c w)
  then have w: "sent w = []" using assms unfolding logs_def by (metis snd_conv)
  show ?thesis
  proof (cases c)
    case None
    with Pair w show ?thesis by (simp add: sample_main_def sample_compute_6_def bnd_def on_world_def)
  next
    case (Some clnt)
    obtain t where "sample_calls R L v clnt (s\<lparr>world := w\<rparr>) = Inr ((), t)"
      and "sent (world t) = concat (sample_sends R L v clnt)"
      using sample_calls_sent [OF assms(1), of "s\<lparr>world := w\<rparr>" L v clnt] w by auto
    with Pair Some show ?thesis by (simp add: sample_main_def sample_compute_6_def bnd_def on_world_def)
  qed
qed

definition recorder :: "(nat \<times> char list) list rpc" where
  "recorder = \<lparr>rpc_clnt_create = (\<lambda>h p w. (Some 0, w)), rpc_send = (\<lambda>c n b w. (Inl 5, w @ [(n, b)])),
     rpc_clnt_destroy = (\<lambda>c w. w), rpc_limit = (\<lambda>c. 8800)\<rparr>"

lemma sample_calls_in_order_witness:
  "\<forall>L. \<forall>v :: sample_locals. \<exists>t. sample_main recorder L (v\<lparr>bb_readdir_6_arg := \<lparr>readdir_arg_fd = 5\<rparr>\<rparr>) [''sample'', ''host'']
       \<lparr>world = [], errno = 0\<rparr> = Inr (0, t) \<and> (BB_READDIR, unit_bytes 5) \<in> set (world t)"
proof (intro allI)
  fix L and v :: sample_locals
  let ?v = "v\<lparr>bb_readdir_6_arg := \<lparr>readdir_arg_fd = 5\<rparr>\<rparr>"
  have "logs recorder (\<lambda>w. w)" by (simp add: logs_def recorder_def)
  from sample_calls_in_order [OF this, of "\<lparr>world = [], errno = 0\<rparr>" "[''sample'', ''host'']" L ?v]
  obtain t where "sample_main recorder L ?v [''sample'', ''host''] \<lparr>world = [], errno = 0\<rparr> = Inr (0, t)"
    and t: "world t = concat (sample_sends recorder L ?v 0)"
    by (auto simp: recorder_def)
  moreover have "call_out recorder 0 BB_READDIR xdr_readdir_arg \<lparr>readdir_arg_fd = 5\<rparr> = [(BB_READDIR, unit_bytes 5)]"
    by (simp add: call_out_def xdr_readdir_arg_def xdr_member_def xdr_int_def put_bytes_def recorder_def)
  ultimately show "\<exists>t. sample_main recorder L ?v [''sample'', ''host''] \<lparr>world = [], errno = 0\<rparr> = Inr (0, t) \<and>
      (BB_READDIR, unit_bytes 5) \<in> set (world t)"
    by (auto simp: sample_sends_def)
qed

end
