(* ===== verification/Spec2Isabelle.thy ===== *)
theory Spec2Isabelle
  imports Server_Effects Server_Sessions Rpc_Requests Replication Client_Dirs Client_Loops Client_Main Client_Log Rpc_Programs
begin

text \<open>
  A verification development for a distributed file system: a client that FUSE mounts, a primary server
  and a secondary one, which share a protocol over Sun RPC.

  \<^bold>\<open>The program.\<close> FUSE calls the operations of \<^verbatim>\<open>src/tweakfs.c\<close>. Each connects to the primary, or to the
  secondary if the primary is down, fills a structure of the protocol with the identity of the client (a
  number made of its address), its path and the state of the servers, and calls a stub of
  \<^verbatim>\<open>src/fuse_rpc_clnt.c\<close>. The stub encodes the structure with the routines of \<^verbatim>\<open>src/fuse_rpc_xdr.c\<close>; the
  dispatcher of \<^verbatim>\<open>src/fuse_rpc_svc.c\<close> decodes it and runs a handler of \<^verbatim>\<open>src/fuse_rpc_server.c\<close>, whose
  reply goes back the same way. A handler that changes files sends the request on to the secondary first,
  if the client reached the primary; then it translates the path, checks permissions, locks the parent
  directory, calls the kernel, gives the lock back, and gives what it made to the client.

  \<^bold>\<open>State and effects.\<close> A computation maps a state to a value and a state, or to a reason to stop
  (\<open>Exited\<close>, \<open>OutOfBounds\<close> for an access outside an array, \<open>Blocked\<close> for a lock that never comes, \<open>NoFuel\<close>)
  and the state it stopped in (\<open>Dfs_Prelude\<close>). The state of a process is the world and \<^verbatim>\<open>errno\<close>; the
  world is a type parameter, and the kernel and the RPC library are records of functions on it
  (\<open>Os_Interface\<close>), about which nothing is assumed but in named hypotheses (\<open>lock_kernel\<close>, \<open>file_kernel\<close>,
  \<open>link_kernel\<close>, \<open>content_kernel\<close>, \<open>idle_kernel\<close>, \<open>advisory_locks\<close>, \<open>reads_as\<close>, \<open>takes\<close>, \<open>xdr_longs\<close>,
  \<open>logs\<close>, \<open>quiet\<close>, \<open>prints_only\<close>). \<open>Mem_Os\<close> is a kernel in memory on which the
  witnesses are evaluated. Integers are words of the widths of the C types, strings lists of characters,
  arrays lists of fixed length.

  \<^bold>\<open>Theories and sources.\<close>
  \<^item> \<open>Dfs_Prelude\<close>, \<open>C_Runtime\<close>: computations and their rules (\<open>keeps\<close>, \<open>hoare\<close>, \<open>rel_prog\<close>), and the
    functions of the C library that the program computes with.
  \<^item> \<open>Rpc_Messages\<close>: the structures and numbers of \<^verbatim>\<open>fuse_rpc.h\<close>. \<open>Xdr_Library\<close>, \<open>Xdr_Codec\<close>: the XDR
    library on its documented behaviour and every routine of \<^verbatim>\<open>fuse_rpc_xdr.c\<close>; each is shown to be a codec
    (locale \<open>xdr_codec\<close>): it decodes what it encoded, leaves the rest, and refuses a cut input.
  \<^item> \<open>Clnt_Stubs\<close> (\<^verbatim>\<open>fuse_rpc_clnt.c\<close>), \<open>Svc_Dispatch\<close> (\<^verbatim>\<open>compute_6\<close> of \<^verbatim>\<open>fuse_rpc_svc.c\<close>), \<open>Rpc_Programs\<close>
    (its \<^verbatim>\<open>main\<close>, and the sample client \<^verbatim>\<open>fuse_rpc_client.c\<close>).
  \<^item> \<open>Server_Paths\<close>, \<open>Server_Auth\<close>, \<open>Server_Handlers\<close>: \<^verbatim>\<open>fuse_rpc_server.c\<close>, its paths, its checks, locks
    and macros, its handlers.
  \<^item> \<open>Client_Identity\<close>, \<open>Client_Ops\<close>, \<open>Client_Main\<close>: \<^verbatim>\<open>tweakfs.c\<close>, its identity and paths, its operations,
    its \<^verbatim>\<open>main\<close>. \<open>Client_Log\<close>: \<^verbatim>\<open>log.c\<close> and the operations that log.

  \<^bold>\<open>What is shown.\<close>
  \<^item> \<open>Rpc_Roundtrip\<close>: a call of a stub over the wire is a call of its handler, for all 23 procedures, and
    a malformed request reaches no handler. \<open>Rpc_Requests\<close>: whatever the bytes of a request, it does no more
    than the encoding of well-formed arguments does, or for \<^verbatim>\<open>utime\<close> the handler on well-formed strings. The locale \<open>rpc_procedure\<close> takes a procedure's two codecs and its
    place in the dispatcher, and is interpreted on each.
  \<^item> \<open>Client_Server\<close>, \<open>Client_Files\<close>, \<open>Client_Dirs\<close>: the client on top of a server, whose process is the
    world of the client. Its operations run the handlers; reads, writes, listings and status give what the
    kernel of the server holds. \<open>Client_Loops\<close>: when the loops of \<^verbatim>\<open>bb_read\<close> and \<^verbatim>\<open>bb_write\<close> end.
  \<^item> \<open>Server_Guards\<close>: what the checks decide, and that a refused request changes nothing, transmitted or not: a
    primary transmits before it checks, so the statements start from the state the transmission leaves
    (\<open>forwards\<close>). \<open>Server_Effects\<close>: what a request answered with success has done. \<open>Server_Locks\<close>: which locks and descriptors a handler
    leaves behind. \<open>Server_Progress\<close>: that a server at rest answers, when the paths fit; \<open>Server_Sessions\<close>: that it is at rest,
    and does not wait for the next request, after any sequence of requests but a \<^verbatim>\<open>rename\<close> between two directories.
  \<^item> \<open>Replication\<close>: replication is transparent to the primary and keeps equal replicas equal, for the
    twelve replicated procedures other than \<^verbatim>\<open>write\<close>; one \<^verbatim>\<open>write\<close> before the end of a file makes them differ.
  \<^item> \<open>Client_Log\<close>, \<open>Rpc_Programs\<close>: what the log does to \<^verbatim>\<open>errno\<close> and to the operations that log, and what the
    sample client sends.

  Several theorems state defects: a theorem says what the code does, its text what that means.

  \<^bold>\<open>Fuel.\<close> The loops of \<^verbatim>\<open>bb_read\<close> and \<^verbatim>\<open>bb_write\<close> take a bound on their rounds. For \<^verbatim>\<open>bb_read\<close> of \<open>n\<close>
  characters \<open>n + 1\<close> rounds always suffice (\<open>read_terminates\<close>), and \<open>n / 4096 + 1\<close> when the kernel reads whole
  blocks (\<open>client_reads_file\<close>). For \<^verbatim>\<open>bb_write\<close> no bound suffices
  (\<open>write_to_dead_server_never_returns\<close>). All other recursions are structural.

  \<^bold>\<open>Not modelled.\<close> Messages to the terminal, and those to the log where an operation does anything else;
  freeing memory (\<^verbatim>\<open>compute_6_freeresult\<close>); the build files and \<^verbatim>\<open>rsync.py\<close>. The kernel, the RPC library's
  transport and FUSE are not part of the repository and are parameters.

  Not stated: an abstract tree of files that the handlers refine. Arguments that nothing initialises (of
  the sample client) are arbitrary values of their types, so that a wild pointer is not an outcome.
\<close>

end
